(* ===== verification/Cbs_Prelude.thy ===== *)
theory Cbs_Prelude
  imports Main "HOL-Library.AList" "HOL-Library.Sublist"
begin

text \<open>
  Shared vocabulary of the development: names for the identifiers the Rust code passes
  around, the standard-library operations it uses (hash maps, string slices), database
  tables as keyed rows, and the three interfaces the components are stated against:
  \<^item> \<open>hash_map\<close>: what \<open>std::collections::HashMap\<close> promises;
  \<^item> \<open>row_store\<close>: what an SQL \<open>UPDATE ... WHERE id = ?\<close> promises about a table;
  \<^item> \<open>invariant_system\<close>: a transition system with an invariant that every step keeps.
\<close>

named_theorems frame_simps \<open>which part of the state an operation leaves alone\<close>
named_theorems agree_intros \<open>operations that keep an invariant\<close>
named_theorems keeps_intros \<open>database operations that keep a property of the tables\<close>

type_synonym build_id = int
type_synonym conn_id = string
type_synonym timestamp = int
type_synonym ('k, 'v) hashmap = "('k \<times> 'v) list"

text \<open>\<open>Result<T, E>\<close> is the sum type with the error on the left.\<close>

abbreviation Err :: "'e \<Rightarrow> 'e + 'a" where
  "Err \<equiv> Inl"

abbreviation Ok :: "'a \<Rightarrow> 'e + 'a" where
  "Ok \<equiv> Inr"

section \<open>Hash maps\<close>

text \<open>
  A \<open>HashMap\<close> is a list of entries with distinct keys. Its iteration order is unspecified
  in Rust: statements quantify over every order of the entries, and the transition
  systems have a step that permutes them.
\<close>

abbreviation hm_keys :: "('k, 'v) hashmap \<Rightarrow> 'k list" where
  "hm_keys m \<equiv> map fst m"

abbreviation hm_values :: "('k, 'v) hashmap \<Rightarrow> 'v list" where
  "hm_values m \<equiv> map snd m"

abbreviation hm_wf :: "('k, 'v) hashmap \<Rightarrow> bool" where
  "hm_wf m \<equiv> distinct (hm_keys m)"

locale hash_map =
  fixes get :: "'m \<Rightarrow> 'k \<Rightarrow> 'v option"
    and ins :: "'k \<Rightarrow> 'v \<Rightarrow> 'm \<Rightarrow> 'm"
    and rem :: "'k \<Rightarrow> 'm \<Rightarrow> 'm"
    and emp :: 'm
    and wf :: "'m \<Rightarrow> bool"
  assumes get_emp: "get emp k = None"
    and get_ins: "get (ins k v m) j = (if j = k then Some v else get m j)"
    and get_rem: "get (rem k m) j = (if j = k then None else get m j)"
    and wf_emp: "wf emp"
    and wf_ins: "wf m \<Longrightarrow> wf (ins k v m)"
    and wf_rem: "wf m \<Longrightarrow> wf (rem k m)"
begin

lemma rem_ins_same: "get m k = None \<Longrightarrow> get (rem k (ins k v m)) = get m"
  by (rule ext) (simp add: get_ins get_rem)

lemma rem_absent: "get m k = None \<Longrightarrow> get (rem k m) = get m"
  by (rule ext) (simp add: get_rem)

lemma dom_ins: "dom (get (ins k v m)) = insert k (dom (get m))"
  by (auto simp: get_ins dom_def)

lemma dom_rem: "dom (get (rem k m)) = dom (get m) - {k}"
  by (auto simp: get_rem dom_def)

end

lemma map_of_update_apply:
  "map_of (AList.update k v m) j = (if j = k then Some v else map_of m j)"
  by (simp add: update_conv)

lemma map_of_delete_apply:
  "map_of (AList.delete k m) j = (if j = k then None else map_of m j)"
  by (simp add: delete_conv)

interpretation hm: hash_map map_of AList.update AList.delete "[]" "\<lambda>m. distinct (map fst m)"
  by unfold_locales
    (auto simp: map_of_update_apply map_of_delete_apply distinct_update distinct_delete)

lemma hm_keys_delete [simp]: "set (map fst (AList.delete k m)) = set (map fst m) - {k}"
  by (auto simp: delete_keys)

lemma hm_mem_iff: "k \<in> set (map fst m) \<longleftrightarrow> map_of m k \<noteq> None"
  by (metis map_of_eq_None_iff list.set_map)

lemma hm_value_iff:
  "distinct (map fst m) \<Longrightarrow> v \<in> set (map snd m) \<longleftrightarrow> (\<exists>k. map_of m k = Some v)"
  by (auto simp: map_of_eq_Some_iff image_iff) force+

section \<open>Tables\<close>

text \<open>
  A table is a list of rows under their primary key. \<open>update_row\<close> is the effect of
  \<open>UPDATE ... WHERE key = k\<close>: it rewrites the rows with that key and leaves the others,
  and it never adds or removes a row.
\<close>

type_synonym ('k, 'r) table = "('k \<times> 'r) list"

definition update_row :: "'k \<Rightarrow> ('r \<Rightarrow> 'r) \<Rightarrow> ('k, 'r) table \<Rightarrow> ('k, 'r) table" where
  "update_row k f t = map (\<lambda>(j, r). if j = k then (j, f r) else (j, r)) t"

locale row_store =
  fixes row :: "'db \<Rightarrow> 'k \<Rightarrow> 'r option"
    and upd :: "'k \<Rightarrow> ('r \<Rightarrow> 'r) \<Rightarrow> 'db \<Rightarrow> 'db"
  assumes row_upd: "row (upd k f db) j = (if j = k then map_option f (row db j) else row db j)"
begin

lemma row_upd_same: "row (upd k f db) k = map_option f (row db k)"
  by (simp add: row_upd)

lemma row_upd_other: "j \<noteq> k \<Longrightarrow> row (upd k f db) j = row db j"
  by (simp add: row_upd)

lemma upd_dom: "dom (row (upd k f db)) = dom (row db)"
  by (auto simp: row_upd dom_def split: if_splits)

lemma upd_absent: "row db k = None \<Longrightarrow> row (upd k f db) = row db"
  by (rule ext) (simp add: row_upd)

lemma upd_upd_same: "row (upd k f (upd k g db)) k = map_option (f \<circ> g) (row db k)"
  by (simp add: row_upd option.map_comp)

lemma upd_column:
  "row db k = Some r \<Longrightarrow> row (upd k f db) k = Some (f r)"
  by (simp add: row_upd)

end

lemma map_of_update_row:
  "map_of (update_row k f t) j = (if j = k then map_option f (map_of t j) else map_of t j)"
  by (induction t) (auto simp: update_row_def)

lemma keys_update_row [simp]: "map fst (update_row k f t) = map fst t"
  by (induction t) (auto simp: update_row_def)

interpretation tbl: row_store map_of update_row
  by unfold_locales (rule map_of_update_row)

section \<open>Transition systems\<close>

text \<open>
  A component with a step relation: a predicate that holds initially and that every step
  keeps holds in every reachable state.
\<close>

inductive reach :: "('s \<Rightarrow> bool) \<Rightarrow> ('s \<Rightarrow> 's \<Rightarrow> bool) \<Rightarrow> 's \<Rightarrow> bool"
  for init :: "'s \<Rightarrow> bool" and step :: "'s \<Rightarrow> 's \<Rightarrow> bool" where
  reach_init: "init s \<Longrightarrow> reach init step s"
| reach_step: "reach init step s \<Longrightarrow> step s t \<Longrightarrow> reach init step t"

locale invariant_system =
  fixes init :: "'s \<Rightarrow> bool"
    and step :: "'s \<Rightarrow> 's \<Rightarrow> bool"
    and inv :: "'s \<Rightarrow> bool"
  assumes inv_init: "init s \<Longrightarrow> inv s"
    and inv_step: "inv s \<Longrightarrow> step s t \<Longrightarrow> inv t"
begin

lemma reach_inv: "reach init step s \<Longrightarrow> inv s"
  by (induction rule: reach.induct) (auto intro: inv_init inv_step)

lemma inv_steps: "inv s \<Longrightarrow> step\<^sup>*\<^sup>* s t \<Longrightarrow> inv t"
  by (rotate_tac, induction rule: rtranclp_induct) (auto intro: inv_step)

end

lemma reach_mono:
  "reach init step s \<Longrightarrow> (\<And>s. init s \<Longrightarrow> init' s) \<Longrightarrow> (\<And>s t. step s t \<Longrightarrow> step' s t) \<Longrightarrow>
     reach init' step' s"
  by (induction rule: reach.induct) (auto intro: reach_init reach_step)

lemma reach_steps: "reach init step s \<Longrightarrow> step\<^sup>*\<^sup>* s t \<Longrightarrow> reach init step t"
  by (rotate_tac, induction rule: rtranclp_induct) (auto intro: reach_step)

section \<open>String slices\<close>

text \<open>
  The operations on \<open>str\<close> the sources use, over lists of bytes: \<open>starts_with\<close>,
  \<open>strip_prefix\<close>, \<open>strip_suffix\<close> (also with a one-character pattern), \<open>contains\<close>, \<open>trim\<close>, \<open>replace\<close>, the part before
  the first occurrence of a character (\<open>split(c).next()\<close>), ASCII lower-casing and the
  decimal rendering of a natural number.
\<close>

definition starts_with :: "string \<Rightarrow> string \<Rightarrow> bool" where
  "starts_with s p \<longleftrightarrow> take (length p) s = p"

definition strip_prefix :: "string \<Rightarrow> string \<Rightarrow> string option" where
  "strip_prefix p s = (if starts_with s p then Some (drop (length p) s) else None)"

definition strip_suffix :: "string \<Rightarrow> string \<Rightarrow> string option" where
  "strip_suffix p s =
     (if starts_with (rev s) (rev p) then Some (take (length s - length p) s) else None)"

definition strip_suffix_char :: "char \<Rightarrow> string \<Rightarrow> string option" where
  "strip_suffix_char c s = (if s \<noteq> [] \<and> last s = c then Some (butlast s) else None)"

fun str_contains :: "string \<Rightarrow> string \<Rightarrow> bool" where
  "str_contains [] p \<longleftrightarrow> p = []"
| "str_contains (c # cs) p \<longleftrightarrow> starts_with (c # cs) p \<or> str_contains cs p"

definition before_char :: "char \<Rightarrow> string \<Rightarrow> string" where
  "before_char c s = takeWhile (\<lambda>x. x \<noteq> c) s"

function str_replace :: "string \<Rightarrow> string \<Rightarrow> string \<Rightarrow> string" where
  "str_replace s p r =
     (if p = [] \<or> s = [] then s
      else if starts_with s p then r @ str_replace (drop (length p) s) p r
      else hd s # str_replace (tl s) p r)"
  by pat_completeness auto
termination
  by (relation "measure (\<lambda>(s, p, r). length s)") (auto simp: neq_Nil_conv)

declare str_replace.simps [simp del]

definition to_lower :: "char \<Rightarrow> char" where
  "to_lower c = (let n = (of_char c :: nat) in if 65 \<le> n \<and> n \<le> 90 then char_of (n + 32) else c)"

definition to_lowercase :: "string \<Rightarrow> string" where
  "to_lowercase s = map to_lower s"

definition is_whitespace :: "char \<Rightarrow> bool" where
  "is_whitespace c = (let n = (of_char c :: nat) in n = 32 \<or> 9 \<le> n \<and> n \<le> 13)"

definition trim :: "string \<Rightarrow> string" where
  "trim s = rev (dropWhile is_whitespace (rev (dropWhile is_whitespace s)))"

fun show_nat :: "nat \<Rightarrow> string" where
  "show_nat n = (if n < 10 then [char_of (48 + n)]
     else show_nat (n div 10) @ [char_of (48 + n mod 10)])"

declare show_nat.simps [simp del]

definition show_int :: "int \<Rightarrow> string" where
  "show_int i = (if i < 0 then CHR ''-'' # show_nat (nat (- i)) else show_nat (nat i))"

text \<open>Quoting in messages; the dash of the messages is U+2014 in UTF-8.\<close>

definition squoted :: "string \<Rightarrow> string" where
  "squoted s = CHR 0x27 # s @ [CHR 0x27]"

definition dquoted :: "string \<Rightarrow> string" where
  "dquoted s = CHR 0x22 # s @ [CHR 0x22]"

definition em_dash :: string where
  "em_dash = [CHR 0xE2, CHR 0x80, CHR 0x94]"

lemma starts_with_prefix: "starts_with s p \<longleftrightarrow> prefix p s"
proof
  assume "starts_with s p"
  then show "prefix p s"
    by (metis starts_with_def take_is_prefix)
qed (auto simp: starts_with_def prefix_def)

lemma starts_with_append [simp]: "starts_with (p @ s) p"
  by (simp add: starts_with_def)

lemma str_contains_sublist: "str_contains s p \<longleftrightarrow> sublist p s"
  by (induction s) (auto simp: starts_with_prefix sublist_Cons_right)

lemma str_contains_append:
  "str_contains s p \<Longrightarrow> str_contains (a @ s @ b) p"
  by (auto simp: str_contains_sublist sublist_def) (metis append.assoc)

lemma str_replace_absent:
  "\<not> str_contains s p \<Longrightarrow> str_replace s p r = s"
proof (induction s)
  case Nil
  then show ?case by (simp add: str_replace.simps)
next
  case (Cons c cs)
  then show ?case by (auto simp: str_replace.simps [of "c # cs"])
qed

end
