(* ===== verification/Cbs_Proto.thy ===== *)
theory Cbs_Proto
  imports Cbs_Prelude
begin

text \<open>
  The shared data of server and worker (\<open>cbsd-proto\<close>): architectures, priorities, the
  build life-cycle states, build descriptors and the two message enumerations of the
  worker protocol. Enumerations that are stored as text come with their text rendering
  and the parser the code uses; the lemmas show that rendering and parsing are inverse.
\<close>

section \<open>Enumerations\<close>

datatype Arch = X86_64 | Aarch64

fun arch_display :: "Arch \<Rightarrow> string" where
  "arch_display X86_64 = ''x86_64''"
| "arch_display Aarch64 = ''aarch64''"

definition arch_from_str :: "string \<Rightarrow> Arch option" where
  "arch_from_str s =
     (if s = ''x86_64'' then Some X86_64
      else if s = ''aarch64'' \<or> s = ''arm64'' then Some Aarch64
      else None)"

datatype Priority = High | Normal | Low

definition default_priority :: Priority where
  "default_priority = Normal"

text \<open>High before normal before low: the order of the queue lanes.\<close>

fun priority_rank :: "Priority \<Rightarrow> nat" where
  "priority_rank High = 0"
| "priority_rank Normal = 1"
| "priority_rank Low = 2"

instantiation Priority :: linorder
begin

definition less_eq_Priority :: "Priority \<Rightarrow> Priority \<Rightarrow> bool" where
  "less_eq_Priority a b \<longleftrightarrow> priority_rank a \<le> priority_rank b"

definition less_Priority :: "Priority \<Rightarrow> Priority \<Rightarrow> bool" where
  "less_Priority a b \<longleftrightarrow> priority_rank a < priority_rank b"

instance
proof
  fix x y z :: Priority
  show "x < y \<longleftrightarrow> x \<le> y \<and> \<not> y \<le> x"
    by (auto simp: less_Priority_def less_eq_Priority_def)
  show "x \<le> x" by (simp add: less_eq_Priority_def)
  show "x \<le> y \<Longrightarrow> y \<le> z \<Longrightarrow> x \<le> z" by (simp add: less_eq_Priority_def)
  show "x \<le> y \<Longrightarrow> y \<le> x \<Longrightarrow> x = y"
    by (cases x; cases y) (auto simp: less_eq_Priority_def)
  show "x \<le> y \<or> y \<le> x" by (auto simp: less_eq_Priority_def)
qed

end

lemmas priority_order = less_eq_Priority_def less_Priority_def

datatype BuildState =
  Queued | Dispatched | Started | Revoking | Success | Failure | Revoked

fun build_state_display :: "BuildState \<Rightarrow> string" where
  "build_state_display Queued = ''queued''"
| "build_state_display Dispatched = ''dispatched''"
| "build_state_display Started = ''started''"
| "build_state_display Revoking = ''revoking''"
| "build_state_display Success = ''success''"
| "build_state_display Failure = ''failure''"
| "build_state_display Revoked = ''revoked''"

lemma build_state_display_inj: "build_state_display a = build_state_display b \<longleftrightarrow> a = b"
  by (cases a; cases b) simp_all

datatype VersionType = Release | Dev | Test | Ci

lemma arch_round_trip: "arch_from_str (arch_display a) = Some a"
  by (cases a) (simp_all add: arch_from_str_def)

section \<open>Build descriptors\<close>

record BuildSignedOffBy =
  sob_user :: string
  sob_email :: string

record BuildDestImage =
  img_name :: string
  img_tag :: string

record BuildComponent =
  comp_name :: string
  comp_git_ref :: string
  comp_repo :: "string option"

record BuildTarget =
  tgt_distro :: string
  tgt_os_version :: string
  tgt_artifact_type :: string
  tgt_arch :: Arch

record BuildDescriptor =
  d_version :: string
  d_channel :: "string option"
  d_version_type :: "VersionType option"
  d_signed_off_by :: BuildSignedOffBy
  d_dst_image :: BuildDestImage
  d_components :: "BuildComponent list"
  d_build :: BuildTarget

section \<open>Protocol messages\<close>

datatype WorkerBuildAction =
  ActWorkerStatus | ActBuildAccepted | ActBuildStarted | ActBuildOutput
| ActBuildFinished | ActBuildRejected

datatype UnauthorizedBuildReason = NotAssigned

datatype BuildRevokeReason = Admin | MigrationSupersede | UnauthorizedAction

datatype ServerMessage =
  BuildNew build_id string Priority BuildDescriptor string
| BuildRevoke build_id "BuildRevokeReason option"
| Welcome nat conn_id nat bool
| ServerError string "nat option" "nat option"
| UnauthorizedBuildAction build_id WorkerBuildAction UnauthorizedBuildReason

datatype WorkerReportedState = RepIdle | RepBuilding

datatype BuildFinishedStatus = FinSuccess | FinFailure | FinRevoked

text \<open>
  The metrics payload of \<open>Metrics\<close> is opaque to the control plane; the message carries
  only the uptime here. A build report is a JSON value, held as its text.
\<close>

datatype WorkerMessage =
  Hello nat Arch nat nat "string option"
| WorkerStatus WorkerReportedState "build_id option"
| BuildAccepted build_id
| BuildRejected build_id string
| BuildStarted build_id
| BuildOutput build_id nat "string list"
| BuildFinished build_id BuildFinishedStatus "string option" "string option"
| WorkerStopping string
| Metrics nat

fun message_type_name :: "WorkerMessage \<Rightarrow> string" where
  "message_type_name (Hello _ _ _ _ _) = ''hello''"
| "message_type_name (BuildAccepted _) = ''build_accepted''"
| "message_type_name (BuildStarted _) = ''build_started''"
| "message_type_name (BuildOutput _ _ _) = ''build_output''"
| "message_type_name (BuildFinished _ _ _ _) = ''build_finished''"
| "message_type_name (BuildRejected _ _) = ''build_rejected''"
| "message_type_name (WorkerStatus _ _) = ''worker_status''"
| "message_type_name (WorkerStopping _) = ''worker_stopping''"
| "message_type_name (Metrics _) = ''metrics''"

text \<open>A frame queued on a worker's outbound channel.\<close>

datatype ws_frame = TextFrame ServerMessage | BinaryFrame string

end
