(* ===== verification/Cbs_Queue.thy ===== *)
theory Cbs_Queue
  imports Cbs_Proto "HOL-Library.Multiset"
begin

text \<open>
  The in-memory side of the server: the connection states of \<open>ws/liveness.rs\<close> and the
  three-lane build queue of \<open>queue/mod.rs\<close> with its table of active builds and its table
  of connected workers. The pending builds of a queue are the lanes read in dispatch
  order; the locale \<open>priority_queue\<close> states what a strict-priority, first-in first-out
  queue promises about them, and the lanes are an interpretation of it.
\<close>

section \<open>Worker connection states\<close>

datatype WorkerState =
  Connected (ws_registered_worker_id: string) (ws_worker_name: string) (ws_arch: Arch)
    (ws_cores_total: nat) (ws_ram_total_mb: nat) (ws_version: "string option")
| Disconnected (ws_since: timestamp) (ws_registered_worker_id: string)
    (ws_worker_name: string) (ws_arch: Arch)
| Stopping (ws_registered_worker_id: string) (ws_worker_name: string)
| Dead

fun is_dispatch_eligible :: "WorkerState \<Rightarrow> bool" where
  "is_dispatch_eligible (Connected _ _ _ _ _ _) \<longleftrightarrow> True"
| "is_dispatch_eligible _ \<longleftrightarrow> False"

fun registered_worker_id :: "WorkerState \<Rightarrow> string option" where
  "registered_worker_id (Connected w _ _ _ _ _) = Some w"
| "registered_worker_id (Disconnected _ w _ _) = Some w"
| "registered_worker_id (Stopping w _) = Some w"
| "registered_worker_id Dead = None"

fun worker_name :: "WorkerState \<Rightarrow> string option" where
  "worker_name (Connected _ n _ _ _ _) = Some n"
| "worker_name (Disconnected _ _ n _) = Some n"
| "worker_name (Stopping _ n) = Some n"
| "worker_name Dead = None"

fun arch :: "WorkerState \<Rightarrow> Arch option" where
  "arch (Connected _ _ a _ _ _) = Some a"
| "arch (Disconnected _ _ _ a) = Some a"
| "arch (Stopping _ _) = None"
| "arch Dead = None"

fun state_name :: "WorkerState \<Rightarrow> string" where
  "state_name (Connected _ _ _ _ _ _) = ''connected''"
| "state_name (Disconnected _ _ _ _) = ''disconnected''"
| "state_name (Stopping _ _) = ''stopping''"
| "state_name Dead = ''dead''"

section \<open>The queue\<close>

datatype ActiveAssignmentReceipt = AwaitingReceipt | ReceivedByWorker

text \<open>A cancellation token is the index of the token in the pool of issued tokens.\<close>

type_synonym cancel_token = nat

record ActiveBuild =
  ab_build_id :: build_id
  ab_connection_id :: conn_id
  ab_dispatched_at :: timestamp
  ab_trace_id :: string
  ab_descriptor :: BuildDescriptor
  ab_priority :: Priority
  ab_ack_cancel :: cancel_token
  ab_receipt :: ActiveAssignmentReceipt

record WorkerInfo =
  wi_connection_id :: conn_id
  wi_worker_id :: string
  wi_worker_name :: string
  wi_arch :: Arch
  wi_state_name :: string
  wi_current_build_id :: "build_id option"

record QueuedBuild =
  qb_build_id :: build_id
  qb_priority :: Priority
  qb_descriptor :: BuildDescriptor
  qb_user_email :: string
  qb_queued_at :: timestamp

record BuildQueue =
  q_high :: "QueuedBuild list"
  q_normal :: "QueuedBuild list"
  q_low :: "QueuedBuild list"
  q_active :: "(build_id, ActiveBuild) hashmap"
  q_workers :: "(conn_id, WorkerState) hashmap"

definition queue_new :: BuildQueue where
  "queue_new = \<lparr>q_high = [], q_normal = [], q_low = [], q_active = [], q_workers = []\<rparr>"

text \<open>\<open>lane_mut\<close> hands out the lane to mutate; here it applies the mutation to it.\<close>

fun lane_mut ::
  "Priority \<Rightarrow> (QueuedBuild list \<Rightarrow> QueuedBuild list) \<Rightarrow> BuildQueue \<Rightarrow> BuildQueue" where
  "lane_mut High f q = q\<lparr>q_high := f (q_high q)\<rparr>"
| "lane_mut Normal f q = q\<lparr>q_normal := f (q_normal q)\<rparr>"
| "lane_mut Low f q = q\<lparr>q_low := f (q_low q)\<rparr>"

definition enqueue :: "QueuedBuild \<Rightarrow> BuildQueue \<Rightarrow> BuildQueue" where
  "enqueue b q = lane_mut (qb_priority b) (\<lambda>lane. lane @ [b]) q"

definition enqueue_front :: "QueuedBuild \<Rightarrow> BuildQueue \<Rightarrow> BuildQueue" where
  "enqueue_front b q = lane_mut (qb_priority b) (\<lambda>lane. b # lane) q"

definition next_pending :: "BuildQueue \<Rightarrow> QueuedBuild option \<times> BuildQueue" where
  "next_pending q =
     (case q_high q of
        b # rest \<Rightarrow> (Some b, q\<lparr>q_high := rest\<rparr>)
      | [] \<Rightarrow>
        (case q_normal q of
           b # rest \<Rightarrow> (Some b, q\<lparr>q_normal := rest\<rparr>)
         | [] \<Rightarrow>
           (case q_low q of
              b # rest \<Rightarrow> (Some b, q\<lparr>q_low := rest\<rparr>)
            | [] \<Rightarrow> (None, q))))"

fun remove_from_lane ::
  "QueuedBuild list \<Rightarrow> build_id \<Rightarrow> QueuedBuild option \<times> QueuedBuild list" where
  "remove_from_lane [] i = (None, [])"
| "remove_from_lane (b # bs) i =
     (if qb_build_id b = i then (Some b, bs)
      else let (r, rest) = remove_from_lane bs i in (r, b # rest))"

definition remove_by_id :: "BuildQueue \<Rightarrow> build_id \<Rightarrow> QueuedBuild option \<times> BuildQueue" where
  "remove_by_id q i =
     (case remove_from_lane (q_high q) i of
        (Some b, lane) \<Rightarrow> (Some b, q\<lparr>q_high := lane\<rparr>)
      | (None, _) \<Rightarrow>
        (case remove_from_lane (q_normal q) i of
           (Some b, lane) \<Rightarrow> (Some b, q\<lparr>q_normal := lane\<rparr>)
         | (None, _) \<Rightarrow>
           (case remove_from_lane (q_low q) i of
              (r, lane) \<Rightarrow> (r, q\<lparr>q_low := lane\<rparr>))))"

definition pending_counts :: "BuildQueue \<Rightarrow> nat \<times> nat \<times> nat" where
  "pending_counts q = (length (q_high q), length (q_normal q), length (q_low q))"

definition count_build ::
  "QueuedBuild \<Rightarrow> (Priority \<times> Arch, nat) hashmap \<Rightarrow> (Priority \<times> Arch, nat) hashmap" where
  "count_build b counts =
     (let k = (qb_priority b, tgt_arch (d_build (qb_descriptor b)));
          n = (case map_of counts k of Some n \<Rightarrow> n | None \<Rightarrow> 0)
      in AList.update k (n + 1) counts)"

definition queued_by_priority_arch :: "BuildQueue \<Rightarrow> (Priority \<times> Arch \<times> nat) list" where
  "queued_by_priority_arch q =
     map (\<lambda>((p, a), n). (p, a, n))
       (fold (\<lambda>lane counts. fold count_build lane counts) [q_high q, q_normal q, q_low q] [])"

definition lane_contains :: "QueuedBuild list \<Rightarrow> build_id \<Rightarrow> bool" where
  "lane_contains lane i \<longleftrightarrow> list_ex (\<lambda>b. qb_build_id b = i) lane"

definition queue_contains :: "BuildQueue \<Rightarrow> build_id \<Rightarrow> bool" where
  "queue_contains q i \<longleftrightarrow>
     lane_contains (q_high q) i \<or> lane_contains (q_normal q) i \<or> lane_contains (q_low q) i"

text \<open>
  The ownership predicate of the protocol. The Rust method returns a mutable reference;
  the callers' mutations go through \<open>AList.update\<close> on \<open>q_active\<close>.
\<close>

definition active_build_for_connection_mut ::
  "BuildQueue \<Rightarrow> build_id \<Rightarrow> conn_id \<Rightarrow> ActiveBuild option" where
  "active_build_for_connection_mut q i cid =
     (case map_of (q_active q) i of
        Some ab \<Rightarrow> if ab_connection_id ab = cid then Some ab else None
      | None \<Rightarrow> None)"

definition register_worker :: "conn_id \<Rightarrow> WorkerState \<Rightarrow> BuildQueue \<Rightarrow> BuildQueue" where
  "register_worker cid ws q = q\<lparr>q_workers := AList.update cid ws (q_workers q)\<rparr>"

definition remove_worker :: "conn_id \<Rightarrow> BuildQueue \<Rightarrow> WorkerState option \<times> BuildQueue" where
  "remove_worker cid q =
     (map_of (q_workers q) cid, q\<lparr>q_workers := AList.delete cid (q_workers q)\<rparr>)"

definition get_worker :: "BuildQueue \<Rightarrow> conn_id \<Rightarrow> WorkerState option" where
  "get_worker q cid = map_of (q_workers q) cid"

definition set_worker_state :: "conn_id \<Rightarrow> WorkerState \<Rightarrow> BuildQueue \<Rightarrow> BuildQueue" where
  "set_worker_state cid ws q =
     (case map_of (q_workers q) cid of
        Some _ \<Rightarrow> q\<lparr>q_workers := AList.update cid ws (q_workers q)\<rparr>
      | None \<Rightarrow> q)"

definition has_pending :: "BuildQueue \<Rightarrow> bool" where
  "has_pending q \<longleftrightarrow> q_high q \<noteq> [] \<or> q_normal q \<noteq> [] \<or> q_low q \<noteq> []"

definition has_idle_workers :: "BuildQueue \<Rightarrow> bool" where
  "has_idle_workers q \<longleftrightarrow>
     list_ex (\<lambda>(cid, ws). is_dispatch_eligible ws \<and>
       \<not> list_ex (\<lambda>ab. ab_connection_id ab = cid) (hm_values (q_active q))) (q_workers q)"

definition active_builds_with_receipt_for_connection ::
  "BuildQueue \<Rightarrow> conn_id \<Rightarrow> (build_id \<times> ActiveAssignmentReceipt) list" where
  "active_builds_with_receipt_for_connection q cid =
     map (\<lambda>ab. (ab_build_id ab, ab_receipt ab))
       (filter (\<lambda>ab. ab_connection_id ab = cid) (hm_values (q_active q)))"

definition worker_info :: "BuildQueue \<Rightarrow> conn_id \<times> WorkerState \<Rightarrow> WorkerInfo option" where
  "worker_info q e =
     (case e of (cid, ws) \<Rightarrow>
        (case (registered_worker_id ws, worker_name ws, arch ws) of
           (Some w, Some n, Some a) \<Rightarrow>
             Some \<lparr>wi_connection_id = cid, wi_worker_id = w, wi_worker_name = n, wi_arch = a,
               wi_state_name = state_name ws,
               wi_current_build_id =
                 map_option ab_build_id
                   (find (\<lambda>ab. ab_connection_id ab = cid) (hm_values (q_active q)))\<rparr>
         | _ \<Rightarrow> None))"

definition connected_workers :: "BuildQueue \<Rightarrow> WorkerInfo list" where
  "connected_workers q = List.map_filter (worker_info q) (q_workers q)"

section \<open>The contract of a strict-priority queue\<close>

text \<open>
  \<open>pend\<close> lists the pending elements in the order \<open>pop\<close> returns them. \<open>back\<close> inserts
  after every element of the same or a higher priority, \<open>front\<close> before every element of
  the same or a lower one.
\<close>

definition insert_back :: "('b \<Rightarrow> 'p::linorder) \<Rightarrow> 'b \<Rightarrow> 'b list \<Rightarrow> 'b list" where
  "insert_back prio b xs =
     takeWhile (\<lambda>x. prio x \<le> prio b) xs @ b # dropWhile (\<lambda>x. prio x \<le> prio b) xs"

primrec pops :: "('q \<Rightarrow> 'b option \<times> 'q) \<Rightarrow> nat \<Rightarrow> 'q \<Rightarrow> 'b list" where
  "pops pop 0 q = []"
| "pops pop (Suc n) q =
     (case pop q of (Some b, q') \<Rightarrow> b # pops pop n q' | (None, q') \<Rightarrow> [])"

lemma mset_insert_back [simp]: "mset (insert_back prio b xs) = add_mset b (mset xs)"
proof -
  let ?P = "\<lambda>x. prio x \<le> prio b"
  have "mset (insert_back prio b xs) = add_mset b (mset (takeWhile ?P xs @ dropWhile ?P xs))"
    by (simp only: insert_back_def mset_append mset.simps union_mset_add_mset_right)
  then show ?thesis by simp
qed

lemma set_insert_back [simp]: "set (insert_back prio b xs) = insert b (set xs)"
  by (metis mset_insert_back set_mset_add_mset_insert set_mset_mset)

lemma insert_back_simps [simp]:
  "insert_back prio b [] = [b]"
  "insert_back prio b (x # xs) =
     (if prio x \<le> prio b then x # insert_back prio b xs else b # x # xs)"
  by (simp_all add: insert_back_def)

lemma sorted_insert_back:
  "sorted (map prio xs) \<Longrightarrow> sorted (map prio (insert_back prio b xs))"
  by (induction xs) auto

lemma filter_insert_back:
  assumes "sorted (map prio xs)"
  shows "filter (\<lambda>x. prio x = v) (insert_back prio b xs) = filter (\<lambda>x. prio x = v) (xs @ [b])"
  using assms
proof (induction xs)
  case (Cons x xs)
  have "filter (\<lambda>y. prio y = v) (x # xs) = []" if "\<not> prio x \<le> prio b" "prio b = v"
    using that Cons.prems by (fastforce simp: filter_empty_conv)
  then show ?case using Cons by auto
qed simp

lemma sort_key_snoc: "sort_key prio (xs @ [b]) = insert_back prio b (sort_key prio xs)"
proof (rule properties_for_sort_key)
  show "sorted (map prio (insert_back prio b (sort_key prio xs)))"
    by (rule sorted_insert_back) simp
  show "filter (\<lambda>x. prio k = prio x) (insert_back prio b (sort_key prio xs)) =
    filter (\<lambda>x. prio k = prio x) (xs @ [b])" for k
    unfolding eq_commute[of "prio k"]
    by (simp add: filter_insert_back sort_key_stable)
qed simp

locale priority_queue =
  fixes pend :: "'q \<Rightarrow> 'b list"
    and prio :: "'b \<Rightarrow> 'p::linorder"
    and key :: "'b \<Rightarrow> 'k"
    and push :: "'b \<Rightarrow> 'q \<Rightarrow> 'q"
    and front :: "'b \<Rightarrow> 'q \<Rightarrow> 'q"
    and pop :: "'q \<Rightarrow> 'b option \<times> 'q"
    and remv :: "'q \<Rightarrow> 'k \<Rightarrow> 'b option \<times> 'q"
    and empt :: 'q
    and ok :: "'q \<Rightarrow> bool"
  assumes pend_empt: "pend empt = []"
    and pend_back: "ok q \<Longrightarrow> pend (push b q) = insert_back prio b (pend q)"
    and pend_front: "ok q \<Longrightarrow> pend (front b q) = insort_key prio b (pend q)"
    and pop_empty: "pend q = [] \<Longrightarrow> pop q = (None, q)"
    and pop_Cons: "pend q = b # bs \<Longrightarrow> \<exists>q'. pop q = (Some b, q') \<and> pend q' = bs"
    and remv_fst: "fst (remv q k) = find (\<lambda>b. key b = k) (pend q)"
    and remv_snd: "mset (pend (snd (remv q k))) =
       mset (pend q) - mset (case find (\<lambda>b. key b = k) (pend q) of Some b \<Rightarrow> [b] | None \<Rightarrow> [])"
    and ok_empt: "ok empt"
    and ok_back: "ok q \<Longrightarrow> ok (push b q)"
    and ok_front: "ok q \<Longrightarrow> ok (front b q)"
    and ok_pop: "ok q \<Longrightarrow> ok (snd (pop q))"
    and ok_remv: "ok q \<Longrightarrow> ok (snd (remv q k))"
    and ok_sorted: "ok q \<Longrightarrow> sorted (map prio (pend q))"
begin

lemma pop_minimal:
  assumes "ok q" and "fst (pop q) = Some b"
  shows "b \<in> set (pend q)" and "\<And>c. c \<in> set (pend q) \<Longrightarrow> prio b \<le> prio c"
proof -
  obtain bs where bs: "pend q = b # bs"
    using assms(2) pop_empty[of q] pop_Cons[of q] by (cases "pend q") fastforce+
  then show "b \<in> set (pend q)" by simp
  show "prio b \<le> prio c" if "c \<in> set (pend q)" for c
    using that bs ok_sorted[OF assms(1)] by auto
qed

lemma pop_none: "fst (pop q) = None \<longleftrightarrow> pend q = []"
  using pop_empty[of q] pop_Cons[of q] by (cases "pend q") fastforce+

lemma pops_pend: "pops pop n q = take n (pend q)"
proof (induction n arbitrary: q)
  case (Suc n)
  show ?case
  proof (cases "pend q")
    case Nil
    then show ?thesis using pop_empty[of q] by simp
  next
    case (Cons b bs)
    then obtain q' where "pop q = (Some b, q')" "pend q' = bs" using pop_Cons by blast
    then show ?thesis using Suc Cons by simp
  qed
qed simp

lemma fold_back: "ok (fold push bs empt) \<and> pend (fold push bs empt) = sort_key prio bs"
proof (induction bs rule: rev_induct)
  case (snoc b bs)
  then show ?case by (simp add: ok_back pend_back sort_key_snoc)
qed (simp add: ok_empt pend_empt)

lemma drain_sorted: "length bs \<le> n \<Longrightarrow> pops pop n (fold push bs empt) = sort_key prio bs"
  by (simp add: pops_pend fold_back)

lemma front_pop:
  assumes "ok q" and "\<And>c. c \<in> set (pend q) \<Longrightarrow> prio b \<le> prio c"
  shows "fst (pop (front b q)) = Some b"
proof -
  have "pend (front b q) = b # pend q"
    using assms by (cases "pend q") (auto simp: pend_front)
  then show ?thesis using pop_Cons by fastforce
qed

lemma remv_absent: "(\<forall>b\<in>set (pend q). key b \<noteq> k) \<longleftrightarrow> fst (remv q k) = None"
  by (auto simp: remv_fst find_None_iff)

end

section \<open>The lanes implement the contract\<close>

definition pending :: "BuildQueue \<Rightarrow> QueuedBuild list" where
  "pending q = q_high q @ q_normal q @ q_low q"

definition lanes_ok :: "BuildQueue \<Rightarrow> bool" where
  "lanes_ok q \<longleftrightarrow>
     (\<forall>b\<in>set (q_high q). qb_priority b = High) \<and>
     (\<forall>b\<in>set (q_normal q). qb_priority b = Normal) \<and>
     (\<forall>b\<in>set (q_low q). qb_priority b = Low)"

lemma insert_back_append:
  "\<forall>x\<in>set xs. prio x \<le> prio b \<Longrightarrow> insert_back prio b (xs @ ys) = xs @ insert_back prio b ys"
  by (induction xs) auto

lemma insert_back_last:
  "\<forall>x\<in>set xs. prio x \<le> prio b \<Longrightarrow> insert_back prio b xs = xs @ [b]"
  by (induction xs) auto

lemma insert_back_first:
  "\<forall>y\<in>set ys. prio b < prio y \<Longrightarrow> insert_back prio b ys = b # ys"
  by (cases ys) auto

lemma insort_key_append:
  "\<forall>x\<in>set xs. prio x < prio b \<Longrightarrow> insort_key prio b (xs @ ys) = xs @ insort_key prio b ys"
  by (induction xs) (auto simp: not_le)

lemma insort_key_first:
  "\<forall>y\<in>set ys. prio b \<le> prio y \<Longrightarrow> insort_key prio b ys = b # ys"
  by (cases ys) auto

lemma pending_enqueue:
  assumes "lanes_ok q"
  shows "pending (enqueue b q) = insert_back qb_priority b (pending q)"
proof (cases "qb_priority b")
  case High
  then have "insert_back qb_priority b (q_normal q @ q_low q) = b # q_normal q @ q_low q"
    using assms by (intro insert_back_first) (auto simp: lanes_ok_def priority_order)
  then show ?thesis using High assms
    by (simp add: pending_def enqueue_def lanes_ok_def insert_back_append)
next
  case Normal
  then show ?thesis using assms
    by (simp add: pending_def enqueue_def lanes_ok_def insert_back_append insert_back_first
        priority_order)
next
  case Low
  then show ?thesis using assms
    by (simp add: pending_def enqueue_def lanes_ok_def insert_back_append insert_back_last
        priority_order)
qed

lemma pending_enqueue_front:
  assumes "lanes_ok q"
  shows "pending (enqueue_front b q) = insort_key qb_priority b (pending q)"
proof (cases "qb_priority b")
  case High
  then show ?thesis
    by (simp add: pending_def enqueue_front_def insort_key_first priority_order)
next
  case Normal
  then have "insort_key qb_priority b (q_normal q @ q_low q) = b # q_normal q @ q_low q"
    using assms by (intro insort_key_first) (auto simp: lanes_ok_def priority_order)
  then show ?thesis using Normal assms
    by (simp add: pending_def enqueue_front_def lanes_ok_def insort_key_append priority_order)
next
  case Low
  then show ?thesis using assms
    by (simp add: pending_def enqueue_front_def lanes_ok_def insort_key_append insort_key_first
        priority_order)
qed

lemma find_SomeD: "find P xs = Some x \<Longrightarrow> x \<in> set xs \<and> P x"
  by (auto simp: find_Some_iff)

lemma next_pending_empty: "pending q = [] \<Longrightarrow> next_pending q = (None, q)"
  by (simp add: pending_def next_pending_def)

lemma next_pending_Cons:
  "pending q = b # bs \<Longrightarrow> \<exists>q'. next_pending q = (Some b, q') \<and> pending q' = bs"
  by (auto simp: pending_def next_pending_def Cons_eq_append_conv split: list.splits)

lemma remove_from_lane_conv:
  "remove_from_lane lane i =
     (find (\<lambda>b. qb_build_id b = i) lane,
      case find (\<lambda>b. qb_build_id b = i) lane of Some b \<Rightarrow> remove1 b lane | None \<Rightarrow> lane)"
  by (induction lane) (auto split: option.splits dest: find_SomeD)

lemma find_append: "find P (xs @ ys) = (case find P xs of Some x \<Rightarrow> Some x | None \<Rightarrow> find P ys)"
  by (induction xs) auto

lemma remove_by_id_fst: "fst (remove_by_id q i) = find (\<lambda>b. qb_build_id b = i) (pending q)"
  by (auto simp: remove_by_id_def remove_from_lane_conv pending_def find_append
      split: option.splits)

lemma remove_by_id_snd:
  "pending (snd (remove_by_id q i)) =
     (case find (\<lambda>b. qb_build_id b = i) (pending q) of Some b \<Rightarrow> remove1 b (pending q)
      | None \<Rightarrow> pending q)"
  by (auto simp: remove_by_id_def remove_from_lane_conv pending_def find_append remove1_append
      find_None_iff dest!: find_SomeD split: option.splits)

lemma remove_by_id_other_fields [frame_simps]:
  "q_active (snd (remove_by_id q i)) = q_active q"
  "q_workers (snd (remove_by_id q i)) = q_workers q"
  by (auto simp: remove_by_id_def split: option.splits prod.splits)

lemma enqueue_other_fields [frame_simps]:
  "q_active (enqueue b q) = q_active q" "q_workers (enqueue b q) = q_workers q"
  "q_active (enqueue_front b q) = q_active q" "q_workers (enqueue_front b q) = q_workers q"
  by (cases "qb_priority b"; simp add: enqueue_def enqueue_front_def)+

lemma next_pending_other_fields [frame_simps]:
  "next_pending q = (r, q') \<Longrightarrow> q_active q' = q_active q"
  "next_pending q = (r, q') \<Longrightarrow> q_workers q' = q_workers q"
  by (auto simp: next_pending_def split: list.splits)

lemma lanes_ok_new: "lanes_ok queue_new"
  by (simp add: lanes_ok_def queue_new_def)

lemma lanes_ok_enqueue: "lanes_ok q \<Longrightarrow> lanes_ok (enqueue b q)"
  by (cases "qb_priority b") (auto simp: lanes_ok_def enqueue_def)

lemma lanes_ok_enqueue_front: "lanes_ok q \<Longrightarrow> lanes_ok (enqueue_front b q)"
  by (cases "qb_priority b") (auto simp: lanes_ok_def enqueue_front_def)

lemma lanes_ok_next: "lanes_ok q \<Longrightarrow> lanes_ok (snd (next_pending q))"
  by (auto simp: lanes_ok_def next_pending_def split: list.splits)

lemma lanes_ok_remove: "lanes_ok q \<Longrightarrow> lanes_ok (snd (remove_by_id q i))"
  by (auto simp: lanes_ok_def remove_by_id_def remove_from_lane_conv dest: notin_set_remove1
      split: option.splits)

lemma sorted_const: "\<forall>x\<in>set xs. f x = c \<Longrightarrow> sorted (map f xs)"
  by (induction xs) auto

lemma lanes_ok_sorted: "lanes_ok q \<Longrightarrow> sorted (map qb_priority (pending q))"
  unfolding lanes_ok_def pending_def
  by (auto simp: sorted_append less_eq_Priority_def intro: sorted_const)

interpretation lanes: priority_queue pending qb_priority qb_build_id enqueue enqueue_front
    next_pending remove_by_id queue_new lanes_ok
proof unfold_locales
  fix q :: BuildQueue and i b bs
  show "pending queue_new = []" by (simp add: pending_def queue_new_def)
  show "lanes_ok q \<Longrightarrow> pending (enqueue b q) = insert_back qb_priority b (pending q)"
    by (rule pending_enqueue)
  show "lanes_ok q \<Longrightarrow> pending (enqueue_front b q) = insort_key qb_priority b (pending q)"
    by (rule pending_enqueue_front)
  show "pending q = [] \<Longrightarrow> next_pending q = (None, q)" by (rule next_pending_empty)
  show "pending q = b # bs \<Longrightarrow> \<exists>q'. next_pending q = (Some b, q') \<and> pending q' = bs"
    by (rule next_pending_Cons)
  show "fst (remove_by_id q i) = find (\<lambda>b. qb_build_id b = i) (pending q)"
    by (rule remove_by_id_fst)
  show "mset (pending (snd (remove_by_id q i))) = mset (pending q) -
      mset (case find (\<lambda>b. qb_build_id b = i) (pending q) of Some b \<Rightarrow> [b] | None \<Rightarrow> [])"
    by (auto simp: remove_by_id_snd split: option.splits)
  show "lanes_ok queue_new" by (rule lanes_ok_new)
  show "lanes_ok q \<Longrightarrow> lanes_ok (enqueue b q)" by (rule lanes_ok_enqueue)
  show "lanes_ok q \<Longrightarrow> lanes_ok (enqueue_front b q)" by (rule lanes_ok_enqueue_front)
  show "lanes_ok q \<Longrightarrow> lanes_ok (snd (next_pending q))" by (rule lanes_ok_next)
  show "lanes_ok q \<Longrightarrow> lanes_ok (snd (remove_by_id q i))" by (rule lanes_ok_remove)
  show "lanes_ok q \<Longrightarrow> sorted (map qb_priority (pending q))" by (rule lanes_ok_sorted)
qed

text \<open>
  C13. Strict priority, first in first out within a priority. Popping everything that was
  enqueued gives the builds sorted by priority, and builds of equal priority come out in
  the order they went in: the three lanes refine a stable sort.
\<close>

theorem queue_drains_by_priority:
  "pops next_pending (length bs) (fold enqueue bs queue_new) = sort_key qb_priority bs"
  by (rule lanes.drain_sorted) simp

end
