(* ===== verification/Cbs_Schema.thy ===== *)
theory Cbs_Schema
  imports Cbs_Proto
begin

text \<open>
  The SQLite database behind the server: the rows of the tables the modelled code reads
  and writes (\<open>migrations/\<close>), and the connection pool as a record of tables.

  Statements may fail. \<open>p_faults\<close> is the schedule of failures: each statement consumes
  one entry, \<open>Some msg\<close> makes it fail with that message and no effect, and the empty
  schedule is a database that never fails. Theorems that hold under every schedule say
  so by leaving the schedule free. \<open>p_now\<close> is the clock that \<open>unixepoch()\<close> reads.

  The \<open>state\<close> column of a build is text restricted by a \<open>CHECK\<close> to the renderings of
  \<open>BuildState\<close>; the model keeps the enumeration itself, which is the same information
  (\<open>build_state_display_inj\<close>).
\<close>

datatype sqlx_error = SqlxError string | UniqueViolation string | RowNotFound

fun sqlx_error_display :: "sqlx_error \<Rightarrow> string" where
  "sqlx_error_display (SqlxError e) = e"
| "sqlx_error_display (UniqueViolation e) = ''UNIQUE constraint failed: '' @ e"
| "sqlx_error_display RowNotFound =
     ''no rows returned by a query that expected to return at least one row''"

text \<open>A violated \<open>UNIQUE\<close> constraint has its own error code; a primary key has another.\<close>

fun is_unique_violation :: "sqlx_error \<Rightarrow> bool" where
  "is_unique_violation (UniqueViolation _) = True"
| "is_unique_violation _ = False"

record UserRow =
  u_name :: string
  u_active :: bool
  u_created_at :: timestamp
  u_updated_at :: timestamp
  u_default_channel_id :: "int option"
  u_is_robot :: bool
  u_robot_description :: "string option"
  u_first_login_at :: "timestamp option"

record TokenRow =
  tk_user_email :: string
  tk_token_hash :: string
  tk_expires_at :: "timestamp option"
  tk_revoked :: bool
  tk_created_at :: timestamp
  tk_first_used_at :: "timestamp option"
  tk_last_used_at :: "timestamp option"

record RobotTokenRow =
  rt_robot_email :: string
  rt_token_hash :: string
  rt_token_prefix :: string
  rt_expires_at :: "timestamp option"
  rt_revoked :: bool
  rt_first_used_at :: "timestamp option"
  rt_last_used_at :: "timestamp option"
  rt_created_at :: timestamp

record RoleRow =
  r_description :: string
  r_builtin :: bool
  r_created_at :: timestamp

record ChannelRow =
  ch_name :: string
  ch_description :: string
  ch_default_type_id :: "int option"
  ch_deleted_at :: "timestamp option"
  ch_created_at :: timestamp
  ch_updated_at :: timestamp

record ChannelTypeRow =
  ct_channel_id :: int
  ct_type_name :: string
  ct_project :: string
  ct_prefix_template :: string
  ct_deleted_at :: "timestamp option"
  ct_created_at :: timestamp
  ct_updated_at :: timestamp

record ApiKeyRow =
  ak_name :: string
  ak_key_hash :: string
  ak_key_prefix :: string
  ak_owner_email :: string
  ak_expires_at :: "timestamp option"
  ak_revoked :: bool
  ak_created_at :: timestamp
  ak_first_used_at :: "timestamp option"
  ak_last_used_at :: "timestamp option"

record WorkerRow =
  w_name :: string
  w_arch :: string
  w_api_key_id :: int
  w_created_by :: string
  w_created_at :: timestamp
  w_last_seen :: "timestamp option"

record BuildRow =
  b_descriptor :: string
  b_descriptor_version :: int
  b_user_email :: string
  b_priority :: string
  b_state :: BuildState
  b_worker_id :: "string option"
  b_trace_id :: "string option"
  b_error :: "string option"
  b_submitted_at :: timestamp
  b_queued_at :: timestamp
  b_started_at :: "timestamp option"
  b_finished_at :: "timestamp option"
  b_periodic_task_id :: "string option"
  b_build_report :: "string option"
  b_channel_id :: "int option"
  b_channel_type_id :: "int option"

record BuildLogRow =
  bl_log_path :: string
  bl_log_size :: nat
  bl_finished :: bool
  bl_updated_at :: timestamp

record PeriodicRow =
  pt_cron_expr :: string
  pt_tag_format :: string
  pt_descriptor :: string
  pt_descriptor_version :: int
  pt_priority :: string
  pt_summary :: "string option"
  pt_enabled :: bool
  pt_created_by :: string
  pt_created_at :: timestamp
  pt_updated_at :: timestamp
  pt_retry_count :: int
  pt_retry_at :: "timestamp option"
  pt_last_error :: "string option"
  pt_last_triggered_at :: "timestamp option"
  pt_last_build_id :: "int option"

record SqlitePool =
  p_users :: "(string, UserRow) table"
  p_tokens :: "(int, TokenRow) table"
  p_token_seq :: int
  p_api_keys :: "(int, ApiKeyRow) table"
  p_api_key_seq :: int
  p_robot_tokens :: "(int, RobotTokenRow) table"
  p_robot_token_seq :: int
  p_roles :: "(string, RoleRow) table"
  p_role_caps :: "(string \<times> string) list"
  p_user_roles :: "(string \<times> string) list"
  p_role_scopes :: "(string \<times> string \<times> string) list"
  p_channels :: "(int, ChannelRow) table"
  p_channel_seq :: int
  p_channel_types :: "(int, ChannelTypeRow) table"
  p_channel_type_seq :: int
  p_workers :: "(string, WorkerRow) table"
  p_builds :: "(build_id, BuildRow) table"
  p_build_seq :: build_id
  p_logs :: "(build_id, BuildLogRow) table"
  p_periodic :: "(string, PeriodicRow) table"
  p_now :: timestamp
  p_faults :: "string option list"

text \<open>A database operation: a result and the pool afterwards.\<close>

type_synonym 'a db = "SqlitePool \<Rightarrow> (sqlx_error + 'a) \<times> SqlitePool"

definition exec :: "'a db \<Rightarrow> 'a db" where
  "exec f p =
     (case p_faults p of
        [] \<Rightarrow> f p
      | Some e # fs \<Rightarrow> (Err (SqlxError e), p\<lparr>p_faults := fs\<rparr>)
      | None # fs \<Rightarrow> f (p\<lparr>p_faults := fs\<rparr>))"

text \<open>\<open>SELECT\<close>: a value computed from the tables.\<close>

definition fetch :: "(SqlitePool \<Rightarrow> 'a) \<Rightarrow> 'a db" where
  "fetch g = exec (\<lambda>p. (Ok (g p), p))"

text \<open>\<open>UPDATE builds ... WHERE id = i\<close>; the result is \<open>rows_affected() > 0\<close>.\<close>

definition update_builds :: "build_id \<Rightarrow> (BuildRow \<Rightarrow> BuildRow) \<Rightarrow> SqlitePool \<Rightarrow> SqlitePool" where
  "update_builds i f p = p\<lparr>p_builds := update_row i f (p_builds p)\<rparr>"

definition update_build_row :: "build_id \<Rightarrow> (SqlitePool \<Rightarrow> BuildRow \<Rightarrow> BuildRow) \<Rightarrow> bool db" where
  "update_build_row i f =
     exec (\<lambda>p. (Ok (map_of (p_builds p) i \<noteq> None), update_builds i (f p) p))"

definition coalesce :: "'a option \<Rightarrow> 'a option \<Rightarrow> 'a option" where
  "coalesce new old = (case new of Some v \<Rightarrow> Some v | None \<Rightarrow> old)"

definition build_row :: "SqlitePool \<Rightarrow> build_id \<Rightarrow> BuildRow option" where
  "build_row p i = map_of (p_builds p) i"

definition build_state :: "SqlitePool \<Rightarrow> build_id \<Rightarrow> BuildState option" where
  "build_state p i = map_option b_state (build_row p i)"

interpretation builds: row_store build_row update_builds
  by unfold_locales (simp add: build_row_def update_builds_def map_of_update_row)

text \<open>
  A statement either fails and changes nothing but the schedule, or runs as if the
  database never failed. \<open>same_tables\<close> relates two pools that differ in the schedule only, of which some entries
  have been used up.
\<close>

definition same_tables :: "SqlitePool \<Rightarrow> SqlitePool \<Rightarrow> bool" where
  "same_tables p p' \<longleftrightarrow> (\<exists>n. p' = p\<lparr>p_faults := drop n (p_faults p)\<rparr>)"

lemma same_tables_refl [simp]: "same_tables p p"
  unfolding same_tables_def by (rule exI[of _ 0]) simp

lemma same_tables_fault: "p_faults p = f # fs \<Longrightarrow> same_tables p (p\<lparr>p_faults := fs\<rparr>)"
  unfolding same_tables_def by (rule exI[of _ 1]) simp

lemma same_tables_trans: "same_tables p p' \<Longrightarrow> same_tables p' p'' \<Longrightarrow> same_tables p p''"
  by (auto simp: same_tables_def drop_drop)

lemma same_tables_no_fault: "same_tables p p' \<Longrightarrow> p_faults p = [] \<Longrightarrow> p' = p"
  by (auto simp: same_tables_def)

lemma same_tables_fields:
  assumes "same_tables p p'"
  shows "p_builds p' = p_builds p" "p_build_seq p' = p_build_seq p" "p_logs p' = p_logs p"
    "p_users p' = p_users p" "p_workers p' = p_workers p" "p_now p' = p_now p"
    "p_channels p' = p_channels p" "p_channel_types p' = p_channel_types p"
    "p_periodic p' = p_periodic p" "p_role_caps p' = p_role_caps p"
    "p_user_roles p' = p_user_roles p" "p_role_scopes p' = p_role_scopes p"
    "p_api_keys p' = p_api_keys p" "p_roles p' = p_roles p"
    "p_channel_seq p' = p_channel_seq p" "p_channel_type_seq p' = p_channel_type_seq p"
    "p_tokens p' = p_tokens p" "p_token_seq p' = p_token_seq p" "p_api_key_seq p' = p_api_key_seq p"
    "p_robot_tokens p' = p_robot_tokens p" "p_robot_token_seq p' = p_robot_token_seq p"
  using assms by (auto simp: same_tables_def)

lemma exec_cases:
  obtains (fault) e p0 where "exec f p = (Err (SqlxError e), p0)" "same_tables p p0"
    "p_faults p \<noteq> []"
  | (run) p0 where "exec f p = f p0" "same_tables p p0" "p_faults p = [] \<Longrightarrow> p0 = p"
proof (cases "p_faults p")
  case Nil
  then show thesis using run[of p] by (simp add: exec_def)
next
  case (Cons a fs)
  then show thesis
    using run[of "p\<lparr>p_faults := fs\<rparr>"] fault[of _ "p\<lparr>p_faults := fs\<rparr>"]
    by (cases a) (simp_all add: exec_def same_tables_fault)
qed

lemma exec_no_faults [simp]: "p_faults p = [] \<Longrightarrow> exec f p = f p"
  by (simp add: exec_def)

lemma fetch_no_faults [simp]: "p_faults p = [] \<Longrightarrow> fetch g p = (Ok (g p), p)"
  by (simp add: fetch_def)

lemma fetch_same_tables: "fetch g p = (r, p') \<Longrightarrow> same_tables p p'"
  by (cases "\<lambda>p. (Ok (g p) :: sqlx_error + _, p)" p rule: exec_cases) (auto simp: fetch_def)

end
