(* ===== verification/Cbs_Build_Db.thy ===== *)
theory Cbs_Build_Db
  imports Cbs_Schema
begin

text \<open>
  The statements of \<open>db/builds.rs\<close>, one definition per function, and the worker-registry
  statements of \<open>db/workers.rs\<close> that the connection handler uses. The lemmas give the row
  each \<open>UPDATE\<close> leaves behind and show that an update touches its own build only.

  \<open>parse_json\<close> stands for \<open>serde_json::from_str::<Value>\<close>; a JSON value is held as text.
\<close>

record BuildRecord =
  br_id :: build_id
  br_descriptor :: string
  br_descriptor_version :: int
  br_user_email :: string
  br_is_robot :: bool
  br_priority :: string
  br_state :: BuildState
  br_worker_id :: "string option"
  br_trace_id :: "string option"
  br_error :: "string option"
  br_submitted_at :: timestamp
  br_queued_at :: timestamp
  br_started_at :: "timestamp option"
  br_finished_at :: "timestamp option"
  br_build_report :: "string option"
  br_channel_id :: "int option"
  br_channel_type_id :: "int option"
  br_channel_name :: "string option"
  br_channel_type_name :: "string option"

record BuildListRecord =
  bl_id :: build_id
  bl_descriptor :: string
  bl_descriptor_version :: int
  bl_user_email :: string
  bl_is_robot :: bool
  bl_priority :: string
  bl_state :: BuildState
  bl_worker_id :: "string option"
  bl_trace_id :: "string option"
  bl_error :: "string option"
  bl_submitted_at :: timestamp
  bl_queued_at :: timestamp
  bl_started_at :: "timestamp option"
  bl_finished_at :: "timestamp option"
  bl_channel_id :: "int option"
  bl_channel_type_id :: "int option"
  bl_channel_name :: "string option"
  bl_channel_type_name :: "string option"

text \<open>
  The constraints of the \<open>builds\<close> table an insert must meet: the \<open>CHECK\<close> on the priority
  and the foreign keys (\<open>foreign_keys = ON\<close>).
\<close>

definition fk_ok :: "('k \<times> 'r) list \<Rightarrow> 'k option \<Rightarrow> bool" where
  "fk_ok t k = (case k of None \<Rightarrow> True | Some i \<Rightarrow> map_of t i \<noteq> None)"

definition insert_build_ok ::
  "string \<Rightarrow> string \<Rightarrow> string option \<Rightarrow> int option \<Rightarrow> int option \<Rightarrow> SqlitePool \<Rightarrow> bool" where
  "insert_build_ok user_email priority periodic_task_id channel_id channel_type_id p \<longleftrightarrow>
     priority \<in> {''high'', ''normal'', ''low''} \<and>
     map_of (p_users p) user_email \<noteq> None \<and>
     fk_ok (p_periodic p) periodic_task_id \<and>
     fk_ok (p_channels p) channel_id \<and>
     fk_ok (p_channel_types p) channel_type_id"

definition new_row ::
  "string \<Rightarrow> string \<Rightarrow> string \<Rightarrow> string option \<Rightarrow> int option \<Rightarrow> int option \<Rightarrow> timestamp \<Rightarrow> BuildRow" where
  "new_row descriptor_json user_email priority periodic_task_id channel_id channel_type_id t =
     \<lparr>b_descriptor = descriptor_json, b_descriptor_version = 1, b_user_email = user_email,
      b_priority = priority, b_state = Queued, b_worker_id = None, b_trace_id = None,
      b_error = None, b_submitted_at = t, b_queued_at = t, b_started_at = None,
      b_finished_at = None, b_periodic_task_id = periodic_task_id, b_build_report = None,
      b_channel_id = channel_id, b_channel_type_id = channel_type_id\<rparr>"

definition insert_build ::
  "string \<Rightarrow> string \<Rightarrow> string \<Rightarrow> string option \<Rightarrow> int option \<Rightarrow> int option \<Rightarrow> build_id db" where
  "insert_build descriptor_json user_email priority periodic_task_id channel_id channel_type_id =
     exec (\<lambda>p.
       if insert_build_ok user_email priority periodic_task_id channel_id channel_type_id p then
         (Ok (p_build_seq p),
          p\<lparr>p_build_seq := p_build_seq p + 1,
            p_builds := (p_build_seq p, new_row descriptor_json user_email priority
              periodic_task_id channel_id channel_type_id (p_now p)) # p_builds p\<rparr>)
       else (Err (SqlxError ''constraint failed''), p))"

definition join_is_robot :: "SqlitePool \<Rightarrow> BuildRow \<Rightarrow> bool" where
  "join_is_robot p r = (case map_of (p_users p) (b_user_email r) of
     Some u \<Rightarrow> u_is_robot u | None \<Rightarrow> False)"

definition join_channel_name :: "SqlitePool \<Rightarrow> BuildRow \<Rightarrow> string option" where
  "join_channel_name p r =
     Option.bind (b_channel_id r) (\<lambda>c. map_option ch_name (map_of (p_channels p) c))"

definition join_channel_type_name :: "SqlitePool \<Rightarrow> BuildRow \<Rightarrow> string option" where
  "join_channel_type_name p r =
     Option.bind (b_channel_type_id r)
       (\<lambda>c. map_option ct_type_name (map_of (p_channel_types p) c))"

definition get_build :: "(string \<Rightarrow> string option) \<Rightarrow> build_id \<Rightarrow> BuildRecord option db" where
  "get_build parse_json i = fetch (\<lambda>p.
     map_option (\<lambda>r.
       \<lparr>br_id = i, br_descriptor = b_descriptor r, br_descriptor_version = b_descriptor_version r,
        br_user_email = b_user_email r, br_is_robot = join_is_robot p r,
        br_priority = b_priority r, br_state = b_state r, br_worker_id = b_worker_id r,
        br_trace_id = b_trace_id r, br_error = b_error r, br_submitted_at = b_submitted_at r,
        br_queued_at = b_queued_at r, br_started_at = b_started_at r,
        br_finished_at = b_finished_at r,
        br_build_report = Option.bind (b_build_report r) parse_json,
        br_channel_id = b_channel_id r, br_channel_type_id = b_channel_type_id r,
        br_channel_name = join_channel_name p r,
        br_channel_type_name = join_channel_type_name p r\<rparr>)
     (build_row p i))"

definition row_to_build_list_record :: "SqlitePool \<Rightarrow> build_id \<times> BuildRow \<Rightarrow> BuildListRecord" where
  "row_to_build_list_record p e = (case e of (i, r) \<Rightarrow>
     \<lparr>bl_id = i, bl_descriptor = b_descriptor r, bl_descriptor_version = b_descriptor_version r,
      bl_user_email = b_user_email r, bl_is_robot = join_is_robot p r,
      bl_priority = b_priority r, bl_state = b_state r, bl_worker_id = b_worker_id r,
      bl_trace_id = b_trace_id r, bl_error = b_error r, bl_submitted_at = b_submitted_at r,
      bl_queued_at = b_queued_at r, bl_started_at = b_started_at r,
      bl_finished_at = b_finished_at r, bl_channel_id = b_channel_id r,
      bl_channel_type_id = b_channel_type_id r, bl_channel_name = join_channel_name p r,
      bl_channel_type_name = join_channel_type_name p r\<rparr>)"

definition list_builds :: "string option \<Rightarrow> string option \<Rightarrow> BuildListRecord list db" where
  "list_builds user_filter state_filter = fetch (\<lambda>p.
     map (row_to_build_list_record p)
       (rev (sort_key fst (filter (\<lambda>(i, r).
          (case user_filter of Some u \<Rightarrow> b_user_email r = u | None \<Rightarrow> True) \<and>
          (case state_filter of Some s \<Rightarrow> build_state_display (b_state r) = s | None \<Rightarrow> True))
        (p_builds p)))))"

definition update_build_state :: "build_id \<Rightarrow> BuildState \<Rightarrow> string option \<Rightarrow> bool db" where
  "update_build_state i new_state err =
     update_build_row i (\<lambda>p r. r\<lparr>b_state := new_state, b_error := coalesce err (b_error r)\<rparr>)"

definition rollback_dispatch_to_queued :: "build_id \<Rightarrow> bool db" where
  "rollback_dispatch_to_queued i =
     update_build_row i (\<lambda>p r. r\<lparr>b_state := Queued, b_worker_id := None, b_trace_id := None,
       b_error := None, b_started_at := None, b_finished_at := None, b_build_report := None\<rparr>)"

definition insert_build_log_row :: "build_id \<Rightarrow> string \<Rightarrow> unit db" where
  "insert_build_log_row i log_path =
     exec (\<lambda>p.
       if map_of (p_logs p) i = None \<and> map_of (p_builds p) i \<noteq> None then
         (Ok (), p\<lparr>p_logs := (i, \<lparr>bl_log_path = log_path, bl_log_size = 0, bl_finished = False,
            bl_updated_at = p_now p\<rparr>) # p_logs p\<rparr>)
       else (Err (SqlxError ''constraint failed''), p))"

definition set_build_dispatched :: "build_id \<Rightarrow> string \<Rightarrow> string \<Rightarrow> bool db" where
  "set_build_dispatched i trace_id worker_id =
     update_build_row i (\<lambda>p r. r\<lparr>b_state := Dispatched, b_trace_id := Some trace_id,
       b_worker_id := Some worker_id\<rparr>)"

definition set_build_started :: "build_id \<Rightarrow> bool db" where
  "set_build_started i =
     update_build_row i (\<lambda>p r. r\<lparr>b_state := Started, b_started_at := Some (p_now p)\<rparr>)"

definition set_build_finished ::
  "build_id \<Rightarrow> BuildState \<Rightarrow> string option \<Rightarrow> string option \<Rightarrow> bool db" where
  "set_build_finished i state err build_report =
     update_build_row i (\<lambda>p r. r\<lparr>b_state := state, b_finished_at := Some (p_now p),
       b_error := coalesce err (b_error r), b_build_report := build_report\<rparr>)"

definition set_build_revoking :: "build_id \<Rightarrow> bool db" where
  "set_build_revoking i = update_build_row i (\<lambda>p r. r\<lparr>b_state := Revoking\<rparr>)"

definition set_build_log_finished :: "build_id \<Rightarrow> unit db" where
  "set_build_log_finished i =
     exec (\<lambda>p. (Ok (), p\<lparr>p_logs :=
       update_row i (\<lambda>r. r\<lparr>bl_finished := True, bl_updated_at := p_now p\<rparr>) (p_logs p)\<rparr>))"

section \<open>The worker registry\<close>

definition insert_worker ::
  "string \<Rightarrow> string \<Rightarrow> string \<Rightarrow> int \<Rightarrow> string \<Rightarrow> unit db" where
  "insert_worker i name a api_key_id created_by =
     exec (\<lambda>p.
       if a \<notin> {''x86_64'', ''aarch64''} \<or> map_of (p_workers p) i \<noteq> None then
         (Err (SqlxError ''constraint failed''), p)
       else if list_ex (\<lambda>(j, w). w_name w = name \<or> w_api_key_id w = api_key_id) (p_workers p) then
         (Err (UniqueViolation ''workers''), p)
       else if map_of (p_api_keys p) api_key_id = None \<or> map_of (p_users p) created_by = None then
         (Err (SqlxError ''FOREIGN KEY constraint failed''), p)
       else
         (Ok (), p\<lparr>p_workers := (i, \<lparr>w_name = name, w_arch = a, w_api_key_id = api_key_id,
            w_created_by = created_by, w_created_at = p_now p, w_last_seen = None\<rparr>)
            # p_workers p\<rparr>))"

definition get_worker_by_id :: "string \<Rightarrow> (string \<times> WorkerRow) option db" where
  "get_worker_by_id i = fetch (\<lambda>p. find (\<lambda>(j, w). j = i) (p_workers p))"

definition get_worker_by_api_key_id :: "int \<Rightarrow> (string \<times> WorkerRow) option db" where
  "get_worker_by_api_key_id k = fetch (\<lambda>p. find (\<lambda>(j, w). w_api_key_id w = k) (p_workers p))"

definition db_list_workers :: "(string \<times> WorkerRow) list db" where
  "db_list_workers = fetch (\<lambda>p. sort_key (\<lambda>(j, w). w_created_at w) (p_workers p))"

definition delete_worker :: "string \<Rightarrow> bool db" where
  "delete_worker i =
     exec (\<lambda>p. (Ok (map_of (p_workers p) i \<noteq> None),
       p\<lparr>p_workers := AList.delete i (p_workers p)\<rparr>))"

definition update_last_seen :: "string \<Rightarrow> bool db" where
  "update_last_seen i =
     exec (\<lambda>p. (Ok (map_of (p_workers p) i \<noteq> None),
       p\<lparr>p_workers := update_row i (\<lambda>w. w\<lparr>w_last_seen := Some (p_now p)\<rparr>) (p_workers p)\<rparr>))"

definition update_api_key_id :: "string \<Rightarrow> int \<Rightarrow> unit db" where
  "update_api_key_id i new_api_key_id =
     exec (\<lambda>p.
       if map_of (p_workers p) i \<noteq> None \<and>
          ((\<exists>(j, w)\<in>set (p_workers p). j \<noteq> i \<and> w_api_key_id w = new_api_key_id) \<or>
           map_of (p_api_keys p) new_api_key_id = None) then
         (Err (SqlxError ''constraint failed''), p)
       else (Ok (), p\<lparr>p_workers :=
          update_row i (\<lambda>w. w\<lparr>w_api_key_id := new_api_key_id\<rparr>) (p_workers p)\<rparr>))"

section \<open>Effects of the statements\<close>

text \<open>
  \<open>same_shape\<close>: the rows exist in both pools with the same identifiers, priorities,
  descriptors and submitters, and so do the log rows; only the life-cycle columns may
  differ.
\<close>

definition fixed_columns :: "BuildRow \<Rightarrow> string \<times> string \<times> string \<times> timestamp" where
  "fixed_columns r = (b_priority r, b_descriptor r, b_user_email r, b_queued_at r)"

definition same_shape :: "SqlitePool \<Rightarrow> SqlitePool \<Rightarrow> bool" where
  "same_shape p p' \<longleftrightarrow>
     map (\<lambda>(i, r). (i, fixed_columns r)) (p_builds p') =
       map (\<lambda>(i, r). (i, fixed_columns r)) (p_builds p) \<and>
     map fst (p_logs p') = map fst (p_logs p) \<and>
     p_build_seq p' = p_build_seq p \<and> p_users p' = p_users p \<and> p_now p' = p_now p"

lemma same_shape_refl [simp]: "same_shape p p"
  by (simp add: same_shape_def)

lemma same_shape_trans: "same_shape p p' \<Longrightarrow> same_shape p' p'' \<Longrightarrow> same_shape p p''"
  by (simp add: same_shape_def)

lemma same_tables_same_shape: "same_tables p p' \<Longrightarrow> same_shape p p'"
  by (simp add: same_shape_def same_tables_fields)

lemma same_shape_keys: "same_shape p p' \<Longrightarrow> map fst (p_builds p') = map fst (p_builds p)"
  unfolding same_shape_def
  by (metis (no_types, lifting) case_prod_unfold fst_conv list.map_comp comp_def map_cong)

lemma same_shape_row:
  assumes "same_shape p p'"
  shows "map_option fixed_columns (build_row p' i) = map_option fixed_columns (build_row p i)"
proof -
  have "map_of (map (\<lambda>(i, r). (i, fixed_columns r)) t) i = map_option fixed_columns (map_of t i)"
    for t by (induction t) auto
  from this[of "p_builds p"] this[of "p_builds p'"] assms show ?thesis
    by (simp add: same_shape_def build_row_def)
qed

lemma same_shape_update:
  "(\<And>r. fixed_columns (f r) = fixed_columns r) \<Longrightarrow> same_shape p (update_builds i f p)"
  by (auto simp: same_shape_def update_builds_def update_row_def)

lemma update_build_row_cases:
  assumes "update_build_row i f p = (r, p')"
  obtains (fault) e where "r = Err (SqlxError e)" "same_tables p p'" "p_faults p \<noteq> []"
  | (run) p0 where "r = Ok (build_row p i \<noteq> None)" "same_tables p p0"
      "p' = update_builds i (f p0) p0" "p_faults p = [] \<Longrightarrow> p0 = p"
proof (cases "\<lambda>p. (Ok (map_of (p_builds p) i \<noteq> None) :: sqlx_error + bool, update_builds i (f p) p)" p
    rule: exec_cases)
  case (fault e p0)
  then show thesis using that(1)[of e] assms by (simp add: update_build_row_def)
next
  case (run p0)
  then show thesis
    using that(2)[of p0] assms by (simp add: update_build_row_def build_row_def same_tables_fields)
qed

lemma build_state_update_builds:
  "build_state (update_builds i f p) j =
     (if j = i then map_option (b_state \<circ> f) (build_row p i) else build_state p j)"
  by (simp add: build_state_def builds.row_upd option.map_comp)

lemma update_builds_simps [simp]:
  "p_faults (update_builds i f p) = p_faults p" "p_logs (update_builds i f p) = p_logs p"
  "p_now (update_builds i f p) = p_now p" "p_build_seq (update_builds i f p) = p_build_seq p"
  "p_users (update_builds i f p) = p_users p" "p_workers (update_builds i f p) = p_workers p"
  "p_channels (update_builds i f p) = p_channels p"
  "p_channel_types (update_builds i f p) = p_channel_types p"
  "p_periodic (update_builds i f p) = p_periodic p"
  by (simp_all add: update_builds_def)

lemmas build_updates = update_build_state_def rollback_dispatch_to_queued_def
  set_build_dispatched_def set_build_started_def set_build_finished_def set_build_revoking_def

lemma update_build_row_shape:
  assumes "update_build_row i f p = (r, p')"
    and "\<And>p r. fixed_columns (f p r) = fixed_columns r"
  shows "same_shape p p'"
  using assms(1)
proof (cases rule: update_build_row_cases)
  case (run p0)
  then show ?thesis
    by (metis assms(2) same_shape_trans same_shape_update same_tables_same_shape)
qed (simp add: same_tables_same_shape)

lemma build_updates_shape:
  "update_build_state i st err p = (r, p') \<Longrightarrow> same_shape p p'"
  "rollback_dispatch_to_queued i p = (r, p') \<Longrightarrow> same_shape p p'"
  "set_build_dispatched i t w p = (r, p') \<Longrightarrow> same_shape p p'"
  "set_build_started i p = (r, p') \<Longrightarrow> same_shape p p'"
  "set_build_finished i st err rep p = (r, p') \<Longrightarrow> same_shape p p'"
  "set_build_revoking i p = (r, p') \<Longrightarrow> same_shape p p'"
  unfolding build_updates by (erule update_build_row_shape; simp add: fixed_columns_def)+

lemma log_finished_shape: "set_build_log_finished i p = (r, p') \<Longrightarrow> same_shape p p'"
  unfolding set_build_log_finished_def
  by (auto simp: exec_def same_shape_def split: list.splits option.splits)

lemma get_build_shape: "get_build pj i p = (r, p') \<Longrightarrow> same_shape p p'"
  unfolding get_build_def by (drule fetch_same_tables) (rule same_tables_same_shape)

lemma last_seen_shape: "update_last_seen i p = (r, p') \<Longrightarrow> same_shape p p'"
  unfolding update_last_seen_def
  by (auto simp: exec_def same_shape_def split: list.splits option.splits)

lemmas shapes = build_updates_shape log_finished_shape get_build_shape last_seen_shape

end
