(* ===== verification/Cbs_App.thy ===== *)
theory Cbs_App
  imports Cbs_Queue Cbs_Build_Db
begin

text \<open>
  The shared application state (\<open>app.rs\<close>) with the small effects the handlers are built
  from: outbound channels, cancellation tokens, spawned timers, the build-log writer
  (\<open>logs/writer.rs\<close>) and the component archive (\<open>components/tarball.rs\<close>).

  Code outside the repository enters as the record \<open>env\<close>: random UUIDs (the \<open>n\<close>-th
  trace id, the id of the \<open>n\<close>-th connection), JSON encoding and decoding, the \<open>tar\<close>/\<open>flate2\<close> archive builder (given the archive so far, the
  components directory and the component name) and SHA-256.
\<close>

section \<open>External code\<close>

datatype io_error = IoError string

record env =
  e_uuid :: "nat \<Rightarrow> string"
  e_connection_id :: "nat \<Rightarrow> conn_id"
  e_descriptor_to_string :: "BuildDescriptor \<Rightarrow> string + string"
  e_descriptor_from_str :: "string \<Rightarrow> string + BuildDescriptor"
  e_value_from_str :: "string \<Rightarrow> string option"
  e_value_to_string :: "string \<Rightarrow> string option"
  e_worker_message_from_str :: "string \<Rightarrow> string + WorkerMessage"
  e_append_dir_all :: "string \<Rightarrow> string \<Rightarrow> string \<Rightarrow> io_error + string"
  e_finish_archive :: "string \<Rightarrow> io_error + string"
  e_sha256 :: "string \<Rightarrow> string"

section \<open>Application state\<close>

record TimeoutsConfig =
  dispatch_ack_timeout_secs :: int
  revoke_ack_timeout_secs :: int
  liveness_grace_period_secs :: nat

record ServerConfig =
  cfg_timeouts :: TimeoutsConfig
  cfg_components_dir :: string
  cfg_metrics_enabled :: bool

text \<open>
  A spawned task sleeps until its deadline. The dispatch-acknowledgement timer carries
  the token that cancels it.
\<close>

datatype task =
  AckTimer build_id cancel_token timestamp
| RevokeTimer build_id timestamp
| GraceMonitor conn_id timestamp
| SpawnedDispatch

text \<open>The outcome of a file operation; a failed write may have written a part.\<close>

datatype io_outcome = IoOk | IoFail string nat

text \<open>
  \<open>worker_senders\<close> maps a connection to whether the receiving half of its channel is
  still alive; \<open>outbox\<close> is the sequence of frames accepted by the channels.
  \<open>log_watchers\<close> counts the notifications of each watch channel. \<open>log_files\<close> holds the
  contents of \<open>builds/<id>.log\<close>.
\<close>

record AppState =
  pool :: SqlitePool
  config :: ServerConfig
  queue :: BuildQueue
  components :: "string list"
  worker_senders :: "(conn_id, bool) hashmap"
  outbox :: "(conn_id \<times> ws_frame) list"
  log_watchers :: "(build_id, nat) hashmap"
  log_writer :: "(build_id, (nat \<times> nat) list) hashmap"
  log_files :: "(build_id, string) hashmap"
  io_script :: "io_outcome list"
  uuids :: nat
  next_token :: cancel_token
  cancelled :: "cancel_token list"
  tasks :: "task list"

definition on_pool :: "'a db \<Rightarrow> AppState \<Rightarrow> (sqlx_error + 'a) \<times> AppState" where
  "on_pool f st = (case f (pool st) of (r, p) \<Rightarrow> (r, st\<lparr>pool := p\<rparr>))"

definition with_queue :: "(BuildQueue \<Rightarrow> BuildQueue) \<Rightarrow> AppState \<Rightarrow> AppState" where
  "with_queue f st = st\<lparr>queue := f (queue st)\<rparr>"

definition update_active :: "build_id \<Rightarrow> (ActiveBuild \<Rightarrow> ActiveBuild) \<Rightarrow> BuildQueue \<Rightarrow> BuildQueue" where
  "update_active i f q = q\<lparr>q_active := update_row i f (q_active q)\<rparr>"

definition remove_active :: "build_id \<Rightarrow> BuildQueue \<Rightarrow> BuildQueue" where
  "remove_active i q = q\<lparr>q_active := AList.delete i (q_active q)\<rparr>"

definition remove_watcher :: "build_id \<Rightarrow> AppState \<Rightarrow> AppState" where
  "remove_watcher i st = st\<lparr>log_watchers := AList.delete i (log_watchers st)\<rparr>"

definition cancel :: "cancel_token \<Rightarrow> AppState \<Rightarrow> AppState" where
  "cancel t st = st\<lparr>cancelled := t # cancelled st\<rparr>"

definition spawn :: "task \<Rightarrow> AppState \<Rightarrow> AppState" where
  "spawn t st = st\<lparr>tasks := t # tasks st\<rparr>"

definition now :: "AppState \<Rightarrow> timestamp" where
  "now st = p_now (pool st)"

text \<open>\<open>tx.send\<close> on the sender registered for a connection; \<open>None\<close> when there is none.\<close>

definition tx_send :: "conn_id \<Rightarrow> ws_frame \<Rightarrow> AppState \<Rightarrow> bool option \<times> AppState" where
  "tx_send cid frame st =
     (case map_of (worker_senders st) cid of
        None \<Rightarrow> (None, st)
      | Some False \<Rightarrow> (Some False, st)
      | Some True \<Rightarrow> (Some True, st\<lparr>outbox := outbox st @ [(cid, frame)]\<rparr>))"

section \<open>Component archives\<close>

definition hex_digit :: "nat \<Rightarrow> char" where
  "hex_digit n = (if n < 10 then char_of (48 + n) else char_of (87 + n))"

definition hex_encode :: "string \<Rightarrow> string" where
  "hex_encode bytes = concat (map (\<lambda>b.
     let n = (of_char b :: nat) in [hex_digit (n div 16), hex_digit (n mod 16)]) bytes)"

fun append_components :: "env \<Rightarrow> string \<Rightarrow> string \<Rightarrow> string list \<Rightarrow> io_error + string" where
  "append_components env dir archive [] = Ok archive"
| "append_components env dir archive (name # names) =
     (case e_append_dir_all env archive dir name of
        Err e \<Rightarrow> Err e
      | Ok archive' \<Rightarrow> append_components env dir archive' names)"

definition pack_components ::
  "env \<Rightarrow> string \<Rightarrow> string list \<Rightarrow> io_error + (string \<times> string)" where
  "pack_components env dir names =
     (case append_components env dir [] names of
        Err e \<Rightarrow> Err e
      | Ok archive \<Rightarrow>
        (case e_finish_archive env archive of
           Err e \<Rightarrow> Err e
         | Ok gz_bytes \<Rightarrow> Ok (gz_bytes, hex_encode (e_sha256 env gz_bytes))))"

end
