(* ===== verification/Cbs_Samples.thy ===== *)
theory Cbs_Samples
  imports Cbs_App
begin

text \<open>
  Concrete inputs for the theorems with hypotheses: a descriptor with one component, an
  environment in which every outside operation succeeds, a database with one user, one
  channel and one worker, and a configuration with the default timeouts.
\<close>

definition sample_descriptor :: BuildDescriptor where
  "sample_descriptor = \<lparr>d_version = ''19.2.3'', d_channel = Some ''ces'', d_version_type = Some Dev,
     d_signed_off_by = \<lparr>sob_user = ''Alice'', sob_email = ''alice''\<rparr>,
     d_dst_image = \<lparr>img_name = ''ces/ceph'', img_tag = ''v19''\<rparr>,
     d_components = [\<lparr>comp_name = ''ceph'', comp_git_ref = ''main'', comp_repo = None\<rparr>],
     d_build = \<lparr>tgt_distro = ''rockylinux'', tgt_os_version = ''el9'', tgt_artifact_type = ''rpm'',
       tgt_arch = X86_64\<rparr>\<rparr>"

definition sample_env :: env where
  "sample_env = \<lparr>e_uuid = (\<lambda>n. replicate n CHR ''u''), e_connection_id = (\<lambda>n. replicate n CHR ''c''),
     e_descriptor_to_string = (\<lambda>d. if d = sample_descriptor then Ok ''D'' else Err ''unsupported''),
     e_descriptor_from_str = (\<lambda>s. if s = ''D'' then Ok sample_descriptor else Err ''syntax''),
     e_value_from_str = Some, e_value_to_string = Some,
     e_worker_message_from_str = (\<lambda>s. if s = ''hello'' then Ok (Hello 2 X86_64 8 16000 None)
       else if s = ''accepted'' then Ok (BuildAccepted 1)
       else if s = ''stopping'' then Ok (WorkerStopping ''sigterm'') else Err ''syntax''),
     e_append_dir_all = (\<lambda>archive dir name. Ok (archive @ name)),
     e_finish_archive = Ok, e_sha256 = (\<lambda>bytes. bytes)\<rparr>"

definition sample_config :: ServerConfig where
  "sample_config = \<lparr>cfg_timeouts = \<lparr>dispatch_ack_timeout_secs = 15, revoke_ack_timeout_secs = 30,
     liveness_grace_period_secs = 90\<rparr>, cfg_components_dir = ''components'', cfg_metrics_enabled = False\<rparr>"

definition sample_worker :: WorkerRow where
  "sample_worker = \<lparr>w_name = ''builder'', w_arch = ''x86_64'', w_api_key_id = 1, w_created_by = ''alice'',
     w_created_at = 0, w_last_seen = None\<rparr>"

definition sample_row :: "BuildState \<Rightarrow> BuildRow" where
  "sample_row s = \<lparr>b_descriptor = ''D'', b_descriptor_version = 1, b_user_email = ''alice'',
     b_priority = ''normal'', b_state = s, b_worker_id = None, b_trace_id = None, b_error = None,
     b_submitted_at = 1, b_queued_at = 1, b_started_at = None, b_finished_at = None,
     b_periodic_task_id = None, b_build_report = None, b_channel_id = None, b_channel_type_id = None\<rparr>"

definition sample_log :: BuildLogRow where
  "sample_log = \<lparr>bl_log_path = ''builds/1.log'', bl_log_size = 0, bl_finished = False, bl_updated_at = 1\<rparr>"

definition sample_pool :: "(build_id \<times> BuildState) list \<Rightarrow> SqlitePool" where
  "sample_pool builds = \<lparr>p_users = [(''alice'', \<lparr>u_name = ''Alice'', u_active = True, u_created_at = 0,
       u_updated_at = 0, u_default_channel_id = Some 1, u_is_robot = False, u_robot_description = None,
       u_first_login_at = Some 0\<rparr>)],
     p_tokens = [], p_token_seq = 1, p_api_keys = [], p_api_key_seq = 1, p_robot_tokens = [],
     p_robot_token_seq = 1, p_roles = [(''builder'', \<lparr>r_description = '''', r_builtin = False, r_created_at = 0\<rparr>)],
     p_role_caps = [(''builder'', ''builds:create'')], p_user_roles = [(''alice'', ''builder'')],
     p_role_scopes = [(''builder'', ''channel'', ''ces/*'')],
     p_channels = [(1, \<lparr>ch_name = ''ces'', ch_description = '''', ch_default_type_id = Some 1,
       ch_deleted_at = None, ch_created_at = 0, ch_updated_at = 0\<rparr>)], p_channel_seq = 2,
     p_channel_types = [(1, \<lparr>ct_channel_id = 1, ct_type_name = ''dev'', ct_project = ''ces'',
       ct_prefix_template = '''', ct_deleted_at = None, ct_created_at = 0, ct_updated_at = 0\<rparr>)],
     p_channel_type_seq = 2,
     p_workers = [(''w1'', sample_worker)],
     p_builds = map (\<lambda>(i, s). (i, sample_row s)) builds, p_build_seq = 10,
     p_logs = map (\<lambda>(i, s). (i, sample_log)) builds,
     p_periodic = [], p_now = 100, p_faults = []\<rparr>"

text \<open>The server at rest over a database.\<close>

definition sample_app :: "(build_id \<times> BuildState) list \<Rightarrow> AppState" where
  "sample_app builds = \<lparr>pool = sample_pool builds, config = sample_config, queue = queue_new,
     components = [''ceph''], worker_senders = [], outbox = [], log_watchers = [], log_writer = [],
     log_files = [], io_script = [], uuids = 0, next_token = 0, cancelled = [], tasks = []\<rparr>"

text \<open>A worker that is connected and idle with build 1 pending, and one that is working on it.\<close>

definition sample_queued :: QueuedBuild where
  "sample_queued = \<lparr>qb_build_id = 1, qb_priority = Normal, qb_descriptor = sample_descriptor,
     qb_user_email = ''alice'', qb_queued_at = 1\<rparr>"

definition sample_active :: ActiveBuild where
  "sample_active = \<lparr>ab_build_id = 1, ab_connection_id = ''c'', ab_dispatched_at = 100, ab_trace_id = [],
     ab_descriptor = sample_descriptor, ab_priority = Normal, ab_ack_cancel = 0,
     ab_receipt = AwaitingReceipt\<rparr>"

definition sample_workers :: "(conn_id, WorkerState) hashmap" where
  "sample_workers = [(''c'', Connected ''w1'' ''builder'' X86_64 8 16000 None)]"

definition sample_idle :: AppState where
  "sample_idle = (sample_app [(1, Queued)])\<lparr>queue := queue_new\<lparr>q_normal := [sample_queued],
     q_workers := sample_workers\<rparr>, worker_senders := [(''c'', True)]\<rparr>"

definition sample_busy :: "BuildState \<Rightarrow> AppState" where
  "sample_busy s = (sample_app [(1, s)])\<lparr>queue := queue_new\<lparr>q_active := [(1, sample_active)],
     q_workers := sample_workers\<rparr>, worker_senders := [(''c'', True)], next_token := 1,
     tasks := [AckTimer 1 0 115]\<rparr>"

lemmas sample_defs = sample_app_def sample_pool_def sample_env_def sample_config_def
  sample_row_def sample_log_def sample_worker_def sample_descriptor_def sample_queued_def
  sample_active_def sample_workers_def sample_idle_def sample_busy_def queue_new_def

end
