(* ===== verification/Cbs_Logs.thy ===== *)
theory Cbs_Logs
  imports Cbs_Samples
begin

text \<open>
  Build logs (\<open>logs/writer.rs\<close>): appending output lines to the log file of a build, the
  in-memory index from line sequence numbers to file offsets, and its lookup by binary
  search. The file system answers through \<open>io_script\<close>: one outcome per file operation,
  success once the script is used up.
\<close>

definition io_op :: "AppState \<Rightarrow> io_outcome \<times> AppState" where
  "io_op st = (case io_script st of [] \<Rightarrow> (IoOk, st) | r # rs \<Rightarrow> (r, st\<lparr>io_script := rs\<rparr>))"

definition log_content :: "AppState \<Rightarrow> build_id \<Rightarrow> string" where
  "log_content st i = (case map_of (log_files st) i of Some s \<Rightarrow> s | None \<Rightarrow> [])"

definition append_log :: "build_id \<Rightarrow> string \<Rightarrow> AppState \<Rightarrow> AppState" where
  "append_log i s st = st\<lparr>log_files := AList.update i (log_content st i @ s) (log_files st)\<rparr>"

definition update_build_log_size :: "build_id \<Rightarrow> nat \<Rightarrow> unit db" where
  "update_build_log_size i log_size =
     exec (\<lambda>p. (Ok (), p\<lparr>p_logs :=
       update_row i (\<lambda>r. r\<lparr>bl_log_size := log_size, bl_updated_at := p_now p\<rparr>) (p_logs p)\<rparr>))"

text \<open>The write loop: one index entry and one \<open>write_all\<close> per line.\<close>

fun write_lines ::
  "build_id \<Rightarrow> nat \<Rightarrow> nat \<Rightarrow> (nat \<times> nat) list \<Rightarrow> string list \<Rightarrow> AppState \<Rightarrow>
     (io_error + (nat \<times> nat) list \<times> nat) \<times> AppState" where
  "write_lines i seq offset new_entries [] st = (Ok (new_entries, offset), st)"
| "write_lines i seq offset new_entries (line # lines) st =
     (let buf = line @ ''\<newline>'' in
      case io_op st of
        (IoFail e n, st) \<Rightarrow> (Err (IoError e), append_log i (take n buf) st)
      | (IoOk, st) \<Rightarrow>
          write_lines i (seq + 1) (offset + length buf) (new_entries @ [(seq, offset)]) lines
            (append_log i buf st))"

definition notify_watcher :: "build_id \<Rightarrow> AppState \<Rightarrow> AppState" where
  "notify_watcher i st =
     (case map_of (log_watchers st) i of
        Some n \<Rightarrow> st\<lparr>log_watchers := AList.update i (n + 1) (log_watchers st)\<rparr>
      | None \<Rightarrow> st)"

definition extend_index :: "build_id \<Rightarrow> (nat \<times> nat) list \<Rightarrow> AppState \<Rightarrow> AppState" where
  "extend_index i new_entries st =
     (let entries = (case map_of (log_writer st) i of Some es \<Rightarrow> es | None \<Rightarrow> [])
      in st\<lparr>log_writer := AList.update i (entries @ new_entries) (log_writer st)\<rparr>)"

definition write_build_output ::
  "build_id \<Rightarrow> nat \<Rightarrow> string list \<Rightarrow> AppState \<Rightarrow> (io_error + unit) \<times> AppState" where
  "write_build_output i start_seq lines st =
     (if lines = [] then (Ok (), st)
      else case io_op st of
        (IoFail e _, st) \<Rightarrow> (Err (IoError e), st)
      | (IoOk, st) \<Rightarrow>
        (case io_op st of
           (IoFail e _, st) \<Rightarrow> (Err (IoError e), st)
         | (IoOk, st) \<Rightarrow>
           (let st = append_log i [] st in
            case io_op st of
              (IoFail e _, st) \<Rightarrow> (Err (IoError e), st)
            | (IoOk, st) \<Rightarrow>
              (case write_lines i start_seq (length (log_content st i)) [] lines st of
                 (Err e, st) \<Rightarrow> (Err e, st)
               | (Ok (new_entries, offset), st) \<Rightarrow>
                 (case io_op st of
                    (IoFail e _, st) \<Rightarrow> (Err (IoError e), st)
                  | (IoOk, st) \<Rightarrow>
                    (let st = extend_index i new_entries st;
                         st = notify_watcher i st;
                         st = snd (on_pool (update_build_log_size i offset) st)
                     in (Ok (), st)))))))"

definition finish_build_log :: "build_id \<Rightarrow> AppState \<Rightarrow> AppState" where
  "finish_build_log i st =
     (let st = st\<lparr>log_writer := AList.delete i (log_writer st)\<rparr>
      in snd (on_pool (set_build_log_finished i) st))"

text \<open>\<open>slice::binary_search_by_key\<close> on the first components.\<close>

function bsearch :: "(nat \<times> nat) list \<Rightarrow> nat \<Rightarrow> nat \<Rightarrow> nat \<Rightarrow> nat option" where
  "bsearch entries s lo hi =
     (if lo < hi then
        (let mid = lo + (hi - lo) div 2; k = fst (entries ! mid) in
         if k = s then Some mid
         else if k < s then bsearch entries s (mid + 1) hi
         else bsearch entries s lo mid)
      else None)"
  by pat_completeness auto
termination
  by (relation "measure (\<lambda>(_, _, lo, hi). hi - lo)") auto

declare bsearch.simps [simp del]

definition get_seq_offset :: "AppState \<Rightarrow> build_id \<Rightarrow> nat \<Rightarrow> nat option" where
  "get_seq_offset st i s =
     (case map_of (log_writer st) i of
        None \<Rightarrow> None
      | Some entries \<Rightarrow>
        (case bsearch entries s 0 (length entries) of
           Some idx \<Rightarrow> Some (snd (entries ! idx))
         | None \<Rightarrow> None))"

section \<open>Binary search\<close>

lemma bsearch_Some:
  "bsearch es s lo hi = Some m \<Longrightarrow> lo \<le> m \<and> m < hi \<and> fst (es ! m) = s"
proof (induction es s lo hi rule: bsearch.induct)
  case (1 es s lo hi)
  show ?case
    using 1(3) 1(1)[OF _ refl refl] 1(2)[OF _ refl refl]
    by (subst (asm) bsearch.simps) (fastforce simp: Let_def split: if_splits)
qed

lemma bsearch_None:
  "bsearch es s lo hi = None \<Longrightarrow> sorted_wrt (<) (map fst es) \<Longrightarrow> hi \<le> length es \<Longrightarrow>
     lo \<le> m \<Longrightarrow> m < hi \<Longrightarrow> fst (es ! m) \<noteq> s"
proof (induction es s lo hi arbitrary: m rule: bsearch.induct)
  case (1 es s lo hi)
  let ?mid = "lo + (hi - lo) div 2"
  have mono: "\<And>i j. i < j \<Longrightarrow> j < length es \<Longrightarrow> fst (es ! i) < fst (es ! j)"
    using 1(4) by (simp add: sorted_wrt_iff_nth_less)
  have lt: "lo < hi" "?mid < hi" using 1(6,7) by auto
  then have ne: "fst (es ! ?mid) \<noteq> s"
    using 1(3) by (auto simp: bsearch.simps[of es s lo hi] Let_def)
  show ?case
  proof (cases "fst (es ! ?mid) < s")
    case True
    have "m \<le> ?mid \<Longrightarrow> fst (es ! m) \<le> fst (es ! ?mid)"
      using mono[of m ?mid] lt 1(5) by (cases "m = ?mid") auto
    moreover have "?mid + 1 \<le> m \<Longrightarrow> fst (es ! m) \<noteq> s"
      using 1(1)[OF lt(1) refl refl ne True] 1(3-7) lt ne True
      by (auto simp: bsearch.simps[of es s lo hi] Let_def)
    ultimately show ?thesis using True by (cases "m \<le> ?mid") auto
  next
    case False
    have "?mid \<le> m \<Longrightarrow> fst (es ! ?mid) \<le> fst (es ! m)"
      using mono[of ?mid m] 1(5,7) by (cases "m = ?mid") auto
    moreover have "m < ?mid \<Longrightarrow> fst (es ! m) \<noteq> s"
      using 1(2)[OF lt(1) refl refl ne False] 1(3-7) lt ne False
      by (auto simp: bsearch.simps[of es s lo hi] Let_def)
    ultimately show ?thesis using False ne by (cases "?mid \<le> m") auto
  qed
qed

lemma get_seq_offset_map_of:
  assumes "map_of (log_writer st) i = Some es" and "sorted_wrt (<) (map fst es)"
  shows "get_seq_offset st i s = map_of es s"
proof (cases "bsearch es s 0 (length es)")
  case None
  have "s \<notin> set (map fst es)"
    using bsearch_None[OF None assms(2)] by (auto simp: in_set_conv_nth) (metis fst_conv)
  then have "map_of es s = None" by (simp add: map_of_eq_None_iff)
  then show ?thesis using None assms(1) by (simp add: get_seq_offset_def)
next
  case (Some m)
  then have m: "m < length es" "fst (es ! m) = s" using bsearch_Some by fastforce+
  have "distinct (map fst es)" using assms(2) strict_sorted_iff by blast
  then have "map_of es s = Some (snd (es ! m))"
    using m by (metis map_of_is_SomeI nth_mem prod.collapse)
  then show ?thesis using Some assms(1) by (simp add: get_seq_offset_def)
qed

section \<open>What a write leaves behind\<close>

abbreviation with_newline :: "string \<Rightarrow> string" where
  "with_newline line \<equiv> line @ ''\<newline>''"

primrec line_index :: "nat \<Rightarrow> nat \<Rightarrow> string list \<Rightarrow> (nat \<times> nat) list" where
  "line_index seq offset [] = []"
| "line_index seq offset (l # ls) =
     (seq, offset) # line_index (seq + 1) (offset + length (with_newline l)) ls"

definition log_text :: "string list \<Rightarrow> string" where
  "log_text lines = concat (map with_newline lines)"

lemma line_index_fst: "map fst (line_index seq off ls) = [seq ..< seq + length ls]"
  by (induction ls arbitrary: seq off) (simp_all add: upt_conv_Cons del: upt_Suc)

lemma line_index_lookup:
  "k < length ls \<Longrightarrow>
     map_of (line_index seq off ls) (seq + k) = Some (off + length (log_text (take k ls)))"
proof (induction ls arbitrary: seq off k)
  case (Cons l ls)
  show ?case
  proof (cases k)
    case (Suc j)
    then show ?thesis
      using Cons.IH[of j "seq + 1" "off + length (with_newline l)"] Cons.prems
      by (simp add: log_text_def)
  qed (simp add: log_text_def)
qed simp

lemma log_text_split:
  "k < length ls \<Longrightarrow>
     log_text ls = log_text (take k ls) @ with_newline (ls ! k) @ log_text (drop (Suc k) ls)"
proof -
  assume k: "k < length ls"
  have "log_text ls = log_text (take k ls @ ls ! k # drop (Suc k) ls)"
    using k by (simp add: id_take_nth_drop[symmetric])
  then show ?thesis by (simp add: log_text_def)
qed

definition core ::
  "AppState \<Rightarrow> BuildQueue \<times> task list \<times> cancel_token list \<times> cancel_token \<times>
     (build_id, BuildRow) table \<times> build_id \<times> timestamp \<times> build_id list" where
  "core st = (queue st, tasks st, cancelled st, next_token st, p_builds (pool st),
     p_build_seq (pool st), p_now (pool st), map fst (p_logs (pool st)))"

lemma core_io_op: "io_op st = (r, st') \<Longrightarrow> core st' = core st \<and> pool st' = pool st"
  by (auto simp: io_op_def core_def split: list.splits)

lemma core_append_log [simp]:
  "core (append_log i s st) = core st" "pool (append_log i s st) = pool st"
  "log_writer (append_log i s st) = log_writer st"
  by (simp_all add: append_log_def core_def)

lemma append_log_content:
  "log_content (append_log i s st) j = (if j = i then log_content st i @ s else log_content st j)"
  by (simp add: append_log_def log_content_def map_of_update_apply)

lemma io_op_other:
  "io_op st = (r, st') \<Longrightarrow> log_files st' = log_files st \<and> log_writer st' = log_writer st"
  by (auto simp: io_op_def split: list.splits)

lemma io_op_content: "io_op st = (r, st') \<Longrightarrow> log_content st' j = log_content st j"
  by (simp add: io_op_other log_content_def)

lemma core_write_lines:
  "write_lines i seq off es ls st = (r, st') \<Longrightarrow> core st' = core st \<and> pool st' = pool st"
  by (induction i seq off es ls st arbitrary: r st' rule: write_lines.induct)
    (auto simp: Let_def dest: core_io_op split: prod.splits io_outcome.splits)

lemma write_lines_ok:
  "write_lines i seq off es ls st = (Ok (es', off'), st') \<Longrightarrow>
     es' = es @ line_index seq off ls \<and> off' = off + length (log_text ls) \<and>
     log_content st' i = log_content st i @ log_text ls \<and> log_writer st' = log_writer st"
proof (induction i seq off es ls st arbitrary: es' off' st' rule: write_lines.induct)
  case (2 i seq off es l ls st)
  obtain st1 where io: "io_op st = (IoOk, st1)"
    using 2(2) by (cases "io_op st") (auto simp: Let_def split: io_outcome.splits)
  then have "write_lines i (seq + 1) (off + length (with_newline l)) (es @ [(seq, off)]) ls
      (append_log i (with_newline l) st1) = (Ok (es', off'), st')"
    using 2(2) by (simp add: Let_def)
  from 2(1)[OF refl io[symmetric] refl this] show ?case
    using io by (simp add: append_log_content io_op_content[OF io] io_op_other log_text_def)
qed (auto simp: log_text_def)

lemma on_pool_snd: "snd (on_pool f st) = st\<lparr>pool := snd (f (pool st))\<rparr>"
  by (simp add: on_pool_def split: prod.splits)

lemma core_pool_logs:
  assumes "p_builds p = p_builds (pool st)" "p_build_seq p = p_build_seq (pool st)"
    "p_now p = p_now (pool st)" "map fst (p_logs p) = map fst (p_logs (pool st))"
  shows "core (st\<lparr>pool := p\<rparr>) = core st"
  using assms by (simp add: core_def)

lemma log_updates_builds:
  "p_builds (snd (update_build_log_size i n p)) = p_builds p"
  "p_build_seq (snd (update_build_log_size i n p)) = p_build_seq p"
  "p_now (snd (update_build_log_size i n p)) = p_now p"
  "p_builds (snd (set_build_log_finished i p)) = p_builds p"
  "p_build_seq (snd (set_build_log_finished i p)) = p_build_seq p"
  "p_now (snd (set_build_log_finished i p)) = p_now p"
  "map fst (p_logs (snd (update_build_log_size i n p))) = map fst (p_logs p)"
  "map fst (p_logs (snd (set_build_log_finished i p))) = map fst (p_logs p)"
  by (auto simp: update_build_log_size_def set_build_log_finished_def exec_def
      split: list.splits option.splits)

lemma core_index [simp]:
  "core (extend_index i es st) = core st" "core (notify_watcher i st) = core st"
  "pool (extend_index i es st) = pool st" "pool (notify_watcher i st) = pool st"
  by (auto simp: extend_index_def notify_watcher_def core_def Let_def split: option.splits)

lemma core_write_build_output:
  "write_build_output i seq ls st = (r, st') \<Longrightarrow> core st' = core st"
  unfolding write_build_output_def
  by (auto simp: Let_def on_pool_snd log_updates_builds core_pool_logs
      dest!: core_io_op core_write_lines split: if_splits prod.splits io_outcome.splits sum.splits)

lemma core_finish_build_log [simp]: "core (finish_build_log i st) = core st"
  by (simp add: finish_build_log_def on_pool_snd core_def log_updates_builds)

lemma faults_write_build_output:
  "write_build_output i seq ls st = (r, st') \<Longrightarrow> p_faults (pool st) = [] \<Longrightarrow>
     p_faults (pool st') = []"
  unfolding write_build_output_def
  by (auto simp: Let_def on_pool_snd update_build_log_size_def
      dest!: core_io_op core_write_lines split: if_splits prod.splits io_outcome.splits sum.splits)

lemma faults_finish_build_log [simp]:
  "p_faults (pool st) = [] \<Longrightarrow> p_faults (pool (finish_build_log i st)) = []"
  by (simp add: finish_build_log_def on_pool_snd set_build_log_finished_def)

lemma write_build_output_ok:
  assumes "write_build_output i seq ls st = (Ok (), st')" and "ls \<noteq> []"
  shows "log_content st' i = log_content st i @ log_text ls"
    and "map_of (log_writer st') i = Some
      ((case map_of (log_writer st) i of Some es \<Rightarrow> es | None \<Rightarrow> []) @
       line_index seq (length (log_content st i)) ls)"
proof -
  obtain st1 where 1: "io_op st = (IoOk, st1)"
    using assms by (auto simp: write_build_output_def split: prod.splits io_outcome.splits)
  obtain st2 where 2: "io_op st1 = (IoOk, st2)"
    using assms 1 by (auto simp: write_build_output_def split: prod.splits io_outcome.splits)
  obtain st3 where 3: "io_op (append_log i [] st2) = (IoOk, st3)"
    using assms 1 2
    by (auto simp: write_build_output_def Let_def split: prod.splits io_outcome.splits)
  obtain es off st4 where 4:
    "write_lines i seq (length (log_content st3 i)) [] ls st3 = (Ok (es, off), st4)"
    using assms 1 2 3
    by (auto simp: write_build_output_def Let_def split: prod.splits io_outcome.splits sum.splits)
  obtain st5 where 5: "io_op st4 = (IoOk, st5)"
    using assms 1 2 3 4
    by (auto simp: write_build_output_def Let_def split: prod.splits io_outcome.splits)
  have st': "st' = snd (on_pool (update_build_log_size i off)
      (notify_watcher i (extend_index i es st5)))"
    using assms 1 2 3 4 5 by (simp add: write_build_output_def Let_def)
  have c3: "log_content st3 i = log_content st i" "log_writer st3 = log_writer st"
    using io_op_content[OF 1] io_op_content[OF 2] io_op_content[OF 3] io_op_other[OF 1]
      io_op_other[OF 2] io_op_other[OF 3] by (simp_all add: append_log_content)
  have c5: "log_content st5 i = log_content st i @ log_text ls" "log_writer st5 = log_writer st"
    "es = line_index seq (length (log_content st i)) ls"
    using write_lines_ok[OF 4] io_op_content[OF 5] io_op_other[OF 5] c3 by simp_all
  then show "log_content st' i = log_content st i @ log_text ls"
    by (simp add: st' on_pool_snd log_content_def notify_watcher_def extend_index_def Let_def
        split: option.splits)
  show "map_of (log_writer st') i = Some
      ((case map_of (log_writer st) i of Some es \<Rightarrow> es | None \<Rightarrow> []) @
       line_index seq (length (log_content st i)) ls)"
    using c5 by (simp add: st' on_pool_snd notify_watcher_def extend_index_def Let_def
        map_of_update_apply split: option.splits)
qed



end
