(* ===== verification/Cbs_Dispatch.thy ===== *)
theory Cbs_Dispatch
  imports Cbs_Logs
begin

text \<open>
  The dispatch engine (\<open>ws/dispatch.rs\<close>): handing the next pending build to an idle
  worker, rolling an abandoned dispatch back, finishing and rejecting builds, checking
  that a life-cycle message comes from the connection that owns the build, and revoking.
  \<open>TerminalStatus\<close> and \<open>cleanup_terminal_state\<close> are from \<open>ws/handler.rs\<close>; the dispatch
  engine calls them, so they come first.

  Each definition is one handler run to completion. Logging and metrics have no effect
  on the state and are left out.
\<close>

section \<open>Terminal cleanup\<close>

datatype TerminalStatus = TermFailure | TermRevoked

fun terminal_as_state :: "TerminalStatus \<Rightarrow> BuildState" where
  "terminal_as_state TermFailure = Failure"
| "terminal_as_state TermRevoked = Revoked"

definition cleanup_terminal_state ::
  "build_id \<Rightarrow> TerminalStatus \<Rightarrow> string \<Rightarrow> AppState \<Rightarrow> AppState" where
  "cleanup_terminal_state i status reason st =
     (let st = snd (on_pool (set_build_finished i (terminal_as_state status) (Some reason) None) st);
          st = snd (on_pool (set_build_log_finished i) st);
          st = with_queue (remove_active i) st
      in remove_watcher i st)"

section \<open>Dispatch\<close>

datatype DispatchError =
  NothingToDispatch
| Database sqlx_error
| Tarball io_error
| SendError string

fun io_error_display :: "io_error \<Rightarrow> string" where
  "io_error_display (IoError e) = e"

fun dispatch_error_display :: "DispatchError \<Rightarrow> string" where
  "dispatch_error_display NothingToDispatch = ''nothing to dispatch''"
| "dispatch_error_display (Database e) = ''database error: '' @ sqlx_error_display e"
| "dispatch_error_display (Tarball e) = ''tarball packing error: '' @ io_error_display e"
| "dispatch_error_display (SendError e) = ''send error: '' @ e"

record DispatchInfo =
  di_build_id :: build_id
  di_priority :: Priority
  di_descriptor :: BuildDescriptor
  di_trace_id :: string
  di_connection_id :: conn_id
  di_queued_at :: timestamp

text \<open>The first idle worker with the architecture of the build.\<close>

definition find_worker :: "BuildQueue \<Rightarrow> Arch \<Rightarrow> (conn_id \<times> string) option" where
  "find_worker q build_arch =
     map_option (\<lambda>(cid, ws).
         (cid, case registered_worker_id ws of Some w \<Rightarrow> w | None \<Rightarrow> ''unknown''))
       (find (\<lambda>(cid, ws). is_dispatch_eligible ws \<and> arch ws = Some build_arch \<and>
            \<not> list_ex (\<lambda>ab. ab_connection_id ab = cid) (hm_values (q_active q)))
          (q_workers q))"

definition new_v4 :: "env \<Rightarrow> AppState \<Rightarrow> string \<times> AppState" where
  "new_v4 env st = (e_uuid env (uuids st), st\<lparr>uuids := uuids st + 1\<rparr>)"

definition new_token :: "AppState \<Rightarrow> cancel_token \<times> AppState" where
  "new_token st = (next_token st, st\<lparr>next_token := next_token st + 1\<rparr>)"

text \<open>The part of \<open>try_dispatch\<close> that runs under the queue lock.\<close>

definition try_dispatch_locked ::
  "env \<Rightarrow> AppState \<Rightarrow> (DispatchError + DispatchInfo) \<times> AppState" where
  "try_dispatch_locked env st =
     (case next_pending (queue st) of
        (None, _) \<Rightarrow> (Err NothingToDispatch, st)
      | (Some build, q) \<Rightarrow>
        (let build_arch = tgt_arch (d_build (qb_descriptor build)) in
         case find_worker q build_arch of
           None \<Rightarrow> (Err NothingToDispatch, st\<lparr>queue := enqueue_front build q\<rparr>)
         | Some (connection_id, worker_id) \<Rightarrow>
           (let st = st\<lparr>queue := q\<rparr>; (trace_id, st) = new_v4 env st in
            case on_pool (set_build_dispatched (qb_build_id build) trace_id worker_id) st of
              (Err e, st) \<Rightarrow> (Err (Database e), st)
            | (Ok _, st) \<Rightarrow>
              (let st = st\<lparr>log_watchers :=
                     AList.update (qb_build_id build) 0 (log_watchers st)\<rparr>;
                   (ack_cancel, st) = new_token st;
                   ab = \<lparr>ab_build_id = qb_build_id build, ab_connection_id = connection_id,
                     ab_dispatched_at = now st, ab_trace_id = trace_id,
                     ab_descriptor = qb_descriptor build, ab_priority = qb_priority build,
                     ab_ack_cancel = ack_cancel, ab_receipt = AwaitingReceipt\<rparr>;
                   st = with_queue (\<lambda>q. q\<lparr>q_active :=
                     AList.update (qb_build_id build) ab (q_active q)\<rparr>) st
               in (Ok \<lparr>di_build_id = qb_build_id build, di_priority = qb_priority build,
                     di_descriptor = qb_descriptor build, di_trace_id = trace_id,
                     di_connection_id = connection_id, di_queued_at = qb_queued_at build\<rparr>,
                   st)))))"

definition rollback_active_to_queued :: "build_id \<Rightarrow> AppState \<Rightarrow> bool \<times> AppState" where
  "rollback_active_to_queued i st =
     (case map_of (q_active (queue st)) i of
        None \<Rightarrow> (False, st)
      | Some ab \<Rightarrow>
        (let st = with_queue (remove_active i) st;
             st = cancel (ab_ack_cancel ab) st;
             st = snd (on_pool (rollback_dispatch_to_queued i) st);
             st = with_queue (enqueue_front
               \<lparr>qb_build_id = i, qb_priority = ab_priority ab, qb_descriptor = ab_descriptor ab,
                qb_user_email = [], qb_queued_at = now st\<rparr>) st
         in (True, remove_watcher i st)))"

definition handle_dispatch_send_failure :: "build_id \<Rightarrow> AppState \<Rightarrow> AppState" where
  "handle_dispatch_send_failure i st = snd (rollback_active_to_queued i st)"

definition send_pair ::
  "conn_id \<Rightarrow> ws_frame \<Rightarrow> ws_frame \<Rightarrow> AppState \<Rightarrow> (DispatchError + unit) \<times> AppState" where
  "send_pair cid text bin st =
     (case tx_send cid text st of
        (None, st) \<Rightarrow> (Err (SendError (''no sender for connection '' @ cid)), st)
      | (Some False, st) \<Rightarrow> (Err (SendError ''channel closed''), st)
      | (Some True, st) \<Rightarrow>
        (case tx_send cid bin st of
           (Some True, st) \<Rightarrow> (Ok (), st)
         | (_, st) \<Rightarrow> (Err (SendError ''channel closed''), st)))"

definition send_and_recover ::
  "DispatchInfo \<Rightarrow> ServerMessage \<Rightarrow> string \<Rightarrow> AppState \<Rightarrow> (DispatchError + unit) \<times> AppState" where
  "send_and_recover info json_text tar_gz_bytes st =
     (case send_pair (di_connection_id info) (TextFrame json_text) (BinaryFrame tar_gz_bytes) st of
        (Err e, st) \<Rightarrow> (Err e, handle_dispatch_send_failure (di_build_id info) st)
      | (Ok _, st) \<Rightarrow> (Ok (), st))"

definition pack_result :: "env \<Rightarrow> AppState \<Rightarrow> DispatchInfo \<Rightarrow> io_error + (string \<times> string)" where
  "pack_result env st info =
     (let component_names = map comp_name (d_components (di_descriptor info)) in
      if component_names = [] then Err (IoError ''build has no components'')
      else pack_components env (cfg_components_dir (config st)) component_names)"

definition spawn_ack_timer :: "build_id \<Rightarrow> AppState \<Rightarrow> AppState" where
  "spawn_ack_timer i st =
     (case map_of (q_active (queue st)) i of
        None \<Rightarrow> st
      | Some ab \<Rightarrow>
        spawn (AckTimer i (ab_ack_cancel ab)
          (now st + dispatch_ack_timeout_secs (cfg_timeouts (config st)))) st)"

definition try_dispatch :: "env \<Rightarrow> AppState \<Rightarrow> (DispatchError + unit) \<times> AppState" where
  "try_dispatch env st =
     (case try_dispatch_locked env st of
        (Err e, st) \<Rightarrow> (Err e, st)
      | (Ok info, st) \<Rightarrow>
        (case pack_result env st info of
           Err e \<Rightarrow>
             (Err (Tarball e), cleanup_terminal_state (di_build_id info) TermFailure
                (''failed to pack component tarball: '' @ io_error_display e) st)
         | Ok (tar_gz_bytes, sha256_hex) \<Rightarrow>
           (let build_new = BuildNew (di_build_id info) (di_trace_id info) (di_priority info)
                  (di_descriptor info) sha256_hex in
            case send_and_recover info build_new tar_gz_bytes st of
              (Err e, st) \<Rightarrow> (Err e, st)
            | (Ok _, st) \<Rightarrow> (Ok (), spawn_ack_timer (di_build_id info) st))))"

text \<open>The task behind \<open>AckTimer\<close>: nothing once its token is cancelled.\<close>

definition ack_timer_fired :: "build_id \<Rightarrow> cancel_token \<Rightarrow> AppState \<Rightarrow> AppState" where
  "ack_timer_fired i t st =
     (if t \<in> set (cancelled st) then st else snd (rollback_active_to_queued i st))"

section \<open>Life-cycle messages\<close>

definition handle_build_accepted :: "build_id \<Rightarrow> AppState \<Rightarrow> AppState" where
  "handle_build_accepted i st =
     (case map_of (q_active (queue st)) i of
        Some active \<Rightarrow> cancel (ab_ack_cancel active) st
      | None \<Rightarrow> st)"

definition handle_build_started :: "build_id \<Rightarrow> AppState \<Rightarrow> AppState" where
  "handle_build_started i st = snd (on_pool (set_build_started i) st)"

definition attach_connection_and_mark_received ::
  "build_id \<Rightarrow> conn_id \<Rightarrow> AppState \<Rightarrow> AppState" where
  "attach_connection_and_mark_received i cid st =
     (case map_of (q_active (queue st)) i of
        None \<Rightarrow> st
      | Some ab \<Rightarrow>
        cancel (ab_ack_cancel ab)
          (with_queue (update_active i (\<lambda>ab. ab\<lparr>ab_connection_id := cid,
             ab_receipt := ReceivedByWorker\<rparr>)) st))"

definition handle_build_finished ::
  "env \<Rightarrow> conn_id \<Rightarrow> build_id \<Rightarrow> BuildState \<Rightarrow> string option \<Rightarrow> string option \<Rightarrow>
     AppState \<Rightarrow> AppState" where
  "handle_build_finished env cid i status err build_report st =
     (let st = snd (on_pool (set_build_finished i status err build_report) st);
          st = with_queue (remove_active i) st;
          st = finish_build_log i st;
          st = remove_watcher i st
      in snd (try_dispatch env st))"

definition handle_build_rejected ::
  "env \<Rightarrow> conn_id \<Rightarrow> build_id \<Rightarrow> string \<Rightarrow> AppState \<Rightarrow> AppState" where
  "handle_build_rejected env cid i reason st =
     (if str_contains (to_lowercase reason) ''integrity'' then
        cleanup_terminal_state i TermFailure reason st
      else
        snd (try_dispatch env (snd (rollback_active_to_queued i st))))"

definition send_text_to_connection :: "conn_id \<Rightarrow> ServerMessage \<Rightarrow> AppState \<Rightarrow> AppState" where
  "send_text_to_connection cid msg st = snd (tx_send cid (TextFrame msg) st)"

definition send_unauthorized_action ::
  "conn_id \<Rightarrow> build_id \<Rightarrow> WorkerBuildAction \<Rightarrow> UnauthorizedBuildReason \<Rightarrow> AppState \<Rightarrow> AppState" where
  "send_unauthorized_action cid i action reason st =
     send_text_to_connection cid (UnauthorizedBuildAction i action reason) st"

definition send_reporter_directed_revoke :: "conn_id \<Rightarrow> build_id \<Rightarrow> AppState \<Rightarrow> AppState" where
  "send_reporter_directed_revoke cid i st =
     send_text_to_connection cid (BuildRevoke i (Some UnauthorizedAction)) st"

definition authorize_lifecycle_message ::
  "conn_id \<Rightarrow> build_id \<Rightarrow> WorkerBuildAction \<Rightarrow> AppState \<Rightarrow> bool \<times> AppState" where
  "authorize_lifecycle_message cid i action st =
     (case active_build_for_connection_mut (queue st) i cid of
        Some ab \<Rightarrow>
          (True, cancel (ab_ack_cancel ab)
             (with_queue (update_active i (\<lambda>ab. ab\<lparr>ab_receipt := ReceivedByWorker\<rparr>)) st))
      | None \<Rightarrow>
          (let st = send_unauthorized_action cid i action NotAssigned st in
           (False, if action \<in> {ActBuildStarted, ActBuildOutput}
                   then send_reporter_directed_revoke cid i st else st)))"

section \<open>Revocation\<close>

definition revoke_and_remove_superseded ::
  "conn_id \<Rightarrow> build_id list \<Rightarrow> AppState \<Rightarrow> AppState" where
  "revoke_and_remove_superseded old_cid build_ids st =
     (let st = (case map_of (worker_senders st) old_cid of
            Some _ \<Rightarrow> fold (\<lambda>i st. snd (tx_send old_cid
                (TextFrame (BuildRevoke i (Some MigrationSupersede))) st)) build_ids st
          | None \<Rightarrow> st)
      in st\<lparr>worker_senders := AList.delete old_cid (worker_senders st)\<rparr>)"

definition send_build_revoke :: "build_id \<Rightarrow> AppState \<Rightarrow> (DispatchError + unit) \<times> AppState" where
  "send_build_revoke i st =
     (case map_of (q_active (queue st)) i of
        None \<Rightarrow> (Err (SendError (''build '' @ show_int i @ '' not in active map'')), st)
      | Some ab \<Rightarrow>
        (case on_pool (set_build_revoking i) st of
           (Err e, st) \<Rightarrow> (Err (Database e), st)
         | (Ok _, st) \<Rightarrow>
           (let st = snd (tx_send (ab_connection_id ab) (TextFrame (BuildRevoke i (Some Admin))) st);
                st = spawn (RevokeTimer i
                  (now st + revoke_ack_timeout_secs (cfg_timeouts (config st)))) st
            in (Ok (), st))))"

definition handle_revoke_timeout :: "env \<Rightarrow> build_id \<Rightarrow> AppState \<Rightarrow> AppState" where
  "handle_revoke_timeout env i st =
     (case on_pool (get_build (e_value_from_str env) i) st of
        (Ok (Some build), st) \<Rightarrow>
          if br_state build \<noteq> Revoking then st
          else cleanup_terminal_state i TermRevoked ''revoke ack timeout'' st
      | (_, st) \<Rightarrow> st)"

end
