(* ===== verification/Cbs_Handler.thy ===== *)
theory Cbs_Handler
  imports Cbs_Dispatch
begin

text \<open>
  The worker connection handler (\<open>ws/handler.rs\<close>) and the grace-period monitor of
  \<open>ws/liveness.rs\<close>: the handshake with its connection migration, the dispatch of worker
  messages, the reconnection and dead-worker decision tables, and connection cleanup.

  A connection runs \<open>handshake\<close> once, then \<open>handle_worker_message\<close> for each parsed
  message, then \<open>connection_closed\<close>. Frames that are not messages are skipped by the
  receive loop and do not appear.
\<close>

section \<open>Decision tables\<close>

record IdleReconcileCandidate =
  rc_build_id :: build_id
  rc_prev_connection_id :: conn_id
  rc_receipt :: ActiveAssignmentReceipt
  rc_prev_connection_live :: bool

datatype IdleReconcileAction = IdleSkip | IdleRollbackToQueued | IdleFailBuild | IdleMarkRevoked

fun idle_reconcile_decision ::
  "BuildState \<Rightarrow> ActiveAssignmentReceipt \<Rightarrow> bool \<Rightarrow> IdleReconcileAction" where
  "idle_reconcile_decision Dispatched receipt prev_connection_live =
     (case receipt of
        AwaitingReceipt \<Rightarrow> if prev_connection_live then IdleSkip else IdleRollbackToQueued
      | _ \<Rightarrow> IdleRollbackToQueued)"
| "idle_reconcile_decision Started _ _ = IdleFailBuild"
| "idle_reconcile_decision Revoking _ _ = IdleMarkRevoked"
| "idle_reconcile_decision _ _ _ = IdleSkip"

datatype DeadWorkerAction =
  DeadRollbackToQueued | DeadFail string | DeadMarkRevoked string | DeadRemoveOnly

fun dead_worker_resolution :: "BuildState \<Rightarrow> ActiveAssignmentReceipt \<Rightarrow> DeadWorkerAction" where
  "dead_worker_resolution Dispatched receipt =
     (case receipt of
        AwaitingReceipt \<Rightarrow> DeadRollbackToQueued
      | ReceivedByWorker \<Rightarrow> DeadFail ''worker died after accepting assignment'')"
| "dead_worker_resolution Started _ = DeadFail ''worker died during execution''"
| "dead_worker_resolution Revoking _ = DeadMarkRevoked ''revoke completed by worker death''"
| "dead_worker_resolution _ _ = DeadRemoveOnly"

section \<open>Dead workers\<close>

definition resolve_dead_build ::
  "env \<Rightarrow> build_id \<Rightarrow> ActiveAssignmentReceipt \<Rightarrow> AppState \<Rightarrow> AppState" where
  "resolve_dead_build env i receipt st =
     (case on_pool (get_build (e_value_from_str env) i) st of
        (Ok (Some b), st) \<Rightarrow>
          (case dead_worker_resolution (br_state b) receipt of
             DeadRollbackToQueued \<Rightarrow> snd (rollback_active_to_queued i st)
           | DeadFail reason \<Rightarrow> cleanup_terminal_state i TermFailure reason st
           | DeadMarkRevoked reason \<Rightarrow> cleanup_terminal_state i TermRevoked reason st
           | DeadRemoveOnly \<Rightarrow> with_queue (remove_active i) st)
      | (_, st) \<Rightarrow> st)"

definition handle_worker_dead :: "env \<Rightarrow> conn_id \<Rightarrow> AppState \<Rightarrow> AppState" where
  "handle_worker_dead env cid st =
     (let owned = active_builds_with_receipt_for_connection (queue st) cid;
          st = fold (\<lambda>(i, receipt). resolve_dead_build env i receipt) owned st
      in snd (try_dispatch env st))"

section \<open>Worker status after a reconnect\<close>

definition idle_reconcile_one ::
  "env \<Rightarrow> string \<Rightarrow> IdleReconcileCandidate \<Rightarrow> AppState \<Rightarrow> AppState" where
  "idle_reconcile_one env worker_id cand st =
     (case on_pool (get_build (e_value_from_str env) (rc_build_id cand)) st of
        (Ok (Some build), st) \<Rightarrow>
          if br_worker_id build \<noteq> Some worker_id then st
          else
            (case idle_reconcile_decision (br_state build) (rc_receipt cand)
                (rc_prev_connection_live cand) of
               IdleSkip \<Rightarrow> st
             | IdleRollbackToQueued \<Rightarrow> snd (rollback_active_to_queued (rc_build_id cand) st)
             | IdleFailBuild \<Rightarrow>
                 cleanup_terminal_state (rc_build_id cand) TermFailure ''worker lost build'' st
             | IdleMarkRevoked \<Rightarrow>
                 cleanup_terminal_state (rc_build_id cand) TermRevoked
                   ''idle worker on revoking build'' st)
      | (_, st) \<Rightarrow> st)"

definition idle_candidates :: "BuildQueue \<Rightarrow> conn_id \<Rightarrow> IdleReconcileCandidate list" where
  "idle_candidates q cid =
     map (\<lambda>ab. \<lparr>rc_build_id = ab_build_id ab, rc_prev_connection_id = ab_connection_id ab,
         rc_receipt = ab_receipt ab,
         rc_prev_connection_live =
           (case get_worker q (ab_connection_id ab) of
              Some ws \<Rightarrow> is_dispatch_eligible ws | None \<Rightarrow> False)\<rparr>)
       (filter (\<lambda>ab. ab_connection_id ab \<noteq> cid) (hm_values (q_active q)))"

definition reconnect_building ::
  "env \<Rightarrow> conn_id \<Rightarrow> string \<Rightarrow> build_id \<Rightarrow> AppState \<Rightarrow> AppState" where
  "reconnect_building env cid worker_id i st =
     (case on_pool (get_build (e_value_from_str env) i) st of
        (Err e, st) \<Rightarrow> st
      | (Ok None, st) \<Rightarrow> send_reporter_directed_revoke cid i st
      | (Ok (Some build), st) \<Rightarrow>
        (let resumable = br_state build \<in> {Dispatched, Started};
             owns = resumable \<and> br_worker_id build = Some worker_id in
         if resumable \<and> \<not> owns then
           send_reporter_directed_revoke cid i
             (send_unauthorized_action cid i ActWorkerStatus NotAssigned st)
         else
           (case br_state build of
              Queued \<Rightarrow> snd (send_build_revoke i st)
            | Dispatched \<Rightarrow> attach_connection_and_mark_received i cid st
            | Started \<Rightarrow> with_queue (update_active i (\<lambda>ab. ab\<lparr>ab_connection_id := cid\<rparr>)) st
            | Revoking \<Rightarrow> snd (send_build_revoke i st)
            | _ \<Rightarrow> snd (send_build_revoke i st))))"

definition handle_worker_status ::
  "env \<Rightarrow> conn_id \<Rightarrow> string \<Rightarrow> WorkerReportedState \<Rightarrow> build_id option \<Rightarrow> AppState \<Rightarrow> AppState" where
  "handle_worker_status env cid worker_id reported_state reported_build_id st =
     (case (reported_state, reported_build_id) of
        (RepBuilding, Some i) \<Rightarrow> reconnect_building env cid worker_id i st
      | (RepIdle, _) \<Rightarrow>
          (let st = fold (idle_reconcile_one env worker_id) (idle_candidates (queue st) cid) st
           in snd (try_dispatch env st))
      | (RepBuilding, None) \<Rightarrow> st)"

section \<open>Messages\<close>

fun finished_state :: "BuildFinishedStatus \<Rightarrow> BuildState" where
  "finished_state FinSuccess = Success"
| "finished_state FinFailure = Failure"
| "finished_state FinRevoked = Revoked"

text \<open>
  \<open>authorized action f\<close>: the guard every life-cycle message goes through; \<open>f\<close> runs only
  when the connection owns the build.
\<close>

definition authorized ::
  "conn_id \<Rightarrow> build_id \<Rightarrow> WorkerBuildAction \<Rightarrow> (AppState \<Rightarrow> AppState) \<Rightarrow> AppState \<Rightarrow> AppState" where
  "authorized cid i action f st =
     (case authorize_lifecycle_message cid i action st of
        (False, st) \<Rightarrow> st
      | (True, st) \<Rightarrow> f st)"

fun handle_worker_message ::
  "env \<Rightarrow> conn_id \<Rightarrow> string \<Rightarrow> string \<Rightarrow> WorkerMessage \<Rightarrow> AppState \<Rightarrow> AppState" where
  "handle_worker_message env cid name worker_id (Hello _ _ _ _ _) st = st"
| "handle_worker_message env cid name worker_id (BuildAccepted i) st =
     authorized cid i ActBuildAccepted (handle_build_accepted i) st"
| "handle_worker_message env cid name worker_id (BuildStarted i) st =
     authorized cid i ActBuildStarted (handle_build_started i) st"
| "handle_worker_message env cid name worker_id (BuildOutput i start_seq lines) st =
     authorized cid i ActBuildOutput (\<lambda>st. snd (write_build_output i start_seq lines st)) st"
| "handle_worker_message env cid name worker_id (BuildFinished i status err build_report) st =
     authorized cid i ActBuildFinished (\<lambda>st.
       let report_json = (if status = FinSuccess
             then Option.bind build_report (e_value_to_string env) else None);
           st = handle_build_finished env cid i (finished_state status) err report_json st
       in snd (on_pool (update_last_seen worker_id) st)) st"
| "handle_worker_message env cid name worker_id (BuildRejected i reason) st =
     authorized cid i ActBuildRejected (handle_build_rejected env cid i reason) st"
| "handle_worker_message env cid name worker_id (WorkerStatus ws build_id) st =
     handle_worker_status env cid worker_id ws build_id st"
| "handle_worker_message env cid name worker_id (WorkerStopping reason) st =
     with_queue (set_worker_state cid (Stopping worker_id name)) st"
| "handle_worker_message env cid name worker_id (Metrics _) st = st"

section \<open>Connections\<close>

text \<open>What the receiving half of a socket yields next.\<close>

datatype ws_event =
  RecvText string | RecvClose | RecvOther | RecvError string | RecvEnd | RecvTimeout

fun wait_for_hello :: "env \<Rightarrow> ws_event list \<Rightarrow> string + WorkerMessage" where
  "wait_for_hello env [] = Err ''connection closed before hello''"
| "wait_for_hello env (RecvText text # _) =
     (case e_worker_message_from_str env text of
        Ok m \<Rightarrow> Ok m
      | Err e \<Rightarrow> Err (''invalid hello frame: '' @ e))"
| "wait_for_hello env (RecvClose # _) = Err ''connection closed before hello''"
| "wait_for_hello env (RecvEnd # _) = Err ''connection closed before hello''"
| "wait_for_hello env (RecvOther # events) = wait_for_hello env events"
| "wait_for_hello env (RecvError e # _) = Err (''receive error: '' @ e)"
| "wait_for_hello env (RecvTimeout # _) = Err ''hello timeout (10s)''"

definition validate_hello ::
  "WorkerRow \<Rightarrow> string + WorkerMessage \<Rightarrow> ServerMessage + (Arch \<times> nat \<times> nat \<times> string option)" where
  "validate_hello row hello =
     (case hello of
        Err reason \<Rightarrow> Err (ServerError reason (Some 2) (Some 2))
      | Ok (Hello protocol_version a cores_total ram_total_mb version) \<Rightarrow>
        (if protocol_version \<noteq> 2 then
           Err (ServerError (''unsupported protocol version '' @ show_nat protocol_version @
             ''; server supports 2'') (Some 2) (Some 2))
         else
           (case arch_from_str (w_arch row) of
              None \<Rightarrow>
                Err (ServerError (''worker '' @ squoted (w_name row) @ '' has invalid arch '' @
                  squoted (w_arch row) @ '' in database '' @ em_dash @ '' cannot validate'')
                  None None)
            | Some registered_arch \<Rightarrow>
                if a \<noteq> registered_arch then
                  Err (ServerError (''arch mismatch: worker '' @ squoted (w_name row) @
                    '' registered as '' @ w_arch row @ '' but reported '' @ arch_display a @
                    '' '' @ em_dash @
                    '' re-register with correct arch or fix the worker token'') None None)
                else Ok (a, cores_total, ram_total_mb, version)))
      | Ok other \<Rightarrow>
          Err (ServerError (''expected hello, got '' @ dquoted (message_type_name other))
            None None))"

definition migrate_active :: "conn_id \<Rightarrow> conn_id \<Rightarrow> BuildQueue \<Rightarrow> build_id list \<times> BuildQueue" where
  "migrate_active old_cid cid q =
     (map ab_build_id (filter (\<lambda>ab. ab_connection_id ab = old_cid) (hm_values (q_active q))),
      q\<lparr>q_active := map (\<lambda>(i, ab).
          (i, if ab_connection_id ab = old_cid then ab\<lparr>ab_connection_id := cid\<rparr> else ab))
        (q_active q)\<rparr>)"

text \<open>Step 3 of \<open>handle_connection\<close>, under the queue lock.\<close>

definition register_connection ::
  "conn_id \<Rightarrow> string \<Rightarrow> WorkerState \<Rightarrow> BuildQueue \<Rightarrow>
     (conn_id \<times> bool \<times> build_id list) option \<times> BuildQueue" where
  "register_connection cid worker_id ws_new q =
     (case find (\<lambda>(c, ws). registered_worker_id ws = Some worker_id \<and> c \<noteq> cid) (q_workers q) of
        Some (old_cid, ws) \<Rightarrow>
          (let (migrated_builds, q) = migrate_active old_cid cid q;
               q = snd (remove_worker old_cid q)
           in (Some (old_cid, is_dispatch_eligible ws, migrated_builds),
               register_worker cid ws_new q))
      | None \<Rightarrow> (None, register_worker cid ws_new q))"

section \<open>Closing a connection\<close>

definition start_grace_period_monitor :: "conn_id \<Rightarrow> nat \<Rightarrow> AppState \<Rightarrow> AppState" where
  "start_grace_period_monitor cid grace_secs st =
     spawn (GraceMonitor cid (now st + int grace_secs)) st"

text \<open>The body of the monitor task once its sleep is over.\<close>

definition grace_period_expired :: "env \<Rightarrow> conn_id \<Rightarrow> AppState \<Rightarrow> AppState" where
  "grace_period_expired env cid st =
     (case get_worker (queue st) cid of
        Some (Disconnected _ _ _ _) \<Rightarrow>
          handle_worker_dead env cid (with_queue (set_worker_state cid Dead) st)
      | _ \<Rightarrow> st)"

definition cleanup_worker ::
  "env \<Rightarrow> conn_id \<Rightarrow> string \<Rightarrow> string \<Rightarrow> bool \<Rightarrow> AppState \<Rightarrow> AppState" where
  "cleanup_worker env cid name worker_id is_stopping st =
     (let st = st\<lparr>worker_senders := AList.delete cid (worker_senders st)\<rparr> in
      if is_stopping then
        handle_worker_dead env cid (with_queue (set_worker_state cid Dead) st)
      else
        (case Option.bind (get_worker (queue st) cid) arch of
           Some a \<Rightarrow>
             (let st = with_queue (set_worker_state cid (Disconnected (now st) worker_id name a)) st
              in start_grace_period_monitor cid
                   (liveness_grace_period_secs (cfg_timeouts (config st))) st)
         | None \<Rightarrow> handle_worker_dead env cid (with_queue (set_worker_state cid Dead) st)))"

definition connection_closed :: "env \<Rightarrow> conn_id \<Rightarrow> string \<Rightarrow> string \<Rightarrow> AppState \<Rightarrow> AppState" where
  "connection_closed env cid name worker_id st =
     cleanup_worker env cid name worker_id
       (case get_worker (queue st) cid of Some (Stopping _ _) \<Rightarrow> True | _ \<Rightarrow> False) st"

section \<open>Opening a connection\<close>

text \<open>Stop-work and cleanup for the connection a reconnect replaced.\<close>

definition cleanup_superseded ::
  "env \<Rightarrow> (conn_id \<times> bool \<times> build_id list) option \<Rightarrow> AppState \<Rightarrow> AppState" where
  "cleanup_superseded env old st =
     (case old of
        Some (old_cid, was_connected, migrated_builds) \<Rightarrow>
          (let st = revoke_and_remove_superseded old_cid migrated_builds st
           in if was_connected then handle_worker_dead env old_cid st else st)
      | None \<Rightarrow> st)"

text \<open>
  \<open>handle_connection\<close> up to its message loop. \<open>welcome_sent\<close> is whether the socket took
  the \<open>Welcome\<close> frame. The result is the frame sent on the socket and whether the
  message loop is entered.
\<close>

definition handshake ::
  "env \<Rightarrow> conn_id \<Rightarrow> string \<Rightarrow> WorkerRow \<Rightarrow> string + WorkerMessage \<Rightarrow> bool \<Rightarrow> AppState \<Rightarrow>
     ServerMessage \<times> bool \<times> AppState" where
  "handshake env cid worker_id row hello welcome_sent st =
     (case validate_hello row hello of
        Err reply \<Rightarrow> (reply, False, st)
      | Ok (a, cores_total, ram_total_mb, version) \<Rightarrow>
        (let st = snd (on_pool (update_last_seen worker_id) st);
             (old, q) = register_connection cid worker_id
               (Connected worker_id (w_name row) a cores_total ram_total_mb version) (queue st);
             st = st\<lparr>queue := q\<rparr>;
             st = cleanup_superseded env old st;
             st = st\<lparr>worker_senders := AList.update cid True (worker_senders st)\<rparr>;
             welcome = Welcome 2 cid (liveness_grace_period_secs (cfg_timeouts (config st)))
               (cfg_metrics_enabled (config st))
         in if welcome_sent then (welcome, True, spawn SpawnedDispatch st)
            else (welcome, False, cleanup_worker env cid (w_name row) worker_id False st)))"

text \<open>One iteration of the receive loop; \<open>False\<close> ends it.\<close>

definition receive_event ::
  "env \<Rightarrow> conn_id \<Rightarrow> string \<Rightarrow> string \<Rightarrow> ws_event \<Rightarrow> AppState \<Rightarrow> bool \<times> AppState" where
  "receive_event env cid name worker_id ev st =
     (case ev of
        RecvText text \<Rightarrow>
          (case e_worker_message_from_str env text of
             Ok m \<Rightarrow> (True, handle_worker_message env cid name worker_id m st)
           | Err _ \<Rightarrow> (True, st))
      | RecvClose \<Rightarrow> (False, st)
      | RecvError _ \<Rightarrow> (False, st)
      | RecvEnd \<Rightarrow> (False, st)
      | _ \<Rightarrow> (True, st))"

end
