(* ===== verification/Cbs_Recovery.thy ===== *)
theory Cbs_Recovery
  imports Cbs_Handler
begin

text \<open>
  Startup recovery (\<open>queue/recovery.rs\<close>): the in-memory queue is rebuilt from the
  database before the server accepts connections. Builds that were in flight when the
  server stopped become terminal; queued builds are enqueued in submission order.
\<close>

section \<open>Priorities as text\<close>

fun priority_str :: "Priority \<Rightarrow> string" where
  "priority_str High = ''high''"
| "priority_str Normal = ''normal''"
| "priority_str Low = ''low''"

definition parse_priority :: "string \<Rightarrow> Priority" where
  "parse_priority s = (if s = ''high'' then High else if s = ''low'' then Low else Normal)"

lemma parse_priority_str [simp]: "parse_priority (priority_str p) = p"
  by (cases p) (simp_all add: parse_priority_def)

section \<open>Recovery\<close>

text \<open>The server state before recovery: everything in memory is empty.\<close>

definition fresh_app :: "SqlitePool \<Rightarrow> ServerConfig \<Rightarrow> string list \<Rightarrow> AppState" where
  "fresh_app p cfg comps =
     \<lparr>pool = p, config = cfg, queue = queue_new, components = comps, worker_senders = [],
      outbox = [], log_watchers = [], log_writer = [], log_files = [], io_script = [],
      uuids = 0, next_token = 0, cancelled = [], tasks = []\<rparr>"

definition select_ids :: "BuildState set \<Rightarrow> build_id list db" where
  "select_ids states = fetch (\<lambda>p. map fst (filter (\<lambda>(i, r). b_state r \<in> states) (p_builds p)))"

definition fail_row :: "string \<Rightarrow> build_id \<Rightarrow> bool db" where
  "fail_row err i = update_build_row i (\<lambda>p r. r\<lparr>b_state := Failure, b_error := Some err,
     b_finished_at := Some (p_now p)\<rparr>)"

definition revoke_row :: "build_id \<Rightarrow> bool db" where
  "revoke_row i = update_build_row i (\<lambda>p r. r\<lparr>b_state := Revoked,
     b_finished_at := Some (p_now p)\<rparr>)"

text \<open>\<open>for row in rows { stmt(row)?; finish_log(row)?; }\<close>\<close>

fun finalize_rows :: "(build_id \<Rightarrow> bool db) \<Rightarrow> build_id list \<Rightarrow> unit db" where
  "finalize_rows stmt [] p = (Ok (), p)"
| "finalize_rows stmt (i # is) p =
     (case stmt i p of
        (Err e, p) \<Rightarrow> (Err e, p)
      | (Ok _, p) \<Rightarrow>
        (case set_build_log_finished i p of
           (Err e, p) \<Rightarrow> (Err e, p)
         | (Ok _, p) \<Rightarrow> finalize_rows stmt is p))"

text \<open>\<open>ORDER BY queued_at ASC\<close>; rows with equal times come in the order of their ids.\<close>

definition select_queued :: "(build_id \<times> BuildRow) list db" where
  "select_queued = fetch (\<lambda>p. sort_key (\<lambda>(i, r). b_queued_at r)
     (sort_key fst (filter (\<lambda>(i, r). b_state r = Queued) (p_builds p))))"

fun enqueue_rows :: "env \<Rightarrow> (build_id \<times> BuildRow) list \<Rightarrow> AppState \<Rightarrow>
    (sqlx_error + unit) \<times> AppState" where
  "enqueue_rows env [] st = (Ok (), st)"
| "enqueue_rows env ((i, r) # rows) st =
     (case e_descriptor_from_str env (b_descriptor r) of
        Err _ \<Rightarrow>
          (case on_pool (fail_row ''corrupt descriptor (recovery)'' i) st of
             (Err e, st) \<Rightarrow> (Err e, st)
           | (Ok _, st) \<Rightarrow> enqueue_rows env rows st)
      | Ok d \<Rightarrow>
          enqueue_rows env rows (with_queue (enqueue
            \<lparr>qb_build_id = i, qb_priority = parse_priority (b_priority r), qb_descriptor = d,
             qb_user_email = b_user_email r, qb_queued_at = b_queued_at r\<rparr>) st))"

definition run_startup_recovery :: "env \<Rightarrow> AppState \<Rightarrow> (sqlx_error + unit) \<times> AppState" where
  "run_startup_recovery env st =
     (case on_pool (select_ids {Dispatched, Started}) st of
        (Err e, st) \<Rightarrow> (Err e, st)
      | (Ok in_flight_rows, st) \<Rightarrow>
     (case on_pool (finalize_rows (fail_row ''server restarted'') in_flight_rows) st of
        (Err e, st) \<Rightarrow> (Err e, st)
      | (Ok _, st) \<Rightarrow>
     (case on_pool (select_ids {Revoking}) st of
        (Err e, st) \<Rightarrow> (Err e, st)
      | (Ok revoking_rows, st) \<Rightarrow>
     (case on_pool (finalize_rows revoke_row revoking_rows) st of
        (Err e, st) \<Rightarrow> (Err e, st)
      | (Ok _, st) \<Rightarrow>
     (case on_pool select_queued st of
        (Err e, st) \<Rightarrow> (Err e, st)
      | (Ok queued_rows, st) \<Rightarrow>
     (case enqueue_rows env queued_rows st of
        (Err e, st) \<Rightarrow> (Err e, st)
      | (Ok _, st) \<Rightarrow> (Ok (), st\<lparr>log_watchers := []\<rparr>)))))))"

end
