(* ===== verification/Cbs_Access.thy ===== *)
theory Cbs_Access
  imports Cbs_Schema "HOL-Library.List_Lexorder" "HOL-Library.Char_ord"
begin

text \<open>
  Who may do what: roles, capabilities and scopes (\<open>db/roles.rs\<close>), scope patterns
  (\<open>scopes.rs\<close>), and the authenticated user with its checks (\<open>auth/extractors.rs\<close>).
\<close>

section \<open>Scope patterns\<close>

definition scope_pattern_matches :: "string \<Rightarrow> string \<Rightarrow> bool" where
  "scope_pattern_matches pattern val =
     (if pattern = ''*'' then True
      else case strip_suffix_char (CHR ''*'') pattern of
        Some pre \<Rightarrow> starts_with val pre
      | None \<Rightarrow> pattern = val)"

definition scope_covers_channel :: "string \<Rightarrow> string \<Rightarrow> bool" where
  "scope_covers_channel pattern channel_name =
     (if pattern = ''*'' then True else starts_with pattern (channel_name @ ''/''))"

section \<open>Roles\<close>

record ScopeEntry =
  se_scope_type :: string
  se_pattern :: string

record AssignmentWithScopes =
  as_role_name :: string
  as_caps :: "string list"
  as_scopes :: "ScopeEntry list"

definition create_role :: "string \<Rightarrow> string \<Rightarrow> bool \<Rightarrow> unit db" where
  "create_role name description builtin =
     exec (\<lambda>p. if map_of (p_roles p) name \<noteq> None
       then (Err (SqlxError ''UNIQUE constraint failed: roles.name''), p)
       else (Ok (), p\<lparr>p_roles := (name, \<lparr>r_description = description, r_builtin = builtin,
          r_created_at = p_now p\<rparr>) # p_roles p\<rparr>))"

definition get_role :: "string \<Rightarrow> RoleRow option db" where
  "get_role name = fetch (\<lambda>p. map_of (p_roles p) name)"

definition list_roles :: "(string \<times> RoleRow) list db" where
  "list_roles = fetch (\<lambda>p. sort_key fst (p_roles p))"

definition is_role_builtin :: "string \<Rightarrow> bool db" where
  "is_role_builtin name =
     fetch (\<lambda>p. case map_of (p_roles p) name of Some r \<Rightarrow> r_builtin r | None \<Rightarrow> False)"

text \<open>\<open>DELETE FROM roles\<close> with the cascades of the schema.\<close>

definition drop_role :: "string \<Rightarrow> SqlitePool \<Rightarrow> SqlitePool" where
  "drop_role name p =
     p\<lparr>p_roles := AList.delete name (p_roles p),
       p_role_caps := filter (\<lambda>(r, c). r \<noteq> name) (p_role_caps p),
       p_user_roles := filter (\<lambda>(u, r). r \<noteq> name) (p_user_roles p),
       p_role_scopes := filter (\<lambda>(r, t, s). r \<noteq> name) (p_role_scopes p)\<rparr>"

definition delete_role :: "string \<Rightarrow> bool db" where
  "delete_role name p =
     (case is_role_builtin name p of
        (Err e, p) \<Rightarrow> (Err e, p)
      | (Ok True, p) \<Rightarrow> (Ok False, p)
      | (Ok False, p) \<Rightarrow>
        exec (\<lambda>p. case map_of (p_roles p) name of
            Some r \<Rightarrow> if r_builtin r then (Ok False, p) else (Ok True, drop_role name p)
          | None \<Rightarrow> (Ok False, p)) p)"

definition get_role_caps :: "string \<Rightarrow> string list db" where
  "get_role_caps name =
     fetch (\<lambda>p. sort (map snd (filter (\<lambda>(r, c). r = name) (p_role_caps p))))"

definition insert_cap :: "string \<Rightarrow> string \<Rightarrow> unit db" where
  "insert_cap name cap =
     exec (\<lambda>p. if (name, cap) \<in> set (p_role_caps p) \<or> map_of (p_roles p) name = None
       then (Err (SqlxError ''constraint failed''), p)
       else (Ok (), p\<lparr>p_role_caps := p_role_caps p @ [(name, cap)]\<rparr>))"

definition insert_scope :: "string \<Rightarrow> ScopeEntry \<Rightarrow> unit db" where
  "insert_scope name s =
     exec (\<lambda>p. if (name, se_scope_type s, se_pattern s) \<in> set (p_role_scopes p) \<or>
           map_of (p_roles p) name = None \<or>
           se_scope_type s \<notin> {''channel'', ''registry'', ''repository''}
       then (Err (SqlxError ''constraint failed''), p)
       else (Ok (), p\<lparr>p_role_scopes := p_role_scopes p @ [(name, se_scope_type s, se_pattern s)]\<rparr>))"

text \<open>Run statements in order until one fails (\<open>?\<close> after each).\<close>

fun each :: "('a \<Rightarrow> unit db) \<Rightarrow> 'a list \<Rightarrow> unit db" where
  "each stmt [] p = (Ok (), p)"
| "each stmt (x # xs) p =
     (case stmt x p of (Err e, p) \<Rightarrow> (Err e, p) | (Ok _, p) \<Rightarrow> each stmt xs p)"

text \<open>
  A transaction: when its body fails, or the commit does, the tables are as they were
  before (the failures consumed stay consumed). \<open>conv\<close> turns a database error into the
  error type of the body. A rollback is taken to succeed.
\<close>

definition transaction_with ::
  "(sqlx_error \<Rightarrow> 'e) \<Rightarrow> (SqlitePool \<Rightarrow> ('e + 'a) \<times> SqlitePool) \<Rightarrow> SqlitePool \<Rightarrow> ('e + 'a) \<times> SqlitePool" where
  "transaction_with conv body p =
     (case exec (\<lambda>p. (Ok (), p)) p of
        (Err e, p) \<Rightarrow> (Err (conv e), p)
      | (Ok _, p0) \<Rightarrow>
        (case body p0 of
           (Err e, p1) \<Rightarrow> (Err e, p0\<lparr>p_faults := p_faults p1\<rparr>)
         | (Ok v, p1) \<Rightarrow>
           (case exec (\<lambda>p. (Ok (), p)) p1 of
              (Err e, p2) \<Rightarrow> (Err (conv e), p0\<lparr>p_faults := p_faults p2\<rparr>)
            | (Ok _, p2) \<Rightarrow> (Ok v, p2))))"

abbreviation transaction :: "'a db \<Rightarrow> 'a db" where
  "transaction \<equiv> transaction_with (\<lambda>e. e)"

definition seq_stmts :: "unit db \<Rightarrow> unit db \<Rightarrow> unit db" where
  "seq_stmts s t p = (case s p of (Err e, p) \<Rightarrow> (Err e, p) | (Ok _, p) \<Rightarrow> t p)"

definition set_role_caps_and_scopes :: "string \<Rightarrow> string list \<Rightarrow> ScopeEntry list \<Rightarrow> unit db" where
  "set_role_caps_and_scopes name caps scopes =
     transaction
       (seq_stmts (exec (\<lambda>p. (Ok (), p\<lparr>p_role_caps := filter (\<lambda>(r, c). r \<noteq> name) (p_role_caps p)\<rparr>)))
       (seq_stmts (each (insert_cap name) caps)
       (seq_stmts (exec (\<lambda>p. (Ok (), p\<lparr>p_role_scopes :=
           filter (\<lambda>(r, t, s). r \<noteq> name) (p_role_scopes p)\<rparr>)))
         (each (insert_scope name) scopes))))"

definition get_role_scopes :: "string \<Rightarrow> ScopeEntry list db" where
  "get_role_scopes name =
     fetch (\<lambda>p. map (\<lambda>(r, t, s). \<lparr>se_scope_type = t, se_pattern = s\<rparr>)
       (sort_key (\<lambda>(r, t, s). t) (sort_key (\<lambda>(r, t, s). s)
         (filter (\<lambda>(r, t, s). r = name) (p_role_scopes p)))))"

definition add_user_role :: "string \<Rightarrow> string \<Rightarrow> unit db" where
  "add_user_role email name =
     exec (\<lambda>p. if map_of (p_users p) email = None \<or> map_of (p_roles p) name = None
       then (Err (SqlxError ''FOREIGN KEY constraint failed''), p)
       else if (email, name) \<in> set (p_user_roles p) then (Ok (), p)
       else (Ok (), p\<lparr>p_user_roles := p_user_roles p @ [(email, name)]\<rparr>))"

definition remove_user_role :: "string \<Rightarrow> string \<Rightarrow> bool db" where
  "remove_user_role email name =
     exec (\<lambda>p. (Ok ((email, name) \<in> set (p_user_roles p)),
       p\<lparr>p_user_roles := filter (\<lambda>e. e \<noteq> (email, name)) (p_user_roles p)\<rparr>))"

definition insert_user_role :: "string \<Rightarrow> string \<Rightarrow> unit db" where
  "insert_user_role email name =
     exec (\<lambda>p. if map_of (p_users p) email = None \<or> map_of (p_roles p) name = None \<or>
           (email, name) \<in> set (p_user_roles p)
       then (Err (SqlxError ''constraint failed''), p)
       else (Ok (), p\<lparr>p_user_roles := p_user_roles p @ [(email, name)]\<rparr>))"

definition set_user_roles :: "string \<Rightarrow> string list \<Rightarrow> unit db" where
  "set_user_roles email names =
     transaction
       (seq_stmts (exec (\<lambda>p. (Ok (), p\<lparr>p_user_roles := filter (\<lambda>(u, r). u \<noteq> email) (p_user_roles p)\<rparr>)))
         (each (insert_user_role email) names))"

section \<open>Assignments\<close>

text \<open>The two joins behind the assignment query: one row per role and capability (scope),
  one row with \<open>NULL\<close> for a role without any.\<close>

definition user_role_names :: "SqlitePool \<Rightarrow> string \<Rightarrow> string list" where
  "user_role_names p email = sort (map snd (filter (\<lambda>(u, r). u = email) (p_user_roles p)))"

definition cap_rows :: "SqlitePool \<Rightarrow> string \<Rightarrow> (string \<times> string option) list" where
  "cap_rows p email = concat (map (\<lambda>r.
     let cs = sort (map snd (filter (\<lambda>(r', c). r' = r) (p_role_caps p)))
     in if cs = [] then [(r, None)] else map (\<lambda>c. (r, Some c)) cs) (user_role_names p email))"

definition scope_rows :: "SqlitePool \<Rightarrow> string \<Rightarrow> (string \<times> ScopeEntry option) list" where
  "scope_rows p email = concat (map (\<lambda>r.
     let ss = sort_key (\<lambda>(r, t, s). t) (sort_key (\<lambda>(r, t, s). s)
                (filter (\<lambda>(r', t, s). r' = r) (p_role_scopes p)))
     in if ss = [] then [(r, None)]
        else map (\<lambda>(r, t, s). (r, Some \<lparr>se_scope_type = t, se_pattern = s\<rparr>)) ss)
     (user_role_names p email))"

definition push_unique :: "string \<times> 'a option \<Rightarrow> (string, 'a list) hashmap \<Rightarrow> (string, 'a list) hashmap" where
  "push_unique row m =
     (let entry = (case map_of m (fst row) of Some e \<Rightarrow> e | None \<Rightarrow> [])
      in AList.update (fst row)
           (case snd row of
              Some x \<Rightarrow> if x \<in> set entry then entry else entry @ [x]
            | None \<Rightarrow> entry) m)"

definition get_user_assignments_with_scopes :: "string \<Rightarrow> AssignmentWithScopes list db" where
  "get_user_assignments_with_scopes email p =
     (case fetch (\<lambda>p. cap_rows p email) p of
        (Err e, p) \<Rightarrow> (Err e, p)
      | (Ok cs, p) \<Rightarrow>
        (case fetch (\<lambda>p. scope_rows p email) p of
           (Err e, p) \<Rightarrow> (Err e, p)
         | (Ok ss, p) \<Rightarrow>
           (let caps_map = fold push_unique cs [];
                scopes_map = fold push_unique ss []
            in (Ok (map (\<lambda>(r, caps). \<lparr>as_role_name = r, as_caps = caps,
                  as_scopes = (case map_of scopes_map r of Some e \<Rightarrow> e | None \<Rightarrow> [])\<rparr>)
                (sort_key fst caps_map)), p))))"

definition push_scope_row ::
  "string \<times> ScopeEntry option \<Rightarrow> (string \<times> ScopeEntry list) list \<Rightarrow> (string \<times> ScopeEntry list) list" where
  "push_scope_row row res =
     (let scope = (case snd row of Some s \<Rightarrow> [s] | None \<Rightarrow> []) in
      if res \<noteq> [] \<and> fst (last res) = fst row
      then butlast res @ [(fst row, snd (last res) @ scope)]
      else res @ [(fst row, scope)])"

definition get_user_roles :: "string \<Rightarrow> (string \<times> ScopeEntry list) list db" where
  "get_user_roles email p =
     (case fetch (\<lambda>p. scope_rows p email) p of
        (Err e, p) \<Rightarrow> (Err e, p)
      | (Ok rows, p) \<Rightarrow> (Ok (fold push_scope_row rows []), p))"

definition get_effective_caps :: "string \<Rightarrow> string list db" where
  "get_effective_caps email = fetch (\<lambda>p.
     sort (remdups (concat (map (\<lambda>r. map snd (filter (\<lambda>(r', c). r' = r) (p_role_caps p)))
       (user_role_names p email)))))"

definition count_active_wildcard_holders :: "nat db" where
  "count_active_wildcard_holders = fetch (\<lambda>p.
     length (remdups (map fst (filter (\<lambda>(email, u).
       u_active u \<and> \<not> u_is_robot u \<and>
       list_ex (\<lambda>(e, r). e = email \<and> (r, ''*'') \<in> set (p_role_caps p)) (p_user_roles p))
       (p_users p)))))"

section \<open>The authenticated user\<close>

datatype ScopeType = Channel | Registry | Repository

fun scope_type_str :: "ScopeType \<Rightarrow> string" where
  "scope_type_str Channel = ''channel''"
| "scope_type_str Registry = ''registry''"
| "scope_type_str Repository = ''repository''"

definition ROBOT_FORBIDDEN_CAPS :: "string list" where
  "ROBOT_FORBIDDEN_CAPS =
     [''*'', ''permissions:manage'', ''robots:manage'', ''apikeys:create:own'']"

definition first_robot_forbidden_cap :: "string list \<Rightarrow> string option" where
  "first_robot_forbidden_cap caps = find (\<lambda>c. c \<in> set ROBOT_FORBIDDEN_CAPS) caps"

record AuthUser =
  au_email :: string
  au_name :: string
  au_caps :: "string list"
  au_is_robot :: bool

definition has_cap :: "AuthUser \<Rightarrow> string \<Rightarrow> bool" where
  "has_cap user cap = list_ex (\<lambda>c. c = ''*'' \<or> c = cap) (au_caps user)"

definition has_any_cap :: "AuthUser \<Rightarrow> string list \<Rightarrow> bool" where
  "has_any_cap user caps = list_ex (has_cap user) caps"

definition display_identity :: "AuthUser \<Rightarrow> string" where
  "display_identity user = (if au_is_robot user then au_name user else au_email user)"

datatype StatusCode = OK | CREATED | ACCEPTED | BAD_REQUEST | UNAUTHORIZED | FORBIDDEN | NOT_FOUND | CONFLICT
  | INTERNAL_SERVER_ERROR | BAD_GATEWAY

text \<open>A rejected request: a status and the \<open>detail\<close> text.\<close>

type_synonym auth_error = "StatusCode \<times> string"

definition assignment_satisfies :: "AssignmentWithScopes \<Rightarrow> ScopeType \<times> string \<Rightarrow> bool" where
  "assignment_satisfies a check =
     (if as_scopes a = [] then True
      else list_ex (\<lambda>s. scope_pattern_matches (se_pattern s) (snd check))
        (filter (\<lambda>s. se_scope_type s = scope_type_str (fst check)) (as_scopes a)))"

definition require_scopes_all ::
  "AuthUser \<Rightarrow> (ScopeType \<times> string) list \<Rightarrow> SqlitePool \<Rightarrow> (auth_error + unit) \<times> SqlitePool" where
  "require_scopes_all user scope_checks p =
     (case get_user_assignments_with_scopes (au_email user) p of
        (Err _, p) \<Rightarrow> (Err (INTERNAL_SERVER_ERROR, ''failed to load user assignments''), p)
      | (Ok assignments, p) \<Rightarrow>
        if list_ex (\<lambda>a. list_all (assignment_satisfies a) scope_checks) assignments
        then (Ok (), p) else (Err (FORBIDDEN, ''insufficient scopes''), p))"

record UserRecord =
  ur_email :: string
  ur_name :: string
  ur_active :: bool
  ur_default_channel_id :: "int option"
  ur_is_robot :: bool

definition get_user :: "string \<Rightarrow> UserRecord option db" where
  "get_user email = fetch (\<lambda>p. map_option (\<lambda>u.
     \<lparr>ur_email = email, ur_name = u_name u, ur_active = u_active u,
      ur_default_channel_id = u_default_channel_id u, ur_is_robot = u_is_robot u\<rparr>)
     (map_of (p_users p) email))"

definition is_user_active :: "string \<Rightarrow> bool db" where
  "is_user_active email =
     fetch (\<lambda>p. case map_of (p_users p) email of Some u \<Rightarrow> u_active u | None \<Rightarrow> False)"

definition load_authed_user :: "string \<Rightarrow> SqlitePool \<Rightarrow> (auth_error + AuthUser) \<times> SqlitePool" where
  "load_authed_user email p =
     (case get_user email p of
        (Err _, p) \<Rightarrow> (Err (INTERNAL_SERVER_ERROR, ''failed to load user''), p)
      | (Ok None, p) \<Rightarrow> (Err (UNAUTHORIZED, ''user not found''), p)
      | (Ok (Some user), p) \<Rightarrow>
        if \<not> ur_active user then (Err (UNAUTHORIZED, ''user account deactivated''), p)
        else
          (case get_effective_caps (ur_email user) p of
             (Err _, p) \<Rightarrow> (Err (INTERNAL_SERVER_ERROR, ''failed to load capabilities''), p)
           | (Ok caps, p) \<Rightarrow>
             (let caps = (if ur_is_robot user
                then filter (\<lambda>c. c \<notin> set ROBOT_FORBIDDEN_CAPS) caps else caps)
              in (Ok \<lparr>au_email = ur_email user, au_name = ur_name user, au_caps = caps,
                   au_is_robot = ur_is_robot user\<rparr>, p))))"

section \<open>Failures and properties of the tables\<close>

text \<open>
  Two pools that differ in the schedule of failures only. A failed transaction leaves the
  pool \<open>unchanged\<close>; a successful one is a successful run of its body.
\<close>

definition unchanged :: "SqlitePool \<Rightarrow> SqlitePool \<Rightarrow> bool" where
  "unchanged p p' \<longleftrightarrow> (\<exists>fs. p' = p\<lparr>p_faults := fs\<rparr>)"

lemma unchanged_refl [simp]: "unchanged p p"
  unfolding unchanged_def by (rule exI[of _ "p_faults p"]) simp

lemma unchanged_trans: "unchanged p q \<Longrightarrow> unchanged q r \<Longrightarrow> unchanged p r"
  by (auto simp: unchanged_def)

lemma unchanged_fields:
  assumes "unchanged p p'"
  shows "p_users p' = p_users p" "p_roles p' = p_roles p" "p_role_caps p' = p_role_caps p"
    "p_user_roles p' = p_user_roles p" "p_role_scopes p' = p_role_scopes p" "p_now p' = p_now p"
    "p_tokens p' = p_tokens p" "p_api_keys p' = p_api_keys p" "p_robot_tokens p' = p_robot_tokens p"
    "p_robot_token_seq p' = p_robot_token_seq p" "p_channels p' = p_channels p"
    "p_channel_types p' = p_channel_types p" "p_channel_seq p' = p_channel_seq p"
    "p_channel_type_seq p' = p_channel_type_seq p" "p_periodic p' = p_periodic p" "p_builds p' = p_builds p"
    "p_workers p' = p_workers p"
  using assms by (auto simp: unchanged_def)

lemma same_tables_unchanged: "same_tables p p' \<Longrightarrow> unchanged p p'"
  by (auto simp: same_tables_def unchanged_def)

lemma exec_Ok:
  assumes "exec f p = (Ok v, p')"
  obtains q where "unchanged p q" "f q = (Ok v, p')"
  by (cases f p rule: exec_cases) (use assms that same_tables_unchanged in auto)

lemma exec_skip: "exec (\<lambda>p. (Ok (), p)) p = (r, p') \<Longrightarrow> unchanged p p'"
  by (cases "p_faults p") (auto simp: exec_def unchanged_def[of p "p\<lparr>p_faults := _\<rparr>"] split: option.splits)

lemma fetch_Ok: "fetch g p = (Ok v, p') \<Longrightarrow> unchanged p p' \<and> v = g p'"
  unfolding fetch_def by (elim exec_Ok) auto

lemma fetch_unchanged: "fetch g p = (r, p') \<Longrightarrow> unchanged p p'"
  by (rule same_tables_unchanged[OF fetch_same_tables])

lemma transaction_Err:
  assumes "transaction_with conv body p = (Err e, p')" shows "unchanged p p'"
proof -
  obtain r0 p0 where 0: "exec (\<lambda>p. (Ok (), p)) p = (r0, p0)" by (meson surj_pair)
  have u: "unchanged p p0" by (rule exec_skip[OF 0])
  show ?thesis
    using assms 0 u unchanged_trans[OF u] unfolding transaction_with_def
    by (auto split: sum.splits prod.splits simp: unchanged_def)
qed

lemma transaction_Ok:
  assumes "transaction_with conv body p = (Ok v, p')"
  obtains p0 p1 where "unchanged p p0" "body p0 = (Ok v, p1)" "unchanged p1 p'"
  using assms unfolding transaction_with_def
  by (auto split: sum.splits prod.splits dest!: exec_skip intro!: that)

lemma select_snd: "snd ` {e \<in> S. case e of (a, b) \<Rightarrow> a = x} = {b. (x, b) \<in> S}"
  by force

lemma get_effective_caps_Ok:
  assumes "get_effective_caps email p = (Ok caps, p')"
  shows "set caps = {c. \<exists>r. (email, r) \<in> set (p_user_roles p) \<and> (r, c) \<in> set (p_role_caps p)}" "unchanged p p'"
proof -
  have f: "unchanged p p'" "caps = sort (remdups (concat (map (\<lambda>r. map snd (filter (\<lambda>(r', c). r' = r) (p_role_caps p')))
      (user_role_names p' email))))"
    using fetch_Ok[OF assms[unfolded get_effective_caps_def]] by simp_all
  show "unchanged p p'" by (rule f(1))
  show "set caps = {c. \<exists>r. (email, r) \<in> set (p_user_roles p) \<and> (r, c) \<in> set (p_role_caps p)}"
    unfolding f(2) by (auto simp: user_role_names_def unchanged_fields[OF f(1)] select_snd)
qed

lemma load_authed_user_Ok:
  assumes "load_authed_user email p = (Ok u, p')"
  obtains row where "map_of (p_users p) email = Some row" "u_active row" "au_email u = email"
    "au_is_robot u = u_is_robot row" "unchanged p p'"
    "set (au_caps u) = {c. (\<exists>r. (email, r) \<in> set (p_user_roles p) \<and> (r, c) \<in> set (p_role_caps p)) \<and>
       (u_is_robot row \<longrightarrow> c \<notin> set ROBOT_FORBIDDEN_CAPS)}"
proof -
  obtain ur q caps where 1: "get_user email p = (Ok (Some ur), q)" and act: "ur_active ur"
    and 2: "get_effective_caps (ur_email ur) q = (Ok caps, p')"
    and u: "u = \<lparr>au_email = ur_email ur, au_name = ur_name ur,
      au_caps = (if ur_is_robot ur then filter (\<lambda>c. c \<notin> set ROBOT_FORBIDDEN_CAPS) caps else caps),
      au_is_robot = ur_is_robot ur\<rparr>"
    using assms unfolding load_authed_user_def
    by (auto simp: Let_def split: prod.splits sum.splits option.splits if_splits)
  obtain row where row: "unchanged p q" "map_of (p_users p) email = Some row" "ur_email ur = email"
      "ur_active ur = u_active row" "ur_is_robot ur = u_is_robot row"
    using 1 unfolding get_user_def
    by (cases "map_of (p_users p) email") (auto dest!: fetch_Ok simp: unchanged_fields)
  show thesis
  proof (rule that[of row])
    show "unchanged p p'" using row(1) get_effective_caps_Ok(2)[OF 2] unchanged_trans by blast
  qed (use row act u get_effective_caps_Ok(1)[OF 2] in \<open>auto simp: unchanged_fields\<close>)
qed

text \<open>Operations that keep a property of the state, whatever statements fail.\<close>

definition keeps :: "('s \<Rightarrow> bool) \<Rightarrow> ('s \<Rightarrow> 'r \<times> 's) \<Rightarrow> bool" where
  "keeps I f \<longleftrightarrow> (\<forall>p. I p \<longrightarrow> I (snd (f p)))"

lemma keepsD: "keeps I f \<Longrightarrow> I p \<Longrightarrow> f p = (r, p') \<Longrightarrow> I p'"
  by (metis keeps_def snd_conv)

lemma keeps_return [keeps_intros]: "keeps I (\<lambda>p. (r, p))" "keeps I (Pair r)"
  by (simp_all add: keeps_def)

lemma keeps_bind [keeps_intros]:
  assumes "keeps I f" "\<And>e. keeps I (g e)" "\<And>v. keeps I (h v)"
  shows "keeps I (\<lambda>p. case f p of (r, q) \<Rightarrow> (case r of Err e \<Rightarrow> g e q | Ok v \<Rightarrow> h v q))"
  using assms by (auto simp: keeps_def split: prod.splits sum.splits)

lemma keeps_if [keeps_intros]: "keeps I f \<Longrightarrow> keeps I g \<Longrightarrow> keeps I (\<lambda>p. if b then f p else g p)"
  by (cases b) simp_all

lemma keeps_option [keeps_intros]:
  "keeps I f \<Longrightarrow> (\<And>v. keeps I (g v)) \<Longrightarrow> keeps I (\<lambda>p. case x of None \<Rightarrow> f p | Some v \<Rightarrow> g v p)"
  by (cases x) simp_all

lemma keeps_bool [keeps_intros]:
  "keeps I f \<Longrightarrow> keeps I g \<Longrightarrow> keeps I (\<lambda>p. case x of True \<Rightarrow> f p | False \<Rightarrow> g p)"
  by (cases x) simp_all

lemma keeps_each [keeps_intros]: "(\<And>x. keeps I (stmt x)) \<Longrightarrow> keeps I (each stmt xs)"
proof (induction xs)
  case (Cons x xs)
  have "each stmt (x # xs) = (\<lambda>p. case stmt x p of (r, q) \<Rightarrow> (case r of Err e \<Rightarrow> (Err e, q) | Ok v \<Rightarrow> each stmt xs q))"
    by (rule ext) simp
  moreover have "keeps I (each stmt xs)" using Cons by blast
  ultimately show ?case using Cons.prems by (simp add: keeps_bind keeps_return)
qed (simp add: keeps_def)

lemma keeps_seq [keeps_intros]: "keeps I s \<Longrightarrow> keeps I t \<Longrightarrow> keeps I (seq_stmts s t)"
  by (auto simp: keeps_def seq_stmts_def split: prod.splits sum.splits)

text \<open>A property that does not look at the schedule.\<close>

locale table_invariant =
  fixes I :: "SqlitePool \<Rightarrow> bool"
  assumes faults: "I p \<Longrightarrow> I (p\<lparr>p_faults := fs\<rparr>)"
begin

lemma unchanged_inv: "unchanged p p' \<Longrightarrow> I p \<Longrightarrow> I p'"
  using faults by (auto simp: unchanged_def)

lemma keeps_exec: "keeps I f \<Longrightarrow> keeps I (exec f)"
  unfolding keeps_def
proof (intro allI impI)
  fix p assume f: "\<forall>p. I p \<longrightarrow> I (snd (f p))" and p: "I p"
  show "I (snd (exec f p))"
  proof (cases f p rule: exec_cases)
    case (fault e p0)
    then show ?thesis using unchanged_inv[OF same_tables_unchanged[OF fault(2)] p] by simp
  next
    case (run p0)
    then show ?thesis using unchanged_inv[OF same_tables_unchanged[OF run(2)] p] f by simp
  qed
qed

lemma keeps_fetch: "keeps I (fetch g)"
  unfolding fetch_def by (rule keeps_exec) (simp add: keeps_def)

lemma keeps_transaction: "keeps I body \<Longrightarrow> keeps I (transaction_with conv body)"
  unfolding keeps_def
proof (intro allI impI)
  fix p assume body: "\<forall>p. I p \<longrightarrow> I (snd (body p))" and p: "I p"
  obtain r p' where t: "transaction_with conv body p = (r, p')" by (meson surj_pair)
  show "I (snd (transaction_with conv body p))"
  proof (cases r)
    case (Inl e)
    then show ?thesis using t transaction_Err[of conv body p e p'] unchanged_inv p by simp
  next
    case (Inr v)
    then obtain p0 p1 where "unchanged p p0" "body p0 = (Ok v, p1)" "unchanged p1 p'"
      using t transaction_Ok[of conv body p v p'] by blast
    then show ?thesis using body p unchanged_inv t by (metis snd_conv)
  qed
qed

end

end
