(* ===== verification/Cbs_Channels.thy ===== *)
theory Cbs_Channels
  imports Cbs_Access
begin

text \<open>
  Channels and their types (\<open>db/channels.rs\<close>), the resolution of a descriptor to a
  channel type with its scope check and image rewrite (\<open>channels/mod.rs\<close>), and the
  descriptor validator (\<open>components/validator.rs\<close>).
\<close>

section \<open>Channel statements\<close>

definition channel_name_taken :: "SqlitePool \<Rightarrow> int option \<Rightarrow> string \<Rightarrow> bool" where
  "channel_name_taken p self name =
     list_ex (\<lambda>(j, c). Some j \<noteq> self \<and> ch_name c = name \<and> ch_deleted_at c = None) (p_channels p)"

definition create_channel :: "string \<Rightarrow> string \<Rightarrow> int db" where
  "create_channel name description =
     exec (\<lambda>p. if channel_name_taken p None name
       then (Err (UniqueViolation ''channels.name''), p)
       else (Ok (p_channel_seq p), p\<lparr>p_channel_seq := p_channel_seq p + 1,
          p_channels := (p_channel_seq p, \<lparr>ch_name = name, ch_description = description,
            ch_default_type_id = None, ch_deleted_at = None, ch_created_at = p_now p,
            ch_updated_at = p_now p\<rparr>) # p_channels p\<rparr>))"

definition get_channel_by_id :: "int \<Rightarrow> (int \<times> ChannelRow) option db" where
  "get_channel_by_id i =
     fetch (\<lambda>p. find (\<lambda>(j, c). j = i \<and> ch_deleted_at c = None) (p_channels p))"

definition get_channel_by_name :: "string \<Rightarrow> (int \<times> ChannelRow) option db" where
  "get_channel_by_name name =
     fetch (\<lambda>p. find (\<lambda>(j, c). ch_name c = name \<and> ch_deleted_at c = None) (p_channels p))"

definition list_active_channels :: "(int \<times> ChannelRow) list db" where
  "list_active_channels =
     fetch (\<lambda>p. sort_key (\<lambda>(j, c). ch_name c) (filter (\<lambda>(j, c). ch_deleted_at c = None) (p_channels p)))"

definition active_channel :: "SqlitePool \<Rightarrow> int \<Rightarrow> bool" where
  "active_channel p i =
     (case map_of (p_channels p) i of Some c \<Rightarrow> ch_deleted_at c = None | None \<Rightarrow> False)"

definition update_channel :: "int \<Rightarrow> string \<Rightarrow> string \<Rightarrow> bool db" where
  "update_channel i name description =
     exec (\<lambda>p. if \<not> active_channel p i then (Ok False, p)
       else if channel_name_taken p (Some i) name
       then (Err (UniqueViolation ''channels.name''), p)
       else (Ok True, p\<lparr>p_channels := update_row i (\<lambda>c. c\<lparr>ch_name := name,
          ch_description := description, ch_updated_at := p_now p\<rparr>) (p_channels p)\<rparr>))"

text \<open>Both statements of the soft delete run in one transaction.\<close>

definition soft_delete_channel :: "int \<Rightarrow> bool db" where
  "soft_delete_channel i = transaction (\<lambda>p.
     case exec (\<lambda>p. if active_channel p i
          then (Ok True, p\<lparr>p_channels := update_row i (\<lambda>c. c\<lparr>ch_deleted_at := Some (p_now p),
             ch_updated_at := p_now p\<rparr>) (p_channels p)\<rparr>)
          else (Ok False, p)) p of
       (Err e, p) \<Rightarrow> (Err e, p)
     | (Ok False, p) \<Rightarrow> (Ok False, p)
     | (Ok True, p) \<Rightarrow>
       exec (\<lambda>p. (Ok True, p\<lparr>p_channel_types := map (\<lambda>(j, t).
          (j, if ct_channel_id t = i \<and> ct_deleted_at t = None
              then t\<lparr>ct_deleted_at := Some (p_now p), ct_updated_at := p_now p\<rparr> else t))
          (p_channel_types p)\<rparr>)) p)"

definition type_name_taken :: "SqlitePool \<Rightarrow> int \<Rightarrow> string \<Rightarrow> bool" where
  "type_name_taken p channel_id name =
     list_ex (\<lambda>(j, t). ct_channel_id t = channel_id \<and> ct_type_name t = name \<and> ct_deleted_at t = None)
       (p_channel_types p)"

definition create_type :: "int \<Rightarrow> string \<Rightarrow> string \<Rightarrow> string \<Rightarrow> int db" where
  "create_type channel_id name project prefix_template =
     exec (\<lambda>p. if map_of (p_channels p) channel_id = None \<or>
           name \<notin> {''dev'', ''release'', ''test'', ''ci''}
       then (Err (SqlxError ''constraint failed''), p)
       else if type_name_taken p channel_id name
       then (Err (UniqueViolation ''channel_types.channel_id, channel_types.type_name''), p)
       else (Ok (p_channel_type_seq p), p\<lparr>p_channel_type_seq := p_channel_type_seq p + 1,
          p_channel_types := (p_channel_type_seq p, \<lparr>ct_channel_id = channel_id,
            ct_type_name = name, ct_project = project, ct_prefix_template = prefix_template,
            ct_deleted_at = None, ct_created_at = p_now p, ct_updated_at = p_now p\<rparr>)
            # p_channel_types p\<rparr>))"

definition get_type :: "int \<Rightarrow> (int \<times> ChannelTypeRow) option db" where
  "get_type i =
     fetch (\<lambda>p. find (\<lambda>(j, t). j = i \<and> ct_deleted_at t = None) (p_channel_types p))"

definition list_types_for_channel :: "int \<Rightarrow> (int \<times> ChannelTypeRow) list db" where
  "list_types_for_channel channel_id =
     fetch (\<lambda>p. sort_key (\<lambda>(j, t). ct_type_name t)
       (filter (\<lambda>(j, t). ct_channel_id t = channel_id \<and> ct_deleted_at t = None) (p_channel_types p)))"

definition active_type :: "SqlitePool \<Rightarrow> int \<Rightarrow> bool" where
  "active_type p i =
     (case map_of (p_channel_types p) i of Some t \<Rightarrow> ct_deleted_at t = None | None \<Rightarrow> False)"

definition update_type :: "int \<Rightarrow> string \<Rightarrow> string \<Rightarrow> bool db" where
  "update_type i project prefix_template =
     exec (\<lambda>p. if \<not> active_type p i then (Ok False, p)
       else (Ok True, p\<lparr>p_channel_types := update_row i (\<lambda>t. t\<lparr>ct_project := project,
          ct_prefix_template := prefix_template, ct_updated_at := p_now p\<rparr>) (p_channel_types p)\<rparr>))"

definition soft_delete_type :: "int \<Rightarrow> bool db" where
  "soft_delete_type i = transaction (\<lambda>p.
     case exec (\<lambda>p. if active_type p i
          then (Ok True, p\<lparr>p_channel_types := update_row i (\<lambda>t. t\<lparr>ct_deleted_at := Some (p_now p),
             ct_updated_at := p_now p\<rparr>) (p_channel_types p)\<rparr>)
          else (Ok False, p)) p of
       (Err e, p) \<Rightarrow> (Err e, p)
     | (Ok False, p) \<Rightarrow> (Ok False, p)
     | (Ok True, p) \<Rightarrow>
       exec (\<lambda>p. (Ok True, p\<lparr>p_channels := map (\<lambda>(j, c).
          (j, if ch_default_type_id c = Some i
              then c\<lparr>ch_default_type_id := None, ch_updated_at := p_now p\<rparr> else c))
          (p_channels p)\<rparr>)) p)"

definition set_default_type :: "int \<Rightarrow> int \<Rightarrow> bool db" where
  "set_default_type channel_id type_id =
     exec (\<lambda>p. if active_channel p channel_id \<and>
           list_ex (\<lambda>(j, t). j = type_id \<and> ct_channel_id t = channel_id \<and> ct_deleted_at t = None)
             (p_channel_types p)
       then (Ok True, p\<lparr>p_channels := update_row channel_id (\<lambda>c.
          c\<lparr>ch_default_type_id := Some type_id, ch_updated_at := p_now p\<rparr>) (p_channels p)\<rparr>)
       else (Ok False, p))"

record ResolvedChannelType =
  rct_channel_id :: int
  rct_channel_type_id :: int
  rct_project :: string
  rct_prefix_template :: string

definition resolve_channel_type :: "string \<Rightarrow> string \<Rightarrow> ResolvedChannelType option db" where
  "resolve_channel_type channel_name type_name =
     fetch (\<lambda>p. map_option (\<lambda>(j, t).
         \<lparr>rct_channel_id = ct_channel_id t, rct_channel_type_id = j, rct_project = ct_project t,
          rct_prefix_template = ct_prefix_template t\<rparr>)
       (find (\<lambda>(j, t). ct_type_name t = type_name \<and> ct_deleted_at t = None \<and>
          (case map_of (p_channels p) (ct_channel_id t) of
             Some c \<Rightarrow> ch_name c = channel_name \<and> ch_deleted_at c = None
           | None \<Rightarrow> False)) (p_channel_types p)))"

section \<open>Resolution\<close>

record ResolvedChannel =
  res_channel_id :: int
  res_channel_type_id :: int
  res_prefix_template :: string

definition prefix_template_contains_username :: "string \<Rightarrow> bool" where
  "prefix_template_contains_username template = str_contains template ''${username}''"

definition resolve_prefix_template :: "string \<Rightarrow> string \<Rightarrow> string" where
  "resolve_prefix_template template email =
     (if template = [] then []
      else str_replace template ''${username}'' (before_char (CHR ''@'') email))"

definition check_channel_scope ::
  "string \<Rightarrow> string \<Rightarrow> SqlitePool \<Rightarrow> (string + bool) \<times> SqlitePool" where
  "check_channel_scope email scope_value p =
     (case get_user_assignments_with_scopes email p of
        (Err e, p) \<Rightarrow> (Err (''failed to load user assignments: '' @ sqlx_error_display e), p)
      | (Ok assignments, p) \<Rightarrow>
        (Ok (list_ex (\<lambda>a. if as_scopes a = [] then True
            else list_ex (\<lambda>s. se_scope_type s = ''channel'' \<and>
              scope_pattern_matches (se_pattern s) scope_value) (as_scopes a)) assignments), p))"

fun version_type_str :: "VersionType \<Rightarrow> string" where
  "version_type_str Release = ''release''"
| "version_type_str Dev = ''dev''"
| "version_type_str Test = ''test''"
| "version_type_str Ci = ''ci''"

definition version_type_of_str :: "string \<Rightarrow> VersionType" where
  "version_type_of_str s =
     (if s = ''release'' then Release else if s = ''dev'' then Dev
      else if s = ''test'' then Test else if s = ''ci'' then Ci else Dev)"

text \<open>Step 1: the channel, by name or the user's default.\<close>

definition resolve_channel ::
  "BuildDescriptor \<Rightarrow> UserRecord \<Rightarrow> SqlitePool \<Rightarrow> (string + int \<times> ChannelRow) \<times> SqlitePool" where
  "resolve_channel d user p =
     (case (case d_channel d of Some name \<Rightarrow> if name = [] then None else Some name
              | None \<Rightarrow> None) of
        Some name \<Rightarrow>
          (case get_channel_by_name name p of
             (Err e, p) \<Rightarrow> (Err (''failed to look up channel: '' @ sqlx_error_display e), p)
           | (Ok None, p) \<Rightarrow> (Err (''channel '' @ squoted name @ '' not found''), p)
           | (Ok (Some c), p) \<Rightarrow> (Ok c, p))
      | None \<Rightarrow>
          (case ur_default_channel_id user of
             None \<Rightarrow> (Err (''no channel specified and no default channel assigned '' @ em_dash @
               '' contact your administrator''), p)
           | Some channel_id \<Rightarrow>
             (case get_channel_by_id channel_id p of
                (Err e, p) \<Rightarrow>
                  (Err (''failed to look up default channel: '' @ sqlx_error_display e), p)
              | (Ok None, p) \<Rightarrow> (Err (''default channel no longer exists '' @ em_dash @
                  '' contact your administrator''), p)
              | (Ok (Some c), p) \<Rightarrow> (Ok c, p))))"

text \<open>Step 2: the type, from the descriptor or the channel's default.\<close>

definition resolve_type_name ::
  "BuildDescriptor \<Rightarrow> ChannelRow \<Rightarrow> SqlitePool \<Rightarrow> (string + string) \<times> SqlitePool" where
  "resolve_type_name d channel p =
     (case d_version_type d of
        Some vt \<Rightarrow> (Ok (version_type_str vt), p)
      | None \<Rightarrow>
        (case ch_default_type_id channel of
           None \<Rightarrow> (Err (''channel '' @ squoted (ch_name channel) @ '' has no default type '' @
             em_dash @ '' specify --type explicitly''), p)
         | Some default_type_id \<Rightarrow>
           (case get_type default_type_id p of
              (Err e, p) \<Rightarrow> (Err (''failed to look up default type: '' @ sqlx_error_display e), p)
            | (Ok None, p) \<Rightarrow> (Err (''channel '' @ squoted (ch_name channel) @
                '' default type no longer exists '' @ em_dash @ '' contact your administrator''), p)
            | (Ok (Some (_, t)), p) \<Rightarrow> (Ok (ct_type_name t), p))))"

definition rewritten_name :: "string \<Rightarrow> string \<Rightarrow> string \<Rightarrow> string" where
  "rewritten_name project pre img =
     (if pre = [] then project @ ''/'' @ img else project @ ''/'' @ pre @ ''/'' @ img)"

definition resolve_and_rewrite ::
  "BuildDescriptor \<Rightarrow> UserRecord \<Rightarrow> SqlitePool \<Rightarrow>
     (string + ResolvedChannel \<times> BuildDescriptor) \<times> SqlitePool" where
  "resolve_and_rewrite d user p =
     (case resolve_channel d user p of
        (Err e, p) \<Rightarrow> (Err e, p)
      | (Ok (_, channel), p) \<Rightarrow>
     (case resolve_type_name d channel p of
        (Err e, p) \<Rightarrow> (Err e, p)
      | (Ok type_name, p) \<Rightarrow>
     (case resolve_channel_type (ch_name channel) type_name p of
        (Err e, p) \<Rightarrow> (Err (''failed to resolve channel/type: '' @ sqlx_error_display e), p)
      | (Ok None, p) \<Rightarrow> (Err (''type '' @ squoted type_name @
          '' is not configured for channel '' @ squoted (ch_name channel)), p)
      | (Ok (Some resolved), p) \<Rightarrow>
        (let scope_value = ch_name channel @ ''/'' @ type_name in
         case check_channel_scope (ur_email user) scope_value p of
           (Err e, p) \<Rightarrow> (Err e, p)
         | (Ok False, p) \<Rightarrow>
             (Err (''insufficient scope for channel/type '' @ squoted scope_value), p)
         | (Ok True, p) \<Rightarrow>
           (let pre = resolve_prefix_template (rct_prefix_template resolved) (ur_email user);
                d = d\<lparr>d_dst_image := (d_dst_image d)\<lparr>img_name :=
                      rewritten_name (rct_project resolved) pre (img_name (d_dst_image d))\<rparr>,
                    d_channel := Some (ch_name channel),
                    d_version_type := Some (version_type_of_str type_name)\<rparr>
            in (Ok (\<lparr>res_channel_id = rct_channel_id resolved,
                  res_channel_type_id = rct_channel_type_id resolved,
                  res_prefix_template = rct_prefix_template resolved\<rparr>, d), p))))))"

section \<open>Descriptor validation\<close>

datatype ValidationError = EmptyComponents | UnknownComponent string

fun validation_error_display :: "ValidationError \<Rightarrow> string" where
  "validation_error_display EmptyComponents = ''descriptor `components` array is empty''"
| "validation_error_display (UnknownComponent name) = ''unknown component: '' @ name"

fun first_unknown :: "string list \<Rightarrow> BuildComponent list \<Rightarrow> ValidationError + unit" where
  "first_unknown known [] = Ok ()"
| "first_unknown known (c # cs) =
     (if comp_name c \<notin> set known then Err (UnknownComponent (comp_name c))
      else first_unknown known cs)"

definition validate_descriptor :: "BuildDescriptor \<Rightarrow> string list \<Rightarrow> ValidationError + unit" where
  "validate_descriptor d known =
     (if d_components d = [] then Err EmptyComponents else first_unknown known (d_components d))"

end
