(* ===== verification/Cbs_Routes.thy ===== *)
theory Cbs_Routes
  imports Cbs_Recovery Cbs_Channels
begin

text \<open>
  The REST operations on builds (\<open>routes/builds.rs\<close>): submit, list, get and revoke, with
  their capability and ownership checks, and the shared insertion \<open>insert_build_internal\<close>.
  A response is a status with a body, or a rejection.
\<close>

record SubmitBuildBody =
  sb_descriptor :: BuildDescriptor
  sb_priority :: Priority

record SubmitBuildResponse =
  sr_id :: build_id
  sr_state :: string
  sr_is_robot :: bool
  sr_warning :: "string option"

section \<open>Submission\<close>

definition insert_build_internal ::
  "env \<Rightarrow> BuildDescriptor \<Rightarrow> string \<Rightarrow> Priority \<Rightarrow> string option \<Rightarrow> int option \<Rightarrow> int option \<Rightarrow>
     AppState \<Rightarrow> (string + build_id \<times> nat) \<times> AppState" where
  "insert_build_internal env d user_email priority periodic_task_id channel_id channel_type_id st =
     (case e_descriptor_to_string env d of
        Err e \<Rightarrow> (Err (''failed to serialize descriptor: '' @ e), st)
      | Ok descriptor_json \<Rightarrow>
     (case on_pool (insert_build descriptor_json user_email (priority_str priority)
          periodic_task_id channel_id channel_type_id) st of
        (Err e, st) \<Rightarrow> (Err (''failed to insert build: '' @ sqlx_error_display e), st)
      | (Ok i, st) \<Rightarrow>
     (case on_pool (insert_build_log_row i (''builds/'' @ show_int i @ ''.log'')) st of
        (Err e, st) \<Rightarrow> (Err (''failed to insert build_logs row: '' @ sqlx_error_display e), st)
      | (Ok _, st) \<Rightarrow>
        (let st = with_queue (enqueue \<lparr>qb_build_id = i, qb_priority = priority,
               qb_descriptor = d, qb_user_email = user_email, qb_queued_at = now st\<rparr>) st;
             (h, n, l) = pending_counts (queue st)
         in (Ok (i, h + n + l), spawn SpawnedDispatch st)))))"

definition lift_db :: "(SqlitePool \<Rightarrow> 'r \<times> SqlitePool) \<Rightarrow> AppState \<Rightarrow> 'r \<times> AppState" where
  "lift_db f st = (case f (pool st) of (r, p) \<Rightarrow> (r, st\<lparr>pool := p\<rparr>))"

definition repo_scope_checks :: "BuildDescriptor \<Rightarrow> (ScopeType \<times> string) list" where
  "repo_scope_checks d = List.map_filter (\<lambda>c. map_option (\<lambda>r. (Repository, r)) (comp_repo c))
     (d_components d)"

definition check_repo_scopes ::
  "AuthUser \<Rightarrow> BuildDescriptor \<Rightarrow> AppState \<Rightarrow> (auth_error + unit) \<times> AppState" where
  "check_repo_scopes user d st =
     (if repo_scope_checks d \<noteq> [] then lift_db (require_scopes_all user (repo_scope_checks d)) st
      else (Ok (), st))"

definition sign_off :: "AuthUser \<Rightarrow> BuildDescriptor \<Rightarrow> BuildDescriptor" where
  "sign_off user d = d\<lparr>d_signed_off_by :=
     (d_signed_off_by d)\<lparr>sob_user := au_name user, sob_email := au_email user\<rparr>\<rparr>"

definition submit_build ::
  "env \<Rightarrow> AuthUser \<Rightarrow> SubmitBuildBody \<Rightarrow> AppState \<Rightarrow>
     (auth_error + SubmitBuildResponse) \<times> AppState" where
  "submit_build env user body st =
     (if \<not> has_cap user ''builds:create'' then
        (Err (FORBIDDEN, ''missing required capability: builds:create''), st)
      else case validate_descriptor (sb_descriptor body) (components st) of
        Err e \<Rightarrow> (Err (BAD_REQUEST, validation_error_display e), st)
      | Ok _ \<Rightarrow>
     (case check_repo_scopes user (sb_descriptor body) st of
        (Err e, st) \<Rightarrow> (Err e, st)
      | (Ok _, st) \<Rightarrow>
     (case on_pool (get_user (au_email user)) st of
        (Err _, st) \<Rightarrow> (Err (INTERNAL_SERVER_ERROR, ''database error''), st)
      | (Ok None, st) \<Rightarrow> (Err (INTERNAL_SERVER_ERROR, ''user record not found''), st)
      | (Ok (Some user_record), st) \<Rightarrow>
     (case lift_db (resolve_and_rewrite (sign_off user (sb_descriptor body)) user_record) st of
        (Err e, st) \<Rightarrow> (Err (BAD_REQUEST, e), st)
      | (Ok (resolved, d), st) \<Rightarrow>
        if ur_is_robot user_record \<and>
           prefix_template_contains_username (res_prefix_template resolved) then
          (Err (BAD_REQUEST, ''robot accounts cannot submit builds to channels that use the '' @
             ''${username} prefix template''), st)
        else
     (case insert_build_internal env d (au_email user) (sb_priority body) None
          (Some (res_channel_id resolved)) (Some (res_channel_type_id resolved)) st of
        (Err e, st) \<Rightarrow> (Err (INTERNAL_SERVER_ERROR, e), st)
      | (Ok (i, pending_count), st) \<Rightarrow>
        (Ok \<lparr>sr_id = i, sr_state = ''queued'', sr_is_robot = au_is_robot user,
             sr_warning = (if pending_count > 1
               then Some (show_nat pending_count @ '' build(s) in queue'') else None)\<rparr>,
         st))))))"

section \<open>Reading builds\<close>

definition route_list_builds ::
  "AuthUser \<Rightarrow> string option \<Rightarrow> string option \<Rightarrow> AppState \<Rightarrow>
     (auth_error + BuildListRecord list) \<times> AppState" where
  "route_list_builds user param_user param_state st =
     (let can_list_any = has_cap user ''builds:list:any'';
          can_list_own = has_cap user ''builds:list:own'' in
      if \<not> can_list_any \<and> \<not> can_list_own then
        (Err (FORBIDDEN,
           ''missing required capability: builds:list:own or builds:list:any''), st)
      else
        (let user_filter = (if can_list_any then param_user else Some (au_email user)) in
         case on_pool (list_builds user_filter param_state) st of
           (Err _, st) \<Rightarrow> (Err (INTERNAL_SERVER_ERROR, ''failed to list builds''), st)
         | (Ok builds, st) \<Rightarrow> (Ok builds, st)))"

definition route_get_build ::
  "env \<Rightarrow> AuthUser \<Rightarrow> build_id \<Rightarrow> AppState \<Rightarrow> (auth_error + BuildRecord) \<times> AppState" where
  "route_get_build env user i st =
     (case on_pool (get_build (e_value_from_str env) i) st of
        (Err _, st) \<Rightarrow> (Err (INTERNAL_SERVER_ERROR, ''database error''), st)
      | (Ok None, st) \<Rightarrow> (Err (NOT_FOUND, ''build not found''), st)
      | (Ok (Some build), st) \<Rightarrow>
        if has_cap user ''builds:list:any'' then (Ok build, st)
        else if \<not> has_cap user ''builds:list:own'' then
          (Err (FORBIDDEN,
             ''missing required capability: builds:list:own or builds:list:any''), st)
        else if br_user_email build \<noteq> au_email user then
          (Err (NOT_FOUND, ''build not found''), st)
        else (Ok build, st))"

section \<open>Revocation\<close>

definition revoke_build ::
  "env \<Rightarrow> AuthUser \<Rightarrow> build_id \<Rightarrow> AppState \<Rightarrow> (auth_error + string) \<times> AppState" where
  "revoke_build env user i st =
     (let can_revoke_any = has_cap user ''builds:revoke:any'';
          can_revoke_own = has_cap user ''builds:revoke:own'' in
      if \<not> can_revoke_any \<and> \<not> can_revoke_own then
        (Err (FORBIDDEN,
           ''missing required capability: builds:revoke:own or builds:revoke:any''), st)
      else case on_pool (get_build (e_value_from_str env) i) st of
        (Err _, st) \<Rightarrow> (Err (INTERNAL_SERVER_ERROR, ''database error''), st)
      | (Ok None, st) \<Rightarrow> (Err (NOT_FOUND, ''build not found''), st)
      | (Ok (Some build), st) \<Rightarrow>
        if \<not> can_revoke_any \<and> br_user_email build \<noteq> au_email user then
          (Err (NOT_FOUND, ''build not found''), st)
        else
          (case br_state build of
             Queued \<Rightarrow>
               (let st = with_queue (\<lambda>q. snd (remove_by_id q i)) st in
                case on_pool (update_build_state i Revoked None) st of
                  (Err _, st) \<Rightarrow> (Err (INTERNAL_SERVER_ERROR, ''database error''), st)
                | (Ok _, st) \<Rightarrow> (Ok (''build '' @ show_int i @ '' revoked''), st))
           | Dispatched \<Rightarrow>
               (case send_build_revoke i st of
                  (Err _, st) \<Rightarrow> (Err (INTERNAL_SERVER_ERROR, ''failed to send revoke''), st)
                | (Ok _, st) \<Rightarrow> (Ok (''build '' @ show_int i @ '' revoke sent '' @ em_dash @
                    '' now revoking''), st))
           | Started \<Rightarrow>
               (case send_build_revoke i st of
                  (Err _, st) \<Rightarrow> (Err (INTERNAL_SERVER_ERROR, ''failed to send revoke''), st)
                | (Ok _, st) \<Rightarrow> (Ok (''build '' @ show_int i @ '' revoke sent '' @ em_dash @
                    '' now revoking''), st))
           | Revoking \<Rightarrow> (Ok (''build '' @ show_int i @ '' already revoking''), st)
           | terminal \<Rightarrow>
               (Err (CONFLICT, ''build already in terminal state: '' @
                  build_state_display terminal), st)))"

end
