(* ===== verification/Cbs_Invariants.thy ===== *)
theory Cbs_Invariants
  imports Cbs_Routes
begin

text \<open>
  What every operation of the server keeps true of its memory, under every schedule of
  database failures: no build is pending twice or both pending and active, every build in
  memory has a row, a live acknowledgement timer belongs to the current dispatch of its
  build, and an assignment whose receipt is not proved has such a timer. Startup recovery
  establishes it (\<open>mem_inv_recovery\<close>), and each handler and request keeps it.
\<close>

section \<open>Identifiers in memory\<close>

definition pending_ids :: "BuildQueue \<Rightarrow> build_id list" where
  "pending_ids q = map qb_build_id (pending q)"

lemma pending_simps [simp]:
  "pending (q\<lparr>q_active := a\<rparr>) = pending q" "pending (q\<lparr>q_workers := w\<rparr>) = pending q"
  "pending_ids (q\<lparr>q_active := a\<rparr>) = pending_ids q" "pending_ids (q\<lparr>q_workers := w\<rparr>) = pending_ids q"
  by (simp_all add: pending_def pending_ids_def)

lemma mset_pending_enqueue:
  "mset (pending (enqueue b q)) = add_mset b (mset (pending q))"
  "mset (pending (enqueue_front b q)) = add_mset b (mset (pending q))"
  by (cases "qb_priority b"; simp add: pending_def enqueue_def enqueue_front_def)+

lemma mset_pending_ids_enqueue:
  "mset (pending_ids (enqueue b q)) = mset (qb_build_id b # pending_ids q)"
  "mset (pending_ids (enqueue_front b q)) = mset (qb_build_id b # pending_ids q)"
  by (simp_all add: pending_ids_def mset_pending_enqueue)

lemma pending_ids_enqueue:
  "set (pending_ids (enqueue b q)) = insert (qb_build_id b) (set (pending_ids q))"
  "set (pending_ids (enqueue_front b q)) = insert (qb_build_id b) (set (pending_ids q))"
  "distinct (pending_ids (enqueue b q)) \<longleftrightarrow>
     qb_build_id b \<notin> set (pending_ids q) \<and> distinct (pending_ids q)"
  "distinct (pending_ids (enqueue_front b q)) \<longleftrightarrow>
     qb_build_id b \<notin> set (pending_ids q) \<and> distinct (pending_ids q)"
  using mset_eq_setD[OF mset_pending_ids_enqueue(1)[of b q]]
    mset_eq_setD[OF mset_pending_ids_enqueue(2)[of b q]]
    mset_eq_imp_distinct_iff[OF mset_pending_ids_enqueue(1)[of b q]]
    mset_eq_imp_distinct_iff[OF mset_pending_ids_enqueue(2)[of b q]]
  by simp_all

lemma set_pending_enqueue:
  "set (pending (enqueue b q)) = insert b (set (pending q))"
  "set (pending (enqueue_front b q)) = insert b (set (pending q))"
  by (cases "qb_priority b"; auto simp: pending_def enqueue_def enqueue_front_def)+

lemma next_pending_Some:
  assumes "next_pending q = (Some b, q')"
  shows "pending q = b # pending q'" and "lanes_ok q \<Longrightarrow> lanes_ok q'"
    and "q_active q' = q_active q" and "q_workers q' = q_workers q"
  using assms lanes_ok_next[of q] next_pending_empty[of q] next_pending_Cons[of q]
    next_pending_other_fields[OF assms]
  by (cases "pending q"; force)+

lemma next_pending_None: "next_pending q = (None, q') \<Longrightarrow> pending q = [] \<and> q' = q"
  using next_pending_empty[of q] next_pending_Cons[of q] by (cases "pending q") force+

lemma remove_by_id_ids:
  assumes "distinct (pending_ids q)"
  shows "set (pending_ids (snd (remove_by_id q i))) = set (pending_ids q) - {i}"
    and "distinct (pending_ids (snd (remove_by_id q i)))"
    and "set (pending (snd (remove_by_id q i))) \<subseteq> set (pending q)"
proof -
  show "set (pending (snd (remove_by_id q i))) \<subseteq> set (pending q)"
    by (auto simp: remove_by_id_snd dest: notin_set_remove1 split: option.splits)
      (meson notin_set_remove1)
  let ?f = "find (\<lambda>b. qb_build_id b = i) (pending q)"
  have d: "distinct (pending q)" using assms by (simp add: pending_ids_def distinct_map)
  have "set (pending_ids (snd (remove_by_id q i))) = set (pending_ids q) - {i} \<and>
    distinct (pending_ids (snd (remove_by_id q i)))"
  proof (cases ?f)
    case None
    then have "i \<notin> set (pending_ids q)" by (auto simp: pending_ids_def find_None_iff)
    then show ?thesis using assms None by (simp add: remove_by_id_snd pending_ids_def)
  next
    case (Some b)
    then have b: "b \<in> set (pending q)" "qb_build_id b = i" by (auto dest: find_SomeD)
    have inj: "inj_on qb_build_id (set (pending q))"
      using assms by (simp add: pending_ids_def distinct_map)
    have "qb_build_id ` (set (pending q) - {b}) = qb_build_id ` set (pending q) - {i}"
      using inj b by (auto simp: inj_on_def)
    then show ?thesis
      using Some d inj by (auto simp: remove_by_id_snd pending_ids_def distinct_map
          inj_on_diff distinct_remove1)
  qed
  then show "set (pending_ids (snd (remove_by_id q i))) = set (pending_ids q) - {i}"
    "distinct (pending_ids (snd (remove_by_id q i)))" by auto
qed

section \<open>The memory invariant\<close>

text \<open>
  \<open>queue_inv q K\<close>: the lanes hold builds of their own priority; no build is pending twice;
  active builds are filed under their own id; no build is both pending and active; every
  build in memory has a row (an id in \<open>K\<close>).
\<close>

definition queue_inv :: "BuildQueue \<Rightarrow> build_id set \<Rightarrow> bool" where
  "queue_inv q K \<longleftrightarrow>
     lanes_ok q \<and> distinct (pending_ids q) \<and> hm_wf (q_active q) \<and>
     (\<forall>i ab. map_of (q_active q) i = Some ab \<longrightarrow> ab_build_id ab = i \<and> i \<notin> set (pending_ids q) \<and> i \<in> K) \<and>
     set (pending_ids q) \<subseteq> K"

definition build_ids :: "SqlitePool \<Rightarrow> build_id set" where
  "build_ids p = set (map fst (p_builds p))"

definition rows_inv :: "SqlitePool \<Rightarrow> bool" where
  "rows_inv p \<longleftrightarrow> distinct (map fst (p_builds p)) \<and> (\<forall>i\<in>build_ids p. i < p_build_seq p) \<and>
     set (map fst (p_logs p)) \<subseteq> build_ids p"

text \<open>
  What the acknowledgement timers see of the state: the token of each active build, the
  builds whose receipt is not proved, and the timers that are asleep.
\<close>

definition tok :: "BuildQueue \<Rightarrow> build_id \<Rightarrow> cancel_token option" where
  "tok q i = map_option ab_ack_cancel (map_of (q_active q) i)"

definition awaiting :: "BuildQueue \<Rightarrow> build_id set" where
  "awaiting q = {i. map_option ab_receipt (map_of (q_active q) i) = Some AwaitingReceipt}"

definition ack_timers :: "AppState \<Rightarrow> (build_id \<times> cancel_token) set" where
  "ack_timers st = {(i, t). \<exists>d. AckTimer i t d \<in> set (tasks st)}"

lemma ack_timers_simps [simp]:
  "ack_timers (st\<lparr>pool := p\<rparr>) = ack_timers st" "ack_timers (st\<lparr>queue := q\<rparr>) = ack_timers st"
  by (simp_all add: ack_timers_def)

text \<open>
  \<open>tinv\<close>: tokens are issued below \<open>n\<close>, the token of an active build is its own, and a
  timer whose token is not cancelled belongs to the current dispatch of its build, never
  to a pending one. \<open>winv X\<close>: an assignment whose receipt is not proved has a live timer,
  except for the builds in \<open>X\<close>, whose timer is not spawned yet.
\<close>

definition tinv ::
  "build_id set \<Rightarrow> (build_id \<Rightarrow> cancel_token option) \<Rightarrow> (build_id \<times> cancel_token) set \<Rightarrow>
     cancel_token set \<Rightarrow> cancel_token \<Rightarrow> bool" where
  "tinv P tk T C n \<longleftrightarrow>
     (\<forall>i t. (i, t) \<in> T \<longrightarrow> t < n \<and> (t \<in> C \<or> i \<notin> P \<and> (tk i = None \<or> tk i = Some t))) \<and>
     (\<forall>i t. tk i = Some t \<longrightarrow> t < n) \<and>
     (\<forall>i j t. tk i = Some t \<and> tk j = Some t \<longrightarrow> i = j) \<and>
     C \<subseteq> {..<n}"

definition winv ::
  "build_id set \<Rightarrow> (build_id \<Rightarrow> cancel_token option) \<Rightarrow> build_id set \<Rightarrow>
     (build_id \<times> cancel_token) set \<Rightarrow> cancel_token set \<Rightarrow> bool" where
  "winv X tk A T C \<longleftrightarrow>
     (\<forall>i t. i \<in> A \<and> tk i = Some t \<longrightarrow> t \<notin> C \<and> (i \<in> X \<or> (i, t) \<in> T))"

definition mem_inv :: "build_id set \<Rightarrow> AppState \<Rightarrow> bool" where
  "mem_inv X st \<longleftrightarrow> queue_inv (queue st) (build_ids (pool st)) \<and> rows_inv (pool st) \<and>
     fst ` ack_timers st \<subseteq> build_ids (pool st) \<and>
     tinv (set (pending_ids (queue st))) (tok (queue st)) (ack_timers st) (set (cancelled st))
       (next_token st) \<and>
     winv X (tok (queue st)) (awaiting (queue st)) (ack_timers st) (set (cancelled st))"

lemma tinv_subset: "tinv P tk T C n \<Longrightarrow> P' \<subseteq> P \<Longrightarrow> tinv P' tk T C n"
  unfolding tinv_def by blast

lemma tinv_remove: "tinv P tk T C n \<Longrightarrow> tinv P (tk(i := None)) T C n"
  by (auto simp: tinv_def)

lemma tinv_cancel: "tinv P tk T C n \<Longrightarrow> t < n \<Longrightarrow> tinv P tk T (insert t C) n"
  unfolding tinv_def by blast

lemma tinv_pending:
  "tinv P tk T C n \<Longrightarrow> (\<And>t. (i, t) \<in> T \<Longrightarrow> t \<in> C) \<Longrightarrow> tinv (insert i P) tk T C n"
  unfolding tinv_def by blast

lemma tinv_fresh:
  "tinv P tk T C n \<Longrightarrow> (\<And>t. (i, t) \<in> T \<Longrightarrow> t \<in> C) \<Longrightarrow> tinv P (tk(i \<mapsto> n)) T C (Suc n)"
  unfolding tinv_def by (auto simp: less_Suc_eq)

lemma tinv_timer:
  "tinv P tk T C n \<Longrightarrow> tk i = Some t \<Longrightarrow> i \<notin> P \<Longrightarrow> tinv P tk (insert (i, t) T) C n"
  unfolding tinv_def by auto

lemma winv_mono:
  "winv X tk A T C \<Longrightarrow> A' \<subseteq> A \<Longrightarrow> X \<subseteq> X' \<Longrightarrow> winv X' tk A' T C"
  unfolding winv_def by blast

lemma winv_remove: "winv X tk A T C \<Longrightarrow> winv (X - {i}) (tk(i := None)) (A - {i}) T C"
  unfolding winv_def by auto

lemma winv_cancel:
  "winv X tk A T C \<Longrightarrow> (\<And>i. i \<in> A \<Longrightarrow> tk i \<noteq> Some t) \<Longrightarrow> winv X tk A T (insert t C)"
  unfolding winv_def by blast

lemma winv_timer: "winv X tk A T C \<Longrightarrow> tk i = Some t \<Longrightarrow> winv (X - {i}) tk A (insert (i, t) T) C"
  unfolding winv_def by auto

lemma winv_done: "winv X tk A T C \<Longrightarrow> tk i = None \<Longrightarrow> winv (X - {i}) tk A T C"
  unfolding winv_def by force

lemma mem_inv_cong:
  assumes "queue st' = queue st" "tasks st' = tasks st" "cancelled st' = cancelled st"
    "next_token st' = next_token st" "build_ids (pool st') = build_ids (pool st)"
    "rows_inv (pool st') = rows_inv (pool st)"
  shows "mem_inv X st' = mem_inv X st"
  using assms by (simp add: mem_inv_def ack_timers_def)

lemma mem_inv_core: "core st' = core st \<Longrightarrow> mem_inv X st' = mem_inv X st"
  by (rule mem_inv_cong) (simp_all add: core_def build_ids_def rows_inv_def)

lemma same_shape_ids: "same_shape p p' \<Longrightarrow> build_ids p' = build_ids p"
  by (simp add: build_ids_def same_shape_keys del: set_map)

lemma same_shape_rows: "same_shape p p' \<Longrightarrow> rows_inv p' = rows_inv p"
  using same_shape_ids[of p p'] same_shape_keys[of p p']
  by (simp add: rows_inv_def same_shape_def)

lemma mem_inv_pool:
  "same_shape (pool st) p \<Longrightarrow> mem_inv X (st\<lparr>pool := p\<rparr>) = mem_inv X st"
  by (rule mem_inv_cong) (simp_all add: same_shape_ids same_shape_rows)

lemma mem_inv_on_pool:
  assumes "on_pool f st = (r, st')" and "\<And>p r p'. f p = (r, p') \<Longrightarrow> same_shape p p'"
  shows "mem_inv X st' = mem_inv X st"
  using assms by (auto simp: on_pool_def mem_inv_pool split: prod.splits)

lemma mem_inv_inactive:
  "mem_inv X st \<Longrightarrow> map_of (q_active (queue st)) i = None \<Longrightarrow> mem_inv (X - {i}) st"
  using winv_done[of X "tok (queue st)" _ _ _ i] by (simp add: mem_inv_def tok_def)

lemma remove_active_simps [simp]:
  "pending (remove_active i q) = pending q" "pending_ids (remove_active i q) = pending_ids q"
  "q_workers (remove_active i q) = q_workers q" "lanes_ok (remove_active i q) = lanes_ok q"
  "map_of (q_active (remove_active i q)) j = (if j = i then None else map_of (q_active q) j)"
  "tok (remove_active i q) = (tok q)(i := None)" "awaiting (remove_active i q) = awaiting q - {i}"
  by (auto simp: remove_active_def pending_ids_def pending_def map_of_delete_apply lanes_ok_def
      tok_def awaiting_def)

lemma with_queue_simps [simp]:
  "queue (with_queue f st) = f (queue st)" "pool (with_queue f st) = pool st"
  "tasks (with_queue f st) = tasks st" "cancelled (with_queue f st) = cancelled st"
  "next_token (with_queue f st) = next_token st" "config (with_queue f st) = config st"
  "worker_senders (with_queue f st) = worker_senders st" "outbox (with_queue f st) = outbox st"
  "ack_timers (with_queue f st) = ack_timers st" "now (with_queue f st) = now st"
  by (simp_all add: with_queue_def ack_timers_def now_def)

lemma queue_inv_remove_active: "queue_inv q K \<Longrightarrow> queue_inv (remove_active i q) K"
proof -
  assume *: "queue_inv q K"
  have "hm_wf (q_active (remove_active i q))"
    using * by (simp add: queue_inv_def remove_active_def distinct_delete)
  then show ?thesis using * by (simp add: queue_inv_def)
qed

lemma mem_inv_remove_active:
  "mem_inv X st \<Longrightarrow> mem_inv (X - {i}) (with_queue (remove_active i) st)"
  by (simp add: mem_inv_def queue_inv_remove_active tinv_remove winv_remove)

lemma core_frames [simp]:
  "core (remove_watcher i st) = core st"
  "core (send_text_to_connection cid msg st) = core st"
  "core (st\<lparr>worker_senders := w\<rparr>) = core st"
  "core (st\<lparr>log_watchers := lw\<rparr>) = core st"
  by (auto simp: core_def remove_watcher_def send_text_to_connection_def tx_send_def
      split: option.splits bool.splits)

lemma tx_send_core: "tx_send cid f st = (r, st') \<Longrightarrow> core st' = core st"
  by (auto simp: tx_send_def core_def split: option.splits bool.splits)

lemma mem_inv_cancel:
  assumes "mem_inv X st" and "t < next_token st"
    and "\<And>i. i \<in> awaiting (queue st) \<Longrightarrow> tok (queue st) i \<noteq> Some t"
  shows "mem_inv X (cancel t st)"
  using assms by (simp add: mem_inv_def cancel_def ack_timers_def tinv_cancel winv_cancel)

lemma cancel_simps [simp]:
  "queue (cancel t st) = queue st" "pool (cancel t st) = pool st" "tasks (cancel t st) = tasks st"
  "cancelled (cancel t st) = t # cancelled st" "next_token (cancel t st) = next_token st"
  "config (cancel t st) = config st" "worker_senders (cancel t st) = worker_senders st"
  "ack_timers (cancel t st) = ack_timers st" "now (cancel t st) = now st"
  by (simp_all add: cancel_def ack_timers_def now_def)

lemma tok_enqueue [simp]:
  "tok (enqueue b q) = tok q" "tok (enqueue_front b q) = tok q"
  "awaiting (enqueue b q) = awaiting q" "awaiting (enqueue_front b q) = awaiting q"
  by (auto simp: tok_def awaiting_def frame_simps)

lemma queue_inv_enqueue:
  assumes "queue_inv q K" "qb_build_id b \<notin> set (pending_ids q)"
    "map_of (q_active q) (qb_build_id b) = None" "qb_build_id b \<in> K"
  shows "queue_inv (enqueue b q) K" "queue_inv (enqueue_front b q) K"
  using assms by (auto simp: queue_inv_def pending_ids_enqueue frame_simps lanes_ok_enqueue
      lanes_ok_enqueue_front)

lemma mem_inv_enqueue:
  assumes "mem_inv X st" "qb_build_id b \<notin> set (pending_ids (queue st))"
    "map_of (q_active (queue st)) (qb_build_id b) = None" "qb_build_id b \<in> build_ids (pool st)"
    "\<And>t. (qb_build_id b, t) \<in> ack_timers st \<Longrightarrow> t \<in> set (cancelled st)"
  shows "mem_inv X (with_queue (enqueue b) st)" "mem_inv X (with_queue (enqueue_front b) st)"
  using assms by (simp_all add: mem_inv_def queue_inv_enqueue pending_ids_enqueue tinv_pending)

lemma queue_inv_pop:
  assumes "queue_inv q K" "next_pending q = (Some b, q')"
  shows "queue_inv q' K" "qb_build_id b \<notin> set (pending_ids q')"
    "map_of (q_active q') (qb_build_id b) = None" "qb_build_id b \<in> K"
    "set (pending_ids q') \<subseteq> set (pending_ids q)" "tok q' = tok q" "awaiting q' = awaiting q"
    "qb_build_id b \<in> set (pending_ids q)"
proof -
  note p = next_pending_Some[OF assms(2)]
  have ids: "pending_ids q = qb_build_id b # pending_ids q'" using p(1) by (simp add: pending_ids_def)
  show "queue_inv q' K" "qb_build_id b \<notin> set (pending_ids q')" "qb_build_id b \<in> K"
    "set (pending_ids q') \<subseteq> set (pending_ids q)" "tok q' = tok q" "awaiting q' = awaiting q"
    "qb_build_id b \<in> set (pending_ids q)"
    using assms(1) p ids by (auto simp: queue_inv_def tok_def awaiting_def)
  show "map_of (q_active q') (qb_build_id b) = None"
    using assms(1) p(3) ids unfolding queue_inv_def by (metis list.set_intros(1) not_None_eq)
qed

lemma mem_inv_pop:
  assumes "mem_inv X st" "next_pending (queue st) = (Some b, q)"
  shows "mem_inv X (st\<lparr>queue := q\<rparr>)"
    "\<And>t. (qb_build_id b, t) \<in> ack_timers st \<Longrightarrow> t \<in> set (cancelled st)"
proof -
  have q: "queue_inv (queue st) (build_ids (pool st))" using assms(1) by (simp add: mem_inv_def)
  note pop = queue_inv_pop[OF q assms(2)]
  show "mem_inv X (st\<lparr>queue := q\<rparr>)"
    using assms(1) pop tinv_subset[OF _ pop(5)] by (simp add: mem_inv_def ack_timers_def)
  show "\<And>t. (qb_build_id b, t) \<in> ack_timers st \<Longrightarrow> t \<in> set (cancelled st)"
    using assms(1) pop(8) by (auto simp: mem_inv_def tinv_def)
qed

lemma mem_inv_activate:
  assumes "mem_inv X st" "i \<notin> set (pending_ids (queue st))"
    "i \<in> build_ids (pool st)" "\<And>t. (i, t) \<in> ack_timers st \<Longrightarrow> t \<in> set (cancelled st)"
    "ab_build_id ab = i" "ab_ack_cancel ab = next_token st"
  shows "mem_inv (insert i X) (with_queue (\<lambda>q. q\<lparr>q_active := AList.update i ab (q_active q)\<rparr>)
    (st\<lparr>next_token := Suc (next_token st)\<rparr>))"
proof -
  let ?q = "(queue st)\<lparr>q_active := AList.update i ab (q_active (queue st))\<rparr>"
  have q: "queue_inv ?q (build_ids (pool st))"
    using assms(1,2,3,5) distinct_update[of "q_active (queue st)" i ab]
    by (auto simp: mem_inv_def queue_inv_def map_of_update_apply lanes_ok_def)
  have tk: "tok ?q = (tok (queue st))(i \<mapsto> next_token st)"
    using assms(6) by (auto simp: tok_def map_of_update_apply)
  have aw: "awaiting ?q \<subseteq> insert i (awaiting (queue st))"
    by (auto simp: awaiting_def map_of_update_apply split: if_splits)
  have t: "tinv (set (pending_ids ?q)) (tok ?q) (ack_timers st) (set (cancelled st)) (Suc (next_token st))"
    using assms(1,4) unfolding tk by (simp add: mem_inv_def tinv_fresh)
  have "next_token st \<notin> set (cancelled st)" using assms(1) by (auto simp: mem_inv_def tinv_def)
  then have "winv (insert i X) (tok ?q) (awaiting ?q) (ack_timers st) (set (cancelled st))"
    using assms(1) aw unfolding tk by (fastforce simp: mem_inv_def winv_def)
  then show ?thesis using q t assms(1) by (simp add: mem_inv_def with_queue_def ack_timers_def)
qed

lemma mem_inv_spawn_ack:
  assumes "mem_inv X st" "tok (queue st) i = Some t"
  shows "mem_inv (X - {i}) (spawn (AckTimer i t d) st)"
proof -
  have "i \<notin> set (pending_ids (queue st))" "i \<in> build_ids (pool st)"
    using assms by (auto simp: mem_inv_def queue_inv_def tok_def)
  moreover have "ack_timers (spawn (AckTimer i t d) st) = insert (i, t) (ack_timers st)"
    by (auto simp: ack_timers_def spawn_def)
  ultimately show ?thesis
    using assms by (simp add: mem_inv_def spawn_def tinv_timer winv_timer)
qed

lemma ack_timers_spawn [simp]:
  "ack_timers (spawn (RevokeTimer i d) st) = ack_timers st"
  "ack_timers (spawn (GraceMonitor c d) st) = ack_timers st"
  "ack_timers (spawn SpawnedDispatch st) = ack_timers st"
  by (simp_all add: ack_timers_def spawn_def)

lemma spawn_simps [simp]:
  "queue (spawn t st) = queue st" "pool (spawn t st) = pool st" "tasks (spawn t st) = t # tasks st"
  "cancelled (spawn t st) = cancelled st" "next_token (spawn t st) = next_token st"
  "config (spawn t st) = config st" "worker_senders (spawn t st) = worker_senders st"
  by (simp_all add: spawn_def)

lemma mem_inv_spawn_other [simp]:
  "mem_inv X (spawn (RevokeTimer i d) st) = mem_inv X st"
  "mem_inv X (spawn (GraceMonitor c d) st) = mem_inv X st"
  "mem_inv X (spawn SpawnedDispatch st) = mem_inv X st"
  by (simp_all add: mem_inv_def)

lemma update_active_simps [simp]:
  "pending (update_active i f q) = pending q" "pending_ids (update_active i f q) = pending_ids q"
  "q_workers (update_active i f q) = q_workers q" "lanes_ok (update_active i f q) = lanes_ok q"
  "map_of (q_active (update_active i f q)) j =
     (if j = i then map_option f (map_of (q_active q) j) else map_of (q_active q) j)"
  "map fst (q_active (update_active i f q)) = map fst (q_active q)"
  by (auto simp: update_active_def pending_ids_def pending_def map_of_update_row lanes_ok_def)

text \<open>Changing the owner of an assignment, or recording its receipt.\<close>

lemma mem_inv_update_active:
  assumes "mem_inv X st"
    and "\<And>ab. ab_build_id (f ab) = ab_build_id ab \<and> ab_ack_cancel (f ab) = ab_ack_cancel ab \<and>
      (ab_receipt (f ab) = AwaitingReceipt \<longrightarrow> ab_receipt ab = AwaitingReceipt)"
  shows "mem_inv X (with_queue (update_active i f) st)"
proof -
  let ?q = "update_active i f (queue st)"
  have "queue_inv ?q (build_ids (pool st))"
    using assms by (auto simp: mem_inv_def queue_inv_def)
  moreover have "tok ?q = tok (queue st)"
    using assms(2) by (auto simp: tok_def option.map_comp comp_def)
  moreover have "awaiting ?q \<subseteq> awaiting (queue st)"
    using assms(2) by (auto simp: awaiting_def)
  ultimately show ?thesis
    using assms(1) winv_mono[of X "tok (queue st)" "awaiting (queue st)" _ _ "awaiting ?q" X]
    by (simp add: mem_inv_def)
qed

lemma migrate_active_lookup:
  "map_of (q_active (snd (migrate_active old new q))) i =
     map_option (\<lambda>ab. if ab_connection_id ab = old then ab\<lparr>ab_connection_id := new\<rparr> else ab)
       (map_of (q_active q) i)"
proof -
  have "map_of (map (\<lambda>(i, ab). (i, g ab)) t) i = map_option g (map_of t i)" for g t
    by (induction t) auto
  then show ?thesis by (simp add: migrate_active_def)
qed

lemma migrate_active_other [simp]:
  "pending (snd (migrate_active old new q)) = pending q"
  "pending_ids (snd (migrate_active old new q)) = pending_ids q"
  "q_workers (snd (migrate_active old new q)) = q_workers q"
  "lanes_ok (snd (migrate_active old new q)) = lanes_ok q"
  "map fst (q_active (snd (migrate_active old new q))) = map fst (q_active q)"
  by (auto simp: migrate_active_def lanes_ok_def pending_def pending_ids_def)

lemma tok_migrate:
  "tok (snd (migrate_active old new q)) = tok q"
  "awaiting (snd (migrate_active old new q)) = awaiting q"
  by (simp_all add: fun_eq_iff tok_def awaiting_def migrate_active_lookup option.map_comp comp_def
      if_distrib[of ab_ack_cancel] if_distrib[of ab_receipt] cong: if_cong)

section \<open>Handlers keep the memory invariant\<close>

lemma mem_inv_parts:
  assumes "mem_inv X st" "map_of (q_active (queue st)) i = Some ab"
  shows "i \<notin> set (pending_ids (queue st))" "i \<in> build_ids (pool st)" "ab_build_id ab = i"
    "ab_ack_cancel ab < next_token st" "tok (queue st) i = Some (ab_ack_cancel ab)"
    "\<And>t. (i, t) \<in> ack_timers st \<Longrightarrow> t \<in> set (cancelled st) \<or> t = ab_ack_cancel ab"
    "\<And>j. tok (queue st) j = Some (ab_ack_cancel ab) \<Longrightarrow> j = i"
proof -
  show tk: "tok (queue st) i = Some (ab_ack_cancel ab)" using assms(2) by (simp add: tok_def)
  show "i \<notin> set (pending_ids (queue st))" "i \<in> build_ids (pool st)" "ab_build_id ab = i"
    using assms by (auto simp: mem_inv_def queue_inv_def)
  show "ab_ack_cancel ab < next_token st"
    "\<And>t. (i, t) \<in> ack_timers st \<Longrightarrow> t \<in> set (cancelled st) \<or> t = ab_ack_cancel ab"
    "\<And>j. tok (queue st) j = Some (ab_ack_cancel ab) \<Longrightarrow> j = i"
    using assms(1) tk unfolding mem_inv_def tinv_def by fastforce+
qed

lemma on_pool_simps [simp]:
  "queue (snd (on_pool f st)) = queue st" "tasks (snd (on_pool f st)) = tasks st"
  "cancelled (snd (on_pool f st)) = cancelled st" "next_token (snd (on_pool f st)) = next_token st"
  "config (snd (on_pool f st)) = config st" "worker_senders (snd (on_pool f st)) = worker_senders st"
  "ack_timers (snd (on_pool f st)) = ack_timers st" "pool (snd (on_pool f st)) = snd (f (pool st))"
  by (simp_all add: on_pool_snd ack_timers_def)

lemma mem_inv_on_pool_snd:
  "(\<And>p r p'. f p = (r, p') \<Longrightarrow> same_shape p p') \<Longrightarrow> mem_inv X (snd (on_pool f st)) = mem_inv X st"
  by (metis mem_inv_on_pool prod.collapse)

lemma build_ids_on_pool:
  "(\<And>p r p'. f p = (r, p') \<Longrightarrow> same_shape p p') \<Longrightarrow>
     build_ids (snd (f p)) = build_ids p"
  by (metis prod.collapse same_shape_ids)

lemma mem_inv_stmts [simp]:
  "mem_inv X (snd (on_pool (update_build_state i bs e) st)) = mem_inv X st"
  "mem_inv X (snd (on_pool (rollback_dispatch_to_queued i) st)) = mem_inv X st"
  "mem_inv X (snd (on_pool (set_build_started i) st)) = mem_inv X st"
  "mem_inv X (snd (on_pool (set_build_finished i bs e r) st)) = mem_inv X st"
  "mem_inv X (snd (on_pool (set_build_revoking i) st)) = mem_inv X st"
  "mem_inv X (snd (on_pool (set_build_log_finished i) st)) = mem_inv X st"
  "mem_inv X (snd (on_pool (get_build pj i) st)) = mem_inv X st"
  "mem_inv X (snd (on_pool (update_last_seen w) st)) = mem_inv X st"
  by (rule mem_inv_on_pool_snd, erule shapes)+

lemma mem_inv_rollback:
  assumes "mem_inv X st"
  shows "mem_inv (X - {i}) (snd (rollback_active_to_queued i st))"
proof (cases "map_of (q_active (queue st)) i")
  case None
  then show ?thesis using assms by (simp add: rollback_active_to_queued_def mem_inv_inactive)
next
  case (Some ab)
  note parts = mem_inv_parts[OF assms Some]
  let ?s1 = "with_queue (remove_active i) st"
  let ?s2 = "cancel (ab_ack_cancel ab) ?s1"
  let ?s3 = "snd (on_pool (rollback_dispatch_to_queued i) ?s2)"
  have 2: "mem_inv (X - {i}) ?s2"
  proof (rule mem_inv_cancel[OF mem_inv_remove_active[OF assms]])
    show "ab_ack_cancel ab < next_token ?s1" using parts(4) by simp
    show "tok (queue ?s1) j \<noteq> Some (ab_ack_cancel ab)" for j using parts(7)[of j] by auto
  qed
  have 3: "mem_inv (X - {i}) ?s3"
    using 2 by simp
  have "i \<in> build_ids (pool ?s3)"
    using parts(2) by (simp, subst build_ids_on_pool) (auto intro: shapes)
  then have "mem_inv (X - {i}) (with_queue (enqueue_front
      \<lparr>qb_build_id = i, qb_priority = ab_priority ab, qb_descriptor = ab_descriptor ab,
       qb_user_email = [], qb_queued_at = now ?s3\<rparr>) ?s3)"
    using parts(1,6) by (intro mem_inv_enqueue(2)[OF 3]) auto
  then show ?thesis using Some
    by (simp add: rollback_active_to_queued_def Let_def mem_inv_core[OF core_frames(1)])
qed

lemma mem_inv_cleanup:
  assumes "mem_inv X st"
  shows "mem_inv (X - {i}) (cleanup_terminal_state i status reason st)"
proof -
  let ?s1 = "snd (on_pool (set_build_finished i (terminal_as_state status) (Some reason) None) st)"
  let ?s2 = "snd (on_pool (set_build_log_finished i) ?s1)"
  have "mem_inv X ?s2" using assms by simp
  from mem_inv_remove_active[OF this, of i] show ?thesis
    by (simp add: cleanup_terminal_state_def Let_def mem_inv_core[OF core_frames(1)])
qed

lemma try_dispatch_locked_cases:
  obtains (empty) "pending (queue st) = []"
      "try_dispatch_locked env st = (Err NothingToDispatch, st)"
  | (no_worker) b q where "next_pending (queue st) = (Some b, q)"
      "find_worker q (tgt_arch (d_build (qb_descriptor b))) = None"
      "try_dispatch_locked env st = (Err NothingToDispatch, st\<lparr>queue := enqueue_front b q\<rparr>)"
  | (db_error) b q w e p where "next_pending (queue st) = (Some b, q)"
      "set_build_dispatched (qb_build_id b) (e_uuid env (uuids st)) w (pool st) = (Err e, p)"
      "try_dispatch_locked env st =
        (Err (Database e), st\<lparr>queue := q, uuids := Suc (uuids st), pool := p\<rparr>)"
  | (assigned) b q cid w r p ab where "next_pending (queue st) = (Some b, q)"
      "find_worker q (tgt_arch (d_build (qb_descriptor b))) = Some (cid, w)"
      "set_build_dispatched (qb_build_id b) (e_uuid env (uuids st)) w (pool st) = (Ok r, p)"
      "ab = \<lparr>ab_build_id = qb_build_id b, ab_connection_id = cid, ab_dispatched_at = p_now p,
         ab_trace_id = e_uuid env (uuids st), ab_descriptor = qb_descriptor b,
         ab_priority = qb_priority b, ab_ack_cancel = next_token st,
         ab_receipt = AwaitingReceipt\<rparr>"
      "try_dispatch_locked env st =
        (Ok \<lparr>di_build_id = qb_build_id b, di_priority = qb_priority b,
           di_descriptor = qb_descriptor b, di_trace_id = e_uuid env (uuids st),
           di_connection_id = cid, di_queued_at = qb_queued_at b\<rparr>,
         st\<lparr>uuids := Suc (uuids st), pool := p,
           log_watchers := AList.update (qb_build_id b) 0 (log_watchers st),
           next_token := Suc (next_token st),
           queue := q\<lparr>q_active := AList.update (qb_build_id b) ab (q_active q)\<rparr>\<rparr>)"
proof (cases "next_pending (queue st)")
  case (Pair ob q)
  show thesis
  proof (cases ob)
    case None
    then show thesis using Pair next_pending_None[of "queue st" q] empty
      by (simp add: try_dispatch_locked_def)
  next
    case (Some b)
    note pop = Pair[unfolded Some]
    show thesis
    proof (cases "find_worker q (tgt_arch (d_build (qb_descriptor b)))")
      case None
      then show thesis using pop by (intro no_worker) (simp_all add: try_dispatch_locked_def)
    next
      case (Some cw)
      obtain cid w where cw: "cw = (cid, w)" by (cases cw)
      obtain r p where r: "set_build_dispatched (qb_build_id b) (e_uuid env (uuids st)) w (pool st) = (r, p)"
        by (cases "set_build_dispatched (qb_build_id b) (e_uuid env (uuids st)) w (pool st)")
      show thesis
      proof (cases r)
        case (Inl e)
        then show thesis using pop Some cw r
          by (intro db_error) (simp_all add: try_dispatch_locked_def new_v4_def on_pool_def)
      next
        case (Inr v)
        then show thesis using pop Some cw r
          by (intro assigned[OF pop Some[unfolded cw]])
            (simp_all add: try_dispatch_locked_def new_v4_def new_token_def on_pool_def
              with_queue_def now_def)
      qed
    qed
  qed
qed

lemma mem_inv_locked:
  assumes "mem_inv {} st" and "try_dispatch_locked env st = (r, st')"
  shows "case r of Err e \<Rightarrow> mem_inv {} st' | Ok info \<Rightarrow> mem_inv {di_build_id info} st' \<and>
      di_build_id info \<in> dom (map_of (q_active (queue st')))"
proof (cases rule: try_dispatch_locked_cases[where st = st and env = env])
  case empty
  then show ?thesis using assms by auto
next
  case (no_worker b q)
  have q: "queue_inv (queue st) (build_ids (pool st))" using assms by (simp add: mem_inv_def)
  note pop = queue_inv_pop[OF q no_worker(1)]
  note inv = mem_inv_pop[OF assms(1) no_worker(1)]
  have "mem_inv {} (with_queue (enqueue_front b) (st\<lparr>queue := q\<rparr>))"
    using pop inv by (intro mem_inv_enqueue(2)) (auto simp: ack_timers_def)
  then show ?thesis using no_worker(3) assms(2) by (auto simp: with_queue_def)
next
  case (db_error b q w e' p)
  have "same_shape (pool st) p" using db_error(2) by (rule shapes)
  then have "mem_inv {} (st\<lparr>queue := q, uuids := Suc (uuids st), pool := p\<rparr>)"
    using mem_inv_pop(1)[OF assms(1) db_error(1)]
    by (subst mem_inv_cong[of _ "st\<lparr>queue := q\<rparr>"]) (simp_all add: same_shape_ids same_shape_rows)
  then show ?thesis using db_error(3) assms(2) by auto
next
  case (assigned b q cid w v p ab)
  let ?i = "qb_build_id b"
  let ?s0 = "st\<lparr>queue := q, pool := p\<rparr>"
  have q: "queue_inv (queue st) (build_ids (pool st))" using assms by (simp add: mem_inv_def)
  note pop = queue_inv_pop[OF q assigned(1)]
  have sh: "same_shape (pool st) p" using assigned(3) by (rule shapes)
  have s0: "mem_inv {} ?s0"
    using mem_inv_pop(1)[OF assms(1) assigned(1)]
    by (subst mem_inv_cong[of _ "st\<lparr>queue := q\<rparr>"]) (simp_all add: sh same_shape_ids same_shape_rows)
  have "mem_inv {?i} (with_queue (\<lambda>q. q\<lparr>q_active := AList.update ?i ab (q_active q)\<rparr>)
      (?s0\<lparr>next_token := Suc (next_token ?s0)\<rparr>))"
    using pop mem_inv_pop(2)[OF assms(1) assigned(1)]
    by (intro mem_inv_activate[OF s0]) (auto simp: same_shape_ids[OF sh] ack_timers_def assigned(4))
  then have "mem_inv {?i} (st\<lparr>uuids := Suc (uuids st), pool := p,
           log_watchers := AList.update ?i 0 (log_watchers st), next_token := Suc (next_token st),
           queue := q\<lparr>q_active := AList.update ?i ab (q_active q)\<rparr>\<rparr>)"
    by (rule iffD1[OF mem_inv_cong, rotated -1]) (simp_all add: with_queue_def)
  then show ?thesis using assigned(5) assms(2) by (auto simp: map_of_update_apply)
qed

lemma send_pair_core: "send_pair cid a b st = (r, st') \<Longrightarrow> core st' = core st"
  by (auto simp: send_pair_def dest!: tx_send_core split: prod.splits option.splits bool.splits)

lemma mem_inv_try_dispatch:
  assumes "mem_inv {} st"
  shows "mem_inv {} (snd (try_dispatch env st))"
proof -
  obtain r st1 where l: "try_dispatch_locked env st = (r, st1)" by (cases "try_dispatch_locked env st")
  show ?thesis
  proof (cases r)
    case (Inl e)
    then show ?thesis using l mem_inv_locked[OF assms l] by (simp add: try_dispatch_def)
  next
    case (Inr info)
    let ?i = "di_build_id info"
    have inv: "mem_inv {?i} st1" "?i \<in> dom (map_of (q_active (queue st1)))"
      using mem_inv_locked[OF assms l] Inr by auto
    show ?thesis
    proof (cases "pack_result env st1 info")
      case (Inl e)
      then show ?thesis using l Inr mem_inv_cleanup[of "{?i}" st1 ?i] inv
        by (simp add: try_dispatch_def)
    next
      case pack: (Inr ts)
      obtain tar sha where ts: "ts = (tar, sha)" by (cases ts)
      let ?msg = "BuildNew ?i (di_trace_id info) (di_priority info) (di_descriptor info) sha"
      obtain sr st2 where send: "send_pair (di_connection_id info) (TextFrame ?msg) (BinaryFrame tar) st1
          = (sr, st2)"
        by (cases "send_pair (di_connection_id info) (TextFrame ?msg) (BinaryFrame tar) st1")
      have inv2: "mem_inv {?i} st2" using send_pair_core[OF send] inv mem_inv_core by blast
      have act: "\<exists>ab. map_of (q_active (queue st2)) ?i = Some ab"
        using send_pair_core[OF send] inv by (auto simp: core_def)
      show ?thesis
      proof (cases sr)
        case (Inl e)
        then show ?thesis using l Inr pack ts send mem_inv_rollback[OF inv2, of ?i]
          by (simp add: try_dispatch_def send_and_recover_def handle_dispatch_send_failure_def)
      next
        case ok: (Inr u)
        obtain ab where "map_of (q_active (queue st2)) ?i = Some ab" using act by blast
        then show ?thesis
          using l Inr pack ts send ok mem_inv_spawn_ack[OF inv2, of ?i "ab_ack_cancel ab"]
          by (simp add: try_dispatch_def send_and_recover_def spawn_ack_timer_def tok_def)
      qed
    qed
  qed
qed

lemma mem_inv_get_build:
  "on_pool (get_build pj i) st = (r, st') \<Longrightarrow> mem_inv X st' = mem_inv X st"
  by (erule mem_inv_on_pool) (erule shapes)

lemma mem_inv_receipt:
  assumes "mem_inv X st" "map_of (q_active (queue st)) i = Some ab"
    and "\<And>ab. ab_build_id (f ab) = ab_build_id ab \<and> ab_ack_cancel (f ab) = ab_ack_cancel ab \<and>
      ab_receipt (f ab) = ReceivedByWorker"
  shows "mem_inv X (cancel (ab_ack_cancel ab) (with_queue (update_active i f) st))"
proof (rule mem_inv_cancel)
  let ?s = "with_queue (update_active i f) st"
  show "mem_inv X ?s" using assms(1) by (rule mem_inv_update_active) (simp add: assms(3))
  show "ab_ack_cancel ab < next_token ?s" using mem_inv_parts(4)[OF assms(1,2)] by simp
  fix j assume "j \<in> awaiting (queue ?s)"
  then have "j \<noteq> i" using assms(3) by (auto simp: awaiting_def option.map_comp comp_def)
  then show "tok (queue ?s) j \<noteq> Some (ab_ack_cancel ab)"
    using mem_inv_parts(7)[OF assms(1,2), of j] by (auto simp: tok_def)
qed

lemma send_unauthorized_core [simp]:
  "core (send_unauthorized_action cid i a r st) = core st"
  "core (send_reporter_directed_revoke cid i st) = core st"
  by (simp_all add: send_unauthorized_action_def send_reporter_directed_revoke_def)

lemma authorized_cases:
  obtains (rejected) "core (authorized cid i a f st) = core st"
      "active_build_for_connection_mut (queue st) i cid = None"
  | (owned) ab where "map_of (q_active (queue st)) i = Some ab" "ab_connection_id ab = cid"
      "authorized cid i a f st = f (cancel (ab_ack_cancel ab)
        (with_queue (update_active i (\<lambda>ab. ab\<lparr>ab_receipt := ReceivedByWorker\<rparr>)) st))"
proof (cases "active_build_for_connection_mut (queue st) i cid")
  case None
  then show thesis using rejected
    by (simp add: authorized_def authorize_lifecycle_message_def Let_def)
next
  case (Some ab)
  then have "map_of (q_active (queue st)) i = Some ab" "ab_connection_id ab = cid"
    by (auto simp: active_build_for_connection_mut_def split: option.splits if_splits)
  then show thesis using owned Some
    by (simp add: authorized_def authorize_lifecycle_message_def)
qed

lemma mem_inv_authorized:
  assumes "mem_inv {} st"
    and "\<And>st'. mem_inv {} st' \<Longrightarrow> i \<notin> awaiting (queue st') \<Longrightarrow> mem_inv {} (f st')"
  shows "mem_inv {} (authorized cid i a f st)"
proof (cases rule: authorized_cases[of cid i a f st])
  case rejected
  then show ?thesis using assms(1) mem_inv_core by blast
next
  case (owned ab)
  let ?s = "cancel (ab_ack_cancel ab)
        (with_queue (update_active i (\<lambda>ab. ab\<lparr>ab_receipt := ReceivedByWorker\<rparr>)) st)"
  have "mem_inv {} ?s" by (rule mem_inv_receipt[OF assms(1) owned(1)]) simp
  moreover have "i \<notin> awaiting (queue ?s)" by (auto simp: awaiting_def)
  ultimately show ?thesis using assms(2) owned(3) by simp
qed

lemma mem_inv_accepted:
  assumes "mem_inv {} st" "i \<notin> awaiting (queue st)"
  shows "mem_inv {} (handle_build_accepted i st)"
proof (cases "map_of (q_active (queue st)) i")
  case (Some ab)
  have "mem_inv {} (cancel (ab_ack_cancel ab) st)"
  proof (rule mem_inv_cancel[OF assms(1)])
    show "ab_ack_cancel ab < next_token st" using mem_inv_parts(4)[OF assms(1) Some] .
    show "j \<in> awaiting (queue st) \<Longrightarrow> tok (queue st) j \<noteq> Some (ab_ack_cancel ab)" for j
      using mem_inv_parts(7)[OF assms(1) Some, of j] assms(2) by auto
  qed
  then show ?thesis using Some by (simp add: handle_build_accepted_def)
qed (simp add: handle_build_accepted_def assms)

lemma mem_inv_finished:
  assumes "mem_inv {} st" shows "mem_inv {} (handle_build_finished env cid i s e r st)"
  unfolding handle_build_finished_def Let_def
  using mem_inv_remove_active[of "{}" "snd (on_pool (set_build_finished i s e r) st)" i] assms
  by (intro mem_inv_try_dispatch) (simp add: mem_inv_core[OF core_frames(1)]
      mem_inv_core[OF core_finish_build_log])

lemma mem_inv_rejected:
  "mem_inv {} st \<Longrightarrow> mem_inv {} (handle_build_rejected env cid i reason st)"
  using mem_inv_cleanup[of "{}" st i TermFailure reason] mem_inv_rollback[of "{}" st i]
  by (simp add: handle_build_rejected_def mem_inv_try_dispatch)

lemma mem_inv_send_revoke: "mem_inv X st \<Longrightarrow> mem_inv X (snd (send_build_revoke i st))"
proof (cases "map_of (q_active (queue st)) i")
  case (Some ab)
  assume inv: "mem_inv X st"
  obtain r st1 where r: "on_pool (set_build_revoking i) st = (r, st1)"
    by (cases "on_pool (set_build_revoking i) st")
  have inv1: "mem_inv X st1" using mem_inv_stmts(5)[of X i st] r inv by simp
  obtain b st2 where t: "tx_send (ab_connection_id ab) (TextFrame (BuildRevoke i (Some Admin))) st1 = (b, st2)"
    by (cases "tx_send (ab_connection_id ab) (TextFrame (BuildRevoke i (Some Admin))) st1")
  then have "mem_inv X st2" using tx_send_core inv1 mem_inv_core by blast
  then show ?thesis using Some r t inv1
    by (cases r) (simp_all add: send_build_revoke_def Let_def)
qed (simp add: send_build_revoke_def)

lemma mem_inv_revoke_timeout:
  "mem_inv {} st \<Longrightarrow> mem_inv {} (handle_revoke_timeout env i st)"
  using mem_inv_cleanup[of "{}"]
  by (auto simp: handle_revoke_timeout_def mem_inv_get_build split: prod.splits sum.splits option.splits)

lemma mem_inv_resolve_dead:
  assumes "mem_inv {} st" shows "mem_inv {} (resolve_dead_build env i receipt st)"
proof -
  obtain r st1 where r: "on_pool (get_build (e_value_from_str env) i) st = (r, st1)"
    by (cases "on_pool (get_build (e_value_from_str env) i) st")
  then have "mem_inv {} st1" using mem_inv_get_build assms by blast
  then show ?thesis
    using r mem_inv_cleanup[of "{}" st1 i] mem_inv_rollback[of "{}" st1 i]
      mem_inv_remove_active[of "{}" st1 i]
    by (auto simp: resolve_dead_build_def split: sum.splits option.splits DeadWorkerAction.splits)
qed

lemma fold_invariant: "P s \<Longrightarrow> (\<And>x s. x \<in> set xs \<Longrightarrow> P s \<Longrightarrow> P (f x s)) \<Longrightarrow> P (fold f xs s)"
  by (induction xs arbitrary: s) auto

lemma mem_inv_worker_dead: "mem_inv {} st \<Longrightarrow> mem_inv {} (handle_worker_dead env cid st)"
  unfolding handle_worker_dead_def Let_def
  by (rule mem_inv_try_dispatch, rule fold_invariant) (auto intro: mem_inv_resolve_dead)

lemma mem_inv_idle_one:
  assumes "mem_inv {} st" shows "mem_inv {} (idle_reconcile_one env w c st)"
proof -
  obtain r st1 where r: "on_pool (get_build (e_value_from_str env) (rc_build_id c)) st = (r, st1)"
    by (cases "on_pool (get_build (e_value_from_str env) (rc_build_id c)) st")
  then have "mem_inv {} st1" using mem_inv_get_build assms by blast
  then show ?thesis
    using r mem_inv_cleanup[of "{}" st1 "rc_build_id c"] mem_inv_rollback[of "{}" st1 "rc_build_id c"]
    by (auto simp: idle_reconcile_one_def split: sum.splits option.splits IdleReconcileAction.splits)
qed

lemma mem_inv_attach:
  "mem_inv {} st \<Longrightarrow> mem_inv {} (attach_connection_and_mark_received i cid st)"
  by (auto simp: attach_connection_and_mark_received_def intro: mem_inv_receipt split: option.splits)

lemma mem_inv_reconnect_building:
  assumes "mem_inv {} st" shows "mem_inv {} (reconnect_building env cid w i st)"
proof -
  obtain r st1 where r: "on_pool (get_build (e_value_from_str env) i) st = (r, st1)"
    by (cases "on_pool (get_build (e_value_from_str env) i) st")
  then have inv: "mem_inv {} st1" using mem_inv_get_build assms by blast
  then have "mem_inv {} (with_queue (update_active i (\<lambda>ab. ab\<lparr>ab_connection_id := cid\<rparr>)) st1)"
    by (rule mem_inv_update_active) simp
  then show ?thesis
    using r inv mem_inv_send_revoke[OF inv, of i] mem_inv_attach[OF inv, of i cid]
    by (auto simp: reconnect_building_def Let_def mem_inv_core[OF send_unauthorized_core(1)]
        mem_inv_core[OF send_unauthorized_core(2)] split: sum.splits option.splits BuildState.splits)
qed

lemma mem_inv_status: "mem_inv {} st \<Longrightarrow> mem_inv {} (handle_worker_status env cid w rs b st)"
  by (auto simp: handle_worker_status_def Let_def mem_inv_reconnect_building
      intro!: mem_inv_try_dispatch fold_invariant[of "mem_inv {}"] mem_inv_idle_one
      split: WorkerReportedState.splits option.splits)

section \<open>Connections keep the memory invariant\<close>

lemma mem_inv_workers:
  assumes "mem_inv X st" "q_active q = q_active (queue st)" "pending q = pending (queue st)"
    "lanes_ok q = lanes_ok (queue st)"
  shows "mem_inv X (st\<lparr>queue := q\<rparr>)"
proof -
  have "tok q = tok (queue st)" "awaiting q = awaiting (queue st)" "pending_ids q = pending_ids (queue st)"
    using assms(2,3) by (simp_all add: tok_def awaiting_def pending_ids_def fun_eq_iff)
  then show ?thesis using assms by (simp add: mem_inv_def queue_inv_def ack_timers_def)
qed

lemma set_worker_state_other [simp]:
  "q_active (set_worker_state cid ws q) = q_active q" "pending (set_worker_state cid ws q) = pending q"
  "lanes_ok (set_worker_state cid ws q) = lanes_ok q"
  by (simp_all add: set_worker_state_def lanes_ok_def pending_def split: option.splits)

lemma mem_inv_set_worker [simp]:
  "mem_inv X st \<Longrightarrow> mem_inv X (with_queue (set_worker_state cid ws) st)"
  unfolding with_queue_def by (rule mem_inv_workers) simp_all

lemma mem_inv_message:
  assumes "mem_inv {} st" shows "mem_inv {} (handle_worker_message env cid name w m st)"
proof (cases m)
  case (BuildOutput i seq lines)
  then show ?thesis using assms
    by (auto intro!: mem_inv_authorized) (metis core_write_build_output mem_inv_core prod.collapse)
next
  case (BuildFinished i status err rep)
  then show ?thesis using assms
    by (auto simp: Let_def intro!: mem_inv_authorized mem_inv_finished)
qed (use assms in \<open>auto simp: handle_build_started_def intro!: mem_inv_authorized mem_inv_accepted
    mem_inv_rejected mem_inv_status mem_inv_set_worker\<close>)

lemma register_connection_cases:
  obtains (old) old_cid b ws where "register_connection cid w s q = (Some (old_cid, b, ws),
      snd (migrate_active old_cid cid q)\<lparr>q_workers :=
        AList.update cid s (AList.delete old_cid (q_workers q))\<rparr>)"
  | (new) "register_connection cid w s q = (None, q\<lparr>q_workers := AList.update cid s (q_workers q)\<rparr>)"
proof (cases "find (\<lambda>(c, ws). registered_worker_id ws = Some w \<and> c \<noteq> cid) (q_workers q)")
  case None
  then show thesis using new by (simp add: register_connection_def register_worker_def)
next
  case (Some e)
  obtain old_cid ws where "e = (old_cid, ws)" by (cases e)
  then show thesis using Some old[of old_cid "is_dispatch_eligible ws" "fst (migrate_active old_cid cid q)"]
    by (cases "migrate_active old_cid cid q")
      (auto simp: register_connection_def register_worker_def remove_worker_def migrate_active_def)
qed

lemma mem_inv_register:
  assumes "mem_inv X st" "register_connection cid w s (queue st) = (r, q)"
  shows "mem_inv X (st\<lparr>queue := q\<rparr>)"
proof (cases rule: register_connection_cases[of cid w s "queue st"])
  case (old old_cid b ws)
  let ?q = "snd (migrate_active old_cid cid (queue st))"
  have "queue_inv ?q (build_ids (pool st))"
    using assms(1) by (auto simp: mem_inv_def queue_inv_def migrate_active_lookup)
  then have "mem_inv X (st\<lparr>queue := ?q\<rparr>)"
    using assms(1) by (simp add: mem_inv_def tok_migrate ack_timers_def)
  from mem_inv_workers[OF this, of q] show ?thesis using old assms(2) by (simp add: lanes_ok_def)
next
  case new
  then show ?thesis using assms by (auto intro: mem_inv_workers simp: lanes_ok_def)
qed

lemma superseded_core [simp]: "core (revoke_and_remove_superseded old ids st) = core st"
proof -
  have "core (fold (\<lambda>i st. snd (tx_send old (F i) st)) ids st) = core st" for F
    by (induction ids arbitrary: st) (auto, metis tx_send_core prod.collapse)
  then show ?thesis
    by (simp add: revoke_and_remove_superseded_def Let_def split: option.splits)
qed

lemma mem_inv_cleanup_worker:
  assumes "mem_inv {} st" shows "mem_inv {} (cleanup_worker env cid name w stopping st)"
proof -
  let ?s = "st\<lparr>worker_senders := AList.delete cid (worker_senders st)\<rparr>"
  have inv: "mem_inv {} ?s" using assms by (simp add: mem_inv_core[OF core_frames(3)])
  then show ?thesis
    by (auto simp: cleanup_worker_def Let_def start_grace_period_monitor_def
        intro!: mem_inv_worker_dead split: option.splits)
qed

lemma mem_inv_handshake:
  assumes "mem_inv {} st" shows "mem_inv {} (snd (snd (handshake env cid w row hello ok st)))"
proof (cases "validate_hello row hello")
  case (Inl m)
  then show ?thesis using assms by (simp add: handshake_def)
next
  case (Inr v)
  obtain a c ram ver where v: "v = (a, c, ram, ver)" by (cases v)
  let ?s1 = "snd (on_pool (update_last_seen w) st)"
  obtain old q where reg: "register_connection cid w (Connected w (w_name row) a c ram ver) (queue ?s1) = (old, q)"
    by (cases "register_connection cid w (Connected w (w_name row) a c ram ver) (queue ?s1)")
  let ?s2 = "?s1\<lparr>queue := q\<rparr>"
  have s2: "mem_inv {} ?s2" using mem_inv_register[OF _ reg] assms by simp
  let ?s3 = "cleanup_superseded env old ?s2"
  have s3: "mem_inv {} ?s3"
    using s2 by (auto simp: cleanup_superseded_def Let_def mem_inv_core[OF superseded_core]
        intro!: mem_inv_worker_dead split: option.splits)
  let ?s4 = "?s3\<lparr>worker_senders := AList.update cid True (worker_senders ?s3)\<rparr>"
  have "mem_inv {} ?s4" using s3 by (simp add: mem_inv_core[OF core_frames(3)])
  then show ?thesis
    using Inr v reg by (simp add: handshake_def Let_def mem_inv_cleanup_worker)
qed

lemma mem_inv_grace: "mem_inv {} st \<Longrightarrow> mem_inv {} (grace_period_expired env cid st)"
  by (auto simp: grace_period_expired_def intro!: mem_inv_worker_dead
      split: option.splits WorkerState.splits)

lemma mem_inv_closed: "mem_inv {} st \<Longrightarrow> mem_inv {} (connection_closed env cid name w st)"
  by (simp add: connection_closed_def mem_inv_cleanup_worker)

section \<open>Requests keep the memory invariant\<close>

lemma same_tables_build_ids: "same_tables p p' \<Longrightarrow> build_ids p' = build_ids p \<and> rows_inv p' = rows_inv p"
  by (simp add: build_ids_def rows_inv_def same_tables_fields)

lemma assignments_same_tables:
  "get_user_assignments_with_scopes email p = (r, p') \<Longrightarrow> same_tables p p'"
  unfolding get_user_assignments_with_scopes_def
  by (auto simp: Let_def split: prod.splits sum.splits dest!: fetch_same_tables
      intro: same_tables_trans)

lemma scopes_same_tables: "require_scopes_all user checks p = (r, p') \<Longrightarrow> same_tables p p'"
  unfolding require_scopes_all_def
  by (auto split: prod.splits sum.splits if_splits dest!: assignments_same_tables)

lemma channel_scope_same_tables: "check_channel_scope email v p = (r, p') \<Longrightarrow> same_tables p p'"
  unfolding check_channel_scope_def
  by (auto split: prod.splits sum.splits dest!: assignments_same_tables)

lemma resolve_channel_same_tables: "resolve_channel d user p = (r, p') \<Longrightarrow> same_tables p p'"
  unfolding resolve_channel_def get_channel_by_name_def get_channel_by_id_def
  by (auto split: prod.splits sum.splits option.splits if_splits dest!: fetch_same_tables)

lemma resolve_type_same_tables: "resolve_type_name d c p = (r, p') \<Longrightarrow> same_tables p p'"
  unfolding resolve_type_name_def get_type_def
  by (auto split: prod.splits sum.splits option.splits dest!: fetch_same_tables)

lemma resolve_same_tables:
  assumes "resolve_and_rewrite d user p = (r, p')" shows "same_tables p p'"
proof -
  obtain r1 p1 where 1: "resolve_channel d user p = (r1, p1)" by (cases "resolve_channel d user p")
  note s1 = resolve_channel_same_tables[OF 1]
  show ?thesis
  proof (cases r1)
    case (Inl e)
    then show ?thesis using assms 1 s1 by (simp add: resolve_and_rewrite_def)
  next
    case (Inr ic)
    obtain r2 p2 where 2: "resolve_type_name d (snd ic) p1 = (r2, p2)"
      by (cases "resolve_type_name d (snd ic) p1")
    note s2 = same_tables_trans[OF s1 resolve_type_same_tables[OF 2]]
    show ?thesis
    proof (cases r2)
      case (Inl e)
      then show ?thesis using assms 1 2 s2 \<open>r1 = Inr ic\<close>
        by (cases ic) (simp add: resolve_and_rewrite_def)
    next
      case tn: (Inr tn)
      obtain r3 p3 where 3: "resolve_channel_type (ch_name (snd ic)) tn p2 = (r3, p3)"
        by (cases "resolve_channel_type (ch_name (snd ic)) tn p2")
      note s3 = same_tables_trans[OF s2 fetch_same_tables[OF 3[unfolded resolve_channel_type_def]]]
      obtain r4 p4 where 4: "check_channel_scope (ur_email user) (ch_name (snd ic) @ ''/'' @ tn) p3 = (r4, p4)"
        by (cases "check_channel_scope (ur_email user) (ch_name (snd ic) @ ''/'' @ tn) p3")
      note s4 = same_tables_trans[OF s3 channel_scope_same_tables[OF 4]]
      show ?thesis using assms 1 2 3 4 s3 s4 Inr tn
        by (cases ic) (auto simp: resolve_and_rewrite_def Let_def split: sum.splits option.splits bool.splits)
    qed
  qed
qed

lemma mem_inv_lift_db:
  assumes "lift_db f st = (r, st')" "\<And>p r p'. f p = (r, p') \<Longrightarrow> same_tables p p'"
  shows "mem_inv X st' = mem_inv X st"
proof -
  have "\<exists>p. st' = st\<lparr>pool := p\<rparr> \<and> same_tables (pool st) p"
    using assms by (auto simp: lift_db_def split: prod.splits)
  then show ?thesis using same_tables_same_shape mem_inv_pool by auto
qed

lemma insert_build_cases:
  assumes "insert_build dj u pr pt c ct p = (r, p')"
  obtains (error) e where "r = Err e" "same_tables p p'"
  | (ok) p0 row where "r = Ok (p_build_seq p)" "same_tables p p0"
      "p' = p0\<lparr>p_build_seq := p_build_seq p + 1, p_builds := (p_build_seq p, row) # p_builds p\<rparr>"
      "row = new_row dj u pr pt c ct (p_now p)"
proof -
  let ?f = "\<lambda>p. if insert_build_ok u pr pt c ct p
    then (Ok (p_build_seq p) :: sqlx_error + build_id, p\<lparr>p_build_seq := p_build_seq p + 1,
      p_builds := (p_build_seq p, new_row dj u pr pt c ct (p_now p)) # p_builds p\<rparr>)
    else (Err (SqlxError ''constraint failed''), p)"
  have r: "exec ?f p = (r, p')" using assms by (simp add: insert_build_def)
  show thesis
  proof (cases ?f p rule: exec_cases)
    case (fault e p0)
    then show thesis using error r by simp
  next
    case (run p0)
    note f = same_tables_fields[OF run(2)]
    show thesis
    proof (cases "insert_build_ok u pr pt c ct p0")
      case True
      then show thesis using ok[OF _ run(2)] r run(1) f by simp
    next
      case False
      then show thesis using error[of "SqlxError ''constraint failed''"] r run(1,2) by auto
    qed
  qed
qed

lemma insert_log_row_fields:
  assumes "insert_build_log_row i path p = (r, p')"
  shows "p_builds p' = p_builds p" "p_build_seq p' = p_build_seq p" "p_now p' = p_now p"
    "build_ids p' = build_ids p" "rows_inv p \<Longrightarrow> rows_inv p'"
    "p_faults p = [] \<Longrightarrow> p_faults p' = []"
    "p_faults p = [] \<Longrightarrow> i \<in> build_ids p \<Longrightarrow> i \<notin> set (map fst (p_logs p)) \<Longrightarrow> r = Ok ()"
proof -
  have *: "p_builds p' = p_builds p \<and> p_build_seq p' = p_build_seq p \<and> p_now p' = p_now p \<and>
    (p_logs p' = p_logs p \<or> map fst (p_logs p') = i # map fst (p_logs p) \<and> i \<in> build_ids p)"
    using assms unfolding insert_build_log_row_def
    by (auto simp: exec_def build_ids_def split: list.splits option.splits if_splits)
      (metis domI dom_map_of_conv_image_fst)+
  then show "p_builds p' = p_builds p" "p_build_seq p' = p_build_seq p" "p_now p' = p_now p"
    and ids: "build_ids p' = build_ids p"
    by (auto simp: build_ids_def)
  show "rows_inv p'" if inv: "rows_inv p"
  proof -
    have "set (map fst (p_logs p')) \<subseteq> insert i (set (map fst (p_logs p)))"
      "set (map fst (p_logs p')) \<subseteq> set (map fst (p_logs p)) \<or> i \<in> build_ids p"
      using * by (auto simp del: set_map)
    then have "set (map fst (p_logs p')) \<subseteq> build_ids p"
      using inv unfolding rows_inv_def by blast
    then show ?thesis using inv * unfolding rows_inv_def ids by simp
  qed
  show "p_faults p = [] \<Longrightarrow> p_faults p' = []"
    using assms by (auto simp: insert_build_log_row_def split: if_splits)
  show "r = Ok ()" if "p_faults p = []" "i \<in> build_ids p" "i \<notin> set (map fst (p_logs p))"
  proof -
    have "map_of (p_logs p) i = None" using that(3) by (simp add: map_of_eq_None_iff)
    moreover have "map_of (p_builds p) i \<noteq> None"
      using that(2) by (simp add: build_ids_def map_of_eq_None_iff)
    ultimately show ?thesis using assms that(1) by (simp add: insert_build_log_row_def)
  qed
qed

lemma mem_inv_insert_row:
  assumes "mem_inv X st" "same_tables (pool st) p0"
  shows "mem_inv X (st\<lparr>pool := p0\<lparr>p_build_seq := p_build_seq (pool st) + 1,
      p_builds := (p_build_seq (pool st), row) # p_builds (pool st)\<rparr>\<rparr>)"
    and "p_build_seq (pool st) \<notin> build_ids (pool st)"
proof -
  show new: "p_build_seq (pool st) \<notin> build_ids (pool st)"
    using assms(1) by (auto simp: mem_inv_def rows_inv_def)
  let ?p = "p0\<lparr>p_build_seq := p_build_seq (pool st) + 1,
      p_builds := (p_build_seq (pool st), row) # p_builds (pool st)\<rparr>"
  have ids: "build_ids ?p = insert (p_build_seq (pool st)) (build_ids (pool st))"
    by (simp add: build_ids_def)
  have "queue_inv (queue st) (build_ids ?p)"
    using assms(1) unfolding ids by (auto simp: mem_inv_def queue_inv_def)
  moreover have "rows_inv ?p"
    using assms new same_tables_fields(3)[OF assms(2)]
    by (auto simp: mem_inv_def rows_inv_def build_ids_def)
  ultimately show "mem_inv X (st\<lparr>pool := ?p\<rparr>)"
    using assms(1) ids by (auto simp: mem_inv_def)
qed

lemma mem_inv_insert_build:
  assumes "mem_inv {} st"
  shows "mem_inv {} (snd (insert_build_internal env d u pr pt c ct st))"
proof (cases "e_descriptor_to_string env d")
  case (Inr dj)
  obtain r1 p1 where 1: "insert_build dj u (priority_str pr) pt c ct (pool st) = (r1, p1)"
    by (cases "insert_build dj u (priority_str pr) pt c ct (pool st)")
  let ?s1 = "st\<lparr>pool := p1\<rparr>"
  from 1 show ?thesis
  proof (cases rule: insert_build_cases)
    case (error e)
    have "mem_inv {} ?s1" using assms mem_inv_pool[OF same_tables_same_shape[OF error(2)]] by simp
    then show ?thesis using 1 Inr error(1) by (simp add: insert_build_internal_def on_pool_def)
  next
    case (ok p0 row)
    let ?i = "p_build_seq (pool st)"
    note new = mem_inv_insert_row[OF assms ok(2)]
    have inv1: "mem_inv {} ?s1" unfolding ok(3) by (rule new)
    obtain r2 p2 where 2: "insert_build_log_row ?i (''builds/'' @ show_int ?i @ ''.log'') p1 = (r2, p2)"
      by (cases "insert_build_log_row ?i (''builds/'' @ show_int ?i @ ''.log'') p1")
    note log = insert_log_row_fields[OF 2]
    have inv2: "mem_inv {} (st\<lparr>pool := p2\<rparr>)" using inv1 log(4,5) by (simp add: mem_inv_def)
    have ids: "?i \<in> build_ids p2" using log(4) by (simp add: build_ids_def ok(3))
    have fresh: "?i \<notin> set (pending_ids (queue st))" "map_of (q_active (queue st)) ?i = None"
      "\<And>t. (?i, t) \<notin> ack_timers st"
      using assms new(2) unfolding mem_inv_def queue_inv_def
      by (blast, metis not_None_eq, metis fst_conv imageI subsetD)
    have "mem_inv {} (with_queue (enqueue \<lparr>qb_build_id = ?i, qb_priority = pr,
               qb_descriptor = d, qb_user_email = u, qb_queued_at = now (st\<lparr>pool := p2\<rparr>)\<rparr>) (st\<lparr>pool := p2\<rparr>))"
      using fresh ids by (intro mem_inv_enqueue(1)[OF inv2]) (auto simp: ack_timers_def)
    then show ?thesis using 1 2 Inr ok(1) inv2
      by (cases r2) (simp_all add: insert_build_internal_def on_pool_def Let_def pending_counts_def)
  qed
qed (simp add: insert_build_internal_def assms)

lemma mem_inv_get_user:
  "on_pool (get_user email) st = (r, st') \<Longrightarrow> mem_inv X st' = mem_inv X st"
  unfolding get_user_def
  by (erule mem_inv_on_pool) (rule same_tables_same_shape, erule fetch_same_tables)

lemma mem_inv_requests:
  "lift_db (require_scopes_all user checks) st = (r1, st') \<Longrightarrow> mem_inv X st' = mem_inv X st"
  "lift_db (resolve_and_rewrite d u) st = (r2, st') \<Longrightarrow> mem_inv X st' = mem_inv X st"
  by (erule mem_inv_lift_db, erule scopes_same_tables resolve_same_tables)+

lemma mem_inv_submit:
  assumes "mem_inv {} st" shows "mem_inv {} (snd (submit_build env user body st))"
proof -
  obtain r1 st1 where 1: "check_repo_scopes user (sb_descriptor body) st = (r1, st1)"
    by (meson surj_pair)
  have i1: "mem_inv {} st1"
    using 1 assms mem_inv_requests(1)[of user "repo_scope_checks (sb_descriptor body)" st r1 st1]
    by (auto simp: check_repo_scopes_def split: if_splits)
  obtain r2 st2 where 2: "on_pool (get_user (au_email user)) st1 = (r2, st2)" by (meson surj_pair)
  have i2: "mem_inv {} st2" using mem_inv_get_user[OF 2] i1 by blast
  show ?thesis
  proof (cases "\<exists>ur. r2 = Ok (Some ur)")
    case False
    then show ?thesis using assms 1 2 i1 i2
      by (cases "validate_descriptor (sb_descriptor body) (components st)"; cases r1; cases r2)
        (auto simp: submit_build_def)
  next
    case True
    then obtain ur where ur: "r2 = Ok (Some ur)" by blast
    obtain r3 st3 where 3: "lift_db (resolve_and_rewrite (sign_off user (sb_descriptor body)) ur) st2
        = (r3, st3)" by (meson surj_pair)
    have i3: "mem_inv {} st3" using mem_inv_requests(2)[OF 3] i2 by blast
    show ?thesis
    proof (cases r3)
      case (Inl e)
      then show ?thesis using assms 1 2 3 i1 i3 ur
        by (cases "validate_descriptor (sb_descriptor body) (components st)"; cases r1)
          (simp_all add: submit_build_def)
    next
      case (Inr rd)
      obtain res d where rd: "rd = (res, d)" by (cases rd)
      obtain r4 st4 where 4: "insert_build_internal env d (au_email user) (sb_priority body) None
          (Some (res_channel_id res)) (Some (res_channel_type_id res)) st3 = (r4, st4)"
        by (meson surj_pair)
      have i4: "mem_inv {} st4" using mem_inv_insert_build[OF i3] 4 by (metis snd_conv)
      show ?thesis using assms 1 2 3 4 i1 i3 i4 ur Inr rd
        by (cases "validate_descriptor (sb_descriptor body) (components st)"; cases r1; cases r4)
          (simp_all add: submit_build_def split: prod.splits)
    qed
  qed
qed

lemma mem_inv_remove_by_id:
  assumes "mem_inv X st" shows "mem_inv X (with_queue (\<lambda>q. snd (remove_by_id q i)) st)"
proof -
  let ?q = "snd (remove_by_id (queue st) i)"
  have d: "distinct (pending_ids (queue st))" using assms by (simp add: mem_inv_def queue_inv_def)
  note r = remove_by_id_ids[OF d, of i]
  have "tok ?q = tok (queue st)" "awaiting ?q = awaiting (queue st)"
    by (simp_all add: tok_def awaiting_def frame_simps fun_eq_iff)
  moreover have "queue_inv ?q (build_ids (pool st))"
    using assms r by (auto simp: mem_inv_def queue_inv_def frame_simps lanes_ok_remove)
  ultimately show ?thesis
    using assms r tinv_subset[of "set (pending_ids (queue st))" _ _ _ _ "set (pending_ids ?q)"]
    by (auto simp: mem_inv_def)
qed

lemma mem_inv_revoke_build:
  assumes "mem_inv {} st" shows "mem_inv {} (snd (revoke_build env user i st))"
proof -
  obtain r st1 where r: "on_pool (get_build (e_value_from_str env) i) st = (r, st1)" by (meson surj_pair)
  then have inv: "mem_inv {} st1" using mem_inv_get_build assms by blast
  obtain r2 st2 where s: "send_build_revoke i st1 = (r2, st2)" by (meson surj_pair)
  have inv2: "mem_inv {} st2" using mem_inv_send_revoke[OF inv, of i] s by simp
  obtain r3 st3 where u: "on_pool (update_build_state i Revoked None)
      (with_queue (\<lambda>q. snd (remove_by_id q i)) st1) = (r3, st3)" by (meson surj_pair)
  have inv3: "mem_inv {} st3"
    using mem_inv_remove_by_id[OF inv, of i] u mem_inv_stmts(1)[of "{}" i Revoked None
        "with_queue (\<lambda>q. snd (remove_by_id q i)) st1"] by simp
  show ?thesis
    using assms inv inv2 inv3 r s u
    by (auto simp: revoke_build_def Let_def split: sum.splits option.splits BuildState.splits)
qed

section \<open>Recovery establishes the memory invariant\<close>

lemma recovery_rows_shape:
  "fail_row e i p = (r, p') \<Longrightarrow> same_shape p p'" "revoke_row i p = (r, p') \<Longrightarrow> same_shape p p'"
  unfolding fail_row_def revoke_row_def
  by (erule update_build_row_shape; simp add: fixed_columns_def)+

lemma finalize_rows_shape:
  assumes "\<And>i p r p'. stmt i p = (r, p') \<Longrightarrow> same_shape p p'"
  shows "finalize_rows stmt is p = (r, p') \<Longrightarrow> same_shape p p'"
proof (induction "is" arbitrary: p)
  case (Cons i "is")
  obtain r1 p1 where 1: "stmt i p = (r1, p1)" by (meson surj_pair)
  obtain r2 p2 where 2: "set_build_log_finished i p1 = (r2, p2)" by (meson surj_pair)
  have sh: "same_shape p p1" "same_shape p p2"
    using assms[OF 1] log_finished_shape[OF 2] same_shape_trans by blast+
  show ?case
  proof (cases "isl r1 \<or> isl r2")
    case True
    then show ?thesis using Cons.prems 1 2 sh by (cases r1; cases r2) auto
  next
    case False
    then have "finalize_rows stmt is p2 = (r, p')" using Cons.prems 1 2 by (cases r1; cases r2) auto
    then show ?thesis using Cons.IH sh(2) same_shape_trans by blast
  qed
qed simp

lemma finalize_shape:
  "finalize_rows (fail_row e) is p = (r, p') \<Longrightarrow> same_shape p p'"
  "finalize_rows revoke_row is p = (r, p') \<Longrightarrow> same_shape p p'"
  by (erule finalize_rows_shape[rotated], erule recovery_rows_shape)+

lemma fail_row_ids: "on_pool (fail_row e i) st = (r, st') \<Longrightarrow>
    mem_inv X st' = mem_inv X st \<and> build_ids (pool st') = build_ids (pool st) \<and>
    queue st' = queue st \<and> tasks st' = tasks st"
  using mem_inv_on_pool[of "fail_row e i" st r st' X] build_ids_on_pool[of "fail_row e i" "pool st"]
    recovery_rows_shape(1)
  by (metis on_pool_simps(1,2,8) snd_conv)

lemma enqueue_rows_inv:
  assumes "enqueue_rows env rows st = (r, st')" "mem_inv {} st" "q_active (queue st) = []"
    "tasks st = []" "distinct (map fst rows)" "set (map fst rows) \<subseteq> build_ids (pool st)"
    "set (map fst rows) \<inter> set (pending_ids (queue st)) = {}"
  shows "mem_inv {} st' \<and> q_active (queue st') = [] \<and> tasks st' = []"
  using assms
proof (induction rows arbitrary: st)
  case (Cons ir rows)
  obtain i row where ir: "ir = (i, row)" by (cases ir)
  show ?case
  proof (cases "e_descriptor_from_str env (b_descriptor row)")
    case (Inl e)
    obtain r1 st1 where 1: "on_pool (fail_row ''corrupt descriptor (recovery)'' i) st = (r1, st1)"
      by (meson surj_pair)
    note f = fail_row_ids[OF 1, of "{}"]
    show ?thesis
    proof (cases r1)
      case (Inl e')
      then have "st' = st1" using Cons.prems(1) ir 1 \<open>_ = Err e\<close> by simp
      then show ?thesis using f Cons.prems by simp
    next
      case (Inr v)
      then have "enqueue_rows env rows st1 = (r, st')" using Cons.prems(1) ir 1 Inl by simp
      then show ?thesis using Cons.prems f ir by (intro Cons.IH[of st1]) auto
    qed
  next
    case (Inr d)
    define b where "b = \<lparr>qb_build_id = i, qb_priority = parse_priority (b_priority row),
      qb_descriptor = d, qb_user_email = b_user_email row, qb_queued_at = b_queued_at row\<rparr>"
    have b: "qb_build_id b = i" by (simp add: b_def)
    have e: "enqueue_rows env rows (with_queue (enqueue b) st) = (r, st')"
      using Cons.prems(1) Inr ir by (simp add: b_def)
    have "mem_inv {} (with_queue (enqueue b) st)"
      using Cons.prems ir b by (intro mem_inv_enqueue(1)) (auto simp: ack_timers_def)
    then show ?thesis
      using Cons.prems ir b by (intro Cons.IH[OF e]) (auto simp: pending_ids_enqueue frame_simps)
  qed
qed simp

lemma mem_inv_fresh: "rows_inv p \<Longrightarrow> mem_inv {} (fresh_app p cfg comps)"
  by (auto simp: mem_inv_def fresh_app_def queue_inv_def queue_new_def lanes_ok_def pending_ids_def
      pending_def tinv_def winv_def tok_def ack_timers_def)

lemma select_ids_shape: "select_ids S p = (r, p') \<Longrightarrow> same_shape p p'"
  unfolding select_ids_def by (rule same_tables_same_shape) (erule fetch_same_tables)

lemma select_queued_rows:
  assumes "select_queued p = (Ok rows, p')"
  shows "same_tables p p'" "set rows = {(i, r). (i, r) \<in> set (p_builds p) \<and> b_state r = Queued}"
    "distinct (map fst (p_builds p)) \<Longrightarrow> distinct (map fst rows)"
proof -
  let ?g = "\<lambda>p :: SqlitePool. sort_key (\<lambda>(i, r). b_queued_at r)
     (sort_key fst (filter (\<lambda>(i, r). b_state r = Queued) (p_builds p)))"
  show st: "same_tables p p'" using assms fetch_same_tables unfolding select_queued_def by blast
  have e: "exec (\<lambda>p. (Ok (?g p), p)) p = (Ok rows, p')"
    using assms by (simp add: select_queued_def fetch_def)
  have rows: "rows = ?g p"
  proof (cases "\<lambda>p. (Ok (?g p) :: sqlx_error + _, p)" p rule: exec_cases)
    case (run p0)
    then show ?thesis using e same_tables_fields(1)[OF run(2)] by simp
  qed (use e in simp)
  then show "set rows = {(i, r). (i, r) \<in> set (p_builds p) \<and> b_state r = Queued}" by auto
  have "mset rows = mset (filter (\<lambda>(i, r). b_state r = Queued) (p_builds p))" unfolding rows by simp
  then have "mset (map fst rows) = mset (map fst (filter (\<lambda>(i, r). b_state r = Queued) (p_builds p)))"
    by (metis mset_map)
  then show "distinct (map fst (p_builds p)) \<Longrightarrow> distinct (map fst rows)"
    using mset_eq_imp_distinct_iff distinct_map_filter by blast
qed

lemma on_pool_fresh:
  "on_pool f (fresh_app p cfg comps) = (case f p of (r, p') \<Rightarrow> (r, fresh_app p' cfg comps))"
  by (simp add: on_pool_def fresh_app_def split: prod.splits)

lemma recovery_steps:
  assumes "run_startup_recovery env (fresh_app p cfg comps) = (Ok (), st)"
  obtains fl p1 p2 rv p3 p4 rows p5 st6 where
    "select_ids {Dispatched, Started} p = (Ok fl, p1)"
    "finalize_rows (fail_row ''server restarted'') fl p1 = (Ok (), p2)"
    "select_ids {Revoking} p2 = (Ok rv, p3)"
    "finalize_rows revoke_row rv p3 = (Ok (), p4)"
    "select_queued p4 = (Ok rows, p5)"
    "enqueue_rows env rows (fresh_app p5 cfg comps) = (Ok (), st6)"
    "st = st6\<lparr>log_watchers := []\<rparr>"
  using assms unfolding run_startup_recovery_def on_pool_fresh
  by (auto simp: on_pool_fresh split: prod.splits sum.splits)

text \<open>A server that has come up satisfies the invariant, whatever the database held.\<close>

lemma mem_inv_recovery:
  assumes "run_startup_recovery env (fresh_app p cfg comps) = (Ok (), st)" "rows_inv p"
  shows "mem_inv {} st" "q_active (queue st) = []" "tasks st = []"
proof -
  from assms(1) obtain fl p1 p2 rv p3 p4 rows p5 st6 where
    1: "select_ids {Dispatched, Started} p = (Ok fl, p1)" and
    2: "finalize_rows (fail_row ''server restarted'') fl p1 = (Ok (), p2)" and
    3: "select_ids {Revoking} p2 = (Ok rv, p3)" and
    4: "finalize_rows revoke_row rv p3 = (Ok (), p4)" and
    5: "select_queued p4 = (Ok rows, p5)" and
    6: "enqueue_rows env rows (fresh_app p5 cfg comps) = (Ok (), st6)" and
    st: "st = st6\<lparr>log_watchers := []\<rparr>"
    by (rule recovery_steps)
  have sh: "same_shape p p4"
    using select_ids_shape[OF 1] finalize_shape(1)[OF 2] select_ids_shape[OF 3]
      finalize_shape(2)[OF 4] by (blast intro: same_shape_trans)
  note sel = select_queued_rows[OF 5]
  have r4: "rows_inv p4" using assms(2) same_shape_rows[OF sh] by simp
  have "mem_inv {} (fresh_app p5 cfg comps)"
    using r4 same_tables_build_ids[OF sel(1)] by (intro mem_inv_fresh) simp
  moreover have "set (map fst rows) \<subseteq> build_ids p5" "distinct (map fst rows)"
    using sel r4 same_tables_build_ids[OF sel(1)] by (auto simp: build_ids_def rows_inv_def)
  ultimately have "mem_inv {} st6 \<and> q_active (queue st6) = [] \<and> tasks st6 = []"
    by (intro enqueue_rows_inv[OF 6]) (auto simp: fresh_app_def queue_new_def pending_ids_def pending_def)
  then show "mem_inv {} st" "q_active (queue st) = []" "tasks st = []"
    using st by (auto simp: mem_inv_core[OF core_frames(4)])
qed

end
