(* ===== verification/Cbs_Agreement.thy ===== *)
theory Cbs_Agreement
  imports Cbs_Invariants
begin

text \<open>
  Memory and database agree. While no statement fails, the builds in state \<open>queued\<close> are
  the pending ones, the builds in state \<open>dispatched\<close>, \<open>started\<close> or \<open>revoking\<close> are the
  active ones, and the priority and descriptor held in memory are those of the row. Every
  handler and request keeps the agreement, and startup recovery establishes it.
\<close>

section \<open>The agreement\<close>

text \<open>
  \<open>agree_view F S P A\<close>: the builds in state \<open>queued\<close> are the pending ones, and the builds
  handed to a worker are the active ones. \<open>F\<close> names builds that are finished, with their
  final state.
\<close>

definition live_states :: "BuildState set" where
  "live_states = {Dispatched, Started, Revoking}"

definition terminal_states :: "BuildState set" where
  "terminal_states = {Success, Failure, Revoked}"

definition agree_view ::
  "(build_id \<Rightarrow> BuildState option) \<Rightarrow> (build_id \<Rightarrow> BuildState option) \<Rightarrow>
     build_id set \<Rightarrow> build_id set \<Rightarrow> bool" where
  "agree_view F S P A \<longleftrightarrow>
     (\<forall>i. (S i = Some Queued \<longleftrightarrow> i \<in> P) \<and> ((\<exists>s\<in>live_states. S i = Some s) \<longleftrightarrow> i \<in> A)) \<and>
     (\<forall>i s. F i = Some s \<longrightarrow> s \<in> terminal_states \<and> S i = Some s)"

definition set_state ::
  "(build_id \<Rightarrow> BuildState option) \<Rightarrow> build_id \<Rightarrow> BuildState \<Rightarrow> build_id \<Rightarrow> BuildState option" where
  "set_state S i s = S(i := map_option (\<lambda>_. s) (S i))"

text \<open>The priority and descriptor in memory are the ones stored in the row.\<close>

definition row_matches :: "env \<Rightarrow> SqlitePool \<Rightarrow> build_id \<Rightarrow> Priority \<Rightarrow> BuildDescriptor \<Rightarrow> bool" where
  "row_matches env p i prio d \<longleftrightarrow>
     (\<exists>r. build_row p i = Some r \<and> parse_priority (b_priority r) = prio \<and>
        e_descriptor_from_str env (b_descriptor r) = Ok d)"

definition matches :: "env \<Rightarrow> SqlitePool \<Rightarrow> BuildQueue \<Rightarrow> bool" where
  "matches env p q \<longleftrightarrow>
     (\<forall>b\<in>set (pending q). row_matches env p (qb_build_id b) (qb_priority b) (qb_descriptor b)) \<and>
     (\<forall>i ab. map_of (q_active q) i = Some ab \<longrightarrow> row_matches env p i (ab_priority ab) (ab_descriptor ab))"

definition active_ids :: "BuildQueue \<Rightarrow> build_id set" where
  "active_ids q = {i. map_of (q_active q) i \<noteq> None}"

definition agree :: "env \<Rightarrow> (build_id \<Rightarrow> BuildState option) \<Rightarrow> AppState \<Rightarrow> bool" where
  "agree env F st \<longleftrightarrow> p_faults (pool st) = [] \<and>
     agree_view F (build_state (pool st)) (set (pending_ids (queue st))) (active_ids (queue st)) \<and>
     matches env (pool st) (queue st)"

lemma view_disjoint: "agree_view F S P A \<Longrightarrow> i \<in> A \<Longrightarrow> i \<notin> P"
proof
  assume v: "agree_view F S P A" "i \<in> A" "i \<in> P"
  then obtain s where "s \<in> live_states" "S i = Some s" unfolding agree_view_def by blast
  moreover have "S i = Some Queued" using v by (simp add: agree_view_def)
  ultimately show False by (simp add: live_states_def)
qed

text \<open>Only builds that are pending or active change their state.\<close>

lemma finals_kept:
  assumes "agree_view F S P A" "i \<in> P \<or> i \<in> A"
  shows "\<forall>j s. F j = Some s \<longrightarrow> s \<in> terminal_states \<and> set_state S i t j = Some s"
proof -
  have "S i = Some Queued \<or> (\<exists>s\<in>live_states. S i = Some s)" using assms unfolding agree_view_def by blast
  then have "F i = None" using assms(1)
    by (cases "F i") (auto simp: agree_view_def live_states_def terminal_states_def)
  then show ?thesis using assms(1) by (auto simp: agree_view_def set_state_def)
qed

lemma view_finish:
  "agree_view F S P A \<Longrightarrow> i \<in> A \<Longrightarrow> s \<in> {Success, Failure, Revoked} \<Longrightarrow>
     agree_view F (set_state S i s) P (A - {i})"
  using view_disjoint[of F S P A i] finals_kept[of F S P A i s] unfolding agree_view_def
  by (auto simp: set_state_def live_states_def)

lemma view_rollback:
  "agree_view F S P A \<Longrightarrow> i \<in> A \<Longrightarrow> agree_view F (set_state S i Queued) (insert i P) (A - {i})"
  using finals_kept[of F S P A i Queued] unfolding agree_view_def
  by (auto simp: set_state_def live_states_def)

lemma view_dispatch:
  "agree_view F S P A \<Longrightarrow> i \<in> P \<Longrightarrow> agree_view F (set_state S i Dispatched) (P - {i}) (insert i A)"
  using finals_kept[of F S P A i Dispatched] unfolding agree_view_def
  by (auto simp: set_state_def live_states_def)

lemma view_live:
  "agree_view F S P A \<Longrightarrow> i \<in> A \<Longrightarrow> s \<in> live_states \<Longrightarrow> agree_view F (set_state S i s) P A"
  using view_disjoint[of F S P A i] finals_kept[of F S P A i s] unfolding agree_view_def
  by (auto simp: set_state_def live_states_def)

lemma view_drop:
  "agree_view F S P A \<Longrightarrow> s \<in> {Success, Failure, Revoked} \<Longrightarrow> i \<in> P \<Longrightarrow>
     agree_view F (set_state S i s) (P - {i}) A"
  using view_disjoint[of F S P A i] finals_kept[of F S P A i s] unfolding agree_view_def
  by (auto simp: set_state_def live_states_def)

lemma view_submit:
  "agree_view F S P A \<Longrightarrow> S i = None \<Longrightarrow> agree_view F (S(i \<mapsto> Queued)) (insert i P) A"
  by (auto simp: agree_view_def live_states_def) (metis option.distinct(1))+

lemma row_matches_shape: "same_shape p p' \<Longrightarrow> row_matches env p' i pr d = row_matches env p i pr d"
  using same_shape_row[of p p' i]
  by (auto simp: row_matches_def fixed_columns_def map_option_case split: option.splits)

lemma matches_shape: "same_shape p p' \<Longrightarrow> matches env p' q = matches env p q"
  by (simp add: matches_def row_matches_shape)

lemma agree_cong:
  assumes "queue st' = queue st" "p_builds (pool st') = p_builds (pool st)"
    "p_faults (pool st') = p_faults (pool st)"
  shows "agree env F st' = agree env F st"
proof -
  have "build_row (pool st') = build_row (pool st)" using assms(2) by (simp add: build_row_def fun_eq_iff)
  then have "build_state (pool st') = build_state (pool st)" "matches env (pool st') = matches env (pool st)"
    by (simp_all add: build_state_def matches_def row_matches_def fun_eq_iff)
  then show ?thesis using assms by (simp add: agree_def)
qed

lemma agree_core:
  "core st' = core st \<Longrightarrow> p_faults (pool st') = p_faults (pool st) \<Longrightarrow> agree env F st' = agree env F st"
  by (rule agree_cong) (simp_all add: core_def)

text \<open>Without failures a statement is its update.\<close>

lemma update_no_fault:
  "p_faults p = [] \<Longrightarrow> update_build_row i f p = (Ok (build_row p i \<noteq> None), update_builds i (f p) p)"
  by (simp add: update_build_row_def build_row_def)

lemma stmt_states:
  assumes "p_faults p = []"
  shows "build_state (snd (rollback_dispatch_to_queued i p)) = set_state (build_state p) i Queued"
    "build_state (snd (set_build_dispatched i t w p)) = set_state (build_state p) i Dispatched"
    "build_state (snd (set_build_started i p)) = set_state (build_state p) i Started"
    "build_state (snd (set_build_finished i s e r p)) = set_state (build_state p) i s"
    "build_state (snd (set_build_revoking i p)) = set_state (build_state p) i Revoking"
    "build_state (snd (update_build_state i s e p)) = set_state (build_state p) i s"
  using assms
  by (simp_all add: fun_eq_iff build_updates update_no_fault set_state_def builds.row_upd
      build_state_def option.map_comp comp_def)

lemma stmt_faults [simp]:
  assumes "p_faults p = []"
  shows "p_faults (snd (rollback_dispatch_to_queued i p)) = []"
    "p_faults (snd (set_build_dispatched i t w p)) = []" "p_faults (snd (set_build_started i p)) = []"
    "p_faults (snd (set_build_finished i s e r p)) = []" "p_faults (snd (set_build_revoking i p)) = []"
    "p_faults (snd (update_build_state i s e p)) = []" "p_faults (snd (set_build_log_finished i p)) = []"
    "p_faults (snd (update_last_seen w p)) = []"
  using assms by (simp_all add: build_updates update_no_fault set_build_log_finished_def update_last_seen_def)

lemma get_build_no_fault:
  "p_faults p = [] \<Longrightarrow> get_build pj i p = (r, p') \<Longrightarrow> p' = p \<and> (\<exists>ob. r = Ok ob \<and>
     map_option br_state ob = build_state p i \<and> map_option br_worker_id ob = map_option b_worker_id (build_row p i))"
  by (auto simp: get_build_def build_state_def option.map_comp comp_def)

lemma shape_snd:
  "same_shape p (snd (rollback_dispatch_to_queued i p))"
  "same_shape p (snd (set_build_dispatched i t w p))"
  "same_shape p (snd (set_build_started i p))" "same_shape p (snd (set_build_finished i s e r p))"
  "same_shape p (snd (set_build_revoking i p))" "same_shape p (snd (update_build_state i s e p))"
  "same_shape p (snd (set_build_log_finished i p))"
  by (metis prod.collapse shapes)+

lemma active_ids_simps [simp]:
  "active_ids (remove_active i q) = active_ids q - {i}"
  "active_ids (update_active i f q) = active_ids q"
  "active_ids (q\<lparr>q_active := AList.update i ab a\<rparr>) = insert i (active_ids (q\<lparr>q_active := a\<rparr>))"
  "active_ids (enqueue b q) = active_ids q" "active_ids (enqueue_front b q) = active_ids q"
  by (auto simp: active_ids_def map_of_update_apply frame_simps)

section \<open>The dispatch engine keeps the agreement\<close>

lemma remove_watcher_pool [simp]: "pool (remove_watcher i st) = pool st" "queue (remove_watcher i st) = queue st"
  by (simp_all add: remove_watcher_def)

lemma agree_remove_watcher [simp]: "agree env F (remove_watcher i st) = agree env F st"
  by (simp add: agree_def)

lemma matches_remove_active: "matches env p q \<Longrightarrow> matches env p (remove_active i q)"
  by (simp add: matches_def)

lemma agree_cleanup:
  assumes "agree env F st" "i \<in> active_ids (queue st)"
  shows "agree env F (cleanup_terminal_state i status reason st)"
proof -
  let ?p1 = "snd (set_build_finished i (terminal_as_state status) (Some reason) None (pool st))"
  let ?p2 = "snd (set_build_log_finished i ?p1)"
  have f: "p_faults (pool st) = []" using assms(1) by (simp add: agree_def)
  have S: "build_state ?p2 = set_state (build_state (pool st)) i (terminal_as_state status)"
    using stmt_states(4)[OF f] by (simp add: build_state_def build_row_def log_updates_builds fun_eq_iff)
  have "matches env ?p2 (remove_active i (queue st))"
    using assms(1) matches_remove_active matches_shape[OF shape_snd(7)] matches_shape[OF shape_snd(4)]
    by (simp add: agree_def)
  moreover have "agree_view F (build_state ?p2) (set (pending_ids (queue st))) (active_ids (queue st) - {i})"
    unfolding S using assms by (intro view_finish) (cases status; simp add: agree_def)+
  ultimately show ?thesis using f
    by (simp add: cleanup_terminal_state_def Let_def agree_def)
qed

lemma agree_rollback:
  assumes "agree env F st" shows "agree env F (snd (rollback_active_to_queued i st))"
proof (cases "map_of (q_active (queue st)) i")
  case None
  then show ?thesis using assms by (simp add: rollback_active_to_queued_def)
next
  case (Some ab)
  let ?p = "snd (rollback_dispatch_to_queued i (pool st))"
  have f: "p_faults (pool st) = []" using assms by (simp add: agree_def)
  have m: "row_matches env ?p i (ab_priority ab) (ab_descriptor ab)"
    using assms Some row_matches_shape[OF shape_snd(1)] by (simp add: agree_def matches_def)
  have ms: "matches env ?p (remove_active i (queue st))"
    using assms matches_remove_active matches_shape[OF shape_snd(1)] by (simp add: agree_def)
  have v: "agree_view F (build_state ?p) (insert i (set (pending_ids (queue st)))) (active_ids (queue st) - {i})"
    unfolding stmt_states(1)[OF f] using assms Some
    by (intro view_rollback) (auto simp: agree_def active_ids_def)
  show ?thesis using Some f m ms v
    by (simp add: rollback_active_to_queued_def Let_def agree_def pending_ids_enqueue matches_def
        set_pending_enqueue frame_simps)
qed

lemma agree_pop:
  assumes "agree env F st" "mem_inv X st" "next_pending (queue st) = (Some b, q)"
  shows "set (pending_ids q) = set (pending_ids (queue st)) - {qb_build_id b}"
    "active_ids q = active_ids (queue st)" "matches env (pool st) q"
    "row_matches env (pool st) (qb_build_id b) (qb_priority b) (qb_descriptor b)"
    "qb_build_id b \<in> set (pending_ids (queue st))"
proof -
  have q: "queue_inv (queue st) (build_ids (pool st))" using assms(2) by (simp add: mem_inv_def)
  note p = next_pending_Some[OF assms(3)] and r = queue_inv_pop[OF q assms(3)]
  show "set (pending_ids q) = set (pending_ids (queue st)) - {qb_build_id b}"
    using p(1) r(2) by (auto simp: pending_ids_def)
  show "active_ids q = active_ids (queue st)" using p(3) by (simp add: active_ids_def)
  show "matches env (pool st) q"
    "row_matches env (pool st) (qb_build_id b) (qb_priority b) (qb_descriptor b)"
    "qb_build_id b \<in> set (pending_ids (queue st))"
    using assms(1) p r(8) by (auto simp: agree_def matches_def)
qed

lemma matches_activate:
  "matches env p q \<Longrightarrow> row_matches env p i (ab_priority ab) (ab_descriptor ab) \<Longrightarrow>
     matches env p (q\<lparr>q_active := AList.update i ab (q_active q)\<rparr>)"
  by (auto simp: matches_def map_of_update_apply)

lemma agree_locked:
  assumes "agree env F st" "mem_inv {} st" "try_dispatch_locked env st = (r, st')"
  shows "agree env F st'"
proof (cases rule: try_dispatch_locked_cases[where st = st and env = env])
  case empty
  then show ?thesis using assms by auto
next
  case (no_worker b q)
  note pop = agree_pop[OF assms(1,2) no_worker(1)]
  have "set (pending_ids (enqueue_front b q)) = set (pending_ids (queue st))"
    using pop(1,5) by (auto simp: pending_ids_enqueue)
  then show ?thesis using assms(1,3) no_worker(3) pop
    by (auto simp: agree_def matches_def set_pending_enqueue frame_simps)
next
  case (db_error b q w e p)
  have "p_faults (pool st) = []" using assms(1) by (simp add: agree_def)
  then show ?thesis using db_error(2) by (simp add: set_build_dispatched_def update_no_fault)
next
  case (assigned b q cid w v p ab)
  note pop = agree_pop[OF assms(1,2) assigned(1)]
  have f: "p_faults (pool st) = []" using assms(1) by (simp add: agree_def)
  have p: "p = snd (set_build_dispatched (qb_build_id b) (e_uuid env (uuids st)) w (pool st))"
    using assigned(3) by simp
  have sh: "same_shape (pool st) p" unfolding p by (rule shape_snd)
  have fp: "p_faults p = []" unfolding p using f by simp
  let ?q = "q\<lparr>q_active := AList.update (qb_build_id b) ab (q_active q)\<rparr>"
  have "matches env p ?q"
    using pop(3,4) matches_shape[OF sh] row_matches_shape[OF sh]
    by (intro matches_activate) (simp_all add: assigned(4))
  moreover have "agree_view F (build_state p) (set (pending_ids ?q)) (active_ids ?q)"
    unfolding p stmt_states(2)[OF f] using assms(1) pop
    by (simp add: agree_def view_dispatch)
  ultimately show ?thesis using assigned(5) assms(3) fp by (auto simp: agree_def)
qed

lemma send_pair_pool: "send_pair cid a b st = (r, st') \<Longrightarrow> pool st' = pool st"
  by (auto simp: send_pair_def tx_send_def split: prod.splits option.splits bool.splits if_splits)

lemma agree_try_dispatch:
  assumes "agree env F st" "mem_inv {} st" shows "agree env F (snd (try_dispatch env st))"
proof -
  obtain r st1 where l: "try_dispatch_locked env st = (r, st1)" by (meson surj_pair)
  note a1 = agree_locked[OF assms l]
  show ?thesis
  proof (cases r)
    case (Inl e)
    then show ?thesis using l a1 by (simp add: try_dispatch_def)
  next
    case (Inr info)
    have inv: "mem_inv {di_build_id info} st1" "di_build_id info \<in> dom (map_of (q_active (queue st1)))"
      using mem_inv_locked[OF assms(2) l] Inr by auto
    then have act: "di_build_id info \<in> active_ids (queue st1)" by (auto simp: active_ids_def)
    show ?thesis
    proof (cases "pack_result env st1 info")
      case (Inl e)
      then show ?thesis using l Inr agree_cleanup[OF a1 act] by (simp add: try_dispatch_def)
    next
      case pack: (Inr ts)
      obtain tar sha where ts: "ts = (tar, sha)" by (cases ts)
      let ?msg = "BuildNew (di_build_id info) (di_trace_id info) (di_priority info) (di_descriptor info) sha"
      obtain sr st2 where send: "send_pair (di_connection_id info) (TextFrame ?msg) (BinaryFrame tar) st1
          = (sr, st2)" by (meson surj_pair)
      have a2: "agree env F st2"
        using a1 agree_core[OF send_pair_core[OF send]] send_pair_pool[OF send] by simp
      show ?thesis using l Inr pack ts send agree_rollback[OF a2] a2
        by (cases sr) (auto simp: try_dispatch_def send_and_recover_def handle_dispatch_send_failure_def
            spawn_ack_timer_def agree_def split: option.splits)
    qed
  qed
qed

section \<open>Handlers keep the agreement\<close>

lemma agree_faults: "agree env F st \<Longrightarrow> p_faults (pool st) = []"
  by (simp add: agree_def)

lemma agree_update_active:
  assumes "agree env F st"
    and "\<And>ab. ab_priority (f ab) = ab_priority ab \<and> ab_descriptor (f ab) = ab_descriptor ab"
  shows "agree env F (with_queue (update_active i f) st)"
  using assms by (auto simp: agree_def matches_def)

lemma agree_cancel [simp]: "agree env F (cancel t st) = agree env F st"
  by (rule agree_cong) simp_all

lemma agree_spawn [simp]: "agree env F (spawn t st) = agree env F st"
  by (rule agree_cong) simp_all

lemma agree_senders [simp]: "agree env F (st\<lparr>worker_senders := w\<rparr>) = agree env F st"
  by (rule agree_cong) simp_all

lemma tx_send_agree: "tx_send cid f st = (r, st') \<Longrightarrow> agree env F st' = agree env F st"
  by (rule agree_cong) (auto simp: tx_send_def split: option.splits bool.splits)

lemma agree_tx_send [simp]: "agree env F (snd (tx_send cid f st)) = agree env F st"
  by (metis prod.collapse tx_send_agree)

lemma agree_send_text [simp]:
  "agree env F (send_text_to_connection cid m st) = agree env F st"
  "agree env F (send_unauthorized_action cid i a r st) = agree env F st"
  "agree env F (send_reporter_directed_revoke cid i st) = agree env F st"
  by (simp_all add: send_unauthorized_action_def send_reporter_directed_revoke_def
      send_text_to_connection_def)

lemma agree_live_stmt:
  assumes "agree env F st" "i \<in> active_ids (queue st)"
  shows "agree env F (snd (on_pool (set_build_started i) st))"
    "agree env F (snd (on_pool (set_build_revoking i) st))"
proof -
  note f = agree_faults[OF assms(1)]
  show "agree env F (snd (on_pool (set_build_started i) st))"
    using assms f matches_shape[OF shape_snd(3)] stmt_states(3)[OF f]
    by (simp add: agree_def view_live live_states_def)
  show "agree env F (snd (on_pool (set_build_revoking i) st))"
    using assms f matches_shape[OF shape_snd(5)] stmt_states(5)[OF f]
    by (simp add: agree_def view_live live_states_def)
qed

lemma agree_send_revoke: "agree env F st \<Longrightarrow> agree env F (snd (send_build_revoke i st))"
proof (cases "map_of (q_active (queue st)) i")
  case (Some ab)
  assume a: "agree env F st"
  obtain r st1 where r: "on_pool (set_build_revoking i) st = (r, st1)" by (meson surj_pair)
  have a1: "agree env F st1" using agree_live_stmt(2)[OF a, of i] Some r by (simp add: active_ids_def)
  obtain b st2 where t: "tx_send (ab_connection_id ab) (TextFrame (BuildRevoke i (Some Admin))) st1 = (b, st2)"
    by (meson surj_pair)
  then have "agree env F st2" using tx_send_agree a1 by blast
  then show ?thesis using Some r t a1 by (cases r) (simp_all add: send_build_revoke_def Let_def)
qed (simp add: send_build_revoke_def)

lemma agree_finished:
  assumes "agree env F st" "mem_inv {} st" "i \<in> active_ids (queue st)" "s \<in> {Success, Failure, Revoked}"
  shows "agree env F (handle_build_finished env cid i s e r st)"
proof -
  let ?s1 = "snd (on_pool (set_build_finished i s e r) st)"
  let ?s2 = "with_queue (remove_active i) ?s1"
  let ?s4 = "remove_watcher i (finish_build_log i ?s2)"
  note f = agree_faults[OF assms(1)]
  have "i \<notin> set (pending_ids (queue st))"
    using assms(1,3) view_disjoint by (auto simp: agree_def)
  then have "agree_view F (set_state (build_state (pool st)) i s) (set (pending_ids (queue st)))
      (active_ids (queue st) - {i})"
    using assms by (intro view_finish) (auto simp: agree_def)
  moreover have "matches env (pool ?s1) (remove_active i (queue st))"
    using assms(1) matches_remove_active matches_shape[OF shape_snd(4)] by (simp add: agree_def)
  ultimately have "agree env F ?s2" using f stmt_states(4)[OF f] by (simp add: agree_def)
  then have "agree env F ?s4" using agree_faults[of env F ?s2]
    by (simp add: agree_core[OF core_finish_build_log] agree_faults)
  moreover have "mem_inv {} ?s4"
    using mem_inv_remove_active[of "{}" ?s1 i] assms(2)
    by (simp add: mem_inv_core[OF core_frames(1)] mem_inv_core[OF core_finish_build_log])
  ultimately show ?thesis unfolding handle_build_finished_def Let_def by (rule agree_try_dispatch)
qed

lemma agree_authorized:
  assumes "agree env F st" "mem_inv {} st"
    and "\<And>st'. agree env F st' \<Longrightarrow> mem_inv {} st' \<Longrightarrow> i \<in> active_ids (queue st') \<Longrightarrow> agree env F (f st')"
  shows "agree env F (authorized cid i a f st)"
proof (cases "active_build_for_connection_mut (queue st) i cid")
  case None
  then show ?thesis using assms(1)
    by (simp add: authorized_def authorize_lifecycle_message_def Let_def)
next
  case (Some ab)
  then have ab: "map_of (q_active (queue st)) i = Some ab"
    by (auto simp: active_build_for_connection_mut_def split: option.splits if_splits)
  let ?s = "cancel (ab_ack_cancel ab)
        (with_queue (update_active i (\<lambda>ab. ab\<lparr>ab_receipt := ReceivedByWorker\<rparr>)) st)"
  have "agree env F ?s" using agree_update_active[OF assms(1)] by simp
  moreover have "mem_inv {} ?s" by (rule mem_inv_receipt[OF assms(2) ab]) simp
  moreover have "i \<in> active_ids (queue ?s)" using ab by (simp add: active_ids_def)
  ultimately have "agree env F (f ?s)" by (rule assms(3))
  then show ?thesis using Some by (simp add: authorized_def authorize_lifecycle_message_def)
qed

lemma agree_rejected:
  assumes "agree env F st" "mem_inv {} st" "i \<in> active_ids (queue st)"
  shows "agree env F (handle_build_rejected env cid i reason st)"
proof -
  have "mem_inv {} (snd (rollback_active_to_queued i st))"
    using mem_inv_rollback[OF assms(2), of i] by simp
  then show ?thesis
    using agree_cleanup[OF assms(1,3)] agree_rollback[OF assms(1)]
    by (simp add: handle_build_rejected_def agree_try_dispatch)
qed

lemma agree_get_build:
  assumes "agree env F st"
  obtains ob where "on_pool (get_build pj i) st = (Ok ob, st)"
    "map_option br_state ob = build_state (pool st) i"
    "map_option br_worker_id ob = map_option b_worker_id (build_row (pool st) i)"
proof -
  obtain r p' where g: "get_build pj i (pool st) = (r, p')" by (meson surj_pair)
  with get_build_no_fault[OF agree_faults[OF assms] g] that show thesis
    by (auto simp: on_pool_def)
qed

lemma agree_state_cases:
  assumes "agree env F st"
  shows "build_state (pool st) i = Some Queued \<longleftrightarrow> i \<in> set (pending_ids (queue st))"
    "build_state (pool st) i \<in> Some ` live_states \<longleftrightarrow> i \<in> active_ids (queue st)"
  using assms by (auto simp: agree_def agree_view_def)

lemma agree_live:
  "agree env F st \<Longrightarrow> build_state (pool st) i = Some s \<Longrightarrow> s \<in> live_states \<Longrightarrow> i \<in> active_ids (queue st)"
  using agree_state_cases(2)[of env F st i] by auto

lemma agree_resolve_dead:
  assumes "agree env F st" shows "agree env F (resolve_dead_build env i receipt st)"
proof -
  obtain ob where g: "on_pool (get_build (e_value_from_str env) i) st = (Ok ob, st)"
    "map_option br_state ob = build_state (pool st) i" using agree_get_build[OF assms] by metis
  show ?thesis
  proof (cases ob)
    case None
    then show ?thesis using g assms by (simp add: resolve_dead_build_def)
  next
    case (Some b)
    then have bs: "build_state (pool st) i = Some (br_state b)" using g by simp
    have rm: "agree env F (with_queue (remove_active i) st)" if "i \<notin> active_ids (queue st)"
      using assms that matches_remove_active by (simp add: agree_def)
    have c: "agree env F (cleanup_terminal_state i t reason st)" if "br_state b \<in> live_states" for t reason
      using agree_cleanup[OF assms] agree_live[OF assms bs that] by blast
    show ?thesis
      using g(1) Some bs agree_rollback[OF assms] agree_state_cases(2)[OF assms, of i] c rm
      by (cases "br_state b") (auto simp: resolve_dead_build_def live_states_def
          split: ActiveAssignmentReceipt.splits)
  qed
qed

lemma both_fold:
  assumes "agree env F st" "mem_inv {} st"
    and "\<And>x st. agree env F st \<Longrightarrow> agree env F (f x st)" "\<And>x st. mem_inv {} st \<Longrightarrow> mem_inv {} (f x st)"
  shows "agree env F (fold f xs st) \<and> mem_inv {} (fold f xs st)"
  by (rule fold_invariant) (auto intro: assms)

lemma agree_worker_dead:
  assumes "agree env F st" "mem_inv {} st" shows "agree env F (handle_worker_dead env cid st)"
  using both_fold[OF assms, of "\<lambda>(i, receipt). resolve_dead_build env i receipt"]
  by (auto simp: handle_worker_dead_def Let_def agree_resolve_dead mem_inv_resolve_dead
      intro: agree_try_dispatch)

lemma agree_idle_one:
  assumes "agree env F st" shows "agree env F (idle_reconcile_one env w c st)"
proof -
  let ?i = "rc_build_id c"
  obtain ob where g: "on_pool (get_build (e_value_from_str env) ?i) st = (Ok ob, st)"
    "map_option br_state ob = build_state (pool st) ?i" using agree_get_build[OF assms] by metis
  show ?thesis
  proof (cases ob)
    case None
    then show ?thesis using g assms by (simp add: idle_reconcile_one_def)
  next
    case (Some b)
    then have bs: "build_state (pool st) ?i = Some (br_state b)" using g by simp
    have c: "agree env F (cleanup_terminal_state ?i t reason st)" if "br_state b \<in> live_states" for t reason
      using agree_cleanup[OF assms] agree_live[OF assms bs that] by blast
    show ?thesis
      using g(1) Some assms agree_rollback[OF assms] c
      by (cases "br_state b") (auto simp: idle_reconcile_one_def live_states_def split: ActiveAssignmentReceipt.splits)
  qed
qed

lemma agree_attach:
  "agree env F st \<Longrightarrow> agree env F (attach_connection_and_mark_received i cid st)"
  by (auto simp: attach_connection_and_mark_received_def intro: agree_update_active split: option.splits)

lemma agree_reconnect_building:
  assumes "agree env F st" shows "agree env F (reconnect_building env cid w i st)"
proof -
  obtain ob where g: "on_pool (get_build (e_value_from_str env) i) st = (Ok ob, st)"
    using agree_get_build[OF assms] by metis
  have "agree env F (with_queue (update_active i (\<lambda>ab. ab\<lparr>ab_connection_id := cid\<rparr>)) st)"
    using agree_update_active[OF assms] by simp
  then show ?thesis using g assms agree_send_revoke[OF assms] agree_attach[OF assms]
    by (auto simp: reconnect_building_def Let_def split: option.splits BuildState.splits)
qed

lemma agree_status:
  assumes "agree env F st" "mem_inv {} st" shows "agree env F (handle_worker_status env cid w rs b st)"
  using both_fold[OF assms, of "idle_reconcile_one env w" "idle_candidates (queue st) cid"] assms
  by (auto simp: handle_worker_status_def Let_def agree_reconnect_building agree_idle_one mem_inv_idle_one
      intro!: agree_try_dispatch split: WorkerReportedState.splits option.splits)

lemma agree_last_seen: "agree env F st \<Longrightarrow> agree env F (snd (on_pool (update_last_seen w) st))"
  using agree_faults[of env F st] by (subst agree_cong[of _ st]) (auto simp: update_last_seen_def)

lemma agree_set_worker [simp]: "agree env F (with_queue (set_worker_state cid ws) st) = agree env F st"
  by (simp add: agree_def matches_def active_ids_def pending_ids_def)

lemma agree_message:
  assumes "agree env F st" "mem_inv {} st" shows "agree env F (handle_worker_message env cid name w m st)"
proof (cases m)
  case (BuildAccepted i)
  then show ?thesis using assms
    by (auto simp: handle_build_accepted_def intro!: agree_authorized split: option.splits)
next
  case (BuildOutput i seq lines)
  have "agree env F (snd (write_build_output i seq lines st))" if "agree env F st" for st
  proof -
    obtain r st' where w: "write_build_output i seq lines st = (r, st')" by (meson surj_pair)
    then show ?thesis using that agree_core[OF core_write_build_output[OF w]] agree_faults[OF that]
        faults_write_build_output[OF w] by simp
  qed
  then show ?thesis using assms BuildOutput by (auto intro!: agree_authorized)
next
  case (BuildFinished i status err rep)
  have "finished_state status \<in> {Success, Failure, Revoked}" by (cases status) auto
  then show ?thesis using assms BuildFinished
    by (auto simp: Let_def intro!: agree_authorized agree_last_seen agree_finished simp del: insert_iff)
qed (use assms in \<open>auto simp: handle_build_started_def intro!: agree_authorized agree_live_stmt
    agree_rejected agree_status\<close>)

section \<open>Connections and requests keep the agreement\<close>

lemma agree_register:
  assumes "agree env F st" "register_connection cid w s (queue st) = (r, q)"
  shows "agree env F (st\<lparr>queue := q\<rparr>)"
proof (cases rule: register_connection_cases[of cid w s "queue st"])
  case (old old_cid b ws)
  then have q: "pending q = pending (queue st)" "pending_ids q = pending_ids (queue st)"
    "q_active q = q_active (snd (migrate_active old_cid cid (queue st)))"
    using assms(2) by (auto simp: pending_ids_def)
  then have "active_ids q = active_ids (queue st)" by (simp add: active_ids_def migrate_active_lookup)
  then show ?thesis using assms(1) q by (auto simp: agree_def matches_def migrate_active_lookup)
next
  case new
  then show ?thesis using assms by (auto simp: agree_def matches_def active_ids_def)
qed

lemma agree_superseded [simp]: "agree env F (revoke_and_remove_superseded old ids st) = agree env F st"
proof -
  have "agree env F (fold (\<lambda>i st. snd (tx_send old (fr i) st)) ids st) = agree env F st" for fr
    by (induction ids arbitrary: st) simp_all
  then show ?thesis
    by (simp add: revoke_and_remove_superseded_def Let_def split: option.splits)
qed

lemma agree_cleanup_worker:
  assumes "agree env F st" "mem_inv {} st" shows "agree env F (cleanup_worker env cid name w stopping st)"
proof -
  let ?s = "st\<lparr>worker_senders := AList.delete cid (worker_senders st)\<rparr>"
  have "mem_inv {} ?s" using assms(2) by (simp add: mem_inv_core[OF core_frames(3)])
  then show ?thesis using assms(1)
    by (auto simp: cleanup_worker_def Let_def start_grace_period_monitor_def
        intro!: agree_worker_dead split: option.splits)
qed

lemma agree_handshake:
  assumes "agree env F st" "mem_inv {} st"
  shows "agree env F (snd (snd (handshake env cid w row hello ok st)))"
proof (cases "validate_hello row hello")
  case (Inl m)
  then show ?thesis using assms by (simp add: handshake_def)
next
  case (Inr v)
  obtain a c ram ver where v: "v = (a, c, ram, ver)" by (cases v)
  let ?s1 = "snd (on_pool (update_last_seen w) st)"
  obtain old q where reg: "register_connection cid w (Connected w (w_name row) a c ram ver) (queue ?s1) = (old, q)"
    by (cases "register_connection cid w (Connected w (w_name row) a c ram ver) (queue ?s1)")
  let ?s2 = "?s1\<lparr>queue := q\<rparr>"
  have a2: "agree env F ?s2" using agree_register[OF agree_last_seen[OF assms(1)] reg] .
  have m2: "mem_inv {} ?s2" using mem_inv_register[OF _ reg] assms(2) by simp
  let ?s3 = "cleanup_superseded env old ?s2"
  let ?s4 = "?s3\<lparr>worker_senders := AList.update cid True (worker_senders ?s3)\<rparr>"
  have "agree env F ?s4" "mem_inv {} ?s4"
    using a2 m2 by (auto simp: cleanup_superseded_def Let_def mem_inv_core[OF core_frames(3)]
      mem_inv_core[OF superseded_core] intro!: agree_worker_dead mem_inv_worker_dead split: option.splits prod.splits)
  then show ?thesis using Inr v reg agree_cleanup_worker[of env F ?s4]
    by (simp add: handshake_def Let_def)
qed

lemma agree_grace:
  "agree env F st \<Longrightarrow> mem_inv {} st \<Longrightarrow> agree env F (grace_period_expired env cid st)"
  by (auto simp: grace_period_expired_def intro!: agree_worker_dead
      split: option.splits WorkerState.splits)

lemma agree_closed:
  "agree env F st \<Longrightarrow> mem_inv {} st \<Longrightarrow> agree env F (connection_closed env cid name w st)"
  by (simp add: connection_closed_def agree_cleanup_worker)

lemma agree_ack_timer: "agree env F st \<Longrightarrow> agree env F (ack_timer_fired i t st)"
  by (simp add: ack_timer_fired_def agree_rollback)

lemma agree_revoke_timeout:
  assumes "agree env F st" shows "agree env F (handle_revoke_timeout env i st)"
proof -
  obtain ob where g: "on_pool (get_build (e_value_from_str env) i) st = (Ok ob, st)"
    "map_option br_state ob = build_state (pool st) i" using agree_get_build[OF assms] by metis
  have "agree env F (cleanup_terminal_state i t reason st)"
    if "ob = Some b" "br_state b = Revoking" for b t reason
    using that g(2) agree_cleanup[OF assms] agree_live[OF assms, of i Revoking] by (simp add: live_states_def)
  then show ?thesis using g(1) assms by (auto simp: handle_revoke_timeout_def split: option.splits)
qed

text \<open>What the store of descriptors relies on: \<open>serde_json\<close> reads back what it wrote.\<close>

definition serde_round_trip :: "env \<Rightarrow> bool" where
  "serde_round_trip env \<longleftrightarrow>
     (\<forall>d s. e_descriptor_to_string env d = Ok s \<longrightarrow> e_descriptor_from_str env s = Ok d)"

lemma matches_enqueue:
  "matches env p q \<Longrightarrow> row_matches env p (qb_build_id b) (qb_priority b) (qb_descriptor b) \<Longrightarrow>
     matches env p (enqueue b q)"
  by (simp add: matches_def set_pending_enqueue frame_simps)

lemma agree_new_row:
  assumes "agree env F st" "mem_inv {} st" "serde_round_trip env" "e_descriptor_to_string env d = Ok dj"
  defines "i \<equiv> p_build_seq (pool st)"
  assumes p: "p_builds p = (i, new_row dj u (priority_str pr) pt c ct t) # p_builds (pool st)"
    "p_faults p = []"
  shows "agree env F ((with_queue (enqueue \<lparr>qb_build_id = i, qb_priority = pr,
     qb_descriptor = d, qb_user_email = u, qb_queued_at = t'\<rparr>) (st\<lparr>pool := p\<rparr>)))"
proof -
  have new: "i \<notin> build_ids (pool st)" using assms(2) unfolding i_def mem_inv_def rows_inv_def by auto
  then have none: "build_row (pool st) i = None"
    by (simp add: build_ids_def build_row_def map_of_eq_None_iff)
  have row: "build_row p = (build_row (pool st))(i \<mapsto> new_row dj u (priority_str pr) pt c ct t)"
    by (simp add: build_row_def p fun_eq_iff)
  then have S: "build_state p = (build_state (pool st))(i \<mapsto> Queued)"
    by (simp add: build_state_def fun_eq_iff new_row_def)
  have "row_matches env p j x y" if "row_matches env (pool st) j x y" for j x y
    using that none unfolding row_matches_def row by auto
  then have "matches env p (queue st)" using assms(1) by (simp add: agree_def matches_def)
  moreover have "row_matches env p i pr d"
    using assms(3,4) unfolding row_matches_def row by (simp add: new_row_def serde_round_trip_def)
  moreover have "agree_view F (build_state p) (insert i (set (pending_ids (queue st)))) (active_ids (queue st))"
    unfolding S using assms(1) none by (intro view_submit) (simp_all add: agree_def build_state_def)
  ultimately show ?thesis
    using p(2) by (simp add: agree_def matches_enqueue pending_ids_enqueue)
qed

lemma agree_insert_build:
  assumes "agree env F st" "mem_inv {} st" "serde_round_trip env"
  shows "agree env F (snd (insert_build_internal env d u pr pt c ct st))"
proof (cases "e_descriptor_to_string env d")
  case (Inr dj)
  obtain r1 p1 where 1: "insert_build dj u (priority_str pr) pt c ct (pool st) = (r1, p1)"
    by (meson surj_pair)
  note f = agree_faults[OF assms(1)]
  from 1 show ?thesis
  proof (cases rule: insert_build_cases)
    case (error e)
    then show ?thesis using 1 Inr assms(1) same_tables_no_fault[OF error(2) f]
      by (simp add: insert_build_internal_def on_pool_def)
  next
    case (ok p0 row)
    let ?i = "p_build_seq (pool st)"
    have p0: "p0 = pool st" using same_tables_no_fault[OF ok(2) f] .
    obtain r2 p2 where 2: "insert_build_log_row ?i (''builds/'' @ show_int ?i @ ''.log'') p1 = (r2, p2)"
      by (meson surj_pair)
    note log = insert_log_row_fields[OF 2]
    have "?i \<notin> set (map fst (p_logs p1))"
      using assms(2) unfolding ok(3) p0 mem_inv_def rows_inv_def by auto
    then have r2: "r2 = Ok ()" using log(7) f p0 ok(3) by (simp add: build_ids_def)
    have "p_builds p2 = (?i, new_row dj u (priority_str pr) pt c ct (p_now (pool st))) # p_builds (pool st)"
      "p_faults p2 = []"
      using log(1,6) f p0 ok(3,4) by simp_all
    from agree_new_row[OF assms Inr this] show ?thesis using 1 2 Inr ok(1) r2
      by (simp add: insert_build_internal_def on_pool_def Let_def pending_counts_def)
  qed
qed (simp add: insert_build_internal_def assms)

lemma lift_db_no_fault:
  assumes "lift_db f st = (r, st')" "\<And>p r p'. f p = (r, p') \<Longrightarrow> same_tables p p'" "p_faults (pool st) = []"
  shows "st' = st"
  using assms same_tables_no_fault[of "pool st"]
  by (cases "f (pool st)") (fastforce simp: lift_db_def)

text \<open>Without failures a submission changes the state only in \<open>insert_build_internal\<close>.\<close>

lemma submit_no_fault:
  assumes "p_faults (pool st) = []"
  shows "snd (submit_build env user body st) = st \<or>
    (\<exists>d c ct. snd (submit_build env user body st) =
       snd (insert_build_internal env d (au_email user) (sb_priority body) None c ct st))"
proof -
  obtain r1 st1 where 1: "check_repo_scopes user (sb_descriptor body) st = (r1, st1)" by (meson surj_pair)
  have s1: "st1 = st"
    using 1 lift_db_no_fault[OF _ scopes_same_tables assms]
    by (auto simp: check_repo_scopes_def split: if_splits)
  obtain r2 st2 where 2: "on_pool (get_user (au_email user)) st = (r2, st2)" by (meson surj_pair)
  have s2: "st2 = st" using 2 assms by (auto simp: on_pool_def get_user_def split: prod.splits)
  show ?thesis
  proof (cases "\<exists>ur. r2 = Ok (Some ur)")
    case False
    then show ?thesis using 1 2 s1 s2
      by (cases "validate_descriptor (sb_descriptor body) (components st)"; cases r1; cases r2)
        (auto simp: submit_build_def)
  next
    case True
    then obtain ur where ur: "r2 = Ok (Some ur)" by blast
    obtain r3 st3 where 3: "lift_db (resolve_and_rewrite (sign_off user (sb_descriptor body)) ur) st
        = (r3, st3)" by (meson surj_pair)
    have s3: "st3 = st" using lift_db_no_fault[OF 3 resolve_same_tables assms] .
    show ?thesis
    proof (cases r3)
      case (Inl e)
      then show ?thesis using 1 2 3 s1 s2 s3 ur
        by (cases "validate_descriptor (sb_descriptor body) (components st)"; cases r1)
          (simp_all add: submit_build_def)
    next
      case (Inr rd)
      obtain res d where rd: "rd = (res, d)" by (cases rd)
      obtain r4 st4 where 4: "insert_build_internal env d (au_email user) (sb_priority body) None
          (Some (res_channel_id res)) (Some (res_channel_type_id res)) st = (r4, st4)" by (meson surj_pair)
      have "snd (submit_build env user body st) \<in> {st, st4}" using 1 2 3 4 s1 s2 s3 ur Inr rd
        by (cases "validate_descriptor (sb_descriptor body) (components st)"; cases r1; cases r4)
          (simp_all add: submit_build_def split: prod.splits)
      then show ?thesis using 4 by (metis insertE singletonD snd_conv)
    qed
  qed
qed

lemma agree_submit:
  assumes "agree env F st" "mem_inv {} st" "serde_round_trip env"
  shows "agree env F (snd (submit_build env user body st))"
  using submit_no_fault[OF agree_faults[OF assms(1)], of env user body] assms agree_insert_build[OF assms]
  by auto

lemma agree_revoke_queued:
  assumes "agree env F st" "mem_inv {} st" "build_state (pool st) i = Some Queued"
  shows "agree env F (snd (on_pool (update_build_state i Revoked None)
      (with_queue (\<lambda>q. snd (remove_by_id q i)) st)))"
proof -
  let ?q = "snd (remove_by_id (queue st) i)"
  note f = agree_faults[OF assms(1)]
  have d: "distinct (pending_ids (queue st))" using assms(2) by (simp add: mem_inv_def queue_inv_def)
  note r = remove_by_id_ids[OF d, of i]
  have "i \<in> set (pending_ids (queue st))" using agree_state_cases(1)[OF assms(1)] assms(3) by blast
  then have "agree_view F (set_state (build_state (pool st)) i Revoked) (set (pending_ids ?q)) (active_ids ?q)"
    unfolding r using assms(1) by (simp add: agree_def view_drop active_ids_def frame_simps)
  moreover have "matches env (pool st) ?q"
    using assms(1) r(3) by (auto simp: agree_def matches_def frame_simps)
  ultimately show ?thesis using f stmt_states(6)[OF f] matches_shape[OF shape_snd(6)]
    by (simp add: agree_def)
qed

lemma agree_revoke_build:
  assumes "agree env F st" "mem_inv {} st" shows "agree env F (snd (revoke_build env user i st))"
proof -
  obtain ob where g: "on_pool (get_build (e_value_from_str env) i) st = (Ok ob, st)"
    "map_option br_state ob = build_state (pool st) i" using agree_get_build[OF assms(1)] by metis
  obtain r2 st2 where s: "send_build_revoke i st = (r2, st2)" by (meson surj_pair)
  have a2: "agree env F st2" using agree_send_revoke[OF assms(1), of i] s by simp
  obtain r3 st3 where u: "on_pool (update_build_state i Revoked None)
      (with_queue (\<lambda>q. snd (remove_by_id q i)) st) = (r3, st3)" by (meson surj_pair)
  have a3: "agree env F st3" if "ob = Some b" "br_state b = Queued" for b
    using agree_revoke_queued[OF assms, of i] u g(2) that by simp
  show ?thesis
    using assms(1) a2 a3 g(1) s u
    by (auto simp: revoke_build_def Let_def split: sum.splits option.splits BuildState.splits)
qed

section \<open>Recovery establishes the agreement\<close>

lemma select_ids_no_fault:
  assumes "select_ids S p = (Ok ids, p')" "p_faults p = []"
  shows "p' = p" "hm_wf (p_builds p) \<Longrightarrow> i \<in> set ids \<longleftrightarrow> (\<exists>s\<in>S. build_state p i = Some s)"
proof -
  show "p' = p" using assms by (simp add: select_ids_def)
  have "ids = map fst (filter (\<lambda>(i, r). b_state r \<in> S) (p_builds p))"
    using assms by (auto simp: select_ids_def)
  moreover assume "hm_wf (p_builds p)"
  ultimately show "i \<in> set ids \<longleftrightarrow> (\<exists>s\<in>S. build_state p i = Some s)"
    by (force simp: build_state_def build_row_def)
qed

lemma finalize_states:
  assumes "finalize_rows stmt ids p = (Ok (), p')" "p_faults p = []"
    and stmt: "\<And>i p. p_faults p = [] \<Longrightarrow> p_faults (snd (stmt i p)) = [] \<and>
       build_state (snd (stmt i p)) = set_state (build_state p) i s"
  shows "p_faults p' = []"
    "build_state p' = (\<lambda>i. if i \<in> set ids then map_option (\<lambda>_. s) (build_state p i) else build_state p i)"
proof -
  have "p_faults p' = [] \<and> build_state p' =
    (\<lambda>i. if i \<in> set ids then map_option (\<lambda>_. s) (build_state p i) else build_state p i)"
    using assms(1,2)
  proof (induction ids arbitrary: p)
    case (Cons i ids)
    obtain r1 p1 where 1: "stmt i p = (r1, p1)" by (meson surj_pair)
    obtain r2 p2 where 2: "set_build_log_finished i p1 = (r2, p2)" by (meson surj_pair)
    have f1: "p_faults p1 = []" "build_state p1 = set_state (build_state p) i s"
      using stmt[OF Cons.prems(2), of i] 1 by simp_all
    have f2: "p_faults p2 = []" "build_state p2 = build_state p1"
      using 2 f1(1) stmt_faults(7)[of p1 i] log_updates_builds(4)[of i p1]
      by (auto simp: build_state_def build_row_def fun_eq_iff)
    have "finalize_rows stmt ids p2 = (Ok (), p')"
      using Cons.prems(1) 1 2 by (cases r1; cases r2) simp_all
    from Cons.IH[OF this f2(1)] show ?case
      by (auto simp: f1(2) f2(2) set_state_def fun_eq_iff option.map_comp comp_def)
  qed simp
  then show "p_faults p' = []" "build_state p' =
    (\<lambda>i. if i \<in> set ids then map_option (\<lambda>_. s) (build_state p i) else build_state p i)" by auto
qed

lemma recovery_row_states:
  "p_faults p = [] \<Longrightarrow> p_faults (snd (fail_row e i p)) = [] \<and>
     build_state (snd (fail_row e i p)) = set_state (build_state p) i Failure"
  "p_faults p = [] \<Longrightarrow> p_faults (snd (revoke_row i p)) = [] \<and>
     build_state (snd (revoke_row i p)) = set_state (build_state p) i Revoked"
  by (simp_all add: fail_row_def revoke_row_def fun_eq_iff update_no_fault set_state_def builds.row_upd
      build_state_def option.map_comp comp_def)

lemma finalize_fail_states:
  assumes "finalize_rows (fail_row e) ids p = (Ok (), p')" "p_faults p = []"
  shows "p_faults p' = []" "build_state p' =
    (\<lambda>i. if i \<in> set ids then map_option (\<lambda>_. Failure) (build_state p i) else build_state p i)"
  using finalize_states[OF assms, of Failure] recovery_row_states(1) by blast+

lemma finalize_revoke_states:
  assumes "finalize_rows revoke_row ids p = (Ok (), p')" "p_faults p = []"
  shows "p_faults p' = []" "build_state p' =
    (\<lambda>i. if i \<in> set ids then map_option (\<lambda>_. Revoked) (build_state p i) else build_state p i)"
  using finalize_states[OF assms, of Revoked] recovery_row_states(2) by blast+

text \<open>
  Between two rows of the last phase: the builds already enqueued and the rows still to be
  visited are together the queued builds.
\<close>

definition recovering :: "env \<Rightarrow> (build_id \<Rightarrow> BuildState option) \<Rightarrow> (build_id \<times> BuildRow) list \<Rightarrow> AppState \<Rightarrow> bool" where
  "recovering env F rows st \<longleftrightarrow> p_faults (pool st) = [] \<and> q_active (queue st) = [] \<and>
     agree_view F (build_state (pool st)) (set (pending_ids (queue st)) \<union> set (map fst rows)) {} \<and>
     matches env (pool st) (queue st) \<and> distinct (map fst rows) \<and>
     set (map fst rows) \<inter> set (pending_ids (queue st)) = {} \<and>
     (\<forall>(i, r)\<in>set rows. build_row (pool st) i = Some r)"

lemma recovering_corrupt:
  assumes "recovering env F ((i, r) # rows) st"
  shows "recovering env F rows (snd (on_pool (fail_row e i) st))"
proof -
  let ?p = "snd (fail_row e i (pool st))"
  have f: "p_faults (pool st) = []" using assms by (simp add: recovering_def)
  have row: "build_row ?p j = build_row (pool st) j" if "j \<noteq> i" for j
    using that by (simp add: fail_row_def update_no_fault[OF f] builds.row_upd)
  have sh: "same_shape (pool st) ?p" by (metis prod.collapse recovery_rows_shape(1))
  have "set (pending_ids (queue st)) \<union> set (map fst ((i, r) # rows)) - {i} =
      set (pending_ids (queue st)) \<union> set (map fst rows)"
    using assms by (auto simp: recovering_def)
  moreover have "agree_view F (set_state (build_state (pool st)) i Failure)
      (set (pending_ids (queue st)) \<union> set (map fst ((i, r) # rows)) - {i}) {}"
    using assms by (intro view_drop) (simp_all add: recovering_def)
  moreover have "\<forall>(j, r)\<in>set rows. build_row ?p j = Some r"
    using assms row by (fastforce simp: recovering_def)
  ultimately show ?thesis
    using assms recovery_row_states(1)[OF f, of e i] matches_shape[OF sh]
    by (simp add: recovering_def)
qed

lemma recovering_enqueue:
  assumes "recovering env F ((i, r) # rows) st" "e_descriptor_from_str env (b_descriptor r) = Ok d"
  shows "recovering env F rows (with_queue (enqueue \<lparr>qb_build_id = i,
     qb_priority = parse_priority (b_priority r), qb_descriptor = d,
     qb_user_email = u, qb_queued_at = t\<rparr>) st)"
proof -
  have "row_matches env (pool st) i (parse_priority (b_priority r)) d"
    using assms by (simp add: recovering_def row_matches_def)
  then show ?thesis using assms(1)
    by (simp add: recovering_def matches_enqueue pending_ids_enqueue frame_simps insert_commute)
qed

lemma recovering_enqueue_rows:
  "recovering env F rows st \<Longrightarrow> enqueue_rows env rows st = (Ok (), st') \<Longrightarrow> recovering env F [] st'"
proof (induction rows arbitrary: st)
  case (Cons ir rows)
  obtain i r where ir: "ir = (i, r)" by (cases ir)
  show ?case
  proof (cases "e_descriptor_from_str env (b_descriptor r)")
    case (Inl e)
    obtain r1 st1 where 1: "on_pool (fail_row ''corrupt descriptor (recovery)'' i) st = (r1, st1)"
      by (meson surj_pair)
    have "recovering env F rows st1" using recovering_corrupt[of env F i r rows st] 1 Cons.prems(1) ir
      by (metis snd_conv)
    moreover have "enqueue_rows env rows st1 = (Ok (), st')"
      using Cons.prems(2) 1 Inl ir by (cases r1) simp_all
    ultimately show ?thesis by (rule Cons.IH)
  next
    case (Inr d)
    show ?thesis
      using Cons.prems Inr ir by (intro Cons.IH[OF recovering_enqueue]) auto
  qed
qed simp

lemma agree_recovery:
  assumes "run_startup_recovery env (fresh_app p cfg comps) = (Ok (), st)" "rows_inv p" "p_faults p = []"
    and fin: "\<forall>i s. F i = Some s \<longrightarrow> s \<in> terminal_states \<and> build_state p i = Some s"
  shows "agree env F st"
proof -
  from assms(1) obtain fl p1 p2 rv p3 p4 rows p5 st6 where
    1: "select_ids {Dispatched, Started} p = (Ok fl, p1)" and
    2: "finalize_rows (fail_row ''server restarted'') fl p1 = (Ok (), p2)" and
    3: "select_ids {Revoking} p2 = (Ok rv, p3)" and
    4: "finalize_rows revoke_row rv p3 = (Ok (), p4)" and
    5: "select_queued p4 = (Ok rows, p5)" and
    6: "enqueue_rows env rows (fresh_app p5 cfg comps) = (Ok (), st6)" and
    st: "st = st6\<lparr>log_watchers := []\<rparr>"
    by (rule recovery_steps)
  have wf: "hm_wf (p_builds p)" using assms(2) by (simp add: rows_inv_def)
  note s1 = select_ids_no_fault[OF 1 assms(3)]
  note s2 = finalize_fail_states[OF 2[unfolded s1(1)] assms(3)]
  have "same_shape p p2" using finalize_shape(1)[OF 2] s1(1) by simp
  then have wf2: "rows_inv p2" using assms(2) same_shape_rows by blast
  note s3 = select_ids_no_fault[OF 3 s2(1)]
  note s4 = finalize_revoke_states[OF 4[unfolded s3(1)] s2(1)]
  have "same_shape p2 p4" using finalize_shape(2)[OF 4] s3(1) by simp
  then have wf4: "rows_inv p4" using wf2 same_shape_rows by blast
  then have d4: "hm_wf (p_builds p4)" by (simp add: rows_inv_def)
  note s5 = select_queued_rows[OF 5]
  have p5: "p5 = p4" using same_tables_no_fault[OF s5(1) s4(1)] .
  have q: "set (map fst rows) = {i. build_state p4 i = Some Queued}"
    using s5(2) d4 by (force simp: build_state_def build_row_def)
  have "build_state p4 i \<noteq> Some s" if "s \<in> live_states" for i s
    using that wf2 s1(2)[OF wf, of i] s3(2)[of i] unfolding s4(2) s2(2)
    by (auto simp: live_states_def rows_inv_def split: if_splits)
  moreover have "build_state p4 i = Some s" if "F i = Some s" for i s
  proof -
    have "s \<in> terminal_states" "build_state p i = Some s" using fin that by blast+
    then show ?thesis using wf2 s1(2)[OF wf, of i] s3(2)[of i] unfolding s4(2) s2(2)
      by (auto simp: terminal_states_def rows_inv_def split: if_splits)
  qed
  ultimately have "agree_view F (build_state p4) (set (map fst rows)) {}"
    using fin unfolding agree_view_def q by blast
  then have "recovering env F rows (fresh_app p5 cfg comps)"
    using s4(1) s5(2,3) d4 p5
    by (auto simp: recovering_def fresh_app_def queue_new_def pending_ids_def pending_def matches_def
        build_row_def)
  from recovering_enqueue_rows[OF this 6] have "agree env F st6"
    by (simp add: recovering_def agree_def active_ids_def)
  then show ?thesis using st by (simp add: agree_def)
qed

end
