(* ===== verification/Cbs_Sweep.thy ===== *)
theory Cbs_Sweep
  imports Cbs_Agreement
begin

text \<open>
  The periodic re-dispatch sweep (\<open>start_periodic_sweep\<close> of \<open>ws/dispatch.rs\<close>). Its inner
  loop ends because every dispatch takes a build off the lanes.
\<close>

lemma length_pending_next: "next_pending q = (Some b, q') \<Longrightarrow> length (pending q) = Suc (length (pending q'))"
  by (drule next_pending_Some(1)) simp

lemma try_dispatch_Ok:
  assumes "try_dispatch env st = (Ok u, st')"
  obtains b q where "next_pending (queue st) = (Some b, q)" "pending (queue st') = pending q"
proof -
  obtain r st1 where l: "try_dispatch_locked env st = (r, st1)" by (meson surj_pair)
  then obtain info where r: "r = Ok info" using assms by (cases r) (auto simp: try_dispatch_def)
  obtain b q where b: "next_pending (queue st) = (Some b, q)" "pending (queue st1) = pending q"
    by (cases rule: try_dispatch_locked_cases[where st = st and env = env]) (use l r in auto)
  obtain tar sha where p: "pack_result env st1 info = Ok (tar, sha)"
    using assms l r by (cases "pack_result env st1 info") (auto simp: try_dispatch_def)
  let ?msg = "BuildNew (di_build_id info) (di_trace_id info) (di_priority info) (di_descriptor info) sha"
  obtain sr st2 where s: "send_pair (di_connection_id info) (TextFrame ?msg) (BinaryFrame tar) st1 = (sr, st2)"
    by (meson surj_pair)
  have "queue st2 = queue st1" using send_pair_core[OF s] by (simp add: core_def)
  moreover have "queue st' = queue st2"
    using assms l r p s by (cases sr) (auto simp: try_dispatch_def send_and_recover_def
        spawn_ack_timer_def split: option.splits)
  ultimately show thesis using that b by simp
qed

lemma sweep_decreases:
  "(Ok u, st') = try_dispatch env st \<Longrightarrow> length (pending (queue st')) < length (pending (queue st))"
  by (metis length_pending_next lessI try_dispatch_Ok)

text \<open>The inner loop; the result is the error that ended it.\<close>

function (sequential) sweep_loop :: "env \<Rightarrow> AppState \<Rightarrow> DispatchError \<times> AppState" where
  "sweep_loop env st =
     (case try_dispatch env st of
        (Ok _, st) \<Rightarrow> sweep_loop env st
      | (Err e, st) \<Rightarrow> (e, st))"
  by pat_completeness auto

termination
  by (relation "measure (\<lambda>(env, st). length (pending (queue st)))") (auto dest: sweep_decreases)

definition periodic_sweep :: "env \<Rightarrow> AppState \<Rightarrow> AppState" where
  "periodic_sweep env st =
     (if has_pending (queue st) \<and> has_idle_workers (queue st) then snd (sweep_loop env st) else st)"

declare sweep_loop.simps [simp del]

lemma mem_inv_sweep:
  assumes "mem_inv {} st" shows "mem_inv {} (periodic_sweep env st)"
proof -
  have "mem_inv {} st \<Longrightarrow> mem_inv {} (snd (sweep_loop env st))" for st
  proof (induction env st rule: sweep_loop.induct)
    case (1 env st)
    obtain r st' where t: "try_dispatch env st = (r, st')" by (meson surj_pair)
    have "mem_inv {} st'" using mem_inv_try_dispatch[OF "1.prems", of env] t by simp
    then show ?case using t "1.IH"[OF t[symmetric]]
      by (subst sweep_loop.simps) (auto split: sum.splits)
  qed
  then show ?thesis using assms by (simp add: periodic_sweep_def)
qed

lemma agree_sweep:
  assumes "agree env F st" "mem_inv {} st" shows "agree env F (periodic_sweep env st)"
proof -
  have "agree env F st \<Longrightarrow> mem_inv {} st \<Longrightarrow> agree env F (snd (sweep_loop env st))" for st
  proof (induction env st rule: sweep_loop.induct)
    case (1 env st)
    obtain r st' where t: "try_dispatch env st = (r, st')" by (meson surj_pair)
    have "agree env F st'" "mem_inv {} st'"
      using agree_try_dispatch[OF "1.prems"] mem_inv_try_dispatch[OF "1.prems"(2), of env] t by simp_all
    then show ?case using t "1.IH"[OF t[symmetric]]
      by (subst sweep_loop.simps) (auto split: sum.splits)
  qed
  then show ?thesis using assms by (simp add: periodic_sweep_def)
qed

lemma next_pending_front:
  assumes "next_pending q = (Some b, q')" "lanes_ok q"
  shows "next_pending (enqueue_front b q') = (Some b, q')"
  using assms
  by (cases "qb_priority b") (auto simp: next_pending_def enqueue_front_def lanes_ok_def
      split: list.splits)

text \<open>No worker can take the build at the head of the lanes.\<close>

definition head_blocked :: "BuildQueue \<Rightarrow> bool" where
  "head_blocked q = (case next_pending q of
      (None, _) \<Rightarrow> True
    | (Some b, q') \<Rightarrow> find_worker q' (tgt_arch (d_build (qb_descriptor b))) = None)"

lemma try_dispatch_nothing:
  assumes "try_dispatch env st = (Err NothingToDispatch, st')" "lanes_ok (queue st)"
  shows "head_blocked (queue st')"
proof -
  obtain r st1 where l: "try_dispatch_locked env st = (r, st1)" by (meson surj_pair)
  have "r = Err NothingToDispatch \<and> st' = st1"
    using assms(1) l by (auto simp: try_dispatch_def send_and_recover_def send_pair_def Let_def
      split: sum.splits prod.splits option.splits bool.splits)
  then have l: "try_dispatch_locked env st = (Err NothingToDispatch, st')" using l by simp
  show ?thesis
  proof (cases rule: try_dispatch_locked_cases[where st = st and env = env])
    case empty
    then show ?thesis using l lanes.pop_none[of "queue st"] assms(2)
      by (auto simp: head_blocked_def split: prod.splits option.splits)
  next
    case (no_worker b q)
    then show ?thesis using l next_pending_front[OF no_worker(1) assms(2)]
      by (auto simp: head_blocked_def)
  qed (use l in auto)
qed

lemma sweep_loop_blocked:
  "sweep_loop env st = (NothingToDispatch, st') \<Longrightarrow> mem_inv {} st \<Longrightarrow> head_blocked (queue st')"
proof (induction env st rule: sweep_loop.induct)
  case (1 env st)
  obtain r st1 where t: "try_dispatch env st = (r, st1)" by (meson surj_pair)
  have inv: "mem_inv {} st1" using mem_inv_try_dispatch[OF "1.prems"(2), of env] t by simp
  show ?case
  proof (cases r)
    case (Inl e)
    then have "try_dispatch env st = (Err NothingToDispatch, st')"
      using "1.prems"(1) t by (simp add: sweep_loop.simps[of env st])
    then show ?thesis
      using try_dispatch_nothing "1.prems"(2) by (simp add: mem_inv_def queue_inv_def)
  next
    case (Inr u)
    then have "sweep_loop env st1 = (NothingToDispatch, st')"
      using "1.prems"(1) t by (simp add: sweep_loop.simps[of env st])
    then show ?thesis using "1.IH"[OF t[symmetric] Inr] inv by simp
  qed
qed

end
