(* ===== verification/Cbs_System.thy ===== *)
theory Cbs_System
  imports Cbs_Sweep
begin

text \<open>
  The running server as a transition system. A state is the application state with the
  connections whose message loop is running. A step is one handler, request or task run
  to its end; the steps are taken in any order, and between two of them the clock, the
  other tables of the database, the order of the hash maps and the outcome of file
  operations may change. Statements of the database fail as its schedule \<open>p_faults\<close> says.
\<close>

record server =
  srv_app :: AppState
  srv_open :: "(conn_id \<times> string \<times> string) list"
  srv_conns :: nat

definition open_ids :: "server \<Rightarrow> conn_id set" where
  "open_ids s = fst ` set (srv_open s)"

definition due :: "task \<Rightarrow> AppState \<Rightarrow> bool" where
  "due t st = (case t of
      AckTimer _ _ d \<Rightarrow> d \<le> now st
    | RevokeTimer _ d \<Rightarrow> d \<le> now st
    | GraceMonitor _ d \<Rightarrow> d \<le> now st
    | SpawnedDispatch \<Rightarrow> True)"

fun run_task :: "env \<Rightarrow> task \<Rightarrow> AppState \<Rightarrow> AppState" where
  "run_task env (AckTimer i t _) st = ack_timer_fired i t st"
| "run_task env (RevokeTimer i _) st = handle_revoke_timeout env i st"
| "run_task env (GraceMonitor cid _) st = grace_period_expired env cid st"
| "run_task env SpawnedDispatch st = snd (try_dispatch env st)"

text \<open>What may change under the server: everything but the builds and their log rows.\<close>

definition other_tables :: "SqlitePool \<Rightarrow> SqlitePool \<Rightarrow> bool" where
  "other_tables p p' \<longleftrightarrow> p_builds p' = p_builds p \<and> p_build_seq p' = p_build_seq p \<and>
     p_logs p' = p_logs p \<and> p_faults p' = p_faults p \<and> p_now p \<le> p_now p'"

text \<open>The same entries in another order.\<close>

definition rehashed :: "BuildQueue \<Rightarrow> BuildQueue \<Rightarrow> bool" where
  "rehashed q q' \<longleftrightarrow> (\<exists>a w. q' = q\<lparr>q_active := a, q_workers := w\<rparr> \<and>
     mset a = mset (q_active q) \<and> mset w = mset (q_workers q))"

inductive server_step :: "env \<Rightarrow> server \<Rightarrow> server \<Rightarrow> bool" for env where
  submit: "server_step env s (s\<lparr>srv_app := snd (submit_build env user body (srv_app s))\<rparr>)"
| revoke: "server_step env s (s\<lparr>srv_app := snd (revoke_build env user i (srv_app s))\<rparr>)"
| list_req: "server_step env s (s\<lparr>srv_app := snd (route_list_builds user pu ps (srv_app s))\<rparr>)"
| get_req: "server_step env s (s\<lparr>srv_app := snd (route_get_build env user i (srv_app s))\<rparr>)"
| connect: "map_of (p_workers (pool (srv_app s))) w = Some row \<Longrightarrow>
    cid = e_connection_id env (srv_conns s) \<Longrightarrow>
    handshake env cid w row (wait_for_hello env events) sent (srv_app s) = (reply, entered, st) \<Longrightarrow>
    server_step env s (s\<lparr>srv_app := st, srv_conns := Suc (srv_conns s),
      srv_open := (if entered then (cid, w_name row, w) # srv_open s else srv_open s)\<rparr>)"
| receive: "(cid, name, w) \<in> set (srv_open s) \<Longrightarrow>
    receive_event env cid name w ev (srv_app s) = (True, st) \<Longrightarrow>
    server_step env s (s\<lparr>srv_app := st\<rparr>)"
| close: "(cid, name, w) \<in> set (srv_open s) \<Longrightarrow>
    server_step env s (s\<lparr>srv_app := connection_closed env cid name w (srv_app s),
      srv_open := remove1 (cid, name, w) (srv_open s)\<rparr>)"
| hang_up: "server_step env s (s\<lparr>srv_app := (srv_app s)\<lparr>worker_senders :=
      update_row cid (\<lambda>_. False) (worker_senders (srv_app s))\<rparr>\<rparr>)"
| timer: "t \<in> set (tasks (srv_app s)) \<Longrightarrow> due t (srv_app s) \<Longrightarrow>
    server_step env s (s\<lparr>srv_app :=
      run_task env t ((srv_app s)\<lparr>tasks := remove1 t (tasks (srv_app s))\<rparr>)\<rparr>)"
| sweep: "server_step env s (s\<lparr>srv_app := periodic_sweep env (srv_app s)\<rparr>)"
| environment: "other_tables (pool (srv_app s)) p \<Longrightarrow>
    server_step env s (s\<lparr>srv_app := (srv_app s)\<lparr>pool := p, io_script := io\<rparr>\<rparr>)"
| rehash: "rehashed (queue (srv_app s)) q \<Longrightarrow>
    server_step env s (s\<lparr>srv_app := (srv_app s)\<lparr>queue := q\<rparr>\<rparr>)"

section \<open>Memory invariant\<close>

lemma ack_timers_remove: "ack_timers (st\<lparr>tasks := remove1 t (tasks st)\<rparr>) \<subseteq> ack_timers st"
  unfolding ack_timers_def using set_remove1_subset[of t "tasks st"] by auto

lemma map_of_rehash:
  assumes "hm_wf xs" "mset ys = mset xs" shows "hm_wf ys" "map_of ys = map_of xs"
proof -
  have "mset (map fst ys) = mset (map fst xs)" using assms(2) by (metis mset_map)
  then show wf: "hm_wf ys" using assms(1) mset_eq_imp_distinct_iff by blast
  have "set ys = set xs" using assms(2) mset_eq_setD by blast
  then show "map_of ys = map_of xs" using map_of_inject_set[OF wf assms(1)] by simp
qed

lemma mem_inv_rehash:
  assumes "mem_inv X st" "rehashed (queue st) q" shows "mem_inv X (st\<lparr>queue := q\<rparr>)"
proof -
  obtain a w where q: "q = (queue st)\<lparr>q_active := a, q_workers := w\<rparr>"
    "mset a = mset (q_active (queue st))"
    using assms(2) by (auto simp: rehashed_def)
  have inv: "queue_inv (queue st) (build_ids (pool st))" using assms(1) by (simp add: mem_inv_def)
  then have wf: "hm_wf (q_active (queue st))" by (simp add: queue_inv_def)
  note a = map_of_rehash[OF wf q(2)]
  have p: "pending_ids q = pending_ids (queue st)" "map_of (q_active q) = map_of (q_active (queue st))"
    "hm_wf (q_active q)" "lanes_ok q = lanes_ok (queue st)"
    using a q(1) by (simp_all add: pending_ids_def lanes_ok_def pending_def)
  then have "queue_inv q (build_ids (pool st))" using inv by (simp add: queue_inv_def)
  moreover have "tok q = tok (queue st)" "awaiting q = awaiting (queue st)"
    using p(2) by (simp_all add: tok_def awaiting_def fun_eq_iff)
  ultimately show ?thesis using assms(1) p(1) by (simp add: mem_inv_def)
qed

lemma tinv_timers: "tinv P tk T C n \<Longrightarrow> T' \<subseteq> T \<Longrightarrow> tinv P tk T' C n"
  unfolding tinv_def by blast

lemma mem_inv_fewer_timers:
  assumes "mem_inv Y st" "ack_timers st' \<subseteq> ack_timers st" "pool st' = pool st" "queue st' = queue st"
    "cancelled st' = cancelled st" "next_token st' = next_token st"
    "winv X (tok (queue st)) (awaiting (queue st)) (ack_timers st') (set (cancelled st))"
  shows "mem_inv X st'"
  using assms tinv_timers[OF _ assms(2)] image_mono[OF assms(2), of fst] unfolding mem_inv_def
  by (metis order_trans)

lemma winv_fewer:
  assumes "winv {} tk A T C" "\<And>j u. (j, u) \<in> T \<Longrightarrow> (j, u) \<notin> T' \<Longrightarrow> j \<in> X \<or> u \<in> C"
  shows "winv X tk A T' C"
  using assms unfolding winv_def by blast

lemma ack_timer_kept:
  "(j, u) \<in> ack_timers st \<Longrightarrow> (j, u) \<notin> ack_timers (st\<lparr>tasks := remove1 t (tasks st)\<rparr>) \<Longrightarrow>
     \<exists>d. t = AckTimer j u d"
  unfolding ack_timers_def by clarsimp (metis in_set_remove1)

lemma mem_inv_drop_task:
  assumes "mem_inv {} st" "\<And>i u d. t = AckTimer i u d \<Longrightarrow> i \<in> X \<or> u \<in> set (cancelled st)"
  shows "mem_inv X (st\<lparr>tasks := remove1 t (tasks st)\<rparr>)"
proof -
  let ?s = "st\<lparr>tasks := remove1 t (tasks st)\<rparr>"
  have "winv {} (tok (queue st)) (awaiting (queue st)) (ack_timers st) (set (cancelled st))"
    using assms(1) by (simp add: mem_inv_def)
  then have "winv X (tok (queue st)) (awaiting (queue st)) (ack_timers ?s) (set (cancelled st))"
    by (rule winv_fewer) (metis ack_timer_kept assms(2))
  then show ?thesis
    by (intro mem_inv_fewer_timers[OF assms(1) ack_timers_remove]) simp_all
qed

lemma mem_inv_run_task:
  assumes "mem_inv {} st"
  shows "mem_inv {} (run_task env t (st\<lparr>tasks := remove1 t (tasks st)\<rparr>))"
proof (cases "\<exists>i u d. t = AckTimer i u d")
  case False
  then have "mem_inv {} (st\<lparr>tasks := remove1 t (tasks st)\<rparr>)"
    by (intro mem_inv_drop_task[OF assms]) auto
  then show ?thesis
    using False by (cases t) (simp_all add: mem_inv_revoke_timeout mem_inv_grace mem_inv_try_dispatch)
next
  case True
  then obtain i u d where t: "t = AckTimer i u d" by blast
  show ?thesis
  proof (cases "u \<in> set (cancelled st)")
    case True
    then show ?thesis using t mem_inv_drop_task[OF assms, of t "{}"] by (simp add: ack_timer_fired_def)
  next
    case False
    have "mem_inv {i} (st\<lparr>tasks := remove1 t (tasks st)\<rparr>)"
      by (rule mem_inv_drop_task[OF assms]) (simp add: t)
    then have "mem_inv {} (snd (rollback_active_to_queued i (st\<lparr>tasks := remove1 t (tasks st)\<rparr>)))"
      using mem_inv_rollback[of "{i}" "st\<lparr>tasks := remove1 t (tasks st)\<rparr>" i] by simp
    then show ?thesis using t False by (simp add: ack_timer_fired_def)
  qed
qed

lemma mem_inv_reads:
  assumes "mem_inv {} st"
  shows "mem_inv {} (snd (route_list_builds user pu ps st))" "mem_inv {} (snd (route_get_build env user i st))"
proof -
  obtain r st' where l: "on_pool (list_builds (if has_cap user ''builds:list:any'' then pu
      else Some (au_email user)) ps) st = (r, st')" by (meson surj_pair)
  have "mem_inv {} st'" using assms l unfolding list_builds_def
    by (auto dest!: mem_inv_on_pool[of _ st r st' "{}"] same_tables_same_shape fetch_same_tables)
  then show "mem_inv {} (snd (route_list_builds user pu ps st))"
    using assms l by (simp add: route_list_builds_def Let_def split: sum.splits)
  obtain r2 st2 where g: "on_pool (get_build (e_value_from_str env) i) st = (r2, st2)" by (meson surj_pair)
  then have "mem_inv {} st2" using assms mem_inv_stmts(7)[of "{}" "e_value_from_str env" i st] by simp
  then show "mem_inv {} (snd (route_get_build env user i st))"
    using g by (auto simp: route_get_build_def split: sum.splits option.splits)
qed

lemma mem_inv_environment:
  assumes "mem_inv {} st" "other_tables (pool st) p" shows "mem_inv {} (st\<lparr>pool := p, io_script := io\<rparr>)"
proof -
  have "build_ids p = build_ids (pool st)" "rows_inv p = rows_inv (pool st)"
    using assms(2) by (simp_all add: other_tables_def build_ids_def rows_inv_def)
  then show ?thesis using assms(1) by (simp add: mem_inv_def ack_timers_def)
qed

lemma mem_inv_receive:
  "receive_event env cid name w ev st = (b, st') \<Longrightarrow> mem_inv {} st \<Longrightarrow> mem_inv {} st'"
  by (cases ev) (auto simp: receive_event_def mem_inv_message split: sum.splits)

lemma mem_inv_step: "server_step env s s' \<Longrightarrow> mem_inv {} (srv_app s) \<Longrightarrow> mem_inv {} (srv_app s')"
proof (induction rule: server_step.induct)
  case (connect s w row cid events sent reply entered st)
  then show ?case using mem_inv_handshake[of "srv_app s" env cid w row "wait_for_hello env events" sent]
    by simp
next
  case (receive cid name w s ev st)
  then show ?case using mem_inv_receive by simp
next
  case (environment s p io)
  then show ?case using mem_inv_environment by simp
next
  case (hang_up s cid)
  then show ?case by (simp add: mem_inv_core[OF core_frames(3)])
qed (simp_all add: mem_inv_submit mem_inv_revoke_build mem_inv_reads mem_inv_closed mem_inv_run_task
    mem_inv_sweep mem_inv_rehash)

section \<open>Agreement\<close>

lemma agree_run_task:
  assumes "agree env F st" "mem_inv {} st"
  shows "agree env F (run_task env t (st\<lparr>tasks := remove1 t (tasks st)\<rparr>))"
proof -
  let ?s = "st\<lparr>tasks := remove1 t (tasks st)\<rparr>"
  have a: "agree env F ?s" using assms(1) agree_cong[of ?s st] by simp
  have "mem_inv {} ?s" if "\<forall>i u d. t \<noteq> AckTimer i u d"
    using that by (intro mem_inv_drop_task[OF assms(2)]) auto
  then show ?thesis using a
    by (cases t) (simp_all add: agree_ack_timer agree_revoke_timeout agree_grace agree_try_dispatch)
qed

lemma agree_rehash:
  assumes "agree env F st" "mem_inv {} st" "rehashed (queue st) q" shows "agree env F (st\<lparr>queue := q\<rparr>)"
proof -
  obtain a w where q: "q = (queue st)\<lparr>q_active := a, q_workers := w\<rparr>"
    "mset a = mset (q_active (queue st))"
    using assms(3) by (auto simp: rehashed_def)
  have "hm_wf (q_active (queue st))" using assms(2) by (simp add: mem_inv_def queue_inv_def)
  then have "map_of (q_active q) = map_of (q_active (queue st))" using map_of_rehash q by simp
  moreover have "pending q = pending (queue st)" using q(1) by (simp add: pending_def)
  ultimately show ?thesis using assms(1) by (simp add: agree_def active_ids_def matches_def pending_ids_def)
qed

lemma reads_no_fault:
  assumes "p_faults (pool st) = []"
  shows "snd (route_list_builds user pu ps st) = st" "snd (route_get_build env user i st) = st"
  using assms get_build_no_fault[OF assms, of "e_value_from_str env" i]
  by (auto simp: route_list_builds_def route_get_build_def Let_def on_pool_def list_builds_def
      split: prod.splits sum.splits option.splits)

lemma agree_receive:
  "receive_event env cid name w ev st = (b, st') \<Longrightarrow> agree env F st \<Longrightarrow> mem_inv {} st \<Longrightarrow> agree env F st'"
  by (cases ev) (auto simp: receive_event_def agree_message split: sum.splits)

lemma agree_step:
  "server_step env s s' \<Longrightarrow> agree env F (srv_app s) \<Longrightarrow> mem_inv {} (srv_app s) \<Longrightarrow> serde_round_trip env \<Longrightarrow>
     agree env F (srv_app s')"
proof (induction rule: server_step.induct)
  case (connect s w row cid events sent reply entered st)
  then show ?case
    using agree_handshake[of env F "srv_app s" cid w row "wait_for_hello env events" sent] by simp
next
  case (receive cid name w s ev st)
  then show ?case using agree_receive by simp
next
  case (environment s p io)
  then show ?case using agree_cong[of "(srv_app s)\<lparr>pool := p, io_script := io\<rparr>" "srv_app s"]
    by (simp add: other_tables_def)
next
  case (hang_up s cid)
  then show ?case by simp
qed (simp_all add: agree_submit agree_revoke_build reads_no_fault agree_faults agree_closed agree_run_task
    agree_sweep agree_rehash)

end
