(* ===== verification/Cbs_Liveness.thy ===== *)
theory Cbs_Liveness
  imports Cbs_System
begin

text \<open>
  No build is left behind by its worker. While no statement fails, the connection that owns
  an active build is open, or it is in its grace period with a monitor task that will
  resolve the build. Every step of the server keeps this.
\<close>

section \<open>Attended builds\<close>

text \<open>
  \<open>att C G A W\<close>: every active build is owned by a connection that is open (\<open>C\<close>), or that
  is disconnected and has a grace monitor asleep (\<open>G\<close>); a worker entry that is connected
  or stopping is open. \<open>A\<close> is the owner of each active build and \<open>W\<close> the worker table.
\<close>

fun attached :: "WorkerState \<Rightarrow> bool" where
  "attached (Connected _ _ _ _ _ _) = True"
| "attached (Stopping _ _) = True"
| "attached _ = False"

fun is_disconnected :: "WorkerState \<Rightarrow> bool" where
  "is_disconnected (Disconnected _ _ _ _) = True"
| "is_disconnected _ = False"

definition att ::
  "conn_id set \<Rightarrow> conn_id set \<Rightarrow> (build_id \<Rightarrow> conn_id option) \<Rightarrow> (conn_id \<Rightarrow> WorkerState option) \<Rightarrow> bool" where
  "att C G A W \<longleftrightarrow>
     (\<forall>i c. A i = Some c \<longrightarrow> c \<in> C \<or> c \<in> G \<and> (\<exists>ws. W c = Some ws \<and> is_disconnected ws)) \<and>
     (\<forall>c ws. W c = Some ws \<and> attached ws \<longrightarrow> c \<in> C)"

definition conn_of :: "BuildQueue \<Rightarrow> build_id \<Rightarrow> conn_id option" where
  "conn_of q i = map_option ab_connection_id (map_of (q_active q) i)"

definition monitored :: "AppState \<Rightarrow> conn_id set" where
  "monitored st = {cid. \<exists>d. GraceMonitor cid d \<in> set (tasks st)}"

definition attended :: "conn_id set \<Rightarrow> AppState \<Rightarrow> bool" where
  "attended C st \<longleftrightarrow> hm_wf (q_workers (queue st)) \<and>
     att C (monitored st) (conn_of (queue st)) (map_of (q_workers (queue st)))"

lemma att_shrink:
  assumes "att C G A W" "\<And>i. A' i = None \<or> A' i = A i" "G \<subseteq> G'" "C \<subseteq> C'"
  shows "att C' G' A' W"
  unfolding att_def
proof (intro conjI allI impI)
  fix i c assume "A' i = Some c"
  then have "A i = Some c" using assms(2)[of i] by auto
  then show "c \<in> C' \<or> c \<in> G' \<and> (\<exists>ws. W c = Some ws \<and> is_disconnected ws)"
    using assms(1,3,4) unfolding att_def by blast
qed (use assms(1,4) in \<open>auto simp: att_def\<close>)

lemma att_assign:
  assumes "att C G A W" "c \<in> C" "\<And>j. A' j = A j \<or> A' j = Some c" shows "att C G A' W"
  unfolding att_def
proof (intro conjI allI impI)
  fix i d assume "A' i = Some d"
  then have "d = c \<or> A i = Some d" using assms(3)[of i] by auto
  then show "d \<in> C \<or> d \<in> G \<and> (\<exists>ws. W d = Some ws \<and> is_disconnected ws)"
    using assms(1,2) unfolding att_def by blast
qed (use assms(1) in \<open>auto simp: att_def\<close>)

lemma att_close:
  assumes "att C G A W" "\<And>i. A i \<noteq> Some c" "\<And>ws. W c = Some ws \<Longrightarrow> \<not> attached ws"
  shows "att (C - {c}) G A W"
  using assms unfolding att_def by blast

lemma att_worker:
  assumes "att C G A W" "c \<in> C" shows "att C G A (W(c := w))"
  using assms unfolding att_def by auto

text \<open>\<open>quiet\<close>: no build changes hands, no worker changes, no monitor disappears.\<close>

definition quiet :: "AppState \<Rightarrow> AppState \<Rightarrow> bool" where
  "quiet st st' \<longleftrightarrow> q_workers (queue st') = q_workers (queue st) \<and>
     (\<forall>i. conn_of (queue st') i = None \<or> conn_of (queue st') i = conn_of (queue st) i) \<and>
     monitored st \<subseteq> monitored st'"

lemma attended_quiet: "quiet st st' \<Longrightarrow> attended C st \<Longrightarrow> attended C st'"
  unfolding quiet_def attended_def by (auto intro: att_shrink[OF _ _ _ order_refl])

lemma attended_mono: "attended C st \<Longrightarrow> C \<subseteq> C' \<Longrightarrow> attended C' st"
  unfolding attended_def by (auto intro: att_shrink)

lemma quiet_refl [simp]: "quiet st st" by (simp add: quiet_def)

lemma quiet_trans: "quiet a b \<Longrightarrow> quiet b c \<Longrightarrow> quiet a c"
  unfolding quiet_def by (metis order_trans)

lemma quiet_core: "core st' = core st \<Longrightarrow> quiet st st'"
  by (simp add: quiet_def core_def monitored_def)

lemma monitored_simps [simp]:
  "monitored (snd (on_pool f st)) = monitored st" "monitored (cancel t st) = monitored st"
  "monitored (remove_watcher i st) = monitored st" "monitored (with_queue g st) = monitored st"
  "monitored (st\<lparr>queue := q\<rparr>) = monitored st" "monitored st \<subseteq> monitored (spawn tk st)"
  by (auto simp: monitored_def with_queue_def remove_watcher_def spawn_def cancel_def)

lemma monitored_spawn:
  "monitored (spawn (GraceMonitor cid d) st) = insert cid (monitored st)"
  "monitored (st\<lparr>worker_senders := s\<rparr>) = monitored st"
  by (auto simp: monitored_def spawn_def)

lemma conn_of_simps [simp]:
  "conn_of (remove_active i q) = (conn_of q)(i := None)" "conn_of (enqueue b q) = conn_of q"
  "conn_of (enqueue_front b q) = conn_of q" "conn_of (snd (remove_by_id q j)) = conn_of q"
  by (auto simp: conn_of_def frame_simps fun_eq_iff)

lemma workers_simps [simp]:
  "q_workers (remove_active i q) = q_workers q" "q_workers (update_active i g q) = q_workers q"
  by (simp_all add: remove_active_def update_active_def)

lemma quiet_frames:
  "quiet st (snd (on_pool f st))" "quiet st (cancel t st)" "quiet st (spawn tk st)"
  "quiet st (remove_watcher i st)" "quiet st (with_queue (remove_active i) st)"
  "quiet st (with_queue (enqueue b) st)" "quiet st (with_queue (enqueue_front b) st)"
  "quiet st (with_queue (\<lambda>q. snd (remove_by_id q j)) st)"
  by (simp_all add: quiet_def frame_simps)

lemma quiet_sends:
  "quiet st (snd (tx_send cid fr st))" "quiet st (send_text_to_connection cid m st)"
  "quiet st (st\<lparr>worker_senders := s\<rparr>)"
  by (auto simp: send_text_to_connection_def intro!: quiet_core)
    (metis prod.collapse tx_send_core)+

lemma quiet_cleanup:
  "quiet st (cleanup_terminal_state i t r st)"
  "conn_of (queue (cleanup_terminal_state i t r st)) = (conn_of (queue st))(i := None)"
  by (simp_all add: cleanup_terminal_state_def Let_def quiet_def)

lemma quiet_rollback:
  "quiet st (snd (rollback_active_to_queued i st))"
  "conn_of (queue (snd (rollback_active_to_queued i st))) = (conn_of (queue st))(i := None)"
  by (auto simp: rollback_active_to_queued_def Let_def quiet_def frame_simps conn_of_def
      split: option.splits)

section \<open>Dispatch keeps builds attended\<close>

text \<open>A worker chosen for dispatch is connected, idle and of the right architecture.\<close>

lemma find_worker_Some:
  assumes "find_worker q a = Some (cid, w)"
  obtains ws where "(cid, ws) \<in> set (q_workers q)" "is_dispatch_eligible ws" "arch ws = Some a"
    "\<forall>ab\<in>set (hm_values (q_active q)). ab_connection_id ab \<noteq> cid"
    "w = (case registered_worker_id ws of Some x \<Rightarrow> x | None \<Rightarrow> ''unknown'')"
  using assms by (auto simp: find_worker_def list_ex_iff dest!: find_SomeD)

lemma eligible_attached: "is_dispatch_eligible ws \<Longrightarrow> attached ws"
  by (cases ws) simp_all

lemma attended_locked:
  assumes "attended C st" "try_dispatch_locked env st = (r, st')" shows "attended C st'"
proof (cases rule: try_dispatch_locked_cases[where st = st and env = env])
  case empty
  then show ?thesis using assms by simp
next
  case (no_worker b q)
  have "quiet st (st\<lparr>queue := enqueue_front b q\<rparr>)"
    using next_pending_Some[OF no_worker(1)] by (simp add: quiet_def frame_simps conn_of_def)
  then show ?thesis using attended_quiet assms no_worker(3) by auto
next
  case (db_error b q w e p)
  have "quiet st (st\<lparr>queue := q, uuids := Suc (uuids st), pool := p\<rparr>)"
    using next_pending_Some[OF db_error(1)] by (simp add: quiet_def conn_of_def monitored_def)
  then show ?thesis using attended_quiet assms db_error(3) by auto
next
  case (assigned b q cid w v p ab)
  note pop = next_pending_Some[OF assigned(1)]
  obtain ws where ws: "(cid, ws) \<in> set (q_workers q)" "is_dispatch_eligible ws"
    using find_worker_Some[OF assigned(2)] by metis
  have wf: "hm_wf (q_workers (queue st))" and att: "att C (monitored st) (conn_of (queue st)) (map_of (q_workers (queue st)))"
    using assms(1) by (simp_all add: attended_def)
  have "map_of (q_workers (queue st)) cid = Some ws" using ws(1) wf pop by simp
  then have "cid \<in> C" using att eligible_attached[OF ws(2)] unfolding att_def by blast
  from att_assign[OF att this, of "(conn_of (queue st))(qb_build_id b := Some cid)"]
  have "att C (monitored st) ((conn_of (queue st))(qb_build_id b := Some cid)) (map_of (q_workers (queue st)))"
    by simp
  moreover have "conn_of (q\<lparr>q_active := AList.update (qb_build_id b) ab (q_active q)\<rparr>) =
      (conn_of (queue st))(qb_build_id b := Some cid)"
    using pop by (auto simp: conn_of_def fun_eq_iff map_of_update_apply assigned(4))
  ultimately show ?thesis using assms(2) assigned(5) wf pop
    by (auto simp: attended_def monitored_def)
qed

lemma attended_try_dispatch:
  assumes "attended C st" shows "attended C (snd (try_dispatch env st))"
proof -
  obtain r st1 where l: "try_dispatch_locked env st = (r, st1)" by (meson surj_pair)
  note a1 = attended_locked[OF assms l]
  show ?thesis
  proof (cases r)
    case (Inl e)
    then show ?thesis using l a1 by (simp add: try_dispatch_def)
  next
    case (Inr info)
    have "quiet st1 (snd (try_dispatch env st))"
    proof (cases "pack_result env st1 info")
      case (Inl e)
      then show ?thesis using l Inr quiet_cleanup(1) by (simp add: try_dispatch_def)
    next
      case pack: (Inr ts)
      obtain tar sha where ts: "ts = (tar, sha)" by (cases ts)
      let ?msg = "BuildNew (di_build_id info) (di_trace_id info) (di_priority info) (di_descriptor info) sha"
      obtain sr st2 where send: "send_pair (di_connection_id info) (TextFrame ?msg) (BinaryFrame tar) st1
          = (sr, st2)" by (meson surj_pair)
      have q: "quiet st1 st2" using quiet_core[OF send_pair_core[OF send]] .
      show ?thesis using l Inr pack ts send q quiet_trans[OF q quiet_rollback(1)] quiet_trans[OF q quiet_frames(3)]
        by (cases sr) (auto simp: try_dispatch_def send_and_recover_def handle_dispatch_send_failure_def
            spawn_ack_timer_def split: option.splits)
    qed
    then show ?thesis using attended_quiet a1 by blast
  qed
qed

lemma quiet_remove_watchers:
  "quiet st (finish_build_log i st)" "quiet st (snd (write_build_output i seq ls st))"
  using core_write_build_output[of i seq ls st "fst (write_build_output i seq ls st)"]
  by (auto intro!: quiet_core simp: core_finish_build_log)

lemma attended_finished: "attended C st \<Longrightarrow> attended C (handle_build_finished env cid i s e r st)"
  unfolding handle_build_finished_def Let_def
  by (intro attended_try_dispatch attended_quiet[OF quiet_frames(4)]
      attended_quiet[OF quiet_remove_watchers(1)] attended_quiet[OF quiet_frames(5)]
      attended_quiet[OF quiet_frames(1)])

lemma attended_rejected: "attended C st \<Longrightarrow> attended C (handle_build_rejected env cid i reason st)"
  by (auto simp: handle_build_rejected_def intro!: attended_try_dispatch
      intro: attended_quiet[OF quiet_cleanup(1)] attended_quiet[OF quiet_rollback(1)])

lemma quiet_send_revoke: "quiet st (snd (send_build_revoke i st))"
proof (cases "map_of (q_active (queue st)) i")
  case (Some ab)
  obtain r st1 where r: "on_pool (set_build_revoking i) st = (r, st1)" by (meson surj_pair)
  have q: "quiet st st1" using quiet_frames(1)[of st "set_build_revoking i"] r by simp
  show ?thesis using Some r quiet_trans[OF q quiet_trans[OF quiet_sends(1) quiet_frames(3)]] q
    by (cases r) (auto simp: send_build_revoke_def Let_def)
qed (simp add: send_build_revoke_def)

section \<open>Dead workers\<close>

lemma fold_keeps: "P s \<Longrightarrow> (\<And>x s. P s \<Longrightarrow> P (f x s)) \<Longrightarrow> P (fold f xs s)"
  by (induction xs arbitrary: s) simp_all

lemma quiet_resolve_dead: "quiet st (resolve_dead_build env i receipt st)"
proof -
  obtain r st1 where g: "on_pool (get_build (e_value_from_str env) i) st = (r, st1)" by (meson surj_pair)
  have q: "quiet st st1" using quiet_frames(1)[of st "get_build (e_value_from_str env) i"] g by simp
  show ?thesis using g q quiet_trans[OF q quiet_cleanup(1)] quiet_trans[OF q quiet_rollback(1)]
      quiet_trans[OF q quiet_frames(5)]
    by (auto simp: resolve_dead_build_def split: sum.splits option.splits DeadWorkerAction.splits)
qed

lemma conn_of_None: "conn_of q i = None \<longleftrightarrow> i \<notin> active_ids q"
  by (simp add: conn_of_def active_ids_def)

lemma resolve_dead_removes:
  assumes "agree env F st" shows "conn_of (queue (resolve_dead_build env i receipt st)) i = None"
proof -
  obtain ob where g: "on_pool (get_build (e_value_from_str env) i) st = (Ok ob, st)"
    "map_option br_state ob = build_state (pool st) i" using agree_get_build[OF assms] by metis
  show ?thesis
  proof (cases ob)
    case None
    then have "i \<notin> active_ids (queue st)" using g(2) agree_state_cases(2)[OF assms, of i] by auto
    then show ?thesis using None g(1) by (simp add: resolve_dead_build_def conn_of_None)
  next
    case (Some b)
    then show ?thesis using g(1)
      by (cases "dead_worker_resolution (br_state b) receipt")
        (simp_all add: resolve_dead_build_def quiet_cleanup(2) quiet_rollback(2))
  qed
qed

lemma resolve_all_dead:
  "agree env F st \<Longrightarrow> quiet st (fold (\<lambda>(i, receipt). resolve_dead_build env i receipt) xs st) \<and>
     (\<forall>x\<in>set xs. conn_of (queue (fold (\<lambda>(i, receipt). resolve_dead_build env i receipt) xs st)) (fst x) = None)"
proof (induction xs arbitrary: st)
  case (Cons x xs)
  obtain i receipt where x: "x = (i, receipt)" by (cases x)
  let ?s = "resolve_dead_build env i receipt st"
  let ?f = "fold (\<lambda>(i, receipt). resolve_dead_build env i receipt) xs"
  note IH = Cons.IH[OF agree_resolve_dead[OF Cons.prems, of i receipt]]
  have "conn_of (queue (?f ?s)) i = None"
    using IH resolve_dead_removes[OF Cons.prems, of i receipt] by (auto simp: quiet_def)
  then show ?case using IH quiet_trans[OF quiet_resolve_dead[of st env i receipt]] x by auto
qed simp

lemma attended_worker_dead:
  assumes "agree env F st" "mem_inv {} st" "attended C st"
    "\<And>ws. map_of (q_workers (queue st)) cid = Some ws \<Longrightarrow> \<not> attached ws"
  shows "attended (C - {cid}) (handle_worker_dead env cid st)"
proof -
  let ?owned = "active_builds_with_receipt_for_connection (queue st) cid"
  let ?s = "fold (\<lambda>(i, receipt). resolve_dead_build env i receipt) ?owned st"
  note res = resolve_all_dead[OF assms(1), of ?owned]
  have att: "attended C ?s" using attended_quiet res assms(3) by blast
  have "conn_of (queue ?s) i \<noteq> Some cid" for i
  proof
    assume c: "conn_of (queue ?s) i = Some cid"
    then have "conn_of (queue st) i = Some cid" using res by (auto simp: quiet_def dest!: spec[of _ i])
    then obtain ab where ab: "map_of (q_active (queue st)) i = Some ab" "ab_connection_id ab = cid"
      by (auto simp: conn_of_def)
    then have "(i, ab_receipt ab) \<in> set ?owned"
      using mem_inv_parts(3)[OF assms(2) ab(1)] map_of_SomeD[OF ab(1)]
      by (force simp: active_builds_with_receipt_for_connection_def)
    then show False using res c by fastforce
  qed
  moreover have "q_workers (queue ?s) = q_workers (queue st)" using res by (simp add: quiet_def)
  ultimately have "attended (C - {cid}) ?s"
    using att assms(4) by (auto simp: attended_def intro!: att_close)
  then show ?thesis by (simp add: handle_worker_dead_def Let_def attended_try_dispatch)
qed

lemma attended_worker_dead_open:
  assumes "attended C st" shows "attended C (handle_worker_dead env cid st)"
proof -
  have "attended C (fold (\<lambda>(i, receipt). resolve_dead_build env i receipt) xs st)" for xs
    by (rule fold_keeps) (auto intro: assms attended_quiet[OF quiet_resolve_dead])
  then show ?thesis by (simp add: handle_worker_dead_def Let_def attended_try_dispatch)
qed

section \<open>Messages keep builds attended\<close>

lemma quiet_idle_one: "quiet st (idle_reconcile_one env w c st)"
proof -
  obtain r st1 where g: "on_pool (get_build (e_value_from_str env) (rc_build_id c)) st = (r, st1)"
    by (meson surj_pair)
  have q: "quiet st st1" using quiet_frames(1)[of st "get_build (e_value_from_str env) (rc_build_id c)"] g by simp
  show ?thesis using g q quiet_trans[OF q quiet_cleanup(1)] quiet_trans[OF q quiet_rollback(1)]
    by (auto simp: idle_reconcile_one_def split: sum.splits option.splits IdleReconcileAction.splits)
qed

lemma attended_update_active:
  assumes "attended C st" "\<And>ab. ab_connection_id (g ab) = ab_connection_id ab \<or> ab_connection_id (g ab) \<in> C"
  shows "attended C (with_queue (update_active i g) st)"
proof (cases "map_of (q_active (queue st)) i")
  case None
  then have "conn_of (update_active i g (queue st)) = conn_of (queue st)"
    by (auto simp: conn_of_def fun_eq_iff)
  then show ?thesis using assms(1) by (simp add: attended_def)
next
  case (Some ab)
  then have c: "conn_of (update_active i g (queue st)) =
      (conn_of (queue st))(i := Some (ab_connection_id (g ab)))"
    by (auto simp: conn_of_def fun_eq_iff)
  show ?thesis
  proof (cases "ab_connection_id (g ab) \<in> C")
    case True
    have att: "att C (monitored st) (conn_of (queue st)) (map_of (q_workers (queue st)))"
      using assms(1) by (simp add: attended_def)
    have "att C (monitored st) ((conn_of (queue st))(i := Some (ab_connection_id (g ab))))
        (map_of (q_workers (queue st)))"
      by (rule att_assign[OF att True]) simp
    then show ?thesis using assms(1) by (simp add: attended_def c)
  next
    case False
    then have "conn_of (update_active i g (queue st)) = conn_of (queue st)"
      using c Some assms(2)[of ab] by (auto simp: conn_of_def fun_eq_iff)
    then show ?thesis using assms(1) by (simp add: attended_def)
  qed
qed

lemma attended_authorized:
  assumes "attended C st" "\<And>st'. attended C st' \<Longrightarrow> attended C (f st')"
  shows "attended C (authorized cid i a f st)"
proof (cases rule: authorized_cases[of cid i a f st])
  case rejected
  then show ?thesis using attended_quiet[OF quiet_core] assms(1) by blast
next
  case (owned ab)
  have "attended C (with_queue (update_active i (\<lambda>ab. ab\<lparr>ab_receipt := ReceivedByWorker\<rparr>)) st)"
    using assms(1) by (rule attended_update_active) simp
  then show ?thesis unfolding owned(3) by (intro assms(2) attended_quiet[OF quiet_frames(2)])
qed

lemma attended_reconnect:
  assumes "attended C st" "cid \<in> C" shows "attended C (reconnect_building env cid w i st)"
proof -
  obtain r st1 where g: "on_pool (get_build (e_value_from_str env) i) st = (r, st1)" by (meson surj_pair)
  have a: "attended C st1"
    using attended_quiet[OF quiet_frames(1)[of st "get_build (e_value_from_str env) i"] assms(1)] g by simp
  have u: "attended C (with_queue (update_active i (\<lambda>ab. ab\<lparr>ab_connection_id := cid\<rparr>)) st1)"
    "attended C (with_queue (update_active i (\<lambda>ab. ab\<lparr>ab_connection_id := cid,
        ab_receipt := ReceivedByWorker\<rparr>)) st1)"
    using a assms(2) by (auto intro!: attended_update_active)
  have "attended C (attach_connection_and_mark_received i cid st1)"
    using a attended_quiet[OF quiet_frames(2) u(2)]
    by (auto simp: attach_connection_and_mark_received_def split: option.splits)
  moreover have "attended C (snd (send_build_revoke i st1))"
    "attended C (send_reporter_directed_revoke cid i st1)"
    "attended C (send_reporter_directed_revoke cid i (send_unauthorized_action cid i ac re st1))" for ac re
    using a by (auto simp: send_reporter_directed_revoke_def send_unauthorized_action_def
        intro!: attended_quiet[OF quiet_sends(2)] attended_quiet[OF quiet_send_revoke])
  ultimately show ?thesis using g a u(1)
    by (auto simp: reconnect_building_def Let_def split: sum.splits option.splits BuildState.splits)
qed

lemma attended_status:
  assumes "attended C st" "cid \<in> C" shows "attended C (handle_worker_status env cid w rs b st)"
proof -
  have "attended C (fold (idle_reconcile_one env w) xs st)" for xs
    by (rule fold_keeps) (auto intro: assms attended_quiet[OF quiet_idle_one])
  then show ?thesis using assms
    by (auto simp: handle_worker_status_def Let_def attended_reconnect attended_try_dispatch
        split: WorkerReportedState.splits option.splits)
qed

lemma hm_wf_update: "hm_wf m \<Longrightarrow> hm_wf (AList.update k v m)" "hm_wf m \<Longrightarrow> hm_wf (AList.delete k m)"
  by (rule distinct_update, assumption) (rule distinct_delete, assumption)

lemma conn_of_workers [simp]:
  "conn_of (q\<lparr>q_workers := w\<rparr>) = conn_of q" "conn_of (set_worker_state cid ws q) = conn_of q"
  by (simp_all add: conn_of_def set_worker_state_def fun_eq_iff split: option.splits)

lemma set_worker_lookup:
  "map_of (q_workers (set_worker_state cid ws q)) =
     (if map_of (q_workers q) cid = None then map_of (q_workers q) else (map_of (q_workers q))(cid \<mapsto> ws))"
  "hm_wf (q_workers q) \<Longrightarrow> hm_wf (q_workers (set_worker_state cid ws q))"
  by (auto simp: set_worker_state_def update_conv' hm_wf_update split: option.splits)

lemma attended_set_worker:
  assumes "attended C st" "cid \<in> C" shows "attended C (with_queue (set_worker_state cid ws) st)"
  using assms att_worker[of C _ _ _ cid]
  by (simp add: attended_def set_worker_lookup)

lemma attended_message:
  assumes "attended C st" "cid \<in> C" shows "attended C (handle_worker_message env cid name w m st)"
proof (cases m)
  case (BuildAccepted i)
  then show ?thesis using assms
    by (auto simp: handle_build_accepted_def intro!: attended_authorized
        intro: attended_quiet[OF quiet_frames(2)] split: option.splits)
next
  case (BuildFinished i status err rep)
  then show ?thesis using assms
    by (auto simp: Let_def intro!: attended_authorized attended_quiet[OF quiet_frames(1)] attended_finished)
qed (use assms in \<open>auto simp: handle_build_started_def intro!: attended_authorized attended_rejected
    attended_status attended_set_worker intro: attended_quiet[OF quiet_frames(1)]
    attended_quiet[OF quiet_remove_watchers(2)]\<close>)

section \<open>Connections keep builds attended\<close>

lemma att_disconnect:
  "att C G A W \<Longrightarrow> att (C - {c}) (insert c G) A (W(c \<mapsto> Disconnected t w n a))"
  by (auto simp: att_def)

lemma attended_dead:
  assumes "agree env F st" "mem_inv {} st" "attended (insert cid C) st"
  shows "attended (C - {cid}) (handle_worker_dead env cid (with_queue (set_worker_state cid Dead) st))"
proof -
  let ?s = "with_queue (set_worker_state cid Dead) st"
  have "attended (insert cid C) ?s" using attended_set_worker[OF assms(3)] by simp
  moreover have "agree env F ?s" using assms(1) by simp
  moreover have "mem_inv {} ?s" using assms(2) by simp
  moreover have "\<not> attached ws" if "map_of (q_workers (queue ?s)) cid = Some ws" for ws
    using that by (auto simp: set_worker_lookup split: if_splits)
  ultimately have "attended (insert cid C - {cid}) (handle_worker_dead env cid ?s)"
    by (intro attended_worker_dead)
  then show ?thesis by simp
qed

lemma attended_cleanup_worker:
  assumes "agree env F st" "mem_inv {} st" "attended (insert cid C) st"
  shows "attended (C - {cid}) (cleanup_worker env cid name w stopping st)"
proof -
  let ?s = "st\<lparr>worker_senders := AList.delete cid (worker_senders st)\<rparr>"
  have inv: "mem_inv {} ?s" "agree env F ?s" "attended (insert cid C) ?s"
    using assms attended_quiet[OF quiet_sends(3)] by (simp_all add: mem_inv_core[OF core_frames(3)])
  note dead = attended_dead[OF inv(2,1,3)]
  show ?thesis
  proof (cases "stopping \<or> Option.bind (get_worker (queue ?s) cid) arch = None")
    case True
    then show ?thesis using dead by (auto simp: cleanup_worker_def Let_def)
  next
    case False
    then obtain a where a: "Option.bind (get_worker (queue ?s) cid) arch = Some a" by auto
    then have "map_of (q_workers (queue st)) cid \<noteq> None"
      by (cases "map_of (q_workers (queue st)) cid") (auto simp: get_worker_def)
    then show ?thesis
      using False a assms(3) att_disconnect[of "insert cid C" _ _ _ cid]
      by (auto simp: cleanup_worker_def Let_def start_grace_period_monitor_def attended_def
          set_worker_lookup monitored_spawn)
  qed
qed

lemma att_register:
  assumes "att C G A W"
  shows "att (insert c C) G (\<lambda>i. if A i = Some old then Some c else A i) ((W(old := None))(c \<mapsto> ws))"
    and "att (insert c C) G A (W(c \<mapsto> ws))"
  using assms unfolding att_def by (auto split: if_splits)

lemma conn_of_migrate:
  "conn_of (snd (migrate_active old new q)) i = (if conn_of q i = Some old then Some new else conn_of q i)"
  by (cases "map_of (q_active q) i") (auto simp: conn_of_def migrate_active_lookup)

lemma attended_register:
  assumes "attended C st" "register_connection cid w ws (queue st) = (r, q)"
  shows "attended (insert cid C) (st\<lparr>queue := q\<rparr>)"
proof (cases rule: register_connection_cases[of cid w ws "queue st"])
  case (old old_cid b ids)
  have c: "conn_of q = (\<lambda>i. if conn_of (queue st) i = Some old_cid then Some cid else conn_of (queue st) i)"
    using old assms(2) by (auto simp: conn_of_migrate fun_eq_iff)
  have w: "map_of (q_workers q) = ((map_of (q_workers (queue st)))(old_cid := None))(cid \<mapsto> ws)"
    "q_workers q = AList.update cid ws (AList.delete old_cid (q_workers (queue st)))"
    using old assms(2) by (auto simp: update_conv' delete_conv')
  have "att (insert cid C) (monitored st) (conn_of q) (map_of (q_workers q))"
    unfolding c w(1) using assms(1) by (intro att_register(1)) (simp add: attended_def)
  moreover have "hm_wf (q_workers q)"
    using assms(1) unfolding w(2) by (simp add: attended_def hm_wf_update)
  ultimately show ?thesis by (simp add: attended_def)
next
  case new
  then show ?thesis using assms att_register(2)[of C "monitored st"]
    by (auto simp: attended_def update_conv' hm_wf_update)
qed

lemma attended_handshake:
  assumes "agree env F st" "mem_inv {} st" "attended C st"
    and h: "handshake env cid w row hello sent st = (reply, entered, st')"
  shows "attended (if entered then insert cid C else C) st'"
proof (cases "validate_hello row hello")
  case (Inl m)
  then show ?thesis using assms(3) h by (simp add: handshake_def)
next
  case (Inr v)
  obtain a c ram ver where v: "v = (a, c, ram, ver)" by (cases v)
  let ?s1 = "snd (on_pool (update_last_seen w) st)"
  obtain old q where reg: "register_connection cid w (Connected w (w_name row) a c ram ver) (queue ?s1) = (old, q)"
    by (meson surj_pair)
  let ?s2 = "?s1\<lparr>queue := q\<rparr>"
  have inv2: "agree env F ?s2" "mem_inv {} ?s2"
    using agree_register[OF agree_last_seen[OF assms(1)] reg] mem_inv_register[OF _ reg] assms(2) by simp_all
  have "attended (insert cid C) ?s2"
    using attended_register[OF _ reg] attended_quiet[OF quiet_frames(1) assms(3)] by blast
  let ?s3 = "cleanup_superseded env old ?s2"
  let ?s4 = "?s3\<lparr>worker_senders := AList.update cid True (worker_senders ?s3)\<rparr>"
  have inv4: "agree env F ?s4" "mem_inv {} ?s4"
    using inv2 by (auto simp: cleanup_superseded_def Let_def mem_inv_core[OF core_frames(3)]
      mem_inv_core[OF superseded_core] intro!: agree_worker_dead mem_inv_worker_dead
      split: option.splits prod.splits)
  have att4: "attended (insert cid C) ?s4"
    using \<open>attended (insert cid C) ?s2\<close>
    by (auto simp: cleanup_superseded_def Let_def intro!: attended_quiet[OF quiet_sends(3)]
        attended_worker_dead_open attended_quiet[OF quiet_core[OF superseded_core]]
        split: option.splits prod.splits)
  have "attended C (cleanup_worker env cid (w_name row) w False ?s4)"
    by (rule attended_mono[OF attended_cleanup_worker[OF inv4 att4]]) auto
  then show ?thesis using Inr v reg h att4 attended_quiet[OF quiet_frames(3) att4]
    by (auto simp: handshake_def Let_def split: if_splits)
qed

lemma attended_closed:
  assumes "agree env F st" "mem_inv {} st" "attended C st"
  shows "attended (C - {cid}) (connection_closed env cid name w st)"
  unfolding connection_closed_def
  by (rule attended_cleanup_worker[OF assms(1,2)]) (rule attended_mono[OF assms(3)], auto)

section \<open>Timers and requests keep builds attended\<close>

lemma monitored_drop:
  "c \<in> monitored st \<Longrightarrow> c \<notin> monitored (st\<lparr>tasks := remove1 t (tasks st)\<rparr>) \<Longrightarrow> \<exists>d. t = GraceMonitor c d"
  unfolding monitored_def by clarsimp (metis in_set_remove1)

lemma att_monitors:
  "att C G A W \<Longrightarrow> (\<And>c. c \<in> G \<Longrightarrow> c \<notin> G' \<Longrightarrow> c \<in> D) \<Longrightarrow> att (C \<union> D) G' A W"
  "att C G A W \<Longrightarrow> (\<And>c ws. c \<in> G \<Longrightarrow> c \<notin> G' \<Longrightarrow> W c = Some ws \<Longrightarrow> \<not> is_disconnected ws) \<Longrightarrow> att C G' A W"
  unfolding att_def by blast+

lemma attended_drop_task:
  assumes "attended C st"
  shows "attended (C \<union> {c. \<exists>d. t = GraceMonitor c d}) (st\<lparr>tasks := remove1 t (tasks st)\<rparr>)"
    and "(\<And>c d ws. t = GraceMonitor c d \<Longrightarrow> get_worker (queue st) c = Some ws \<Longrightarrow> \<not> is_disconnected ws) \<Longrightarrow>
      attended C (st\<lparr>tasks := remove1 t (tasks st)\<rparr>)"
proof -
  let ?s = "st\<lparr>tasks := remove1 t (tasks st)\<rparr>"
  have att: "att C (monitored st) (conn_of (queue st)) (map_of (q_workers (queue st)))"
    and wf: "hm_wf (q_workers (queue st))" using assms by (simp_all add: attended_def)
  have "att (C \<union> {c. \<exists>d. t = GraceMonitor c d}) (monitored ?s) (conn_of (queue st)) (map_of (q_workers (queue st)))"
    using att by (rule att_monitors(1)) (drule (1) monitored_drop, simp)
  then show "attended (C \<union> {c. \<exists>d. t = GraceMonitor c d}) ?s" using wf by (simp add: attended_def)
  assume d: "\<And>c d ws. t = GraceMonitor c d \<Longrightarrow> get_worker (queue st) c = Some ws \<Longrightarrow> \<not> is_disconnected ws"
  have "att C (monitored ?s) (conn_of (queue st)) (map_of (q_workers (queue st)))"
    using att by (rule att_monitors(2)) (metis monitored_drop d get_worker_def)
  then show "attended C ?s" using wf by (simp add: attended_def)
qed

lemma attended_grace:
  assumes "agree env F st" "mem_inv {} st" "attended C st" "t = GraceMonitor cid d"
  shows "attended C (grace_period_expired env cid (st\<lparr>tasks := remove1 t (tasks st)\<rparr>))"
proof -
  let ?s = "st\<lparr>tasks := remove1 t (tasks st)\<rparr>"
  have inv: "agree env F ?s" "mem_inv {} ?s"
    using assms agree_cong[of ?s st] mem_inv_drop_task[OF assms(2), of t "{}"] by simp_all
  show ?thesis
  proof (cases "\<exists>ws. get_worker (queue st) cid = Some ws \<and> is_disconnected ws")
    case True
    then obtain tm wi n a where d: "get_worker (queue st) cid = Some (Disconnected tm wi n a)"
      by (auto elim!: is_disconnected.elims)
    have "attended (insert cid C) ?s" using attended_drop_task(1)[OF assms(3), of t] assms(4) by simp
    from attended_mono[OF attended_dead[OF inv this]] d show ?thesis
      by (auto simp: grace_period_expired_def)
  next
    case False
    then have "attended C ?s" using attended_drop_task(2)[OF assms(3), of t] assms(4) by auto
    then show ?thesis using False
      by (auto simp: grace_period_expired_def split: option.splits WorkerState.splits)
  qed
qed

lemma attended_run_task:
  assumes "agree env F st" "mem_inv {} st" "attended C st"
  shows "attended C (run_task env t (st\<lparr>tasks := remove1 t (tasks st)\<rparr>))"
proof (cases "\<exists>c d. t = GraceMonitor c d")
  case True
  then show ?thesis using attended_grace[OF assms] by auto
next
  case False
  let ?s = "st\<lparr>tasks := remove1 t (tasks st)\<rparr>"
  have a: "attended C ?s" using False by (intro attended_drop_task(2)[OF assms(3)]) auto
  have "quiet ?s (handle_revoke_timeout env i ?s)" for i
  proof -
    obtain r s1 where g: "on_pool (get_build (e_value_from_str env) i) ?s = (r, s1)" by (meson surj_pair)
    have q: "quiet ?s s1" using quiet_frames(1)[of ?s "get_build (e_value_from_str env) i"] g by simp
    show ?thesis using g q quiet_trans[OF q quiet_cleanup(1)]
      by (auto simp: handle_revoke_timeout_def split: sum.splits option.splits)
  qed
  then have "attended C (handle_revoke_timeout env i ?s)" for i using attended_quiet a by blast
  then show ?thesis using a False attended_quiet[OF quiet_rollback(1) a]
    by (cases t) (auto simp: ack_timer_fired_def attended_try_dispatch)
qed

lemma quiet_pool: "quiet st (st\<lparr>pool := p\<rparr>)" "quiet st (st\<lparr>pool := p, io_script := io\<rparr>)"
  by (simp_all add: quiet_def monitored_def)

lemma quiet_insert_build: "quiet st (snd (insert_build_internal env d u pr pt c ct st))"
proof (cases "e_descriptor_to_string env d")
  case (Inr dj)
  obtain r1 p1 where 1: "insert_build dj u (priority_str pr) pt c ct (pool st) = (r1, p1)"
    by (meson surj_pair)
  show ?thesis
  proof (cases r1)
    case (Inr i)
    obtain r2 p2 where 2: "insert_build_log_row i (''builds/'' @ show_int i @ ''.log'') p1 = (r2, p2)"
      by (meson surj_pair)
    have "quiet st (spawn tk (with_queue (enqueue b) (st\<lparr>pool := p2\<rparr>)))" for tk b
      by (rule quiet_trans[OF quiet_pool(1) quiet_trans[OF quiet_frames(6) quiet_frames(3)]])
    then show ?thesis using 1 2 Inr \<open>_ = Ok dj\<close> quiet_pool(1)[of st p2]
      by (cases r2) (auto simp: insert_build_internal_def on_pool_def Let_def pending_counts_def)
  qed (use 1 Inr quiet_pool(1)[of st p1] in \<open>auto simp: insert_build_internal_def on_pool_def\<close>)
qed (simp add: insert_build_internal_def)

lemma attended_submit:
  assumes "agree env F st" "attended C st" shows "attended C (snd (submit_build env user body st))"
  using submit_no_fault[OF agree_faults[OF assms(1)], of env user body] assms(2)
    attended_quiet[OF quiet_insert_build assms(2)] by auto

lemma attended_revoke_build:
  assumes "attended C st" shows "attended C (snd (revoke_build env user i st))"
proof -
  obtain r st1 where g: "on_pool (get_build (e_value_from_str env) i) st = (r, st1)" by (meson surj_pair)
  have q: "quiet st st1" using quiet_frames(1)[of st "get_build (e_value_from_str env) i"] g by simp
  obtain r2 st2 where s: "send_build_revoke i st1 = (r2, st2)" by (meson surj_pair)
  have q2: "quiet st st2" using quiet_trans[OF q] quiet_send_revoke[of st1 i] s by simp
  obtain r3 st3 where u: "on_pool (update_build_state i Revoked None)
      (with_queue (\<lambda>q. snd (remove_by_id q i)) st1) = (r3, st3)" by (meson surj_pair)
  have q3: "quiet st st3"
  proof -
    have "quiet (with_queue (\<lambda>q. snd (remove_by_id q i)) st1) st3"
      using quiet_frames(1)[of "with_queue (\<lambda>q. snd (remove_by_id q i)) st1" "update_build_state i Revoked None"] u
      by simp
    then show ?thesis using quiet_trans[OF q] quiet_trans[OF quiet_frames(8)] by blast
  qed
  have "quiet st (snd (revoke_build env user i st))"
    using q q2 q3 g s u
    by (auto simp: revoke_build_def Let_def split: sum.splits option.splits BuildState.splits)
  then show ?thesis using attended_quiet assms by blast
qed

lemma attended_sweep:
  assumes "attended C st" shows "attended C (periodic_sweep env st)"
proof -
  have "attended C st \<Longrightarrow> attended C (snd (sweep_loop env st))" for st
  proof (induction env st rule: sweep_loop.induct)
    case (1 env st)
    obtain r st' where t: "try_dispatch env st = (r, st')" by (meson surj_pair)
    have "attended C st'" using attended_try_dispatch[OF "1.prems", of env] t by simp
    then show ?case using t "1.IH"[OF t[symmetric]]
      by (subst sweep_loop.simps) (auto split: sum.splits)
  qed
  then show ?thesis using assms by (simp add: periodic_sweep_def)
qed

lemma attended_rehash:
  assumes "mem_inv {} st" "attended C st" "rehashed (queue st) q" shows "attended C (st\<lparr>queue := q\<rparr>)"
proof -
  obtain a w where q: "q = (queue st)\<lparr>q_active := a, q_workers := w\<rparr>"
    "mset a = mset (q_active (queue st))" "mset w = mset (q_workers (queue st))"
    using assms(3) by (auto simp: rehashed_def)
  have wf: "hm_wf (q_active (queue st))" "hm_wf (q_workers (queue st))"
    using assms(1,2) by (simp_all add: mem_inv_def queue_inv_def attended_def)
  have "conn_of q = conn_of (queue st)" "map_of (q_workers q) = map_of (q_workers (queue st))" "hm_wf (q_workers q)"
    using map_of_rehash[OF wf(1) q(2)] map_of_rehash[OF wf(2) q(3)] q(1) by (auto simp: conn_of_def fun_eq_iff)
  then show ?thesis using assms(2) by (simp add: attended_def)
qed

section \<open>Every step keeps builds attended\<close>

definition conns_ok :: "env \<Rightarrow> server \<Rightarrow> bool" where
  "conns_ok env s \<longleftrightarrow> hm_wf (srv_open s) \<and> open_ids s \<subseteq> e_connection_id env ` {..<srv_conns s}"

lemma open_after_close:
  assumes "hm_wf (srv_open s)" "(cid, name, w) \<in> set (srv_open s)"
  shows "fst ` set (remove1 (cid, name, w) (srv_open s)) = open_ids s - {cid}"
proof -
  have d: "distinct (srv_open s)" "inj_on fst (set (srv_open s))" using assms(1) by (simp_all add: distinct_map)
  have "fst ` (set (srv_open s) - {(cid, name, w)}) = fst ` set (srv_open s) - fst ` {(cid, name, w)}"
    using assms(2) by (intro inj_on_image_set_diff[OF d(2)]) auto
  then show ?thesis using d(1) by (simp add: set_remove1_eq open_ids_def)
qed

lemma conns_ok_step:
  "server_step env s s' \<Longrightarrow> inj (e_connection_id env) \<Longrightarrow> conns_ok env s \<Longrightarrow> conns_ok env s'"
proof (induction rule: server_step.induct)
  case (connect s w row cid events sent reply entered st)
  then have "cid \<notin> open_ids s" by (auto simp: conns_ok_def dest: injD)
  then show ?case using connect(2,5)
    by (simp add: conns_ok_def open_ids_def lessThan_Suc) blast
next
  case (close cid name w s)
  then show ?case using open_after_close[of s cid name w] distinct_remove1[of "map fst (srv_open s)" cid]
    by (auto simp: conns_ok_def open_ids_def distinct_map set_remove1_eq intro: inj_on_diff)
qed (auto simp: conns_ok_def open_ids_def)

lemma attended_receive:
  "receive_event env cid name w ev st = (b, st') \<Longrightarrow> cid \<in> C \<Longrightarrow> attended C st \<Longrightarrow> attended C st'"
  by (cases ev) (auto simp: receive_event_def attended_message split: sum.splits)

lemma attended_step:
  "server_step env s s' \<Longrightarrow> agree env F (srv_app s) \<Longrightarrow> mem_inv {} (srv_app s) \<Longrightarrow> conns_ok env s \<Longrightarrow>
     attended (open_ids s) (srv_app s) \<Longrightarrow> attended (open_ids s') (srv_app s')"
proof (induction rule: server_step.induct)
  case (connect s w row cid events sent reply entered st)
  then show ?case using attended_handshake[OF connect(4,5,7,3)] by (auto simp: open_ids_def)
next
  case (receive cid name w s ev st)
  then have "cid \<in> open_ids s" by (force simp: open_ids_def)
  then show ?case using attended_receive[OF receive(2)] receive(6) by (simp add: open_ids_def)
next
  case (close cid name w s)
  then show ?case using attended_closed[OF close(2,3,5), of cid name w] open_after_close[OF _ close(1)] close(4)
    by (simp add: open_ids_def conns_ok_def)
next
  case (environment s p io)
  then show ?case using attended_quiet[OF quiet_pool(2)] by (simp add: open_ids_def)
next
  case (hang_up s cid)
  then show ?case using attended_quiet[OF quiet_sends(3)] by (simp add: open_ids_def)
qed (simp_all add: open_ids_def attended_submit attended_revoke_build reads_no_fault agree_faults
    attended_run_task attended_sweep attended_rehash)

end
