(* ===== verification/Cbs_Dispatch_Spec.thy ===== *)
theory Cbs_Dispatch_Spec
  imports Cbs_Liveness
begin

text \<open>
  What the dispatch engine and the connection handler do, case by case: a delivered
  dispatch, a rolled-back one, messages from connections that do not own the build, and
  the builds of a worker that died.
\<close>

section \<open>Dispatch\<close>

lemma update_effect:
  assumes "p_faults p = []"
  shows "update_build_row i f p = (Ok (build_row p i \<noteq> None), update_builds i (f p) p)"
    "build_row (update_builds i g p) = (build_row p)(i := map_option g (build_row p i))"
    "p_now (update_builds i g p) = p_now p" "p_faults (update_builds i g p) = p_faults p"
  using assms by (auto simp: update_no_fault builds.row_upd fun_eq_iff update_builds_def build_row_def
      map_of_update_row)

lemma try_dispatch_effect:
  assumes "next_pending (queue st) = (Some b, q)"
    "find_worker q (tgt_arch (d_build (qb_descriptor b))) = Some (cid, w)" "p_faults (pool st) = []"
    "d_components (qb_descriptor b) \<noteq> []"
    "pack_components env (cfg_components_dir (config st))
      (map comp_name (d_components (qb_descriptor b))) = Ok (tar, sha)"
    "map_of (worker_senders st) cid = Some True"
  shows "try_dispatch env st = (Ok (), st\<lparr>
    queue := q\<lparr>q_active := AList.update (qb_build_id b) \<lparr>ab_build_id = qb_build_id b, ab_connection_id = cid,
      ab_dispatched_at = now st, ab_trace_id = e_uuid env (uuids st), ab_descriptor = qb_descriptor b,
      ab_priority = qb_priority b, ab_ack_cancel = next_token st, ab_receipt = AwaitingReceipt\<rparr> (q_active q)\<rparr>,
    uuids := Suc (uuids st),
    pool := update_builds (qb_build_id b) (\<lambda>r. r\<lparr>b_state := Dispatched,
      b_trace_id := Some (e_uuid env (uuids st)), b_worker_id := Some w\<rparr>) (pool st),
    log_watchers := AList.update (qb_build_id b) 0 (log_watchers st), next_token := Suc (next_token st),
    outbox := outbox st @ [(cid, TextFrame (BuildNew (qb_build_id b) (e_uuid env (uuids st)) (qb_priority b)
      (qb_descriptor b) sha)), (cid, BinaryFrame tar)],
    tasks := AckTimer (qb_build_id b) (next_token st)
      (now st + dispatch_ack_timeout_secs (cfg_timeouts (config st))) # tasks st\<rparr>)"
  using assms update_effect[OF assms(3)]
  by (simp add: try_dispatch_def try_dispatch_locked_def Let_def new_v4_def new_token_def on_pool_def
      pack_result_def send_and_recover_def send_pair_def tx_send_def spawn_ack_timer_def spawn_def
      set_build_dispatched_def with_queue_def map_of_update_apply now_def)

text \<open>
  C4. A dispatch that meets no failure. When the head of the lanes has an idle worker of its
  architecture, its components pack and the worker's channel is open, \<open>try_dispatch\<close>
  succeeds: the worker is sent the assignment followed by the archive, the row becomes
  \<open>dispatched\<close> with the trace id and the worker and no other row changes, the build moves
  from the lanes to the active table awaiting its receipt, and an acknowledgement timer is
  started with the token of this dispatch.
\<close>

theorem try_dispatch_delivers:
  assumes head: "next_pending (queue st) = (Some b, q)"
    and worker: "find_worker q (tgt_arch (d_build (qb_descriptor b))) = Some (cid, w)"
    and db: "p_faults (pool st) = []"
    and comps: "d_components (qb_descriptor b) \<noteq> []"
    and pack: "pack_components env (cfg_components_dir (config st))
        (map comp_name (d_components (qb_descriptor b))) = Ok (tar, sha)"
    and sender: "map_of (worker_senders st) cid = Some True"
  shows "let i = qb_build_id b; trace = e_uuid env (uuids st); (r, st') = try_dispatch env st in
    r = Ok () \<and>
    outbox st' = outbox st @ [(cid, TextFrame (BuildNew i trace (qb_priority b) (qb_descriptor b) sha)),
      (cid, BinaryFrame tar)] \<and>
    tasks st' = AckTimer i (next_token st)
      (now st + dispatch_ack_timeout_secs (cfg_timeouts (config st))) # tasks st \<and>
    pending (queue st') = pending q \<and>
    map_of (q_active (queue st')) = (map_of (q_active (queue st)))(i \<mapsto>
      \<lparr>ab_build_id = i, ab_connection_id = cid, ab_dispatched_at = now st, ab_trace_id = trace,
       ab_descriptor = qb_descriptor b, ab_priority = qb_priority b, ab_ack_cancel = next_token st,
       ab_receipt = AwaitingReceipt\<rparr>) \<and>
    build_row (pool st') = (build_row (pool st))(i := map_option (\<lambda>r. r\<lparr>b_state := Dispatched,
      b_trace_id := Some trace, b_worker_id := Some w\<rparr>) (build_row (pool st) i))"
  using try_dispatch_effect[OF assms] next_pending_Some(3)[OF head] update_effect[OF db]
  by (simp add: update_conv' Let_def)


lemma sample_idle_facts:
  "next_pending (queue sample_idle) = (Some sample_queued, (queue sample_idle)\<lparr>q_normal := []\<rparr>)"
  "find_worker ((queue sample_idle)\<lparr>q_normal := []\<rparr>) X86_64 = Some (''c'', ''w1'')"
  "p_faults (pool sample_idle) = []"
  "pack_components sample_env (cfg_components_dir (config sample_idle)) [''ceph''] =
     Ok (''ceph'', hex_encode ''ceph'')"
  "map_of (worker_senders sample_idle) ''c'' = Some True"
  "lanes_ok (queue sample_idle)"
  by (simp_all add: sample_defs next_pending_def find_worker_def pack_components_def lanes_ok_def)

theorem try_dispatch_delivers_witness:
  "fst (try_dispatch sample_env sample_idle) = Ok () \<and>
   map_option b_state (build_row (pool (snd (try_dispatch sample_env sample_idle))) 1) = Some Dispatched"
proof -
  have d: "tgt_arch (d_build (qb_descriptor sample_queued)) = X86_64"
    "map comp_name (d_components (qb_descriptor sample_queued)) = [''ceph'']"
    "d_components (qb_descriptor sample_queued) \<noteq> []" "qb_build_id sample_queued = 1"
    "map_option b_state (build_row (pool sample_idle) 1) = Some Queued"
    by (simp_all add: sample_defs build_row_def)
  then have f: "find_worker ((queue sample_idle)\<lparr>q_normal := []\<rparr>)
      (tgt_arch (d_build (qb_descriptor sample_queued))) = Some (''c'', ''w1'')"
    using sample_idle_facts by simp
  have "pack_components sample_env (cfg_components_dir (config sample_idle))
      (map comp_name (d_components (qb_descriptor sample_queued))) = Ok (''ceph'', hex_encode ''ceph'')"
    using sample_idle_facts d by simp
  from try_dispatch_delivers[OF sample_idle_facts(1) f sample_idle_facts(3) d(3) this sample_idle_facts(5)]
  show ?thesis using d by (auto simp: Let_def split: prod.splits)
qed

text \<open>
  C7. Dispatch chooses well. Under every failure schedule, when the locked part of
  \<open>try_dispatch\<close> assigns a build, the build is the head of the lanes, so no pending build
  has a better priority; the chosen connection belongs to a worker that is connected, has
  the architecture of the build and owns no other active build.
\<close>

theorem dispatch_selects_idle_worker:
  assumes "try_dispatch_locked env st = (Ok info, st')" "lanes_ok (queue st)"
  shows "\<exists>b ws. pending (queue st) = b # pending (queue st') \<and>
    (\<forall>c\<in>set (pending (queue st)). qb_priority b \<le> qb_priority c) \<and>
    di_build_id info = qb_build_id b \<and> di_descriptor info = qb_descriptor b \<and>
    (di_connection_id info, ws) \<in> set (q_workers (queue st)) \<and> is_dispatch_eligible ws \<and>
    arch ws = Some (tgt_arch (d_build (qb_descriptor b))) \<and>
    (\<forall>ab\<in>set (hm_values (q_active (queue st))). ab_connection_id ab \<noteq> di_connection_id info)"
proof (cases rule: try_dispatch_locked_cases[where st = st and env = env])
  case (assigned b q cid w r p ab)
  note pop = next_pending_Some[OF assigned(1)]
  obtain ws where ws: "(cid, ws) \<in> set (q_workers q)" "is_dispatch_eligible ws"
    "arch ws = Some (tgt_arch (d_build (qb_descriptor b)))"
    "\<forall>ab\<in>set (hm_values (q_active q)). ab_connection_id ab \<noteq> cid"
    using find_worker_Some[OF assigned(2)] by metis
  have "\<forall>c\<in>set (pending (queue st)). qb_priority b \<le> qb_priority c"
    using lanes.pop_minimal(2)[OF assms(2), of b] assigned(1) by simp
  then show ?thesis using assms(1) assigned(5) pop ws by (intro exI[of _ b] exI[of _ ws]) auto
qed (use assms(1) in auto)

theorem dispatch_selects_idle_worker_witness:
  "\<exists>info st' b ws. try_dispatch_locked sample_env sample_idle = (Ok info, st') \<and>
     pending (queue sample_idle) = b # pending (queue st') \<and>
     (di_connection_id info, ws) \<in> set (q_workers (queue sample_idle)) \<and> is_dispatch_eligible ws \<and>
     arch ws = Some X86_64"
proof -
  have d: "find_worker ((queue sample_idle)\<lparr>q_normal := []\<rparr>)
      (tgt_arch (d_build (qb_descriptor sample_queued))) = Some (''c'', ''w1'')"
    "tgt_arch (d_build (qb_descriptor sample_queued)) = X86_64"
    "pending (queue sample_idle) = [sample_queued]"
    using sample_idle_facts by (simp_all add: sample_queued_def sample_descriptor_def sample_idle_def
        queue_new_def pending_def)
  obtain info st' where t: "try_dispatch_locked sample_env sample_idle = (Ok info, st')"
    using sample_idle_facts d(1) update_effect[OF sample_idle_facts(3)]
    by (simp add: try_dispatch_locked_def Let_def new_v4_def new_token_def on_pool_def
        set_build_dispatched_def with_queue_def)
  from dispatch_selects_idle_worker[OF t sample_idle_facts(6)] t d show ?thesis by auto
qed

section \<open>Rolling back\<close>

lemma pending_front_split:
  "lanes_ok q \<Longrightarrow> pending (enqueue_front b q) =
     filter (\<lambda>c. qb_priority c < qb_priority b) (pending q) @ b #
     filter (\<lambda>c. \<not> qb_priority c < qb_priority b) (pending q)"
  by (cases "qb_priority b") (auto simp: pending_def enqueue_front_def lanes_ok_def priority_order
      filter_id_conv filter_empty_conv)

text \<open>
  Rolling an active build back. \<open>rollback_active_to_queued\<close> sets the row to \<open>queued\<close> and
  clears the columns the dispatch wrote, whatever state the row was in; it removes the
  build from the active table, cancels its acknowledgement timer, and puts the build in
  front of every pending build of its priority.
\<close>

theorem rollback_resets_dispatch:
  assumes "map_of (q_active (queue st)) i = Some ab" "p_faults (pool st) = []" "lanes_ok (queue st)"
  shows "let st' = snd (rollback_active_to_queued i st);
      b = \<lparr>qb_build_id = i, qb_priority = ab_priority ab, qb_descriptor = ab_descriptor ab,
        qb_user_email = [], qb_queued_at = now st\<rparr> in
    build_row (pool st') = (build_row (pool st))(i := map_option (\<lambda>r. r\<lparr>b_state := Queued, b_worker_id := None,
      b_trace_id := None, b_error := None, b_started_at := None, b_finished_at := None,
      b_build_report := None\<rparr>) (build_row (pool st) i)) \<and>
    map_of (q_active (queue st')) = (map_of (q_active (queue st)))(i := None) \<and>
    ab_ack_cancel ab \<in> set (cancelled st') \<and>
    pending (queue st') = filter (\<lambda>c. qb_priority c < ab_priority ab) (pending (queue st)) @ b #
      filter (\<lambda>c. \<not> qb_priority c < ab_priority ab) (pending (queue st))"
proof -
  have "lanes_ok (remove_active i (queue st))" "pending (remove_active i (queue st)) = pending (queue st)"
    using assms(3) by (simp_all add: remove_active_def lanes_ok_def pending_def)
  then show ?thesis using assms update_effect[OF assms(2)]
    by (simp add: rollback_active_to_queued_def Let_def rollback_dispatch_to_queued_def on_pool_def
        remove_watcher_def pending_front_split frame_simps fun_eq_iff cancel_def with_queue_def now_def)
qed

lemma sample_busy_facts:
  "map_of (q_active (queue (sample_busy s))) 1 = Some sample_active"
  "p_faults (pool (sample_busy s)) = []" "lanes_ok (queue (sample_busy s))"
  "build_row (pool (sample_busy s)) 1 = Some (sample_row s)" "build_state (pool (sample_busy s)) 1 = Some s"
  "pending (queue (sample_busy s)) = []" "cancelled (sample_busy s) = []"
  "map_of (worker_senders (sample_busy s)) ''d'' = None" "ab_connection_id sample_active = ''c''"
  "ab_receipt sample_active = AwaitingReceipt" "ab_ack_cancel sample_active = 0"
  by (simp_all add: sample_defs lanes_ok_def build_row_def build_state_def pending_def)

theorem rollback_resets_dispatch_witness:
  "map_option b_state (build_row (pool (snd (rollback_active_to_queued 1 (sample_busy Started)))) 1) = Some Queued \<and>
   map_option b_worker_id (build_row (pool (snd (rollback_active_to_queued 1 (sample_busy Started)))) 1) = Some None"
  using rollback_resets_dispatch[OF sample_busy_facts(1-3), of Started] sample_busy_facts(4)[of Started]
  by (simp add: Let_def)

section \<open>Ownership of builds\<close>

text \<open>The build and the action of a life-cycle message.\<close>

fun lifecycle :: "WorkerMessage \<Rightarrow> (build_id \<times> WorkerBuildAction) option" where
  "lifecycle (BuildAccepted i) = Some (i, ActBuildAccepted)"
| "lifecycle (BuildStarted i) = Some (i, ActBuildStarted)"
| "lifecycle (BuildOutput i _ _) = Some (i, ActBuildOutput)"
| "lifecycle (BuildFinished i _ _ _) = Some (i, ActBuildFinished)"
| "lifecycle (BuildRejected i _) = Some (i, ActBuildRejected)"
| "lifecycle _ = None"

lemma authorized_rejects:
  assumes "active_build_for_connection_mut (queue st) i cid = None"
  shows "authorized cid i a f st = st\<lparr>outbox := outbox st @ (if map_of (worker_senders st) cid = Some True
    then (cid, TextFrame (UnauthorizedBuildAction i a NotAssigned)) #
      (if a \<in> {ActBuildStarted, ActBuildOutput} then [(cid, TextFrame (BuildRevoke i (Some UnauthorizedAction)))]
       else []) else [])\<rparr>"
  using assms
  by (auto simp: authorized_def authorize_lifecycle_message_def Let_def send_unauthorized_action_def
      send_reporter_directed_revoke_def send_text_to_connection_def tx_send_def split: option.splits bool.splits)

text \<open>
  C9. A connection that does not own a build cannot change it. A life-cycle message about a
  build that is not active on the sending connection has no effect but its answer: the
  sender is told it is not assigned, and, when the message shows that it is running the
  build, it is told to stop.
\<close>

theorem stranger_cannot_touch_build:
  assumes "lifecycle m = Some (i, a)" "active_build_for_connection_mut (queue st) i cid = None"
  shows "handle_worker_message env cid name w m st = st\<lparr>outbox := outbox st @
    (if map_of (worker_senders st) cid = Some True
     then (cid, TextFrame (UnauthorizedBuildAction i a NotAssigned)) #
       (if a \<in> {ActBuildStarted, ActBuildOutput} then [(cid, TextFrame (BuildRevoke i (Some UnauthorizedAction)))]
        else []) else [])\<rparr>"
  using assms authorized_rejects[OF assms(2)] by (cases m) simp_all

theorem stranger_cannot_touch_build_witness:
  "pool (handle_worker_message sample_env ''d'' ''other'' ''w2'' (BuildFinished 1 FinSuccess None None)
     (sample_busy Started)) = pool (sample_busy Started)"
proof -
  have "active_build_for_connection_mut (queue (sample_busy Started)) 1 ''d'' = None"
    by (simp add: active_build_for_connection_mut_def sample_busy_facts)
  from stranger_cannot_touch_build[OF _ this, of "BuildFinished 1 FinSuccess None None" ActBuildFinished]
  show ?thesis by simp
qed

section \<open>Workers that died\<close>

text \<open>What becomes of a build whose worker died.\<close>

fun dead_state :: "BuildState \<Rightarrow> ActiveAssignmentReceipt \<Rightarrow> BuildState" where
  "dead_state Dispatched AwaitingReceipt = Queued"
| "dead_state Dispatched ReceivedByWorker = Failure"
| "dead_state Started _ = Failure"
| "dead_state Revoking _ = Revoked"
| "dead_state s _ = s"

lemma finished_effect:
  assumes "p_faults p = []"
  shows "build_state (snd (set_build_finished i s e r p)) = set_state (build_state p) i s"
    "build_state (snd (set_build_log_finished i p)) = build_state p"
  using stmt_states(4)[OF assms] log_updates_builds(4)[of i p]
  by (simp_all add: build_state_def build_row_def fun_eq_iff)

text \<open>
  C8. The builds of a dead worker. \<open>resolve_dead_build\<close> re-queues a build only if it was
  dispatched and its worker never proved to have received it; a received or started build
  fails and a revoking one becomes revoked, so a build is never handed out twice because
  of a death. In each case the build leaves the active table, the other builds keep their
  state, and exactly a re-queued build becomes pending.
\<close>

theorem dead_worker_build_resolved:
  assumes "p_faults (pool st) = []" "build_state (pool st) i = Some s" "map_of (q_active (queue st)) i = Some ab"
  shows "let st' = resolve_dead_build env i (ab_receipt ab) st in
    build_state (pool st') = (build_state (pool st))(i \<mapsto> dead_state s (ab_receipt ab)) \<and>
    map_of (q_active (queue st')) = (map_of (q_active (queue st)))(i := None) \<and>
    set (pending_ids (queue st')) = set (pending_ids (queue st)) \<union>
      (if s = Dispatched \<and> ab_receipt ab = AwaitingReceipt then {i} else {})"
proof -
  obtain ob p' where g: "get_build (e_value_from_str env) i (pool st) = (Ok ob, p')"
    "p' = pool st" "map_option br_state ob = build_state (pool st) i"
    using get_build_no_fault[OF assms(1)] by (metis surj_pair)
  then obtain b where b: "ob = Some b" "br_state b = s" using assms(2) by auto
  have g': "on_pool (get_build (e_value_from_str env) i) st = (Ok (Some b), st)"
    using g b by (simp add: on_pool_def)
  have S: "set_state (build_state (pool st)) i t = (build_state (pool st))(i \<mapsto> t)" for t
    using assms(2) by (simp add: set_state_def)
  have roll: "build_state (snd (rollback_dispatch_to_queued i (pool st))) = (build_state (pool st))(i \<mapsto> Queued)"
    using stmt_states(1)[OF assms(1)] S by simp
  have fin: "build_state (snd (set_build_log_finished i (snd (set_build_finished i t e r (pool st))))) =
      (build_state (pool st))(i \<mapsto> t)" for t e r
    using finished_effect[of "snd (set_build_finished i t e r (pool st))" i] finished_effect(1)[OF assms(1)]
      stmt_faults(4)[OF assms(1)] S by simp
  have act: "map_of (q_active (remove_active i (queue st))) = (map_of (q_active (queue st)))(i := None)"
    by (simp add: remove_active_def delete_conv')
  show ?thesis
    using g' b assms(3) roll fin act assms(2)
    by (cases s; cases "ab_receipt ab")
      (simp_all add: resolve_dead_build_def Let_def rollback_active_to_queued_def
        cleanup_terminal_state_def pending_ids_enqueue frame_simps fun_upd_idem)
qed

theorem dead_worker_build_resolved_witness:
  "build_state (pool (resolve_dead_build sample_env 1 (ab_receipt sample_active) (sample_busy Dispatched))) 1 =
     Some Queued \<and>
   build_state (pool (resolve_dead_build sample_env 1 (ab_receipt sample_active) (sample_busy Started))) 1 =
     Some Failure"
  using dead_worker_build_resolved[OF sample_busy_facts(2,5,1), of sample_env Dispatched]
    dead_worker_build_resolved[OF sample_busy_facts(2,5,1), of sample_env Started]
  by (simp add: Let_def sample_busy_facts)

section \<open>Revocation\<close>

text \<open>
  C11. A revocation completes. Revoking an active build marks its row \<open>revoking\<close>, tells the
  connection that owns it to stop if its channel is open, and starts a timer. When the
  timer fires and the worker has not answered, the build is \<open>revoked\<close> and inactive; no
  other build changes state.
\<close>

theorem revoke_completes:
  assumes "p_faults (pool st) = []" "build_row (pool st) i \<noteq> None" "map_of (q_active (queue st)) i = Some ab"
  shows "let (r, st1) = send_build_revoke i st; st2 = handle_revoke_timeout env i st1 in
    r = Ok () \<and> build_state (pool st1) = (build_state (pool st))(i \<mapsto> Revoking) \<and>
    (map_of (worker_senders st) (ab_connection_id ab) = Some True \<longrightarrow>
       outbox st1 = outbox st @ [(ab_connection_id ab, TextFrame (BuildRevoke i (Some Admin)))]) \<and>
    RevokeTimer i (now st + revoke_ack_timeout_secs (cfg_timeouts (config st))) \<in> set (tasks st1) \<and>
    build_state (pool st2) = (build_state (pool st))(i \<mapsto> Revoked) \<and>
    map_of (q_active (queue st2)) = (map_of (q_active (queue st)))(i := None)"
proof -
  have ne: "build_state (pool st) i \<noteq> None" using assms(2) by (simp add: build_state_def)
  obtain p where p: "set_build_revoking i (pool st) = (Ok True, p)" "p_now p = p_now (pool st)" "p_faults p = []"
    using assms(1,2) update_effect[OF assms(1)] by (simp add: set_build_revoking_def)
  have S: "build_state p = (build_state (pool st))(i \<mapsto> Revoking)"
    using stmt_states(5)[OF assms(1), of i] ne p(1) by (auto simp: set_state_def)
  let ?st1 = "snd (send_build_revoke i st)"
  have s1: "fst (send_build_revoke i st) = Ok ()" "pool ?st1 = p" "queue ?st1 = queue st"
    "map_of (worker_senders st) (ab_connection_id ab) = Some True \<longrightarrow>
       outbox ?st1 = outbox st @ [(ab_connection_id ab, TextFrame (BuildRevoke i (Some Admin)))]"
    "RevokeTimer i (now st + revoke_ack_timeout_secs (cfg_timeouts (config st))) \<in> set (tasks ?st1)"
    using assms(3) p
    by (simp_all add: send_build_revoke_def on_pool_def Let_def tx_send_def spawn_def now_def
        split: option.splits bool.splits)
  obtain ob where g: "get_build (e_value_from_str env) i p = (Ok ob, p)" "map_option br_state ob = Some Revoking"
    using get_build_no_fault[OF p(3)] S by (metis fun_upd_same surj_pair)
  have fin: "build_state (snd (set_build_log_finished i (snd (set_build_finished i Revoked e r p)))) =
      (build_state (pool st))(i \<mapsto> Revoked)" for e r
    using finished_effect[of "snd (set_build_finished i Revoked e r p)" i] finished_effect(1)[OF p(3)]
      stmt_faults(4)[OF p(3)] S by (simp add: set_state_def)
  obtain st1 where st1: "send_build_revoke i st = (Ok (), st1)" using s1(1) by (metis prod.collapse)
  have g1: "on_pool (get_build (e_value_from_str env) i) st1 = (Ok ob, st1)"
    using g(1) s1(2) st1 by (auto simp: on_pool_def)
  have "handle_revoke_timeout env i st1 = cleanup_terminal_state i TermRevoked ''revoke ack timeout'' st1"
    using g(2) g1 by (auto simp: handle_revoke_timeout_def)
  then show ?thesis using s1 st1 fin S
    by (simp add: cleanup_terminal_state_def Let_def remove_active_def delete_conv')
qed

theorem revoke_completes_witness:
  "build_state (pool (handle_revoke_timeout sample_env 1 (snd (send_build_revoke 1 (sample_busy Started))))) 1 =
     Some Revoked"
  using revoke_completes[OF sample_busy_facts(2) _ sample_busy_facts(1), of Started sample_env]
  by (auto simp: Let_def sample_busy_facts split: prod.splits)

section \<open>Where the code falls short\<close>

text \<open>
  C15. A failed statement loses a build. When the \<open>UPDATE\<close> that marks the head of the lanes
  \<open>dispatched\<close> fails, \<open>try_dispatch\<close> reports the error and returns without putting the
  build back: its row is still \<open>queued\<close>, but it is neither pending nor active, so nothing
  dispatches it until the server restarts.
\<close>

theorem dispatch_database_error_loses_build:
  assumes "p_faults (pool st) = Some e # fs" "next_pending (queue st) = (Some b, q)"
    "find_worker q (tgt_arch (d_build (qb_descriptor b))) = Some (cid, w)" "mem_inv {} st"
    "build_state (pool st) (qb_build_id b) = Some Queued"
  shows "let (r, st') = try_dispatch env st in r = Err (Database (SqlxError e)) \<and>
    build_state (pool st') (qb_build_id b) = Some Queued \<and>
    qb_build_id b \<notin> set (pending_ids (queue st')) \<and> map_of (q_active (queue st')) (qb_build_id b) = None"
proof -
  have q: "queue_inv (queue st) (build_ids (pool st))" using assms(4) by (simp add: mem_inv_def)
  have "build_state ((pool st)\<lparr>p_faults := fs\<rparr>) (qb_build_id b) = Some Queued"
    using assms(5) by (simp add: build_state_def build_row_def)
  then show ?thesis
    using assms(1-3) queue_inv_pop(2,3)[OF q assms(2)]
    by (simp add: try_dispatch_def try_dispatch_locked_def Let_def new_v4_def on_pool_def
        set_build_dispatched_def update_build_row_def exec_def)
qed

lemma sample_idle_inv: "mem_inv {} (sample_idle\<lparr>pool := (pool sample_idle)\<lparr>p_faults := fs\<rparr>\<rparr>)"
  by (simp add: mem_inv_def queue_inv_def rows_inv_def build_ids_def sample_defs lanes_ok_def pending_ids_def
      pending_def tinv_def winv_def tok_def awaiting_def ack_timers_def)

theorem dispatch_database_error_loses_build_witness:
  "fst (try_dispatch sample_env (sample_idle\<lparr>pool := (pool sample_idle)\<lparr>p_faults := [Some ''locked'']\<rparr>\<rparr>)) =
     Err (Database (SqlxError ''locked''))"
proof -
  let ?s = "sample_idle\<lparr>pool := (pool sample_idle)\<lparr>p_faults := [Some ''locked'']\<rparr>\<rparr>"
  have "p_faults (pool ?s) = Some ''locked'' # []" by simp
  moreover have n: "next_pending (queue ?s) = (Some sample_queued, (queue sample_idle)\<lparr>q_normal := []\<rparr>)"
    using sample_idle_facts by simp
  moreover have "find_worker ((queue sample_idle)\<lparr>q_normal := []\<rparr>)
      (tgt_arch (d_build (qb_descriptor sample_queued))) = Some (''c'', ''w1'')"
    using sample_idle_facts by (simp add: sample_queued_def sample_descriptor_def)
  moreover have "build_state (pool ?s) (qb_build_id sample_queued) = Some Queued"
    by (simp add: sample_defs build_state_def build_row_def)
  ultimately show ?thesis
    using dispatch_database_error_loses_build[OF _ _ _ sample_idle_inv, of "[Some ''locked'']" "''locked''" "[]"
        sample_queued "(queue sample_idle)\<lparr>q_normal := []\<rparr>" "''c''" "''w1''" sample_env]
    by (auto simp: Let_def split: prod.splits)
qed

text \<open>
  C16. A revocation can be lost. If the acknowledgement timer of an assignment fires after a
  user revoked the build, the rollback does not look at the row: the build goes from
  \<open>revoking\<close> back to \<open>queued\<close> and is pending again, although the user was told it is being
  revoked; the revoke timer then finds it in another state and does nothing.
\<close>

theorem ack_timeout_undoes_revoke:
  assumes "p_faults (pool st) = []" "build_state (pool st) i = Some Revoking"
    "map_of (q_active (queue st)) i = Some ab" "ab_ack_cancel ab \<notin> set (cancelled st)"
  shows "let st' = ack_timer_fired i (ab_ack_cancel ab) st in
    build_state (pool st') i = Some Queued \<and> i \<in> set (pending_ids (queue st')) \<and>
    handle_revoke_timeout env i st' = st'"
proof -
  let ?p = "snd (rollback_dispatch_to_queued i (pool st))"
  let ?s = "snd (rollback_active_to_queued i st)"
  have f: "p_faults ?p = []" using stmt_faults(1)[OF assms(1)] .
  have q: "build_state ?p i = Some Queued" using stmt_states(1)[OF assms(1)] assms(2) by (simp add: set_state_def)
  have s: "pool ?s = ?p" "i \<in> set (pending_ids (queue ?s))"
    using assms(3) by (simp_all add: rollback_active_to_queued_def Let_def pending_ids_enqueue)
  obtain ob where g: "get_build (e_value_from_str env) i ?p = (Ok ob, ?p)" "map_option br_state ob = Some Queued"
    using get_build_no_fault[OF f] q by (metis surj_pair)
  have "handle_revoke_timeout env i ?s = ?s"
    using g s(1) by (auto simp: handle_revoke_timeout_def on_pool_def)
  then show ?thesis using assms(4) q s by (simp add: ack_timer_fired_def Let_def)
qed

theorem ack_timeout_undoes_revoke_witness:
  "build_state (pool (ack_timer_fired 1 0 (sample_busy Revoking))) 1 = Some Queued"
  using ack_timeout_undoes_revoke[OF sample_busy_facts(2,5,1), of sample_env]
  by (simp add: Let_def sample_busy_facts)

end
