(* ===== verification/Cbs_Reachable.thy ===== *)
theory Cbs_Reachable
  imports Cbs_Dispatch_Spec
begin

text \<open>
  What holds in every state the server can reach. \<open>server_init\<close> is a server that has come
  up on a database whose schema constraints hold; \<open>clean_init\<close> adds that no statement
  fails, that descriptors read back as they were written, and that connection ids do not
  repeat.
\<close>

section \<open>Initial states\<close>

definition server_init :: "env \<Rightarrow> server \<Rightarrow> bool" where
  "server_init env s \<longleftrightarrow>
     (\<exists>p cfg comps st. rows_inv p \<and> run_startup_recovery env (fresh_app p cfg comps) = (Ok (), st) \<and>
        s = \<lparr>srv_app = st, srv_open = [], srv_conns = 0\<rparr>)"

definition clean_init :: "env \<Rightarrow> server \<Rightarrow> bool" where
  "clean_init env s \<longleftrightarrow> serde_round_trip env \<and> inj (e_connection_id env) \<and>
     (\<exists>p cfg comps st. rows_inv p \<and> p_faults p = [] \<and>
        run_startup_recovery env (fresh_app p cfg comps) = (Ok (), st) \<and>
        s = \<lparr>srv_app = st, srv_open = [], srv_conns = 0\<rparr>)"

definition clean_inv :: "env \<Rightarrow> server \<Rightarrow> bool" where
  "clean_inv env s \<longleftrightarrow> serde_round_trip env \<and> inj (e_connection_id env) \<and> mem_inv {} (srv_app s) \<and>
     agree env Map.empty (srv_app s) \<and> conns_ok env s \<and> attended (open_ids s) (srv_app s)"

lemma clean_init_server: "clean_init env s \<Longrightarrow> server_init env s"
  unfolding clean_init_def server_init_def by blast

lemma enqueue_rows_workers:
  "enqueue_rows env rows st = (r, st') \<Longrightarrow> q_workers (queue st') = q_workers (queue st)"
proof (induction rows arbitrary: st)
  case (Cons ir rows)
  obtain i row where ir: "ir = (i, row)" by (cases ir)
  obtain r1 st1 where 1: "on_pool (fail_row ''corrupt descriptor (recovery)'' i) st = (r1, st1)"
    by (meson surj_pair)
  have "queue st1 = queue st" using on_pool_simps(1)[of "fail_row ''corrupt descriptor (recovery)'' i" st] 1 by simp
  then show ?case using Cons.prems Cons.IH ir 1
    by (cases "e_descriptor_from_str env (b_descriptor row)"; cases r1) (auto simp: frame_simps)
qed simp

lemma recovery_workers:
  "run_startup_recovery env (fresh_app p cfg comps) = (Ok (), st) \<Longrightarrow> q_workers (queue st) = []"
  by (erule recovery_steps) (auto dest!: enqueue_rows_workers simp: fresh_app_def queue_new_def)

interpretation memory: invariant_system "server_init env" "server_step env" "\<lambda>s. mem_inv {} (srv_app s)" for env
  by unfold_locales (auto simp: server_init_def intro: mem_inv_recovery(1) mem_inv_step)

interpretation clean: invariant_system "clean_init env" "server_step env" "clean_inv env" for env
proof unfold_locales
  fix s assume "clean_init env s"
  then obtain p cfg comps st where i: "serde_round_trip env" "inj (e_connection_id env)" "rows_inv p"
    "p_faults p = []" "run_startup_recovery env (fresh_app p cfg comps) = (Ok (), st)"
    "s = \<lparr>srv_app = st, srv_open = [], srv_conns = 0\<rparr>"
    unfolding clean_init_def by blast
  have "attended {} st"
    using mem_inv_recovery(2)[OF i(5,3)] recovery_workers[OF i(5)]
    by (simp add: attended_def att_def conn_of_def)
  then show "clean_inv env s"
    using i mem_inv_recovery(1)[OF i(5,3)] agree_recovery[OF i(5,3,4), of Map.empty]
    by (simp add: clean_inv_def conns_ok_def open_ids_def)
next
  fix s t assume "clean_inv env s" "server_step env s t"
  then show "clean_inv env t"
    using mem_inv_step agree_step conns_ok_step attended_step unfolding clean_inv_def by blast
qed

section \<open>A run of the server\<close>

text \<open>
  The run the witnesses use: a server comes up on a database with a queued build and a
  started one, a worker connects, and the dispatch task spawned by the connection runs.
\<close>

definition sample_pool0 :: SqlitePool where
  "sample_pool0 = sample_pool [(1, Queued), (2, Started)]"

definition sample_pool1 :: SqlitePool where
  "sample_pool1 = sample_pool0\<lparr>p_builds := [(1, sample_row Queued), (2, (sample_row Started)\<lparr>b_state := Failure,
       b_error := Some ''server restarted'', b_finished_at := Some 100\<rparr>)],
     p_logs := [(1, sample_log), (2, sample_log\<lparr>bl_finished := True, bl_updated_at := 100\<rparr>)]\<rparr>"

definition sample_server0 :: server where
  "sample_server0 = \<lparr>srv_app = (fresh_app sample_pool1 sample_config [''ceph''])
       \<lparr>queue := queue_new\<lparr>q_normal := [sample_queued]\<rparr>\<rparr>,
     srv_open = [], srv_conns = 0\<rparr>"

definition sample_server1 :: server where
  "sample_server1 = \<lparr>srv_app = (srv_app sample_server0)\<lparr>
       pool := sample_pool1\<lparr>p_workers := [(''w1'', sample_worker\<lparr>w_last_seen := Some 100\<rparr>)]\<rparr>,
       queue := queue_new\<lparr>q_normal := [sample_queued],
         q_workers := [([], Connected ''w1'' ''builder'' X86_64 8 16000 None)]\<rparr>,
       worker_senders := [([], True)], tasks := [SpawnedDispatch]\<rparr>,
     srv_open = [([], ''builder'', ''w1'')], srv_conns = 1\<rparr>"

definition sample_server2 :: server where
  "sample_server2 = sample_server1\<lparr>srv_app := run_task sample_env SpawnedDispatch ((srv_app sample_server1)
     \<lparr>tasks := remove1 SpawnedDispatch (tasks (srv_app sample_server1))\<rparr>)\<rparr>"

lemma sample_recovery:
  "run_startup_recovery sample_env (fresh_app sample_pool0 sample_config [''ceph'']) =
     (Ok (), srv_app sample_server0)"
proof -
  have "select_ids {Dispatched, Started} sample_pool0 = (Ok [2], sample_pool0)"
    by (simp add: select_ids_def sample_pool0_def sample_pool_def sample_row_def)
  moreover have "finalize_rows (fail_row ''server restarted'') [2] sample_pool0 = (Ok (), sample_pool1)"
    by (simp add: fail_row_def sample_pool1_def sample_pool0_def sample_pool_def update_build_row_def
        update_builds_def update_row_def set_build_log_finished_def)
  moreover have "select_ids {Revoking} sample_pool1 = (Ok [], sample_pool1)"
    "select_queued sample_pool1 = (Ok [(1, sample_row Queued)], sample_pool1)"
    by (simp_all add: select_ids_def select_queued_def sample_pool1_def sample_pool0_def sample_pool_def
        sample_row_def)
  moreover have "enqueue_rows sample_env [(1, sample_row Queued)] (fresh_app sample_pool1 sample_config [''ceph'']) =
      (Ok (), srv_app sample_server0)"
    by (simp add: sample_env_def sample_row_def parse_priority_def with_queue_def enqueue_def fresh_app_def
        queue_new_def sample_server0_def sample_queued_def)
  moreover have "(srv_app sample_server0)\<lparr>log_watchers := []\<rparr> = srv_app sample_server0"
    by (simp add: sample_server0_def fresh_app_def)
  ultimately show ?thesis by (simp add: run_startup_recovery_def on_pool_fresh)
qed

lemma sample_env_ok: "serde_round_trip sample_env" "inj (e_connection_id sample_env)"
proof -
  show "serde_round_trip sample_env" by (simp add: serde_round_trip_def sample_env_def)
  show "inj (e_connection_id sample_env)"
    by (rule inj_on_inverseI[of _ length]) (simp add: sample_env_def)
qed

lemma sample_clean_init: "clean_init sample_env sample_server0"
proof -
  have "rows_inv sample_pool0" "p_faults sample_pool0 = []"
    by (simp_all add: rows_inv_def build_ids_def sample_pool0_def sample_pool_def)
  moreover have "sample_server0 = \<lparr>srv_app = srv_app sample_server0, srv_open = [], srv_conns = 0\<rparr>"
    by (simp add: sample_server0_def)
  ultimately show ?thesis using sample_env_ok sample_recovery unfolding clean_init_def by blast
qed

lemma sample_handshake:
  "handshake sample_env [] ''w1'' sample_worker (wait_for_hello sample_env [RecvText ''hello'']) True
     (srv_app sample_server0) = (Welcome 2 [] 90 False, True, srv_app sample_server1)"
proof -
  have "wait_for_hello sample_env [RecvText ''hello''] = Ok (Hello 2 X86_64 8 16000 None)"
    by (simp add: sample_env_def)
  moreover have "validate_hello sample_worker (Ok (Hello 2 X86_64 8 16000 None)) = Ok (X86_64, 8, 16000, None)"
    by (simp add: validate_hello_def sample_worker_def arch_from_str_def)
  moreover have "update_last_seen ''w1'' sample_pool1 =
      (Ok True, sample_pool1\<lparr>p_workers := [(''w1'', sample_worker\<lparr>w_last_seen := Some 100\<rparr>)]\<rparr>)"
    by (simp add: update_last_seen_def sample_pool1_def sample_pool0_def sample_pool_def update_row_def)
  ultimately show ?thesis
    by (simp add: handshake_def Let_def on_pool_def sample_server1_def sample_server0_def fresh_app_def
        register_connection_def register_worker_def cleanup_superseded_def queue_new_def spawn_def
        sample_config_def sample_worker_def)
qed

lemma sample_reach1: "reach (clean_init sample_env) (server_step sample_env) sample_server1"
proof -
  have "reach (clean_init sample_env) (server_step sample_env) sample_server0"
    by (rule reach_init[where init = "clean_init sample_env", OF sample_clean_init])
  moreover have w: "map_of (p_workers (pool (srv_app sample_server0))) ''w1'' = Some sample_worker"
    and c: "[] = e_connection_id sample_env (srv_conns sample_server0)"
    by (simp_all add: sample_server0_def fresh_app_def sample_pool1_def sample_pool0_def sample_pool_def sample_env_def)
  have eq: "sample_server1 = sample_server0\<lparr>srv_app := srv_app sample_server1,
      srv_conns := Suc (srv_conns sample_server0), srv_open := (if True then ([], w_name sample_worker, ''w1'') #
        srv_open sample_server0 else srv_open sample_server0)\<rparr>"
    by (simp add: sample_server1_def sample_server0_def sample_worker_def)
  have "server_step sample_env sample_server0 sample_server1"
    by (subst eq) (rule server_step.connect[OF w c sample_handshake])
  ultimately show ?thesis by (rule reach_step[where step = "server_step sample_env"])
qed

lemma sample_reach2: "reach (clean_init sample_env) (server_step sample_env) sample_server2"
proof -
  have "SpawnedDispatch \<in> set (tasks (srv_app sample_server1))" by (simp add: sample_server1_def)
  then have "server_step sample_env sample_server1 sample_server2"
    unfolding sample_server2_def by (rule server_step.timer) (simp add: due_def)
  then show ?thesis by (rule reach_step[where step = "server_step sample_env", OF sample_reach1])
qed

lemma sample_reach_server: "reach (server_init sample_env) (server_step sample_env) sample_server2"
  by (rule reach_mono[where init = "clean_init sample_env" and step = "server_step sample_env", OF sample_reach2])
    (auto intro: clean_init_server)

lemma sample_server2_dispatched:
  "map_of (q_active (queue (srv_app sample_server2))) 1 = Some (sample_active\<lparr>ab_connection_id := []\<rparr>)"
  "pending_ids (queue (srv_app sample_server2)) = []"
  "build_state (pool (srv_app sample_server2)) 1 = Some Dispatched"
  "build_state (pool (srv_app sample_server2)) 2 = Some Failure"
proof -
  let ?st = "(srv_app sample_server1)\<lparr>tasks := remove1 SpawnedDispatch (tasks (srv_app sample_server1))\<rparr>"
  have 1: "next_pending (queue ?st) = (Some sample_queued, (queue ?st)\<lparr>q_normal := []\<rparr>)"
    by (simp add: sample_server1_def queue_new_def next_pending_def)
  have 2: "find_worker ((queue ?st)\<lparr>q_normal := []\<rparr>) (tgt_arch (d_build (qb_descriptor sample_queued))) =
      Some ([], ''w1'')"
    by (simp add: sample_server1_def queue_new_def find_worker_def sample_queued_def sample_descriptor_def)
  have 3: "p_faults (pool ?st) = []" "d_components (qb_descriptor sample_queued) \<noteq> []"
    "map_of (worker_senders ?st) [] = Some True"
    by (simp_all add: sample_server1_def sample_pool1_def sample_pool0_def sample_pool_def sample_queued_def
        sample_descriptor_def)
  have 4: "pack_components sample_env (cfg_components_dir (config ?st))
      (map comp_name (d_components (qb_descriptor sample_queued))) = Ok (''ceph'', hex_encode ''ceph'')"
    by (simp add: pack_components_def sample_env_def sample_queued_def sample_descriptor_def)
  note d = try_dispatch_effect[OF 1 2 3(1,2) 4 3(3)]
  show "map_of (q_active (queue (srv_app sample_server2))) 1 = Some (sample_active\<lparr>ab_connection_id := []\<rparr>)"
    "pending_ids (queue (srv_app sample_server2)) = []"
    "build_state (pool (srv_app sample_server2)) 1 = Some Dispatched"
    "build_state (pool (srv_app sample_server2)) 2 = Some Failure"
    unfolding sample_server2_def run_task.simps d
    by (simp_all add: sample_server1_def sample_server0_def fresh_app_def sample_active_def sample_queued_def
        queue_new_def sample_env_def now_def pending_ids_def pending_def build_state_def build_row_def
        update_builds_def update_row_def sample_pool1_def sample_pool0_def sample_pool_def)
qed

section \<open>Properties of every reachable state\<close>

lemma build_ids_row: "build_ids p = {i. build_row p i \<noteq> None}"
  by (auto simp: build_ids_def build_row_def map_of_eq_None_iff)

text \<open>
  C1. No build is queued twice or handed out while it is queued. In every reachable state,
  whatever statements fail, the pending builds are distinct and each is in the lane of its
  priority, no pending build is active, and every pending or active build has a row.
\<close>

theorem no_double_assignment:
  assumes "reach (server_init env) (server_step env) s"
  shows "let q = queue (srv_app s) in
    distinct (pending_ids q) \<and> lanes_ok q \<and> distinct (map fst (q_active q)) \<and>
    (\<forall>i ab. map_of (q_active q) i = Some ab \<longrightarrow> ab_build_id ab = i \<and> i \<notin> set (pending_ids q) \<and>
       build_row (pool (srv_app s)) i \<noteq> None) \<and>
    (\<forall>i\<in>set (pending_ids q). build_row (pool (srv_app s)) i \<noteq> None)"
proof -
  have "queue_inv (queue (srv_app s)) (build_ids (pool (srv_app s)))"
    using memory.reach_inv[OF assms] by (simp add: mem_inv_def)
  then show ?thesis unfolding queue_inv_def build_ids_row Let_def by blast
qed

theorem no_double_assignment_witness:
  "1 \<notin> set (pending_ids (queue (srv_app sample_server2))) \<and> build_row (pool (srv_app sample_server2)) 1 \<noteq> None"
  using no_double_assignment[OF sample_reach_server] sample_server2_dispatched(1) unfolding Let_def by blast



section \<open>Properties while no statement fails\<close>



lemma clean_finals:
  assumes "server_step env s t" "clean_inv env s" "agree env F (srv_app s)"
  shows "clean_inv env t" "agree env F (srv_app t)"
  using clean.inv_step[OF assms(2,1)] agree_step[OF assms(1,3)] assms(2) by (simp_all add: clean_inv_def)


lemma sample_steps: "(server_step sample_env)\<^sup>*\<^sup>* sample_server1 sample_server2"
proof (rule r_into_rtranclp)
  have "SpawnedDispatch \<in> set (tasks (srv_app sample_server1))" by (simp add: sample_server1_def)
  then show "server_step sample_env sample_server1 sample_server2"
    unfolding sample_server2_def by (rule server_step.timer) (simp add: due_def)
qed


text \<open>
  C3. No build is left behind by its worker. Without failing statements, the connection that
  owns an active build is open, or its worker is disconnected and a grace-period monitor
  for that connection is asleep; when the monitor fires the build is resolved.
\<close>

theorem active_builds_are_attended:
  assumes "reach (clean_init env) (server_step env) s" "map_of (q_active (queue (srv_app s))) i = Some ab"
  shows "(\<exists>name w. (ab_connection_id ab, name, w) \<in> set (srv_open s)) \<or>
    (\<exists>d. GraceMonitor (ab_connection_id ab) d \<in> set (tasks (srv_app s))) \<and>
    (\<exists>t w n a. get_worker (queue (srv_app s)) (ab_connection_id ab) = Some (Disconnected t w n a))"
proof -
  have "att (open_ids s) (monitored (srv_app s)) (conn_of (queue (srv_app s)))
      (map_of (q_workers (queue (srv_app s))))"
    using clean.reach_inv[OF assms(1)] by (simp add: clean_inv_def attended_def)
  moreover have "conn_of (queue (srv_app s)) i = Some (ab_connection_id ab)"
    using assms(2) by (simp add: conn_of_def)
  ultimately consider "ab_connection_id ab \<in> open_ids s"
    | ws where "ab_connection_id ab \<in> monitored (srv_app s)"
      "map_of (q_workers (queue (srv_app s))) (ab_connection_id ab) = Some ws" "is_disconnected ws"
    unfolding att_def by blast
  then show ?thesis
  proof cases
    case 1
    then show ?thesis by (force simp: open_ids_def)
  next
    case 2
    then show ?thesis by (cases ws) (auto simp: monitored_def get_worker_def)
  qed
qed

theorem active_builds_are_attended_witness:
  "(\<exists>name w. (ab_connection_id (sample_active\<lparr>ab_connection_id := []\<rparr>), name, w) \<in> set (srv_open sample_server2)) \<or>
   (\<exists>t w n a. get_worker (queue (srv_app sample_server2)) (ab_connection_id (sample_active\<lparr>ab_connection_id := []\<rparr>)) =
      Some (Disconnected t w n a))"
  using active_builds_are_attended[OF sample_reach2 sample_server2_dispatched(1)] by blast

end
