(* ===== verification/Cbs_Recovery_Spec.thy ===== *)
theory Cbs_Recovery_Spec
  imports Cbs_Agreement
begin

text \<open>
  What startup recovery leaves behind (\<open>queue/recovery.rs\<close>), row by row, and the order of
  the queue it rebuilds.
\<close>

definition recovered_build :: "env \<Rightarrow> build_id \<times> BuildRow \<Rightarrow> QueuedBuild option" where
  "recovered_build env e = (case e_descriptor_from_str env (b_descriptor (snd e)) of
     Err _ \<Rightarrow> None
   | Ok d \<Rightarrow> Some \<lparr>qb_build_id = fst e, qb_priority = parse_priority (b_priority (snd e)), qb_descriptor = d,
       qb_user_email = b_user_email (snd e), qb_queued_at = b_queued_at (snd e)\<rparr>)"

definition recovered_state :: "env \<Rightarrow> BuildRow \<Rightarrow> BuildState" where
  "recovered_state env r = (case b_state r of
     Dispatched \<Rightarrow> Failure | Started \<Rightarrow> Failure | Revoking \<Rightarrow> Revoked
   | Queued \<Rightarrow> (case e_descriptor_from_str env (b_descriptor r) of Ok _ \<Rightarrow> Queued | Err _ \<Rightarrow> Failure)
   | s \<Rightarrow> s)"

lemma recovered_build_None: "recovered_build env (i, r) = None \<longleftrightarrow> isl (e_descriptor_from_str env (b_descriptor r))"
  by (simp add: recovered_build_def split: sum.split)

lemma recovered_state_if:
  "recovered_state env r = (if b_state r = Queued \<and> isl (e_descriptor_from_str env (b_descriptor r)) then Failure
     else if b_state r \<in> {Dispatched, Started} then Failure else if b_state r = Revoking then Revoked else b_state r)"
  by (cases "b_state r") (simp_all add: recovered_state_def split: sum.split)

lemma enqueue_rows_effect:
  assumes "p_faults (pool st) = []"
  shows "\<exists>st'. enqueue_rows env rows st = (Ok (), st') \<and> p_faults (pool st') = [] \<and>
    queue st' = fold enqueue (List.map_filter (recovered_build env) rows) (queue st) \<and>
    (\<forall>i. build_state (pool st') i = (if \<exists>r. (i, r) \<in> set rows \<and> recovered_build env (i, r) = None
      then map_option (\<lambda>_. Failure) (build_state (pool st) i) else build_state (pool st) i))"
  using assms
proof (induction rows arbitrary: st)
  case Nil
  then show ?case by (simp add: map_filter_def)
next
  case (Cons e rows)
  obtain i r where e: "e = (i, r)" by (cases e)
  show ?case
  proof (cases "e_descriptor_from_str env (b_descriptor r)")
    case (Inl err)
    obtain b p where f: "fail_row ''corrupt descriptor (recovery)'' i (pool st) = (Ok b, p)"
      using Cons.prems by (simp add: fail_row_def update_no_fault)
    have p: "p_faults p = []" "build_state p = set_state (build_state (pool st)) i Failure"
      using recovery_row_states(1)[OF Cons.prems, of "''corrupt descriptor (recovery)''" i] f by simp_all
    let ?s = "st\<lparr>pool := p\<rparr>"
    have "p_faults (pool ?s) = []" using p(1) by simp
    from Cons.IH[OF this] obtain st' where st':
      "enqueue_rows env rows ?s = (Ok (), st')" "p_faults (pool st') = []"
      "queue st' = fold enqueue (List.map_filter (recovered_build env) rows) (queue ?s)"
      "\<forall>j. build_state (pool st') j = (if \<exists>r. (j, r) \<in> set rows \<and> recovered_build env (j, r) = None
        then map_option (\<lambda>_. Failure) (build_state (pool ?s) j) else build_state (pool ?s) j)" by blast
    have "recovered_build env (i, r) = None" using Inl by (simp add: recovered_build_def)
    then show ?thesis using st' Inl f e p(2)
      by (auto simp: on_pool_def map_filter_simps set_state_def fun_eq_iff option.map_comp comp_def)
  next
    case (Inr d)
    let ?b = "\<lparr>qb_build_id = i, qb_priority = parse_priority (b_priority r), qb_descriptor = d,
       qb_user_email = b_user_email r, qb_queued_at = b_queued_at r\<rparr>"
    have b: "recovered_build env (i, r) = Some ?b" using Inr by (simp add: recovered_build_def)
    let ?s = "with_queue (enqueue ?b) st"
    have "p_faults (pool ?s) = []" using Cons.prems by simp
    from Cons.IH[OF this] obtain st' where
      "enqueue_rows env rows ?s = (Ok (), st')" "p_faults (pool st') = []"
      "queue st' = fold enqueue (List.map_filter (recovered_build env) rows) (queue ?s)"
      "\<forall>j. build_state (pool st') j = (if \<exists>r. (j, r) \<in> set rows \<and> recovered_build env (j, r) = None
        then map_option (\<lambda>_. Failure) (build_state (pool ?s) j) else build_state (pool ?s) j)" by blast
    then show ?thesis using Inr e b by (auto simp: map_filter_simps)
  qed
qed

lemma filter_update_row:
  "(\<forall>r. (i, r) \<in> set t \<longrightarrow> b_state r \<noteq> Queued) \<Longrightarrow> (\<And>r. b_state (f r) \<noteq> Queued) \<Longrightarrow>
     filter (\<lambda>(i, r). b_state r = Queued) (update_row i f t) = filter (\<lambda>(i, r). b_state r = Queued) t"
proof (induction t)
  case (Cons e t)
  obtain j r where "e = (j, r)" by (cases e)
  then show ?case using Cons by (cases "j = i") (auto simp: update_row_def)
qed (simp add: update_row_def)

lemma finalize_keeps_queued:
  assumes "finalize_rows stmt ids p = (Ok (), p')" "p_faults p = []"
    and stmt: "stmt = (\<lambda>i. update_build_row i f)" "\<And>p r. b_state (f p r) \<noteq> Queued"
    and ids: "\<And>i r. i \<in> set ids \<Longrightarrow> (i, r) \<in> set (p_builds p) \<Longrightarrow> b_state r \<noteq> Queued"
  shows "filter (\<lambda>(i, r). b_state r = Queued) (p_builds p') = filter (\<lambda>(i, r). b_state r = Queued) (p_builds p)"
  using assms(1,2,5)
proof (induction ids arbitrary: p)
  case (Cons i ids)
  let ?p1 = "update_builds i (f p) p"
  obtain r2 p2 where 2: "set_build_log_finished i ?p1 = (r2, p2)" by (meson surj_pair)
  have p2: "p_builds p2 = update_row i (f p) (p_builds p)" "p_faults p2 = []"
    using 2 log_updates_builds(4)[of i ?p1] stmt_faults(7)[of ?p1 i] Cons.prems(2)
    by (simp_all add: update_builds_def)
  have rest: "finalize_rows stmt ids p2 = (Ok (), p')"
    using Cons.prems(1,2) 2 stmt(1) by (cases r2) (simp_all add: update_no_fault)
  have "b_state r \<noteq> Queued" if "j \<in> set ids" "(j, r) \<in> set (p_builds p2)" for j r
    using that Cons.prems(3)[of j] stmt(2) unfolding p2(1) by (auto simp: update_row_def split: if_splits)
  from Cons.IH[OF rest p2(2) this] show ?case
    unfolding p2(1) using filter_update_row[of i "p_builds p" "f p"] Cons.prems(3)[of i] stmt(2) by simp
qed simp

lemma finalize_ok:
  "p_faults p = [] \<Longrightarrow> \<exists>p'. finalize_rows (\<lambda>i. update_build_row i f) ids p = (Ok (), p')"
proof (induction ids arbitrary: p)
  case (Cons i ids)
  let ?p1 = "update_builds i (f p) p"
  obtain p2 where 2: "set_build_log_finished i ?p1 = (Ok (), p2)" "p_faults p2 = []"
    using stmt_faults(7)[of ?p1 i] Cons.prems by (simp add: set_build_log_finished_def update_builds_def)
  from Cons.IH[OF 2(2)] obtain p' where "finalize_rows (\<lambda>i. update_build_row i f) ids p2 = (Ok (), p')" ..
  then show ?case using 2(1) Cons.prems by (simp add: update_no_fault)
qed simp

lemma recovery_stmts:
  "fail_row e = (\<lambda>i. update_build_row i (\<lambda>p r. r\<lparr>b_state := Failure, b_error := Some e,
     b_finished_at := Some (p_now p)\<rparr>))"
  "revoke_row = (\<lambda>i. update_build_row i (\<lambda>p r. r\<lparr>b_state := Revoked, b_finished_at := Some (p_now p)\<rparr>))"
  by (simp_all add: fun_eq_iff fail_row_def revoke_row_def)

text \<open>The database after the first two phases: no build is in flight, queued rows are as they were.\<close>

lemma recovery_phases:
  assumes "rows_inv p" "p_faults p = []"
  obtains ids1 p2 ids2 p4 where
    "select_ids {Dispatched, Started} p = (Ok ids1, p)"
    "finalize_rows (fail_row ''server restarted'') ids1 p = (Ok (), p2)"
    "select_ids {Revoking} p2 = (Ok ids2, p2)" "finalize_rows revoke_row ids2 p2 = (Ok (), p4)"
    "p_faults p4 = []" "rows_inv p4"
    "\<And>i. build_state p4 i = map_option (\<lambda>s. if s \<in> {Dispatched, Started} then Failure
       else if s = Revoking then Revoked else s) (build_state p i)"
    "filter (\<lambda>(i, r). b_state r = Queued) (p_builds p4) = filter (\<lambda>(i, r). b_state r = Queued) (p_builds p)"
proof -
  have wf: "hm_wf (p_builds p)" using assms(1) by (simp add: rows_inv_def)
  obtain ids1 where 1: "select_ids {Dispatched, Started} p = (Ok ids1, p)"
    "ids1 = map fst (filter (\<lambda>(i, r). b_state r \<in> {Dispatched, Started}) (p_builds p))"
    using assms(2) by (simp add: select_ids_def)
  obtain p2 where 2: "finalize_rows (fail_row ''server restarted'') ids1 p = (Ok (), p2)"
    using finalize_ok[OF assms(2)] unfolding recovery_stmts by blast
  note s2 = finalize_fail_states[OF 2 assms(2)]
  have wf2: "rows_inv p2" using same_shape_rows[OF finalize_shape(1)[OF 2]] assms(1) by simp
  obtain ids2 where 3: "select_ids {Revoking} p2 = (Ok ids2, p2)"
    "ids2 = map fst (filter (\<lambda>(i, r). b_state r \<in> {Revoking}) (p_builds p2))"
    using s2(1) by (simp add: select_ids_def)
  obtain p4 where 4: "finalize_rows revoke_row ids2 p2 = (Ok (), p4)"
    using finalize_ok[OF s2(1)] unfolding recovery_stmts by blast
  note s4 = finalize_revoke_states[OF 4 s2(1)]
  have wf2': "hm_wf (p_builds p2)" using wf2 by (simp add: rows_inv_def)
  have wf4: "rows_inv p4" using same_shape_rows[OF finalize_shape(2)[OF 4]] wf2 by simp
  have states: "build_state p4 i = map_option (\<lambda>s. if s \<in> {Dispatched, Started} then Failure
       else if s = Revoking then Revoked else s) (build_state p i)" for i
    using select_ids_no_fault(2)[OF 1(1) assms(2) wf, of i] select_ids_no_fault(2)[OF 3(1) s2(1), of i] wf2
    unfolding s4(2) s2(2) by (cases "build_state p i") (auto simp: rows_inv_def split: if_splits)
  have uniq: "r = r'" if "hm_wf t" "(i, r) \<in> set t" "(i, r') \<in> set t" for i r r' and t :: "(build_id \<times> BuildRow) list"
    using that by (metis map_of_is_SomeI option.inject)
  have f2: "filter (\<lambda>(i, r). b_state r = Queued) (p_builds p2) = filter (\<lambda>(i, r). b_state r = Queued) (p_builds p)"
  proof (rule finalize_keeps_queued[OF 2 assms(2) recovery_stmts(1)])
    show "b_state r \<noteq> Queued" if "i \<in> set ids1" "(i, r) \<in> set (p_builds p)" for i r
      using that uniq[OF wf] unfolding 1(2) by fastforce
  qed simp
  have "filter (\<lambda>(i, r). b_state r = Queued) (p_builds p4) = filter (\<lambda>(i, r). b_state r = Queued) (p_builds p2)"
  proof (rule finalize_keeps_queued[OF 4 s2(1) recovery_stmts(2)])
    show "b_state r \<noteq> Queued" if "i \<in> set ids2" "(i, r) \<in> set (p_builds p2)" for i r
      using that uniq[OF wf2'] unfolding 3(2) by fastforce
  qed simp
  with f2 that[OF 1(1) 2 3(1) 4 s4(1) wf4 states] show thesis by simp
qed

lemma fresh_app_simps:
  "pool (fresh_app p cfg comps) = p" "queue (fresh_app p cfg comps) = queue_new"
  by (simp_all add: fresh_app_def)


definition recovery_sample :: SqlitePool where
  "recovery_sample = sample_pool [(1, Queued), (2, Dispatched), (3, Revoking), (4, Success)]"


end
