(* ===== verification/Cbs_Identity.thy ===== *)
theory Cbs_Identity
  imports Cbs_Channels
begin

text \<open>
  Accounts and credentials in the database: the rest of \<open>db/users.rs\<close>, and
  \<open>db/tokens.rs\<close> and \<open>db/api_keys.rs\<close>.
\<close>

section \<open>Users\<close>

definition normalize_email :: "string \<Rightarrow> string" where
  "normalize_email email = to_lowercase (trim email)"

datatype CreateOrUpdateUserError = CouRobotNamePrefix | CouDb sqlx_error

definition new_user :: "SqlitePool \<Rightarrow> string \<Rightarrow> UserRow" where
  "new_user p name = \<lparr>u_name = name, u_active = True, u_created_at = p_now p, u_updated_at = p_now p,
     u_default_channel_id = None, u_is_robot = False, u_robot_description = None, u_first_login_at = None\<rparr>"

definition create_or_update_user ::
  "string \<Rightarrow> string \<Rightarrow> SqlitePool \<Rightarrow> (CreateOrUpdateUserError + UserRecord) \<times> SqlitePool" where
  "create_or_update_user email name p =
     (if starts_with name ''robot:'' then (Err CouRobotNamePrefix, p)
      else
        (case exec (\<lambda>p. (Ok (), p\<lparr>p_users :=
            (case map_of (p_users p) email of
               None \<Rightarrow> (email, (new_user p name)\<lparr>u_first_login_at := Some (p_now p)\<rparr>) # p_users p
             | Some _ \<Rightarrow> update_row email (\<lambda>u. u\<lparr>u_name := name, u_updated_at := p_now p,
                 u_first_login_at := coalesce (u_first_login_at u) (Some (p_now p))\<rparr>) (p_users p))\<rparr>)) p of
           (Err e, p) \<Rightarrow> (Err (CouDb e), p)
         | (Ok _, p) \<Rightarrow>
           (case get_user email p of
              (Err e, p) \<Rightarrow> (Err (CouDb e), p)
            | (Ok None, p) \<Rightarrow> (Err (CouDb RowNotFound), p)
            | (Ok (Some u), p) \<Rightarrow> (Ok u, p))))"

datatype ProvisionUserError =
  AlreadyExists | RobotCollision | RobotNamePrefix | UnknownRole string | PuUniqueViolation | PuDb sqlx_error

fun provision_user_error_display :: "ProvisionUserError \<Rightarrow> string" where
  "provision_user_error_display AlreadyExists = ''a user already exists for this email''"
| "provision_user_error_display RobotCollision = ''email is reserved for service accounts''"
| "provision_user_error_display RobotNamePrefix =
     ''display name starting with '' @ squoted ''robot:'' @ '' is reserved for service accounts''"
| "provision_user_error_display (UnknownRole r) = ''role '' @ squoted r @ '' does not exist''"
| "provision_user_error_display PuUniqueViolation = ''concurrent modification detected''"
| "provision_user_error_display (PuDb e) = ''database error: '' @ sqlx_error_display e"

definition provision_error :: "sqlx_error \<Rightarrow> ProvisionUserError" where
  "provision_error e = (if is_unique_violation e then PuUniqueViolation else PuDb e)"

definition name_to_synthetic_email :: "string \<Rightarrow> string" where
  "name_to_synthetic_email name = ''robot+'' @ to_lowercase name @ ''@robots''"

definition synthetic_email_to_name :: "string \<Rightarrow> string option" where
  "synthetic_email_to_name email = Option.bind (strip_prefix ''robot+'' email) (strip_suffix ''@robots'')"

text \<open>The roles a new account asks for, checked one after the other.\<close>

fun check_roles :: "string list \<Rightarrow> SqlitePool \<Rightarrow> (ProvisionUserError + unit) \<times> SqlitePool" where
  "check_roles [] p = (Ok (), p)"
| "check_roles (role # roles) p =
     (case fetch (\<lambda>p. map_of (p_roles p) role \<noteq> None) p of
        (Err e, p) \<Rightarrow> (Err (provision_error e), p)
      | (Ok False, p) \<Rightarrow> (Err (UnknownRole role), p)
      | (Ok True, p) \<Rightarrow> check_roles roles p)"

text \<open>\<open>INSERT INTO users\<close> and \<open>INSERT OR IGNORE INTO user_roles\<close>.\<close>

definition insert_user :: "string \<Rightarrow> (SqlitePool \<Rightarrow> UserRow) \<Rightarrow> unit db" where
  "insert_user email row = exec (\<lambda>p.
     if map_of (p_users p) email \<noteq> None then (Err (SqlxError ''UNIQUE constraint failed: users.email''), p)
     else (Ok (), p\<lparr>p_users := (email, row p) # p_users p\<rparr>))"

definition provision_user_inner ::
  "string \<Rightarrow> string \<Rightarrow> string list \<Rightarrow> SqlitePool \<Rightarrow> (ProvisionUserError + unit) \<times> SqlitePool" where
  "provision_user_inner email name roles p =
     (case fetch (\<lambda>p. map_option u_is_robot (map_of (p_users p) email)) p of
        (Err e, p) \<Rightarrow> (Err (provision_error e), p)
      | (Ok (Some True), p) \<Rightarrow> (Err RobotCollision, p)
      | (Ok (Some False), p) \<Rightarrow> (Err AlreadyExists, p)
      | (Ok None, p) \<Rightarrow>
     (case check_roles roles p of
        (Err e, p) \<Rightarrow> (Err e, p)
      | (Ok _, p) \<Rightarrow>
     (case insert_user email (\<lambda>p. new_user p name) p of
        (Err e, p) \<Rightarrow> (Err (provision_error e), p)
      | (Ok _, p) \<Rightarrow>
     (case each (add_user_role email) roles p of
        (Err e, p) \<Rightarrow> (Err (provision_error e), p)
      | (Ok _, p) \<Rightarrow> (Ok (), p)))))"

definition provision_user ::
  "string \<Rightarrow> string \<Rightarrow> string list \<Rightarrow> SqlitePool \<Rightarrow> (ProvisionUserError + UserRecord) \<times> SqlitePool" where
  "provision_user email name roles p =
     (if starts_with name ''robot:'' then (Err RobotNamePrefix, p)
      else if synthetic_email_to_name email \<noteq> None then (Err RobotCollision, p)
      else
        (case transaction_with provision_error (provision_user_inner email name roles) p of
           (Err e, p) \<Rightarrow> (Err e, p)
         | (Ok _, p) \<Rightarrow>
           (case get_user email p of
              (Err e, p) \<Rightarrow> (Err (provision_error e), p)
            | (Ok None, p) \<Rightarrow> (Err (PuDb RowNotFound), p)
            | (Ok (Some u), p) \<Rightarrow> (Ok u, p))))"

datatype EntityFilter = FilterUser | FilterRobot | FilterAll

record EntitySummary =
  es_email :: string
  es_name :: string
  es_active :: bool
  es_is_robot :: bool
  es_first_login_at :: "timestamp option"

definition list_entities_filtered :: "EntityFilter \<Rightarrow> EntitySummary list db" where
  "list_entities_filtered flt = fetch (\<lambda>p.
     map (\<lambda>(email, u). \<lparr>es_email = email, es_name = u_name u, es_active = u_active u,
         es_is_robot = u_is_robot u, es_first_login_at = u_first_login_at u\<rparr>)
       (sort_key fst (filter (\<lambda>(email, u).
          case flt of FilterUser \<Rightarrow> \<not> u_is_robot u | FilterRobot \<Rightarrow> u_is_robot u | FilterAll \<Rightarrow> True)
          (p_users p))))"

definition set_default_channel :: "string \<Rightarrow> int option \<Rightarrow> bool db" where
  "set_default_channel email channel_id = exec (\<lambda>p.
     if map_of (p_users p) email \<noteq> None \<and> (\<exists>i\<in>set_option channel_id. map_of (p_channels p) i = None)
     then (Err (SqlxError ''FOREIGN KEY constraint failed''), p)
     else (Ok (map_of (p_users p) email \<noteq> None), p\<lparr>p_users :=
       update_row email (\<lambda>u. u\<lparr>u_default_channel_id := channel_id, u_updated_at := p_now p\<rparr>) (p_users p)\<rparr>))"

text \<open>\<open>UPDATE users SET active = ?\<close>, issued by the administration routes and the tombstone.\<close>

definition set_user_active :: "string \<Rightarrow> bool \<Rightarrow> unit db" where
  "set_user_active email active = exec (\<lambda>p. (Ok (), p\<lparr>p_users :=
     update_row email (\<lambda>u. u\<lparr>u_active := active, u_updated_at := p_now p\<rparr>) (p_users p)\<rparr>))"

section \<open>Session tokens\<close>

definition insert_token :: "string \<Rightarrow> string \<Rightarrow> timestamp option \<Rightarrow> int db" where
  "insert_token user_email token_hash expires_at = exec (\<lambda>p.
     if map_of (p_users p) user_email = None then (Err (SqlxError ''FOREIGN KEY constraint failed''), p)
     else if list_ex (\<lambda>(i, t). tk_token_hash t = token_hash) (p_tokens p)
     then (Err (UniqueViolation ''tokens.token_hash''), p)
     else (Ok (p_token_seq p), p\<lparr>p_token_seq := p_token_seq p + 1,
       p_tokens := (p_token_seq p, \<lparr>tk_user_email = user_email, tk_token_hash = token_hash,
         tk_expires_at = expires_at, tk_revoked = False, tk_created_at = p_now p, tk_first_used_at = None,
         tk_last_used_at = None\<rparr>) # p_tokens p\<rparr>))"

definition is_token_revoked :: "string \<Rightarrow> bool db" where
  "is_token_revoked token_hash = fetch (\<lambda>p.
     case find (\<lambda>(i, t). tk_token_hash t = token_hash) (p_tokens p) of
       Some (i, t) \<Rightarrow> tk_revoked t
     | None \<Rightarrow> True)"

text \<open>\<open>UPDATE ... SET revoked = 1 WHERE ... AND revoked = 0\<close>, counting the rows.\<close>

definition update_where :: "('r \<Rightarrow> bool) \<Rightarrow> ('r \<Rightarrow> 'r) \<Rightarrow> ('k, 'r) table \<Rightarrow> ('k, 'r) table" where
  "update_where P f t = map (\<lambda>(k, r). (k, if P r then f r else r)) t"

definition count_where :: "('r \<Rightarrow> bool) \<Rightarrow> ('k, 'r) table \<Rightarrow> nat" where
  "count_where P t = length (filter (\<lambda>(k, r). P r) t)"

definition revoke_token :: "string \<Rightarrow> bool db" where
  "revoke_token token_hash = exec (\<lambda>p.
     let P = (\<lambda>t. tk_token_hash t = token_hash \<and> \<not> tk_revoked t) in
     (Ok (count_where P (p_tokens p) > 0),
      p\<lparr>p_tokens := update_where P (\<lambda>t. t\<lparr>tk_revoked := True\<rparr>) (p_tokens p)\<rparr>))"

definition revoke_all_for_user :: "string \<Rightarrow> nat db" where
  "revoke_all_for_user user_email = exec (\<lambda>p.
     let P = (\<lambda>t. tk_user_email t = user_email \<and> \<not> tk_revoked t) in
     (Ok (count_where P (p_tokens p)),
      p\<lparr>p_tokens := update_where P (\<lambda>t. t\<lparr>tk_revoked := True\<rparr>) (p_tokens p)\<rparr>))"

definition mark_token_used :: "string \<Rightarrow> unit db" where
  "mark_token_used token_hash = exec (\<lambda>p.
     (Ok (), p\<lparr>p_tokens := update_where (\<lambda>t. tk_token_hash t = token_hash \<and> \<not> tk_revoked t)
        (\<lambda>t. t\<lparr>tk_first_used_at := coalesce (tk_first_used_at t) (Some (p_now p)),
           tk_last_used_at := Some (p_now p)\<rparr>) (p_tokens p)\<rparr>))"

section \<open>API keys\<close>

text \<open>\<open>insert_api_key_in_tx\<close> issues the same statement inside an open transaction.\<close>

definition insert_api_key :: "string \<Rightarrow> string \<Rightarrow> string \<Rightarrow> string \<Rightarrow> int db" where
  "insert_api_key name owner_email key_hash key_prefix = exec (\<lambda>p.
     if map_of (p_users p) owner_email = None then (Err (SqlxError ''FOREIGN KEY constraint failed''), p)
     else if list_ex (\<lambda>(i, k). ak_key_hash k = key_hash \<or>
         ak_owner_email k = owner_email \<and> (ak_key_prefix k = key_prefix \<or> ak_name k = name)) (p_api_keys p)
     then (Err (UniqueViolation ''api_keys''), p)
     else (Ok (p_api_key_seq p), p\<lparr>p_api_key_seq := p_api_key_seq p + 1,
       p_api_keys := (p_api_key_seq p, \<lparr>ak_name = name, ak_key_hash = key_hash, ak_key_prefix = key_prefix,
         ak_owner_email = owner_email, ak_expires_at = None, ak_revoked = False, ak_created_at = p_now p,
         ak_first_used_at = None, ak_last_used_at = None\<rparr>) # p_api_keys p\<rparr>))"

definition find_api_keys_by_prefix :: "string \<Rightarrow> (int \<times> ApiKeyRow) list db" where
  "find_api_keys_by_prefix key_prefix =
     fetch (\<lambda>p. filter (\<lambda>(i, k). ak_key_prefix k = key_prefix \<and> \<not> ak_revoked k) (p_api_keys p))"

record ApiKeyListItem =
  al_key_prefix :: string
  al_name :: string
  al_created_at :: timestamp

definition list_api_keys_for_user :: "string \<Rightarrow> ApiKeyListItem list db" where
  "list_api_keys_for_user owner_email = fetch (\<lambda>p.
     map (\<lambda>(i, k). \<lparr>al_key_prefix = ak_key_prefix k, al_name = ak_name k, al_created_at = ak_created_at k\<rparr>)
       (sort_key (\<lambda>(i, k). - ak_created_at k)
         (filter (\<lambda>(i, k). ak_owner_email k = owner_email \<and> \<not> ak_revoked k) (p_api_keys p))))"

text \<open>The three revocations differ in which keys they name.\<close>

definition revoke_api_keys :: "(int \<Rightarrow> ApiKeyRow \<Rightarrow> bool) \<Rightarrow> nat db" where
  "revoke_api_keys P = exec (\<lambda>p.
     (Ok (length (filter (\<lambda>(i, k). P i k \<and> \<not> ak_revoked k) (p_api_keys p))),
      p\<lparr>p_api_keys := map (\<lambda>(i, k). (i, if P i k \<and> \<not> ak_revoked k then k\<lparr>ak_revoked := True\<rparr> else k))
        (p_api_keys p)\<rparr>))"

definition revoke_api_key_by_prefix :: "string \<Rightarrow> string \<Rightarrow> bool db" where
  "revoke_api_key_by_prefix owner_email key_prefix p =
     (case revoke_api_keys (\<lambda>i k. ak_owner_email k = owner_email \<and> ak_key_prefix k = key_prefix) p of
        (Err e, p) \<Rightarrow> (Err e, p)
      | (Ok n, p) \<Rightarrow> (Ok (n > 0), p))"

definition revoke_all_api_keys_for_user :: "string \<Rightarrow> nat db" where
  "revoke_all_api_keys_for_user owner_email = revoke_api_keys (\<lambda>i k. ak_owner_email k = owner_email)"

definition revoke_api_key_by_id :: "int \<Rightarrow> bool db" where
  "revoke_api_key_by_id api_key_id p =
     (case revoke_api_keys (\<lambda>i k. i = api_key_id) p of
        (Err e, p) \<Rightarrow> (Err e, p)
      | (Ok n, p) \<Rightarrow> (Ok (n > 0), p))"

definition mark_api_key_used :: "int \<Rightarrow> unit db" where
  "mark_api_key_used api_key_id = exec (\<lambda>p.
     (Ok (), p\<lparr>p_api_keys := update_row api_key_id (\<lambda>k. if ak_revoked k then k
        else k\<lparr>ak_first_used_at := coalesce (ak_first_used_at k) (Some (p_now p)),
           ak_last_used_at := Some (p_now p)\<rparr>) (p_api_keys p)\<rparr>))"

definition get_key_prefix_by_id :: "int \<Rightarrow> string option db" where
  "get_key_prefix_by_id api_key_id = fetch (\<lambda>p. map_option ak_key_prefix (map_of (p_api_keys p) api_key_id))"

section \<open>Counting rows\<close>

lemma count_where_simps [simp]:
  "count_where P [] = 0" "count_where P (e # t) = (if P (snd e) then 1 else 0) + count_where P t"
  by (simp_all add: count_where_def split: prod.splits)

lemma count_update_where:
  "(\<And>r. Q (f r) \<Longrightarrow> Q r) \<Longrightarrow> count_where Q (update_where P f t) \<le> count_where Q t"
proof (induction t)
  case (Cons e t)
  obtain k r where "e = (k, r)" by (cases e)
  then show ?case using Cons.IH[OF Cons.prems] Cons.prems[of r] by (auto simp: update_where_def)
qed (simp add: update_where_def)

lemma count_update_row:
  assumes "\<And>r. Q (f r) = Q r" shows "count_where Q (update_row k f t) = count_where Q t"
proof (induction t)
  case (Cons e t)
  then show ?case using assms by (cases e) (simp add: update_row_def)
qed (simp add: update_row_def)

lemma count_filter: "count_where Q (filter P t) \<le> count_where Q t"
  by (induction t) auto

lemma count_where_0: "count_where Q t = 0 \<longleftrightarrow> (\<forall>e\<in>set t. \<not> Q (snd e))"
  by (induction t) auto

lemma update_where_keys [simp]: "map fst (update_where P f t) = map fst t"
  by (simp add: update_where_def comp_def case_prod_beta)

lemma set_update_where: "(k, r') \<in> set (update_where P f t) \<longleftrightarrow> (\<exists>r. (k, r) \<in> set t \<and> r' = (if P r then f r else r))"
  by (auto simp: update_where_def image_iff split: prod.splits)

end
