(* ===== verification/Cbs_Route.thy ===== *)
theory Cbs_Route
  imports Cbs_Identity
begin

text \<open>
  How an HTTP handler is put together. A handler is a function of the state that returns a
  rejection or a value, and the new state. \<open>and_then\<close> is the \<open>?\<close> operator: a rejection
  ends the handler and keeps the state reached so far. \<open>map_err\<close> is the method of the same
  name, \<open>swallow\<close> a result that is only logged.
\<close>

definition returns :: "'a \<Rightarrow> 's \<Rightarrow> ('e + 'a) \<times> 's" where
  "returns v s = (Ok v, s)"

definition throws :: "'e \<Rightarrow> 's \<Rightarrow> ('e + 'a) \<times> 's" where
  "throws e s = (Err e, s)"

definition and_then ::
  "('s \<Rightarrow> ('e + 'a) \<times> 's) \<Rightarrow> ('a \<Rightarrow> 's \<Rightarrow> ('e + 'b) \<times> 's) \<Rightarrow> 's \<Rightarrow> ('e + 'b) \<times> 's" where
  "and_then m k s = (case m s of (r, s') \<Rightarrow> (case r of Err e \<Rightarrow> (Err e, s') | Ok v \<Rightarrow> k v s'))"

definition map_err :: "('e \<Rightarrow> 'f) \<Rightarrow> ('s \<Rightarrow> ('e + 'a) \<times> 's) \<Rightarrow> 's \<Rightarrow> ('f + 'a) \<times> 's" where
  "map_err f m s = (case m s of (r, s') \<Rightarrow> (case r of Err e \<Rightarrow> (Err (f e), s') | Ok v \<Rightarrow> (Ok v, s')))"

definition swallow :: "('s \<Rightarrow> ('f + 'a) \<times> 's) \<Rightarrow> 's \<Rightarrow> ('e + unit) \<times> 's" where
  "swallow m s = (Ok (), snd (m s))"

text \<open>An early return with a rejection, and a value that must be there (\<open>ok_or_else\<close>).\<close>

definition reject_if :: "bool \<Rightarrow> 'e \<Rightarrow> 's \<Rightarrow> ('e + unit) \<times> 's" where
  "reject_if b e s = (if b then (Err e, s) else (Ok (), s))"

definition ok_or :: "'a option \<Rightarrow> 'e \<Rightarrow> 's \<Rightarrow> ('e + 'a) \<times> 's" where
  "ok_or x e s = (case x of None \<Rightarrow> (Err e, s) | Some v \<Rightarrow> (Ok v, s))"

text \<open>A pure check, such as the validation of a request body.\<close>

definition of_result :: "'e + 'a \<Rightarrow> 's \<Rightarrow> ('e + 'a) \<times> 's" where
  "of_result r s = (r, s)"

text \<open>A loop of a handler over a list.\<close>

fun for_each :: "('a \<Rightarrow> 's \<Rightarrow> ('e + unit) \<times> 's) \<Rightarrow> 'a list \<Rightarrow> 's \<Rightarrow> ('e + unit) \<times> 's" where
  "for_each f [] s = (Ok (), s)"
| "for_each f (x # xs) s = and_then (f x) (\<lambda>_. for_each f xs) s"

fun collect_each :: "('a \<Rightarrow> 's \<Rightarrow> ('e + 'b) \<times> 's) \<Rightarrow> 'a list \<Rightarrow> 's \<Rightarrow> ('e + 'b list) \<times> 's" where
  "collect_each f [] s = (Ok [], s)"
| "collect_each f (x # xs) s = and_then (f x) (\<lambda>y. and_then (collect_each f xs) (\<lambda>ys. returns (y # ys))) s"

type_synonym 'a route = "SqlitePool \<Rightarrow> (auth_error + 'a) \<times> SqlitePool"

text \<open>A statement whose failure is answered with a fixed rejection.\<close>

definition db_or :: "auth_error \<Rightarrow> 'a db \<Rightarrow> 'a route" where
  "db_or rej = map_err (\<lambda>_. rej)"

abbreviation db_error :: auth_error where
  "db_error \<equiv> (INTERNAL_SERVER_ERROR, ''database error'')"

text \<open>\<open>require_cap\<close>, with the text every handler gives.\<close>

definition require_cap :: "AuthUser \<Rightarrow> string \<Rightarrow> 's \<Rightarrow> (auth_error + unit) \<times> 's" where
  "require_cap user cap =
     reject_if (\<not> has_cap user cap) (FORBIDDEN, ''missing required capability: '' @ cap)"

lemmas route_defs = returns_def throws_def and_then_def map_err_def swallow_def reject_if_def
  ok_or_def of_result_def db_or_def require_cap_def

section \<open>Runs of a handler\<close>

lemma and_then_Ok:
  assumes "and_then m k s = (Ok v, s')"
  obtains u s1 where "m s = (Ok u, s1)" "k u s1 = (Ok v, s')"
  using assms by (auto simp: and_then_def split: prod.splits sum.splits)

lemma and_then_Ok_iff: "and_then m k s = (Ok v, s') \<longleftrightarrow> (\<exists>u s1. m s = (Ok u, s1) \<and> k u s1 = (Ok v, s'))"
  by (auto simp: and_then_def split: prod.splits sum.splits)

lemma and_then_cases:
  assumes "and_then m k s = (r, s')"
  obtains (stop) e where "m s = (Err e, s')" "r = Err e"
  | (more) u s1 where "m s = (Ok u, s1)" "k u s1 = (r, s')"
  using assms by (auto simp: and_then_def split: prod.splits sum.splits)

lemma map_err_Ok: "map_err f m s = (Ok v, s') \<longleftrightarrow> m s = (Ok v, s')"
  by (auto simp: map_err_def split: prod.splits sum.splits)

lemma map_err_snd [simp]: "snd (map_err f m s) = snd (m s)"
  by (auto simp: map_err_def split: prod.splits sum.splits)

lemma db_or_Ok: "db_or rej m s = (Ok v, s') \<longleftrightarrow> m s = (Ok v, s')"
  by (simp add: db_or_def map_err_Ok)

lemma simple_Ok [simp]:
  "returns v s = (Ok w, s') \<longleftrightarrow> w = v \<and> s' = s"
  "throws e s = (Ok w0, s') \<longleftrightarrow> False"
  "reject_if b e s = (Ok w1, s') \<longleftrightarrow> \<not> b \<and> s' = s"
  "ok_or x e s = (Ok w2, s') \<longleftrightarrow> x = Some w2 \<and> s' = s"
  "of_result r s = (Ok w3, s') \<longleftrightarrow> r = Ok w3 \<and> s' = s"
  "require_cap user cap s = (Ok u, s') \<longleftrightarrow> has_cap user cap \<and> s' = s"
  by (auto simp: route_defs split: option.splits)

lemma and_then_simps [simp]:
  "and_then (returns v) k = k v"
  "and_then (throws e) k = throws e"
  by (rule ext; simp add: route_defs)+

lemma and_then_fetch: "p_faults p = [] \<Longrightarrow> and_then (db_or rej (fetch g)) k p = k (g p) p"
  by (simp add: route_defs)

lemma and_then_pure:
  "and_then (reject_if b e) k s = (if b then (Err e, s) else k () s)"
  "and_then (require_cap user cap) k' s =
     (if has_cap user cap then k' () s else (Err (FORBIDDEN, ''missing required capability: '' @ cap), s))"
  "and_then (ok_or x e) l s = (case x of None \<Rightarrow> (Err e, s) | Some v \<Rightarrow> l v s)"
  "and_then (of_result r) m s = (case r of Err e \<Rightarrow> (Err e, s) | Ok v \<Rightarrow> m v s)"
  by (simp_all add: route_defs split: option.splits)

lemma keeps_snd: "keeps I f \<Longrightarrow> I s \<Longrightarrow> I (snd (f s))"
  by (simp add: keeps_def)

lemma keeps_and_then [keeps_intros]:
  "keeps I m \<Longrightarrow> (\<And>v. keeps I (k v)) \<Longrightarrow> keeps I (and_then m k)"
  by (auto simp: keeps_def and_then_def split: prod.splits sum.splits)

lemma keeps_map_err [keeps_intros]: "keeps I m \<Longrightarrow> keeps I (map_err f m)" "keeps I' m' \<Longrightarrow> keeps I' (db_or rej m')"
  by (auto simp: keeps_def db_or_def)

lemma swallow_Ok [simp]: "swallow m s = (Ok u, s') \<longleftrightarrow> s' = snd (m s)"
  by (auto simp: swallow_def)

lemma keeps_swallow [keeps_intros]: "keeps I m \<Longrightarrow> keeps I (swallow m)"
  by (auto simp: keeps_def swallow_def)

lemma keeps_pure [keeps_intros]:
  "keeps I (returns v)" "keeps I (throws e)" "keeps I (reject_if b e)" "keeps I (ok_or x e)"
  "keeps I (of_result r)" "keeps I (require_cap user cap)"
  by (auto simp: keeps_def route_defs split: option.splits)

lemma keeps_if_fun [keeps_intros]: "keeps I f \<Longrightarrow> keeps I g \<Longrightarrow> keeps I (if b then f else g)"
  by simp

lemma keeps_option_fun [keeps_intros]:
  "keeps I f \<Longrightarrow> (\<And>v. keeps I (g v)) \<Longrightarrow> keeps I (case x of None \<Rightarrow> f | Some v \<Rightarrow> g v)"
  by (cases x) simp_all

lemma keeps_for_each [keeps_intros]: "(\<And>x. keeps I (f x)) \<Longrightarrow> keeps I (for_each f xs)"
proof (induction xs)
  case (Cons x xs)
  then have "keeps I (and_then (f x) (\<lambda>_. for_each f xs))" by (intro keeps_and_then) auto
  then show ?case by (simp add: keeps_def)
qed (simp add: keeps_def)

lemma keeps_collect_each [keeps_intros]: "(\<And>x. keeps I (f x)) \<Longrightarrow> keeps I (collect_each f xs)"
proof (induction xs)
  case (Cons x xs)
  then have "keeps I (and_then (f x) (\<lambda>y. and_then (collect_each f xs) (\<lambda>ys. returns (y # ys))))"
    by (intro keeps_and_then keeps_pure) auto
  then show ?case by (simp add: keeps_def)
qed (simp add: keeps_def)

end
