(* ===== verification/Cbs_Robots.thy ===== *)
theory Cbs_Robots
  imports Cbs_Identity Cbs_Samples
begin

text \<open>
  Robot accounts and their bearer tokens (\<open>db/robots.rs\<close>). A robot is a user with a
  synthetic email; it is tombstoned rather than deleted, and a tombstoned robot can be
  revived. Creation, rotation and tombstoning each run in one transaction.

  The lemmas show that every operation keeps the partial unique index of \<open>robot_tokens\<close>
  (a robot has at most one token that is not revoked) under every schedule of failing
  statements, and what each operation does.
\<close>

section \<open>Names\<close>

definition is_lower_digit :: "char \<Rightarrow> bool" where
  "is_lower_digit c = (let n = (of_char c :: nat) in 97 \<le> n \<and> n \<le> 122 \<or> 48 \<le> n \<and> n \<le> 57)"

definition is_border :: "char \<Rightarrow> bool" where
  "is_border c \<longleftrightarrow> is_lower_digit c \<or> c = CHR ''_''"

definition is_inner :: "char \<Rightarrow> bool" where
  "is_inner c \<longleftrightarrow> is_lower_digit c \<or> c = CHR ''_'' \<or> c = CHR ''.'' \<or> c = CHR ''-''"

definition en_dash :: string where
  "en_dash = [CHR 0xE2, CHR 0x80, CHR 0x93]"

definition validate_robot_name :: "string \<Rightarrow> string + unit" where
  "validate_robot_name name =
     (let n = length name in
      if \<not> (2 \<le> n \<and> n \<le> 64) then
        Err (''robot name must be 2'' @ en_dash @ ''64 characters, got '' @ show_nat n)
      else if \<not> is_border (hd name) then
        Err (''robot name must start with [a-z0-9_], got '' @ squoted [hd name])
      else if \<not> is_border (last name) then
        Err (''robot name must end with [a-z0-9_], got '' @ squoted [last name])
      else
        (case find (\<lambda>c. \<not> is_inner c) (butlast (tl name)) of
           Some c \<Rightarrow> Err (''robot name contains invalid character '' @ squoted [c] @ '': allowed [a-z0-9_.-]'')
         | None \<Rightarrow> Ok ()))"

section \<open>Tokens\<close>

record TokenCandidate =
  tc_id :: int
  tc_token_hash :: string
  tc_token_prefix :: string
  tc_robot_email :: string
  tc_expires_at :: "timestamp option"

definition find_active_token_by_prefix :: "string \<Rightarrow> TokenCandidate list db" where
  "find_active_token_by_prefix pre = fetch (\<lambda>p.
     map (\<lambda>(i, t). \<lparr>tc_id = i, tc_token_hash = rt_token_hash t, tc_token_prefix = rt_token_prefix t,
         tc_robot_email = rt_robot_email t, tc_expires_at = rt_expires_at t\<rparr>)
       (filter (\<lambda>(i, t). rt_token_prefix t = pre \<and> \<not> rt_revoked t) (p_robot_tokens p)))"

definition live_token :: "string \<Rightarrow> RobotTokenRow \<Rightarrow> bool" where
  "live_token email t \<longleftrightarrow> rt_robot_email t = email \<and> \<not> rt_revoked t"

definition revoke_all_active_tokens_in_conn :: "string \<Rightarrow> nat db" where
  "revoke_all_active_tokens_in_conn email = exec (\<lambda>p.
     (Ok (count_where (live_token email) (p_robot_tokens p)),
      p\<lparr>p_robot_tokens := update_where (live_token email) (\<lambda>t. t\<lparr>rt_revoked := True\<rparr>) (p_robot_tokens p)\<rparr>))"

definition revoke_all_active_tokens :: "string \<Rightarrow> nat db" where
  "revoke_all_active_tokens email = revoke_all_active_tokens_in_conn email"

definition mark_robot_token_used :: "int \<Rightarrow> unit db" where
  "mark_robot_token_used i = exec (\<lambda>p. (Ok (), p\<lparr>p_robot_tokens :=
     update_row i (\<lambda>t. t\<lparr>rt_last_used_at := Some (p_now p),
       rt_first_used_at := coalesce (rt_first_used_at t) (Some (p_now p))\<rparr>) (p_robot_tokens p)\<rparr>))"

definition has_non_revoked_token :: "string \<Rightarrow> bool db" where
  "has_non_revoked_token email = fetch (\<lambda>p. count_where (live_token email) (p_robot_tokens p) > 0)"

text \<open>\<open>INSERT INTO robot_tokens\<close> with the constraints of the table.\<close>

definition insert_robot_token :: "string \<Rightarrow> string \<Rightarrow> string \<Rightarrow> timestamp option \<Rightarrow> unit db" where
  "insert_robot_token email token_hash token_prefix expires_at = exec (\<lambda>p.
     if map_of (p_users p) email = None then (Err (SqlxError ''FOREIGN KEY constraint failed''), p)
     else if list_ex (\<lambda>(i, t). rt_token_hash t = token_hash) (p_robot_tokens p)
     then (Err (UniqueViolation ''robot_tokens.token_hash''), p)
     else if list_ex (\<lambda>(i, t). live_token email t) (p_robot_tokens p)
     then (Err (UniqueViolation ''robot_tokens.robot_email''), p)
     else (Ok (), p\<lparr>p_robot_token_seq := p_robot_token_seq p + 1,
       p_robot_tokens := (p_robot_token_seq p, \<lparr>rt_robot_email = email, rt_token_hash = token_hash,
         rt_token_prefix = token_prefix, rt_expires_at = expires_at, rt_revoked = False,
         rt_first_used_at = None, rt_last_used_at = None, rt_created_at = p_now p\<rparr>) # p_robot_tokens p\<rparr>))"

section \<open>Accounts\<close>

record RobotRow =
  ro_email :: string
  ro_display_name :: string
  ro_description :: "string option"
  ro_active :: bool
  ro_created_at :: timestamp
  ro_token_state :: string
  ro_token_prefix :: "string option"
  ro_token_expires_at :: "timestamp option"
  ro_token_first_used_at :: "timestamp option"
  ro_token_last_used_at :: "timestamp option"
  ro_token_created_at :: "timestamp option"

text \<open>The common table expression: live tokens before revoked ones, newest first.\<close>

definition best_token :: "SqlitePool \<Rightarrow> string \<Rightarrow> RobotTokenRow option" where
  "best_token p email =
     (let ts = sort_key (\<lambda>(i, t). - i) (filter (\<lambda>(i, t). rt_robot_email t = email) (p_robot_tokens p))
      in map_option snd (find (\<lambda>_. True) (filter (\<lambda>(i, t). \<not> rt_revoked t) ts @ filter (\<lambda>(i, t). rt_revoked t) ts)))"

definition token_state :: "RobotTokenRow option \<Rightarrow> timestamp \<Rightarrow> string" where
  "token_state best time =
     (case best of
        None \<Rightarrow> ''none''
      | Some t \<Rightarrow> if rt_revoked t then ''revoked''
          else (case rt_expires_at t of
             Some exp \<Rightarrow> if exp \<le> time then ''expired'' else ''active''
           | None \<Rightarrow> ''active''))"

definition classify_robot_row :: "SqlitePool \<Rightarrow> string \<times> UserRow \<Rightarrow> RobotRow" where
  "classify_robot_row p eu =
     (let best = best_token p (fst eu); u = snd eu in
      \<lparr>ro_email = fst eu, ro_display_name = u_name u, ro_description = u_robot_description u,
       ro_active = u_active u, ro_created_at = u_created_at u, ro_token_state = token_state best (p_now p),
       ro_token_prefix = map_option rt_token_prefix best,
       ro_token_expires_at = Option.bind best rt_expires_at,
       ro_token_first_used_at = Option.bind best rt_first_used_at,
       ro_token_last_used_at = Option.bind best rt_last_used_at,
       ro_token_created_at = map_option rt_created_at best\<rparr>)"

definition list_robots :: "RobotRow list db" where
  "list_robots = fetch (\<lambda>p. map (classify_robot_row p)
     (sort_key fst (filter (\<lambda>(email, u). u_is_robot u) (p_users p))))"

definition get_robot_by_name :: "string \<Rightarrow> RobotRow option db" where
  "get_robot_by_name name = fetch (\<lambda>p.
     let email = name_to_synthetic_email name in
     case map_of (p_users p) email of
       Some u \<Rightarrow> if u_is_robot u then Some (classify_robot_row p (email, u)) else None
     | None \<Rightarrow> None)"

definition create_robot_in_conn ::
  "string \<Rightarrow> string option \<Rightarrow> timestamp option \<Rightarrow> string \<Rightarrow> string \<Rightarrow> string list \<Rightarrow> unit db" where
  "create_robot_in_conn name description expires_at token_hash token_prefix roles =
     (let email = name_to_synthetic_email name in
      seq_stmts (insert_user email (\<lambda>p. (new_user p (''robot:'' @ name))\<lparr>u_is_robot := True,
          u_robot_description := description\<rparr>))
     (seq_stmts (insert_robot_token email token_hash token_prefix expires_at)
        (each (add_user_role email) roles)))"

definition revive_robot_in_conn ::
  "string \<Rightarrow> string \<Rightarrow> string option \<Rightarrow> timestamp option \<Rightarrow> string \<Rightarrow> string \<Rightarrow> string list \<Rightarrow> unit db" where
  "revive_robot_in_conn email name description expires_at token_hash token_prefix roles =
     seq_stmts (exec (\<lambda>p. (Ok (), p\<lparr>p_user_roles := filter (\<lambda>(u, r). u \<noteq> email) (p_user_roles p)\<rparr>)))
    (seq_stmts (exec (\<lambda>p. (Ok (), p\<lparr>p_robot_tokens :=
        filter (\<lambda>(i, t). rt_robot_email t \<noteq> email) (p_robot_tokens p)\<rparr>)))
    (seq_stmts (exec (\<lambda>p. (Ok (), p\<lparr>p_users := update_row email (\<lambda>u. u\<lparr>u_active := True,
        u_name := ''robot:'' @ name, u_robot_description := description, u_default_channel_id := None,
        u_created_at := p_now p, u_updated_at := p_now p\<rparr>) (p_users p)\<rparr>)))
    (seq_stmts (each (add_user_role email) roles)
       (insert_robot_token email token_hash token_prefix expires_at))))"

datatype CreateRevivedOutcome = Created | Revived

datatype CreateRobotError = AlreadyActive | HumanCollision | CrUniqueViolation | CrDb sqlx_error

definition create_robot_error :: "sqlx_error \<Rightarrow> CreateRobotError" where
  "create_robot_error e = (if is_unique_violation e then CrUniqueViolation else CrDb e)"

definition create_or_revive_inner ::
  "string \<Rightarrow> string \<Rightarrow> string option \<Rightarrow> timestamp option \<Rightarrow> string \<Rightarrow> string \<Rightarrow> string list \<Rightarrow>
     SqlitePool \<Rightarrow> (CreateRobotError + CreateRevivedOutcome) \<times> SqlitePool" where
  "create_or_revive_inner email name description expires_at token_hash token_prefix roles p =
     (case fetch (\<lambda>p. map_of (p_users p) email) p of
        (Err e, p) \<Rightarrow> (Err (create_robot_error e), p)
      | (Ok None, p) \<Rightarrow>
        (case create_robot_in_conn name description expires_at token_hash token_prefix roles p of
           (Err e, p) \<Rightarrow> (Err (create_robot_error e), p)
         | (Ok _, p) \<Rightarrow> (Ok Created, p))
      | (Ok (Some u), p) \<Rightarrow>
        if \<not> u_is_robot u then (Err HumanCollision, p)
        else if u_active u then (Err AlreadyActive, p)
        else
          (case revive_robot_in_conn email name description expires_at token_hash token_prefix roles p of
             (Err e, p) \<Rightarrow> (Err (create_robot_error e), p)
           | (Ok _, p) \<Rightarrow> (Ok Revived, p)))"

definition create_or_revive ::
  "string \<Rightarrow> string option \<Rightarrow> timestamp option \<Rightarrow> string \<Rightarrow> string \<Rightarrow> string list \<Rightarrow>
     SqlitePool \<Rightarrow> (CreateRobotError + CreateRevivedOutcome) \<times> SqlitePool" where
  "create_or_revive name description expires_at token_hash token_prefix roles =
     transaction_with create_robot_error (create_or_revive_inner (name_to_synthetic_email name) name
       description expires_at token_hash token_prefix roles)"

definition tombstone_robot_inner :: "string \<Rightarrow> nat db" where
  "tombstone_robot_inner email p =
     (case set_user_active email False p of
        (Err e, p) \<Rightarrow> (Err e, p)
      | (Ok _, p) \<Rightarrow> revoke_all_active_tokens_in_conn email p)"

definition tombstone_robot :: "string \<Rightarrow> nat db" where
  "tombstone_robot email = transaction (tombstone_robot_inner email)"

datatype RotateTokenOutcome = Issued | Rotated

datatype RotateTokenError =
  RobotNotFound | RobotTombstoned | NonRevokedTokenExists | RoUniqueViolation | RoDb sqlx_error

definition rotate_token_error :: "sqlx_error \<Rightarrow> RotateTokenError" where
  "rotate_token_error e = (if is_unique_violation e then RoUniqueViolation else RoDb e)"

definition rotate_token_inner ::
  "string \<Rightarrow> bool \<Rightarrow> string \<Rightarrow> string \<Rightarrow> timestamp option \<Rightarrow> SqlitePool \<Rightarrow>
     (RotateTokenError + RotateTokenOutcome) \<times> SqlitePool" where
  "rotate_token_inner email renew token_hash token_prefix expires_at p =
     (case fetch (\<lambda>p. map_of (p_users p) email) p of
        (Err e, p) \<Rightarrow> (Err (rotate_token_error e), p)
      | (Ok None, p) \<Rightarrow> (Err RobotNotFound, p)
      | (Ok (Some u), p) \<Rightarrow>
        if \<not> u_is_robot u then (Err RobotNotFound, p)
        else if \<not> u_active u then (Err RobotTombstoned, p)
        else
     (case fetch (\<lambda>p. list_ex (\<lambda>(i, t). live_token email t) (p_robot_tokens p)) p of
        (Err e, p) \<Rightarrow> (Err (rotate_token_error e), p)
      | (Ok has_non_revoked, p) \<Rightarrow>
        if has_non_revoked \<and> \<not> renew then (Err NonRevokedTokenExists, p)
        else
     (case revoke_all_active_tokens_in_conn email p of
        (Err e, p) \<Rightarrow> (Err (rotate_token_error e), p)
      | (Ok _, p) \<Rightarrow>
     (case insert_robot_token email token_hash token_prefix expires_at p of
        (Err e, p) \<Rightarrow> (Err (rotate_token_error e), p)
      | (Ok _, p) \<Rightarrow> (Ok (if has_non_revoked then Rotated else Issued), p)))))"

definition rotate_token ::
  "string \<Rightarrow> bool \<Rightarrow> string \<Rightarrow> string \<Rightarrow> timestamp option \<Rightarrow> SqlitePool \<Rightarrow>
     (RotateTokenError + RotateTokenOutcome) \<times> SqlitePool" where
  "rotate_token name renew token_hash token_prefix expires_at =
     transaction_with rotate_token_error (rotate_token_inner (name_to_synthetic_email name) renew
       token_hash token_prefix expires_at)"

definition set_description :: "string \<Rightarrow> string option \<Rightarrow> bool db" where
  "set_description email description = exec (\<lambda>p.
     (Ok (case map_of (p_users p) email of Some u \<Rightarrow> u_is_robot u | None \<Rightarrow> False),
      p\<lparr>p_users := update_row email (\<lambda>u. if u_is_robot u
         then u\<lparr>u_robot_description := description, u_updated_at := p_now p\<rparr> else u) (p_users p)\<rparr>))"

section \<open>At most one live token\<close>

definition robot_inv :: "SqlitePool \<Rightarrow> bool" where
  "robot_inv p \<longleftrightarrow> hm_wf (p_robot_tokens p) \<and> (\<forall>i\<in>set (map fst (p_robot_tokens p)). i < p_robot_token_seq p) \<and>
     (\<forall>email. count_where (live_token email) (p_robot_tokens p) \<le> 1) \<and>
     (\<forall>(i, t)\<in>set (p_robot_tokens p). map_of (p_users p) (rt_robot_email t) \<noteq> None) \<and>
     (\<forall>(u, r)\<in>set (p_user_roles p). map_of (p_users p) u \<noteq> None)"

interpretation robots: table_invariant robot_inv
  by unfold_locales (simp add: robot_inv_def)

lemmas robots_keeps = robots.keeps_exec robots.keeps_fetch robots.keeps_transaction keeps_intros

lemma keeps_revoke_tokens: "keeps robot_inv (revoke_all_active_tokens_in_conn email)"
  unfolding revoke_all_active_tokens_in_conn_def
proof (rule robots.keeps_exec, unfold keeps_def, intro allI impI)
  fix p assume p: "robot_inv p"
  let ?t = "update_where (live_token email) (\<lambda>t. t\<lparr>rt_revoked := True\<rparr>) (p_robot_tokens p)"
  have "count_where (live_token e) ?t \<le> count_where (live_token e) (p_robot_tokens p)" for e
    by (rule count_update_where) (simp add: live_token_def)
  then have "\<forall>e. count_where (live_token e) ?t \<le> 1" using p by (meson robot_inv_def order_trans)
  moreover have "\<forall>(i, t)\<in>set ?t. map_of (p_users p) (rt_robot_email t) \<noteq> None"
    using p by (fastforce simp: robot_inv_def set_update_where)
  ultimately show "robot_inv (snd (Ok (count_where (live_token email) (p_robot_tokens p)),
      p\<lparr>p_robot_tokens := ?t\<rparr>))"
    using p by (simp add: robot_inv_def)
qed

lemma keeps_mark_used: "keeps robot_inv (mark_robot_token_used i)"
  unfolding mark_robot_token_used_def
proof (rule robots.keeps_exec, unfold keeps_def, intro allI impI)
  fix p assume p: "robot_inv p"
  let ?f = "\<lambda>t. t\<lparr>rt_last_used_at := Some (p_now p), rt_first_used_at := coalesce (rt_first_used_at t) (Some (p_now p))\<rparr>"
  let ?t = "update_row i ?f (p_robot_tokens p)"
  have "count_where (live_token e) ?t = count_where (live_token e) (p_robot_tokens p)" for e
    by (rule count_update_row) (simp add: live_token_def)
  moreover have "\<forall>(i, t)\<in>set ?t. map_of (p_users p) (rt_robot_email t) \<noteq> None"
    using p by (fastforce simp: robot_inv_def update_row_def split: if_splits)
  ultimately show "robot_inv (snd (Ok (), p\<lparr>p_robot_tokens := ?t\<rparr>))"
    using p by (simp add: robot_inv_def)
qed

lemma robot_inv_add:
  assumes p: "robot_inv p" and u: "map_of (p_users p) email \<noteq> None"
    and none: "count_where (live_token email) (p_robot_tokens p) = 0" and t: "rt_robot_email t = email"
  shows "robot_inv (p\<lparr>p_robot_token_seq := p_robot_token_seq p + 1,
    p_robot_tokens := (p_robot_token_seq p, t) # p_robot_tokens p\<rparr>)"
proof -
  have "\<forall>i\<in>set (map fst (p_robot_tokens p)). i < p_robot_token_seq p" using p by (simp add: robot_inv_def)
  then have "p_robot_token_seq p \<notin> set (map fst (p_robot_tokens p))"
    "\<forall>i\<in>set (map fst (p_robot_tokens p)). i < p_robot_token_seq p + 1" by fastforce+
  moreover have "count_where (live_token e) ((p_robot_token_seq p, t) # p_robot_tokens p) \<le> 1" for e
    using p none t by (cases "e = email") (auto simp: robot_inv_def live_token_def)
  ultimately show ?thesis using p u t by (simp add: robot_inv_def)
qed

lemma no_live_token:
  "\<not> list_ex (\<lambda>(i, t). live_token email t) ts \<longleftrightarrow> count_where (live_token email) ts = 0"
  by (auto simp: count_where_0 list_ex_iff)

lemma keeps_insert_token: "keeps robot_inv (insert_robot_token email h pre ex)"
  unfolding insert_robot_token_def
  by (rule robots.keeps_exec) (simp add: keeps_def robot_inv_add no_live_token)

text \<open>Statements that touch users and role assignments only.\<close>

lemma robot_inv_accounts:
  assumes p: "robot_inv p" and us: "\<And>e. map_of (p_users p) e \<noteq> None \<Longrightarrow> map_of us e \<noteq> None"
    and ur: "\<And>u r. (u, r) \<in> set ur \<Longrightarrow> map_of us u \<noteq> None"
  shows "robot_inv (p\<lparr>p_users := us, p_user_roles := ur\<rparr>)"
proof -
  have "\<forall>(i, t)\<in>set (p_robot_tokens p). map_of us (rt_robot_email t) \<noteq> None"
    using p us unfolding robot_inv_def by fast
  then show ?thesis using p ur unfolding robot_inv_def by auto
qed

lemma robot_inv_roleD: "robot_inv p \<Longrightarrow> (u, r) \<in> set (p_user_roles p) \<Longrightarrow> map_of (p_users p) u \<noteq> None"
  unfolding robot_inv_def by fast

lemma robot_inv_users:
  assumes "robot_inv p" "\<And>e. map_of (p_users p) e \<noteq> None \<Longrightarrow> map_of us e \<noteq> None"
  shows "robot_inv (p\<lparr>p_users := us\<rparr>)"
  using robot_inv_accounts[OF assms, of "p_user_roles p"] robot_inv_roleD[OF assms(1)] assms(2) by simp

lemma robot_inv_roles:
  assumes "robot_inv p" "\<And>u r. (u, r) \<in> set ur \<Longrightarrow> map_of (p_users p) u \<noteq> None"
  shows "robot_inv (p\<lparr>p_user_roles := ur\<rparr>)"
  using robot_inv_accounts[of p "p_users p" ur] assms by simp

lemma robot_inv_tokens:
  assumes "robot_inv p" shows "robot_inv (p\<lparr>p_robot_tokens := filter P (p_robot_tokens p)\<rparr>)"
proof -
  have "count_where (live_token e) (filter P (p_robot_tokens p)) \<le> 1" for e
    using assms count_filter[of "live_token e" P "p_robot_tokens p"] by (meson robot_inv_def order_trans)
  then show ?thesis using assms by (auto simp: robot_inv_def distinct_map_filter)
qed

lemma keeps_accounts:
  "keeps robot_inv (insert_user email row)"
  "keeps robot_inv (set_user_active email a)"
  "keeps robot_inv (add_user_role email role)"
  "keeps robot_inv (set_description email d)"
proof -
  show "keeps robot_inv (insert_user email row)"
    unfolding insert_user_def by (rule robots.keeps_exec) (auto simp: keeps_def intro!: robot_inv_users)
  show "keeps robot_inv (set_user_active email a)"
    unfolding set_user_active_def
    by (rule robots.keeps_exec) (auto simp: keeps_def map_of_update_row intro!: robot_inv_users)
  show "keeps robot_inv (add_user_role email role)"
    unfolding add_user_role_def
    by (rule robots.keeps_exec) (auto simp: keeps_def dest: robot_inv_roleD intro!: robot_inv_roles)
  show "keeps robot_inv (set_description email d)"
    unfolding set_description_def
    by (rule robots.keeps_exec) (auto simp: keeps_def map_of_update_row intro!: robot_inv_users)
qed

lemmas robot_stmts = keeps_accounts keeps_insert_token keeps_revoke_tokens keeps_mark_used

lemma keeps_create: "keeps robot_inv (create_robot_in_conn name d ex h pre roles)"
  unfolding create_robot_in_conn_def Let_def by (intro robots_keeps robot_stmts)

lemma keeps_revive: "keeps robot_inv (revive_robot_in_conn email name d ex h pre roles)"
proof -
  have 1: "keeps robot_inv (\<lambda>p. (Ok (), p\<lparr>p_user_roles := filter (\<lambda>(u, r). u \<noteq> email) (p_user_roles p)\<rparr>))"
    by (auto simp: keeps_def dest: robot_inv_roleD intro!: robot_inv_roles)
  have 2: "keeps robot_inv (\<lambda>p. (Ok (), p\<lparr>p_robot_tokens := filter P (p_robot_tokens p)\<rparr>))" for P
    by (simp add: keeps_def robot_inv_tokens)
  have 3: "keeps robot_inv (\<lambda>p. (Ok (), p\<lparr>p_users := update_row email (f p) (p_users p)\<rparr>))" for f
    by (auto simp: keeps_def map_of_update_row intro!: robot_inv_users)
  show ?thesis
    unfolding revive_robot_in_conn_def by (intro robots_keeps robot_stmts 1 2 3)
qed

lemma keeps_robot_transactions:
  "keeps robot_inv (create_or_revive name d ex h pre roles)"
  "keeps robot_inv (tombstone_robot email)"
  "keeps robot_inv (rotate_token name renew h pre ex)"
  unfolding create_or_revive_def tombstone_robot_def rotate_token_def
    create_or_revive_inner_def tombstone_robot_inner_def rotate_token_inner_def
  by (intro robots_keeps robot_stmts keeps_create keeps_revive)+

datatype robot_request =
  ReqCreate string "string option" "timestamp option" string string "string list"
| ReqRotate string bool string string "timestamp option"
| ReqTombstone string
| ReqRevoke string
| ReqUsed int
| ReqDescribe string "string option"

fun run_robot_request :: "robot_request \<Rightarrow> SqlitePool \<Rightarrow> SqlitePool" where
  "run_robot_request (ReqCreate name d ex h pre roles) p = snd (create_or_revive name d ex h pre roles p)"
| "run_robot_request (ReqRotate name renew h pre ex) p = snd (rotate_token name renew h pre ex p)"
| "run_robot_request (ReqTombstone email) p = snd (tombstone_robot email p)"
| "run_robot_request (ReqRevoke email) p = snd (revoke_all_active_tokens email p)"
| "run_robot_request (ReqUsed i) p = snd (mark_robot_token_used i p)"
| "run_robot_request (ReqDescribe email d) p = snd (set_description email d p)"

lemma robot_inv_request: "robot_inv p \<Longrightarrow> robot_inv (run_robot_request rq p)"
  using keeps_robot_transactions robot_stmts
  by (cases rq) (auto simp: keeps_def revoke_all_active_tokens_def)


definition robot_sample :: SqlitePool where
  "robot_sample = sample_pool []"

lemma robot_sample_inv: "robot_inv robot_sample"
  by (simp add: robot_inv_def robot_sample_def sample_pool_def)


section \<open>What the operations do\<close>

lemma revoke_tokens_Ok:
  assumes "revoke_all_active_tokens_in_conn email p = (Ok n, p')"
  shows "unchanged (p\<lparr>p_robot_tokens := update_where (live_token email) (\<lambda>t. t\<lparr>rt_revoked := True\<rparr>) (p_robot_tokens p)\<rparr>) p'"
  using assms unfolding revoke_all_active_tokens_in_conn_def
  by (elim exec_Ok) (auto simp: unchanged_def intro: exI[of _ "p_faults p'"])

definition fresh_token :: "string \<Rightarrow> string \<Rightarrow> string \<Rightarrow> timestamp option \<Rightarrow> timestamp \<Rightarrow> RobotTokenRow" where
  "fresh_token email h pre ex t = \<lparr>rt_robot_email = email, rt_token_hash = h, rt_token_prefix = pre,
     rt_expires_at = ex, rt_revoked = False, rt_first_used_at = None, rt_last_used_at = None, rt_created_at = t\<rparr>"

lemma insert_token_Ok:
  assumes "insert_robot_token email h pre ex p = (Ok (), p')"
  shows "unchanged (p\<lparr>p_robot_token_seq := p_robot_token_seq p + 1, p_robot_tokens :=
      (p_robot_token_seq p, fresh_token email h pre ex (p_now p)) # p_robot_tokens p\<rparr>) p'"
    "\<forall>(i, t)\<in>set (p_robot_tokens p). rt_token_hash t \<noteq> h"
  using assms unfolding insert_robot_token_def
  by (elim exec_Ok; auto simp: unchanged_def fresh_token_def list_ex_iff split: if_splits
      intro: exI[of _ "p_faults p'"])+

lemma live_after_revoke:
  "filter (\<lambda>(i, t). live_token email t) (update_where (live_token email) (\<lambda>t. t\<lparr>rt_revoked := True\<rparr>) ts) = []"
  "filter (\<lambda>(i, t). rt_robot_email t \<noteq> email) (update_where (live_token email) (\<lambda>t. t\<lparr>rt_revoked := True\<rparr>) ts) =
     filter (\<lambda>(i, t). rt_robot_email t \<noteq> email) ts"
  by (induction ts) (auto simp: update_where_def live_token_def split: if_splits)

text \<open>
  C18. Rotating a token. Under every schedule of failing statements: a rotation that fails
  leaves the tables as they were; one that succeeds leaves the new token as the only live
  token of the robot, does not touch the tokens of other robots, and reports \<open>Rotated\<close>
  exactly if it replaced a live token, which needs \<open>renew\<close>.
\<close>

theorem rotation_replaces_token:
  assumes "rotate_token name renew h pre ex p = (r, p')"
  shows "case r of Err e \<Rightarrow> unchanged p p'
    | Ok outcome \<Rightarrow> (let email = name_to_synthetic_email name in
        filter (\<lambda>(i, t). live_token email t) (p_robot_tokens p') =
          [(p_robot_token_seq p, fresh_token email h pre ex (p_now p))] \<and>
        filter (\<lambda>(i, t). rt_robot_email t \<noteq> email) (p_robot_tokens p') =
          filter (\<lambda>(i, t). rt_robot_email t \<noteq> email) (p_robot_tokens p) \<and>
        (outcome = Rotated \<longleftrightarrow> (\<exists>(i, t)\<in>set (p_robot_tokens p). live_token email t)) \<and>
        (outcome = Rotated \<longrightarrow> renew) \<and>
        (\<exists>u. map_of (p_users p) email = Some u \<and> u_is_robot u \<and> u_active u))"
proof (cases r)
  case (Inl e)
  then show ?thesis using assms transaction_Err unfolding rotate_token_def by fastforce
next
  case (Inr outcome)
  let ?e = "name_to_synthetic_email name"
  obtain p0 p1 where t: "unchanged p p0" "rotate_token_inner ?e renew h pre ex p0 = (Ok outcome, p1)" "unchanged p1 p'"
    using assms Inr transaction_Ok unfolding rotate_token_def by metis
  obtain u has q1 q2 n q3 where
    1: "fetch (\<lambda>p. map_of (p_users p) ?e) p0 = (Ok (Some u), q1)" and u: "u_is_robot u" "u_active u" and
    2: "fetch (\<lambda>p. list_ex (\<lambda>(i, t). live_token ?e t) (p_robot_tokens p)) q1 = (Ok has, q2)" and
    3: "revoke_all_active_tokens_in_conn ?e q2 = (Ok n, q3)" and
    4: "insert_robot_token ?e h pre ex q3 = (Ok (), p1)" and
    out: "has \<longrightarrow> renew" "outcome = (if has then Rotated else Issued)"
    using t(2) unfolding rotate_token_inner_def
    by (auto split: prod.splits sum.splits option.splits if_splits)
  note same = unchanged_fields[OF t(1)] unchanged_fields[OF t(3)] unchanged_fields[OF conjunct1[OF fetch_Ok[OF 1]]]
    unchanged_fields[OF conjunct1[OF fetch_Ok[OF 2]]] unchanged_fields[OF revoke_tokens_Ok[OF 3]]
    unchanged_fields[OF insert_token_Ok(1)[OF 4]]
  have "map_of (p_users p) ?e = Some u" using fetch_Ok[OF 1] same by simp
  moreover have "has \<longleftrightarrow> (\<exists>(i, t)\<in>set (p_robot_tokens p). live_token ?e t)"
    using fetch_Ok[OF 2] same by (simp add: list_ex_iff)
  moreover have "p_robot_tokens p' = (p_robot_token_seq p, fresh_token ?e h pre ex (p_now p)) #
      update_where (live_token ?e) (\<lambda>t. t\<lparr>rt_revoked := True\<rparr>) (p_robot_tokens p)"
    using same by simp
  moreover have "live_token ?e (fresh_token ?e h pre ex (p_now p))" "rt_robot_email (fresh_token ?e h pre ex (p_now p)) = ?e"
    by (simp_all add: live_token_def fresh_token_def)
  ultimately show ?thesis using Inr u out by (simp add: live_after_revoke)
qed

definition robot_user :: UserRow where
  "robot_user = \<lparr>u_name = ''robot:ci'', u_active = True, u_created_at = 0, u_updated_at = 0,
     u_default_channel_id = None, u_is_robot = True, u_robot_description = None, u_first_login_at = None\<rparr>"

definition robot_sample1 :: SqlitePool where
  "robot_sample1 = robot_sample\<lparr>p_users := [(name_to_synthetic_email ''ci'', robot_user)], p_robot_token_seq := 2,
     p_robot_tokens := [(1, fresh_token (name_to_synthetic_email ''ci'') ''h1'' ''p1'' None 0)]\<rparr>"

theorem rotation_replaces_token_witness:
  "fst (rotate_token ''ci'' True ''h2'' ''p2'' None robot_sample1) = Ok Rotated \<and>
   filter (\<lambda>(i, t). live_token (name_to_synthetic_email ''ci'') t)
     (p_robot_tokens (snd (rotate_token ''ci'' True ''h2'' ''p2'' None robot_sample1))) =
     [(2, fresh_token (name_to_synthetic_email ''ci'') ''h2'' ''p2'' None 100)]"
proof -
  obtain r p' where t: "rotate_token ''ci'' True ''h2'' ''p2'' None robot_sample1 = (r, p')" by (meson surj_pair)
  have r: "r = Ok Rotated"
    using t by (simp add: rotate_token_def transaction_with_def rotate_token_inner_def robot_sample1_def
        robot_sample_def sample_pool_def robot_user_def fresh_token_def live_token_def insert_robot_token_def
        revoke_all_active_tokens_in_conn_def update_where_def split: sum.splits if_splits)
  have "p_robot_token_seq robot_sample1 = 2" "p_now robot_sample1 = 100"
    by (simp_all add: robot_sample1_def robot_sample_def sample_pool_def)
  then show ?thesis using rotation_replaces_token[OF t] t r by (simp add: Let_def)
qed

text \<open>
  C19. Tombstoning locks a robot out. Under every schedule of failing statements: a
  tombstone that fails changes nothing; one that succeeds revokes every token of the
  robot, counts them, and deactivates its account, so that loading the account for a
  request fails in every database with these tables.
\<close>

theorem tombstone_locks_out:
  assumes "tombstone_robot email p = (r, p')"
  shows "case r of Err e \<Rightarrow> unchanged p p'
    | Ok n \<Rightarrow> n = count_where (live_token email) (p_robot_tokens p) \<and>
        (\<forall>(i, t)\<in>set (p_robot_tokens p'). \<not> live_token email t) \<and>
        (\<forall>q u. unchanged p' q \<longrightarrow> fst (load_authed_user email q) \<noteq> Ok u)"
proof (cases r)
  case (Inl e)
  then show ?thesis using assms transaction_Err unfolding tombstone_robot_def by fastforce
next
  case (Inr n)
  obtain p0 p1 where t: "unchanged p p0" "tombstone_robot_inner email p0 = (Ok n, p1)" "unchanged p1 p'"
    using assms Inr transaction_Ok unfolding tombstone_robot_def by metis
  obtain q1 where 1: "set_user_active email False p0 = (Ok (), q1)"
    and 2: "revoke_all_active_tokens_in_conn email q1 = (Ok n, p1)"
    using t(2) unfolding tombstone_robot_inner_def by (auto split: prod.splits sum.splits)
  have a: "p_users q1 = update_row email (\<lambda>u. u\<lparr>u_active := False, u_updated_at := p_now p0\<rparr>) (p_users p0)"
    "p_robot_tokens q1 = p_robot_tokens p0"
    using 1 unfolding set_user_active_def by (elim exec_Ok; auto simp: unchanged_def)+
  have n: "n = count_where (live_token email) (p_robot_tokens q1)"
    using 2 unfolding revoke_all_active_tokens_in_conn_def by (elim exec_Ok) (auto simp: unchanged_def)
  note same = unchanged_fields[OF t(1)] unchanged_fields[OF t(3)] unchanged_fields[OF revoke_tokens_Ok[OF 2]]
  have "p_robot_tokens p' = update_where (live_token email) (\<lambda>t. t\<lparr>rt_revoked := True\<rparr>) (p_robot_tokens p)"
    using same a by simp
  then have "\<forall>(i, t)\<in>set (p_robot_tokens p'). \<not> live_token email t"
    using live_after_revoke(1)[of email "p_robot_tokens p"] by (fastforce simp: filter_empty_conv)
  moreover have "map_of (p_users q) email \<noteq> Some u \<or> \<not> u_active u" if "unchanged p' q" for q u
    using unchanged_fields(1)[OF that] same a by (auto simp: map_of_update_row)
  then have "fst (load_authed_user email q) \<noteq> Ok v" if "unchanged p' q" for q v
    using that load_authed_user_Ok[of email q v "snd (load_authed_user email q)"] by (metis prod.collapse)
  ultimately show ?thesis using Inr n a same by simp
qed

theorem tombstone_locks_out_witness:
  "let (r, p') = tombstone_robot (name_to_synthetic_email ''ci'') robot_sample1 in r = Ok 1 \<and>
     (\<forall>(i, t)\<in>set (p_robot_tokens p'). \<not> live_token (name_to_synthetic_email ''ci'') t) \<and>
     (\<forall>u. fst (load_authed_user (name_to_synthetic_email ''ci'') p') \<noteq> Ok u)"
proof -
  let ?e = "name_to_synthetic_email ''ci''"
  obtain r p' where t: "tombstone_robot ?e robot_sample1 = (r, p')" by (meson surj_pair)
  have r: "r = Ok 1"
    using t by (simp add: tombstone_robot_def transaction_with_def tombstone_robot_inner_def set_user_active_def
        revoke_all_active_tokens_in_conn_def robot_sample1_def robot_sample_def sample_pool_def
        fresh_token_def live_token_def)
  show ?thesis using tombstone_locks_out[OF t] t r by simp
qed

lemma insert_user_Ok:
  assumes "insert_user email row p = (Ok (), p')"
  shows "unchanged (p\<lparr>p_users := (email, row (p\<lparr>p_faults := p_faults p'\<rparr>)) # p_users p\<rparr>) p'"
  using assms unfolding insert_user_def
  by (elim exec_Ok) (auto simp: unchanged_def split: if_splits intro: exI[of _ "p_faults p'"])

lemma add_roles_Ok:
  "each (add_user_role email) roles p = (Ok (), p') \<Longrightarrow>
     \<exists>ur. unchanged (p\<lparr>p_user_roles := ur\<rparr>) p' \<and> set ur = set (p_user_roles p) \<union> {email} \<times> set roles"
proof (induction roles arbitrary: p)
  case Nil
  then show ?case by (intro exI[of _ "p_user_roles p"]) simp
next
  case (Cons r roles)
  then obtain q where q: "add_user_role email r p = (Ok (), q)" "each (add_user_role email) roles q = (Ok (), p')"
    by (auto split: prod.splits sum.splits)
  have "\<exists>ur. unchanged (p\<lparr>p_user_roles := ur\<rparr>) q \<and> set ur = set (p_user_roles p) \<union> {(email, r)}"
    using q(1) unfolding add_user_role_def
  proof (elim exec_Ok)
    fix s assume s: "unchanged p s" and run: "(if map_of (p_users s) email = None \<or> map_of (p_roles s) r = None
       then (Err (SqlxError ''FOREIGN KEY constraint failed''), s)
       else if (email, r) \<in> set (p_user_roles s) then (Ok (), s)
       else (Ok (), s\<lparr>p_user_roles := p_user_roles s @ [(email, r)]\<rparr>)) = (Ok (), q)"
    show ?thesis
      using run s by (intro exI[of _ "p_user_roles q"])
        (auto simp: unchanged_def split: if_splits intro: exI[of _ "p_faults q"])
  qed
  then obtain ur where ur: "unchanged (p\<lparr>p_user_roles := ur\<rparr>) q" "set ur = set (p_user_roles p) \<union> {(email, r)}" by blast
  obtain ur' where ur': "unchanged (q\<lparr>p_user_roles := ur'\<rparr>) p'" "set ur' = set (p_user_roles q) \<union> {email} \<times> set roles"
    using Cons.IH[OF q(2)] by blast
  have "unchanged (p\<lparr>p_user_roles := ur'\<rparr>) p'" using ur(1) ur'(1)
    by (auto simp: unchanged_def intro: exI[of _ "p_faults p'"])
  then show ?case using ur'(2) ur(2) unchanged_fields(4)[OF ur(1)] by (intro exI[of _ ur']) auto
qed

text \<open>What a created and a revived robot have in common.\<close>

definition fresh_robot :: "string \<Rightarrow> string option \<Rightarrow> string list \<Rightarrow> int \<Rightarrow> RobotTokenRow \<Rightarrow> SqlitePool \<Rightarrow> bool" where
  "fresh_robot name d roles i t p \<longleftrightarrow>
     (let email = name_to_synthetic_email name in
      filter (\<lambda>(j, t). rt_robot_email t = email) (p_robot_tokens p) = [(i, t)] \<and>
      {r. (email, r) \<in> set (p_user_roles p)} = set roles \<and>
      (\<exists>u. map_of (p_users p) email = Some u \<and> u_is_robot u \<and> u_active u \<and> u_name u = ''robot:'' @ name \<and>
         u_robot_description u = d \<and> u_default_channel_id u = None \<and> u_created_at u = p_now p))"

lemma create_robot_fresh:
  assumes run: "create_robot_in_conn name d ex h pre roles p = (Ok (), p')" and inv: "robot_inv p"
    and none: "map_of (p_users p) (name_to_synthetic_email name) = None"
  shows "fresh_robot name d roles (p_robot_token_seq p) (fresh_token (name_to_synthetic_email name) h pre ex (p_now p)) p'"
proof -
  let ?e = "name_to_synthetic_email name"
  obtain q1 q2 where 1: "insert_user ?e (\<lambda>p. (new_user p (''robot:'' @ name))\<lparr>u_is_robot := True,
      u_robot_description := d\<rparr>) p = (Ok (), q1)"
    and 2: "insert_robot_token ?e h pre ex q1 = (Ok (), q2)" and 3: "each (add_user_role ?e) roles q2 = (Ok (), p')"
    using run unfolding create_robot_in_conn_def Let_def seq_stmts_def
    by (auto split: prod.splits sum.splits)
  obtain ur where ur: "unchanged (q2\<lparr>p_user_roles := ur\<rparr>) p'" "set ur = set (p_user_roles q2) \<union> {?e} \<times> set roles"
    using add_roles_Ok[OF 3] by blast
  note same = unchanged_fields[OF insert_user_Ok[OF 1]] unchanged_fields[OF insert_token_Ok(1)[OF 2]] unchanged_fields[OF ur(1)]
  have "filter (\<lambda>(j, t). rt_robot_email t = ?e) (p_robot_tokens p) = []"
    using inv none unfolding robot_inv_def filter_empty_conv by fastforce
  moreover have "(?e, r) \<notin> set (p_user_roles p)" for r using robot_inv_roleD[OF inv] none by blast
  ultimately show ?thesis using same ur(2) by (auto simp: fresh_robot_def fresh_token_def new_user_def)
qed

lemma revive_robot_fresh:
  assumes run: "revive_robot_in_conn (name_to_synthetic_email name) name d ex h pre roles p = (Ok (), p')"
    and u: "map_of (p_users p) (name_to_synthetic_email name) = Some u" "u_is_robot u"
  shows "fresh_robot name d roles (p_robot_token_seq p) (fresh_token (name_to_synthetic_email name) h pre ex (p_now p)) p'"
proof -
  let ?e = "name_to_synthetic_email name"
  obtain q1 q2 q3 q4 where
    1: "exec (\<lambda>p. (Ok (), p\<lparr>p_user_roles := filter (\<lambda>(u, r). u \<noteq> ?e) (p_user_roles p)\<rparr>)) p = (Ok (), q1)" and
    2: "exec (\<lambda>p. (Ok (), p\<lparr>p_robot_tokens := filter (\<lambda>(i, t). rt_robot_email t \<noteq> ?e) (p_robot_tokens p)\<rparr>)) q1 = (Ok (), q2)" and
    3: "exec (\<lambda>p. (Ok (), p\<lparr>p_users := update_row ?e (\<lambda>u. u\<lparr>u_active := True,
        u_name := ''robot:'' @ name, u_robot_description := d, u_default_channel_id := None,
        u_created_at := p_now p, u_updated_at := p_now p\<rparr>) (p_users p)\<rparr>)) q2 = (Ok (), q3)" and
    4: "each (add_user_role ?e) roles q3 = (Ok (), q4)" and 5: "insert_robot_token ?e h pre ex q4 = (Ok (), p')"
    using run unfolding revive_robot_in_conn_def seq_stmts_def by (auto split: prod.splits sum.splits)
  have a: "unchanged (p\<lparr>p_user_roles := filter (\<lambda>(u, r). u \<noteq> ?e) (p_user_roles p)\<rparr>) q1"
    using 1 by (elim exec_Ok) (auto simp: unchanged_def intro: exI[of _ "p_faults q1"])
  have b: "unchanged (q1\<lparr>p_robot_tokens := filter (\<lambda>(i, t). rt_robot_email t \<noteq> ?e) (p_robot_tokens q1)\<rparr>) q2"
    using 2 by (elim exec_Ok) (auto simp: unchanged_def intro: exI[of _ "p_faults q2"])
  have c: "unchanged (q2\<lparr>p_users := update_row ?e (\<lambda>u. u\<lparr>u_active := True,
        u_name := ''robot:'' @ name, u_robot_description := d, u_default_channel_id := None,
        u_created_at := p_now q2, u_updated_at := p_now q2\<rparr>) (p_users q2)\<rparr>) q3"
    using 3 by (elim exec_Ok) (auto simp: unchanged_def intro: exI[of _ "p_faults q3"])
  obtain ur where ur: "unchanged (q3\<lparr>p_user_roles := ur\<rparr>) q4" "set ur = set (p_user_roles q3) \<union> {?e} \<times> set roles"
    using add_roles_Ok[OF 4] by blast
  note same = unchanged_fields[OF a] unchanged_fields[OF b] unchanged_fields[OF c] unchanged_fields[OF ur(1)]
    unchanged_fields[OF insert_token_Ok(1)[OF 5]]
  have users: "map_of (p_users p') ?e = Some (u\<lparr>u_active := True, u_name := ''robot:'' @ name, u_robot_description := d,
      u_default_channel_id := None, u_created_at := p_now p, u_updated_at := p_now p\<rparr>)"
    using unchanged_fields(1)[OF insert_token_Ok(1)[OF 5]] unchanged_fields(1)[OF ur(1)] unchanged_fields(1)[OF c]
      unchanged_fields(1,6)[OF b] unchanged_fields(1,6)[OF a] u(1)
    by (simp add: map_of_update_row)
  have tokens: "p_robot_tokens p' = (p_robot_token_seq p, fresh_token ?e h pre ex (p_now p)) #
      filter (\<lambda>(i, t). rt_robot_email t \<noteq> ?e) (p_robot_tokens p)" using same by simp
  have "p_user_roles p' = ur" "p_user_roles q3 = filter (\<lambda>(u, r). u \<noteq> ?e) (p_user_roles p)" using same by simp_all
  then have "{r. (?e, r) \<in> set (p_user_roles p')} = set roles" using ur(2) by auto
  moreover have "filter (\<lambda>(j, t). rt_robot_email t = ?e) (p_robot_tokens p') =
      [(p_robot_token_seq p, fresh_token ?e h pre ex (p_now p))]"
    unfolding tokens by (auto simp: fresh_token_def filter_empty_conv)
  moreover have "p_now p' = p_now p" using same by simp
  ultimately show ?thesis using users u(2) unfolding fresh_robot_def Let_def by simp
qed

text \<open>
  Creating or reviving a robot. Under every schedule of failing statements: a request
  that fails changes nothing; one that succeeds leaves the robot active with exactly the
  requested roles, exactly one token, and nothing of an earlier identity (name,
  description, default channel and creation time are rewritten); it creates the account
  exactly if there was none and otherwise the account was a deactivated robot.
\<close>

theorem revived_robot_starts_fresh:
  assumes run: "create_or_revive name d ex h pre roles p = (r, p')" and inv: "robot_inv p"
  shows "case r of Err e \<Rightarrow> unchanged p p'
    | Ok outcome \<Rightarrow>
        fresh_robot name d roles (p_robot_token_seq p)
          (fresh_token (name_to_synthetic_email name) h pre ex (p_now p)) p' \<and>
        (case map_of (p_users p) (name_to_synthetic_email name) of
           None \<Rightarrow> outcome = Created
         | Some u \<Rightarrow> outcome = Revived \<and> u_is_robot u \<and> \<not> u_active u)"
proof (cases r)
  case (Inl e)
  then show ?thesis using run transaction_Err unfolding create_or_revive_def by fastforce
next
  case (Inr outcome)
  let ?e = "name_to_synthetic_email name"
  let ?t = "\<lambda>q. fresh_token ?e h pre ex (p_now q)"
  obtain p0 p1 where t: "unchanged p p0" "create_or_revive_inner ?e name d ex h pre roles p0 = (Ok outcome, p1)" "unchanged p1 p'"
    using run Inr transaction_Ok unfolding create_or_revive_def by metis
  obtain x q where f: "fetch (\<lambda>p. map_of (p_users p) ?e) p0 = (Ok x, q)"
    using t(2) unfolding create_or_revive_inner_def by (auto split: prod.splits sum.splits)
  have q: "unchanged p q" "map_of (p_users p) ?e = x"
    using fetch_Ok[OF f] unchanged_trans[OF t(1)] unchanged_fields(1)[of p q] by simp_all
  note inv_q = robots.unchanged_inv[OF q(1) inv]
  have "fresh_robot name d roles (p_robot_token_seq q) (?t q) p1 \<and>
      (case x of None \<Rightarrow> outcome = Created | Some u \<Rightarrow> outcome = Revived \<and> u_is_robot u \<and> \<not> u_active u)"
  proof (cases x)
    case None
    then have "create_robot_in_conn name d ex h pre roles q = (Ok (), p1)" "outcome = Created"
      using t(2) f unfolding create_or_revive_inner_def by (auto split: prod.splits sum.splits)
    then show ?thesis using create_robot_fresh[OF _ inv_q] q None by (simp add: unchanged_fields)
  next
    case (Some u)
    then have "revive_robot_in_conn ?e name d ex h pre roles q = (Ok (), p1)" "outcome = Revived"
        "u_is_robot u" "\<not> u_active u"
      using t(2) f unfolding create_or_revive_inner_def by (auto split: prod.splits sum.splits if_splits)
    moreover have "map_of (p_users q) ?e = Some u" using q Some unchanged_fields(1)[OF q(1)] by simp
    ultimately show ?thesis using revive_robot_fresh Some by simp
  qed
  moreover have "fresh_robot name d roles i u p1 = fresh_robot name d roles i u p'" for i u
    using unchanged_fields[OF t(3)] by (simp add: fresh_robot_def)
  ultimately show ?thesis using Inr q unchanged_fields[OF q(1)] by simp
qed

theorem revived_robot_starts_fresh_witness:
  "let (r, p') = create_or_revive ''ci'' None None ''h1'' ''p1'' [''builder''] robot_sample in r = Ok Created \<and>
     fresh_robot ''ci'' None [''builder''] 1 (fresh_token (name_to_synthetic_email ''ci'') ''h1'' ''p1'' None 100) p'"
proof -
  let ?run = "create_or_revive ''ci'' None None ''h1'' ''p1'' [''builder''] robot_sample"
  obtain r p' where t: "?run = (r, p')" by (meson surj_pair)
  have "name_to_synthetic_email ''ci'' \<noteq> ''alice''" by (simp add: name_to_synthetic_email_def)
  then have r: "r = Ok Created" "map_of (p_users robot_sample) (name_to_synthetic_email ''ci'') = None"
      "p_robot_token_seq robot_sample = 1" "p_now robot_sample = 100"
    using t by (auto simp: create_or_revive_def transaction_with_def create_or_revive_inner_def robot_sample_def
        sample_pool_def create_robot_in_conn_def Let_def seq_stmts_def insert_user_def insert_robot_token_def add_user_role_def)
  show ?thesis using revived_robot_starts_fresh[OF t robot_sample_inv] t r by simp
qed

end
