(* ===== verification/Cbs_Token_Cache.thy ===== *)
theory Cbs_Token_Cache
  imports Cbs_Route Cbs_Robots
begin

text \<open>
  Bearer tokens (\<open>auth/token_cache.rs\<close>): the cache of verified API keys and robot tokens
  with its two reverse indexes, the verification path, and the generation of tokens.

  Three libraries are parameters, fields of \<open>crypto\<close>: the \<open>lru\<close> crate, SHA-256 and
  Argon2. A \<open>HashSet\<close> of hashes is a list without duplicates.
\<close>

section \<open>The cache\<close>

datatype TokenKind = ApiKey | RobotToken

record CachedToken =
  ca_kind :: TokenKind
  ca_token_id :: int
  ca_owner_email :: string
  ca_prefix :: string
  ca_expires_at :: "timestamp option"

text \<open>
  The methods of \<open>LruCache\<close> the code uses, and two that only the statements use: \<open>peek\<close>,
  which reads without promoting, and \<open>cap\<close>, the capacity.
\<close>

record 'c lru_cache =
  lru_new :: "nat \<Rightarrow> 'c"
  lru_push :: "string \<Rightarrow> CachedToken \<Rightarrow> 'c \<Rightarrow> (string \<times> CachedToken) option \<times> 'c"
  lru_get :: "string \<Rightarrow> 'c \<Rightarrow> CachedToken option \<times> 'c"
  lru_pop :: "string \<Rightarrow> 'c \<Rightarrow> CachedToken option \<times> 'c"
  lru_peek :: "'c \<Rightarrow> string \<Rightarrow> CachedToken option"
  lru_cap :: "'c \<Rightarrow> nat"

record 'c TokenCache =
  by_sha256 :: 'c
  by_prefix :: "(string, string list) hashmap"
  by_owner :: "(string, string list) hashmap"

definition cache_new :: "'c lru_cache \<Rightarrow> nat \<Rightarrow> 'c TokenCache" where
  "cache_new lru capacity = \<lparr>by_sha256 = lru_new lru capacity, by_prefix = [], by_owner = []\<rparr>"

text \<open>\<open>entry(k).or_default().insert(h)\<close>, and \<open>remove(h)\<close> with the removal of an empty set.\<close>

definition hs_add :: "string \<Rightarrow> string \<Rightarrow> (string, string list) hashmap \<Rightarrow> (string, string list) hashmap" where
  "hs_add k h m = AList.update k (List.insert h (case map_of m k of None \<Rightarrow> [] | Some hs \<Rightarrow> hs)) m"

definition hs_remove :: "string \<Rightarrow> string \<Rightarrow> (string, string list) hashmap \<Rightarrow> (string, string list) hashmap" where
  "hs_remove k h m =
     (case map_of m k of
        None \<Rightarrow> m
      | Some hs \<Rightarrow>
        (let hs = removeAll h hs in if hs = [] then AList.delete k m else AList.update k hs m))"

definition remove_from_reverse_maps :: "string \<Rightarrow> string \<Rightarrow> string \<Rightarrow> 'c TokenCache \<Rightarrow> 'c TokenCache" where
  "remove_from_reverse_maps prfx owner h c =
     c\<lparr>by_prefix := hs_remove prfx h (by_prefix c), by_owner := hs_remove owner h (by_owner c)\<rparr>"

definition cache_insert :: "'c lru_cache \<Rightarrow> string \<Rightarrow> CachedToken \<Rightarrow> 'c TokenCache \<Rightarrow> 'c TokenCache" where
  "cache_insert lru sha256 entry c =
     (case lru_push lru sha256 entry (by_sha256 c) of
        (out, l) \<Rightarrow>
          (let c = c\<lparr>by_sha256 := l\<rparr>;
               c = (case out of
                      Some (evicted_hash, evicted) \<Rightarrow>
                        if evicted_hash \<noteq> sha256
                        then remove_from_reverse_maps (ca_prefix evicted) (ca_owner_email evicted) evicted_hash c
                        else c
                    | None \<Rightarrow> c)
           in c\<lparr>by_prefix := hs_add (ca_prefix entry) sha256 (by_prefix c),
                by_owner := hs_add (ca_owner_email entry) sha256 (by_owner c)\<rparr>))"

definition cache_get :: "'c lru_cache \<Rightarrow> string \<Rightarrow> 'c TokenCache \<Rightarrow> CachedToken option \<times> 'c TokenCache" where
  "cache_get lru sha256 c = (case lru_get lru sha256 (by_sha256 c) of (r, l) \<Rightarrow> (r, c\<lparr>by_sha256 := l\<rparr>))"

definition pop_prefixed :: "'c lru_cache \<Rightarrow> string \<Rightarrow> 'c TokenCache \<Rightarrow> 'c TokenCache" where
  "pop_prefixed lru h c =
     (case lru_pop lru h (by_sha256 c) of
        (None, l) \<Rightarrow> c\<lparr>by_sha256 := l\<rparr>
      | (Some entry, l) \<Rightarrow> c\<lparr>by_sha256 := l, by_owner := hs_remove (ca_owner_email entry) h (by_owner c)\<rparr>)"

definition remove_by_prefix :: "'c lru_cache \<Rightarrow> string \<Rightarrow> 'c TokenCache \<Rightarrow> 'c TokenCache" where
  "remove_by_prefix lru prfx c =
     (case map_of (by_prefix c) prfx of
        None \<Rightarrow> c
      | Some hashes \<Rightarrow> fold (pop_prefixed lru) hashes (c\<lparr>by_prefix := AList.delete prfx (by_prefix c)\<rparr>))"

definition pop_owned :: "'c lru_cache \<Rightarrow> string \<Rightarrow> 'c TokenCache \<Rightarrow> 'c TokenCache" where
  "pop_owned lru h c =
     (case lru_pop lru h (by_sha256 c) of
        (None, l) \<Rightarrow> c\<lparr>by_sha256 := l\<rparr>
      | (Some entry, l) \<Rightarrow> c\<lparr>by_sha256 := l, by_prefix := hs_remove (ca_prefix entry) h (by_prefix c)\<rparr>)"

definition remove_by_owner :: "'c lru_cache \<Rightarrow> string \<Rightarrow> 'c TokenCache \<Rightarrow> 'c TokenCache" where
  "remove_by_owner lru email c =
     (case map_of (by_owner c) email of
        None \<Rightarrow> c
      | Some hashes \<Rightarrow> fold (pop_owned lru) hashes (c\<lparr>by_owner := AList.delete email (by_owner c)\<rparr>))"

section \<open>Tokens\<close>

datatype TokenError = TeDb sqlx_error | InvalidFormat | TeNotFound | Expired | HashError string

fun token_error_display :: "TokenError \<Rightarrow> string" where
  "token_error_display (TeDb e) = ''database error: '' @ sqlx_error_display e"
| "token_error_display InvalidFormat = ''invalid token format''"
| "token_error_display TeNotFound = ''token not found or revoked''"
| "token_error_display Expired = ''token expired''"
| "token_error_display (HashError e) = ''hashing error: '' @ e"

text \<open>
  \<open>cr_hash_password\<close> hashes with the \<open>n\<close>-th random salt, \<open>cr_phc_parse\<close> is
  \<open>PasswordHash::new\<close>, \<open>cr_random\<close> the \<open>n\<close>-th draw of 32 random bytes.
\<close>

record 'c crypto =
  cr_lru :: "'c lru_cache"
  cr_sha256 :: "string \<Rightarrow> string"
  cr_random :: "nat \<Rightarrow> string"
  cr_hash_password :: "nat \<Rightarrow> string \<Rightarrow> string + string"
  cr_phc_parse :: "string \<Rightarrow> string option"
  cr_verify_password :: "string \<Rightarrow> string \<Rightarrow> bool"

definition argon2_hash :: "'c crypto \<Rightarrow> nat \<Rightarrow> string \<Rightarrow> TokenError + string" where
  "argon2_hash cr n raw = (case cr_hash_password cr n raw of Err e \<Rightarrow> Err (HashError e) | Ok h \<Rightarrow> Ok h)"

definition argon2_verify :: "'c crypto \<Rightarrow> string \<Rightarrow> string \<Rightarrow> bool" where
  "argon2_verify cr raw hash_str =
     (case cr_phc_parse cr hash_str of None \<Rightarrow> False | Some parsed \<Rightarrow> cr_verify_password cr raw parsed)"

record CandidateRow =
  cd_id :: int
  cd_hash :: string
  cd_prefix :: string
  cd_owner_email :: string
  cd_expires_at :: "timestamp option"

definition candidate_of_api_key :: "int \<times> ApiKeyRow \<Rightarrow> CandidateRow" where
  "candidate_of_api_key = (\<lambda>(i, r). \<lparr>cd_id = i, cd_hash = ak_key_hash r, cd_prefix = ak_key_prefix r,
     cd_owner_email = ak_owner_email r, cd_expires_at = ak_expires_at r\<rparr>)"

definition candidate_of_robot_token :: "TokenCandidate \<Rightarrow> CandidateRow" where
  "candidate_of_robot_token r = \<lparr>cd_id = tc_id r, cd_hash = tc_token_hash r, cd_prefix = tc_token_prefix r,
     cd_owner_email = tc_robot_email r, cd_expires_at = tc_expires_at r\<rparr>"

text \<open>The plaintext, the lookup prefix and the stored hash, from the \<open>n\<close>-th random draw.\<close>

definition generate_token_material :: "'c crypto \<Rightarrow> nat \<Rightarrow> string \<Rightarrow> TokenError + string \<times> string \<times> string" where
  "generate_token_material cr n prfx =
     (let raw = prfx @ hex_encode (cr_random cr n);
          lookup_prefix = take 12 (drop (length prfx) raw)
      in case argon2_hash cr n raw of
           Err e \<Rightarrow> Err e
         | Ok h \<Rightarrow> Ok (raw, lookup_prefix, h))"

definition generate_api_key_material :: "'c crypto \<Rightarrow> nat \<Rightarrow> TokenError + string \<times> string \<times> string" where
  "generate_api_key_material cr n = generate_token_material cr n ''cbsk_''"

definition generate_robot_token_material :: "'c crypto \<Rightarrow> nat \<Rightarrow> TokenError + string \<times> string \<times> string" where
  "generate_robot_token_material cr n = generate_token_material cr n ''cbrk_''"

definition create_api_key ::
  "'c crypto \<Rightarrow> nat \<Rightarrow> string \<Rightarrow> string \<Rightarrow> SqlitePool \<Rightarrow> (TokenError + string \<times> string) \<times> SqlitePool" where
  "create_api_key cr n name owner_email =
     and_then (of_result (generate_api_key_material cr n)) (\<lambda>(raw_key, prfx, h).
     and_then (map_err TeDb (insert_api_key name owner_email h prfx)) (\<lambda>_.
     returns (raw_key, prfx)))"

section \<open>Verification\<close>

text \<open>The application state together with the cache, each behind its own lock in the code.\<close>

record 'c Server =
  sv_app :: AppState
  sv_token_cache :: "'c TokenCache"

definition on_db :: "(SqlitePool \<Rightarrow> 'r \<times> SqlitePool) \<Rightarrow> 'c Server \<Rightarrow> 'r \<times> 'c Server" where
  "on_db f s = (case f (pool (sv_app s)) of (r, p) \<Rightarrow> (r, s\<lparr>sv_app := (sv_app s)\<lparr>pool := p\<rparr>\<rparr>))"

text \<open>What handlers keep of the database.\<close>

abbreviation server_db :: "(SqlitePool \<Rightarrow> bool) \<Rightarrow> 'c Server \<Rightarrow> bool" where
  "server_db I s \<equiv> I (pool (sv_app s))"

lemma on_db_Ok: "on_db f s = (r, s') \<longleftrightarrow>
    (\<exists>p. f (pool (sv_app s)) = (r, p) \<and> s' = s\<lparr>sv_app := (sv_app s)\<lparr>pool := p\<rparr>\<rparr>)"
  by (auto simp: on_db_def split: prod.splits)

lemma keeps_on_db [keeps_intros]: "keeps I f \<Longrightarrow> keeps (server_db I) (on_db f)"
  by (auto simp: keeps_def on_db_def split: prod.splits)

definition past_expiry :: "timestamp option \<Rightarrow> 'c Server \<Rightarrow> bool" where
  "past_expiry exp s = (case exp of None \<Rightarrow> False | Some t \<Rightarrow> now (sv_app s) > t)"

text \<open>
  The verification has two parts that other requests can come between: the cache and the
  candidate rows are read (\<open>verify_lookup\<close>), then the candidates are checked and the cache
  is written (\<open>verify_finish\<close>). On the path without candidates the code also computes a
  hash whose result it drops.
\<close>

datatype verification = Settled "TokenError + CachedToken" | Candidates "CandidateRow list"

definition verify_lookup ::
  "'c crypto \<Rightarrow> string \<Rightarrow> string \<Rightarrow> (string \<Rightarrow> CandidateRow list db) \<Rightarrow> 'c Server \<Rightarrow> verification \<times> 'c Server" where
  "verify_lookup cr raw expected_prefix fetch_candidates s =
     (if length raw \<noteq> 69 \<or> \<not> starts_with raw expected_prefix then (Settled (Err InvalidFormat), s)
      else
        (case cache_get (cr_lru cr) (cr_sha256 cr raw) (sv_token_cache s) of
           (Some cached, c) \<Rightarrow>
             (Settled (if past_expiry (ca_expires_at cached) s then Err Expired else Ok cached),
              s\<lparr>sv_token_cache := c\<rparr>)
         | (None, c) \<Rightarrow>
             (case on_db (fetch_candidates (take 12 (drop (length expected_prefix) raw)))
                     (s\<lparr>sv_token_cache := c\<rparr>) of
                (Err e, s) \<Rightarrow> (Settled (Err (TeDb e)), s)
              | (Ok candidates, s) \<Rightarrow>
                  if candidates = [] then (Settled (Err TeNotFound), s)
                  else (Candidates candidates, s))))"

definition cached_of :: "TokenKind \<Rightarrow> CandidateRow \<Rightarrow> CachedToken" where
  "cached_of kind c = \<lparr>ca_kind = kind, ca_token_id = cd_id c, ca_owner_email = cd_owner_email c,
     ca_prefix = cd_prefix c, ca_expires_at = cd_expires_at c\<rparr>"

definition verify_finish ::
  "'c crypto \<Rightarrow> string \<Rightarrow> TokenKind \<Rightarrow> CandidateRow list \<Rightarrow> 'c Server \<Rightarrow> (TokenError + CachedToken) \<times> 'c Server" where
  "verify_finish cr raw kind candidates s =
     (case find (\<lambda>c. argon2_verify cr raw (cd_hash c)) candidates of
        None \<Rightarrow> (Err TeNotFound, s)
      | Some c \<Rightarrow>
        (let entry = cached_of kind c in
         if past_expiry (ca_expires_at entry) s then (Err Expired, s)
         else (Ok entry, s\<lparr>sv_token_cache :=
           cache_insert (cr_lru cr) (cr_sha256 cr raw) entry (sv_token_cache s)\<rparr>)))"

definition verify_hashed_token ::
  "'c crypto \<Rightarrow> string \<Rightarrow> string \<Rightarrow> TokenKind \<Rightarrow> (string \<Rightarrow> CandidateRow list db) \<Rightarrow> 'c Server \<Rightarrow>
   (TokenError + CachedToken) \<times> 'c Server" where
  "verify_hashed_token cr raw expected_prefix kind fetch_candidates s =
     (case verify_lookup cr raw expected_prefix fetch_candidates s of
        (Settled r, s) \<Rightarrow> (r, s)
      | (Candidates candidates, s) \<Rightarrow> verify_finish cr raw kind candidates s)"

definition api_key_candidates :: "string \<Rightarrow> CandidateRow list db" where
  "api_key_candidates prfx = and_then (find_api_keys_by_prefix prfx) (\<lambda>rows. returns (map candidate_of_api_key rows))"

definition robot_token_candidates :: "string \<Rightarrow> CandidateRow list db" where
  "robot_token_candidates prfx =
     and_then (find_active_token_by_prefix prfx) (\<lambda>rows. returns (map candidate_of_robot_token rows))"

definition verify_api_key :: "'c crypto \<Rightarrow> string \<Rightarrow> 'c Server \<Rightarrow> (TokenError + CachedToken) \<times> 'c Server" where
  "verify_api_key cr raw_key = verify_hashed_token cr raw_key ''cbsk_'' ApiKey api_key_candidates"

definition verify_robot_token :: "'c crypto \<Rightarrow> string \<Rightarrow> 'c Server \<Rightarrow> (TokenError + CachedToken) \<times> 'c Server" where
  "verify_robot_token cr raw_token = verify_hashed_token cr raw_token ''cbrk_'' RobotToken robot_token_candidates"

section \<open>The reverse indexes\<close>

definition hashes_of :: "(string, string list) hashmap \<Rightarrow> string \<Rightarrow> string set" where
  "hashes_of m k = (case map_of m k of None \<Rightarrow> {} | Some hs \<Rightarrow> set hs)"

lemma hashes_of_simps [simp]:
  "hashes_of [] k = {}"
  "hashes_of (hs_add k h m) k' = (if k' = k then insert h (hashes_of m k) else hashes_of m k')"
  "hashes_of (hs_remove k h m) k' = (if k' = k then hashes_of m k - {h} else hashes_of m k')"
  "hashes_of (AList.delete k m) k' = (if k' = k then {} else hashes_of m k')"
proof -
  show "hashes_of (hs_remove k h m) k' = (if k' = k then hashes_of m k - {h} else hashes_of m k')"
  proof (cases "map_of m k")
    case (Some hs)
    show ?thesis
    proof (cases "removeAll h hs = []")
      case True
      then have "set hs \<subseteq> {h}" by (metis Diff_eq_empty_iff set_empty set_removeAll)
      then show ?thesis using Some True
        by (auto simp: hashes_of_def hs_remove_def delete_conv')
    qed (use Some in \<open>auto simp: hashes_of_def hs_remove_def update_conv' Let_def\<close>)
  qed (simp add: hashes_of_def hs_remove_def)
qed (auto simp: hashes_of_def hs_add_def update_conv' delete_conv' split: option.splits)

text \<open>What the documentation of the \<open>lru\<close> crate promises of the methods used.\<close>

definition lru_ok :: "'c lru_cache \<Rightarrow> bool" where
  "lru_ok lru \<longleftrightarrow>
     (\<forall>n. lru_peek lru (lru_new lru n) = Map.empty) \<and>
     (\<forall>k v c h e. fst (lru_push lru k v c) = Some (h, e) \<longrightarrow> lru_peek lru c h = Some e) \<and>
     (\<forall>k v c. lru_peek lru (snd (lru_push lru k v c)) =
        (case fst (lru_push lru k v c) of
           None \<Rightarrow> (lru_peek lru c)(k \<mapsto> v)
         | Some (h, e) \<Rightarrow> (lru_peek lru c)(h := None, k \<mapsto> v))) \<and>
     (\<forall>k c. fst (lru_get lru k c) = lru_peek lru c k \<and> lru_peek lru (snd (lru_get lru k c)) = lru_peek lru c) \<and>
     (\<forall>k c. fst (lru_pop lru k c) = lru_peek lru c k \<and>
        lru_peek lru (snd (lru_pop lru k c)) = (lru_peek lru c)(k := None)) \<and>
     (\<forall>n. lru_cap lru (lru_new lru n) = n) \<and>
     (\<forall>k v c. lru_cap lru (snd (lru_push lru k v c)) = lru_cap lru c) \<and>
     (\<forall>k c. lru_cap lru (snd (lru_get lru k c)) = lru_cap lru c) \<and>
     (\<forall>k c. lru_cap lru (snd (lru_pop lru k c)) = lru_cap lru c) \<and>
     (\<forall>k v c. finite (dom (lru_peek lru c)) \<and> card (dom (lru_peek lru c)) \<le> lru_cap lru c \<and> 0 < lru_cap lru c \<longrightarrow>
        card (dom (lru_peek lru (snd (lru_push lru k v c)))) \<le> lru_cap lru c)"

abbreviation cached :: "'c lru_cache \<Rightarrow> 'c TokenCache \<Rightarrow> string \<Rightarrow> CachedToken option" where
  "cached lru c \<equiv> lru_peek lru (by_sha256 c)"

definition cache_covered :: "'c lru_cache \<Rightarrow> 'c TokenCache \<Rightarrow> bool" where
  "cache_covered lru c \<longleftrightarrow> (\<forall>h e. cached lru c h = Some e \<longrightarrow>
     h \<in> hashes_of (by_prefix c) (ca_prefix e) \<and> h \<in> hashes_of (by_owner c) (ca_owner_email e))"

lemma cache_coveredD:
  "cache_covered lru c \<Longrightarrow> cached lru c h = Some e \<Longrightarrow> h \<in> hashes_of (by_prefix c) (ca_prefix e)"
  "cache_covered lru c \<Longrightarrow> cached lru c h = Some e \<Longrightarrow> h \<in> hashes_of (by_owner c) (ca_owner_email e)"
  by (simp_all add: cache_covered_def)

lemma cached_get:
  assumes "lru_ok lru" "cache_get lru h c = (r, c')"
  shows "r = cached lru c h" "cached lru c' = cached lru c" "by_prefix c' = by_prefix c" "by_owner c' = by_owner c"
proof -
  obtain l where l: "lru_get lru h (by_sha256 c) = (r, l)" "c' = c\<lparr>by_sha256 := l\<rparr>"
    using assms(2) by (auto simp: cache_get_def split: prod.splits)
  have "fst (lru_get lru h (by_sha256 c)) = cached lru c h"
    "lru_peek lru (snd (lru_get lru h (by_sha256 c))) = cached lru c"
    using assms(1) unfolding lru_ok_def by blast+
  then show "r = cached lru c h" "cached lru c' = cached lru c" using l by auto
qed (use assms(2) in \<open>auto simp: cache_get_def split: prod.splits\<close>)

lemma cached_insert:
  assumes "lru_ok lru"
  obtains "cached lru (cache_insert lru h e c) = (cached lru c)(h \<mapsto> e)"
    "by_prefix (cache_insert lru h e c) = hs_add (ca_prefix e) h (by_prefix c)"
    "by_owner (cache_insert lru h e c) = hs_add (ca_owner_email e) h (by_owner c)"
  | h' e' where "h' \<noteq> h" "cached lru c h' = Some e'"
    "cached lru (cache_insert lru h e c) = (cached lru c)(h' := None, h \<mapsto> e)"
    "by_prefix (cache_insert lru h e c) = hs_add (ca_prefix e) h (hs_remove (ca_prefix e') h' (by_prefix c))"
    "by_owner (cache_insert lru h e c) = hs_add (ca_owner_email e) h (hs_remove (ca_owner_email e') h' (by_owner c))"
proof -
  obtain out l where p: "lru_push lru h e (by_sha256 c) = (out, l)" by (meson surj_pair)
  have peek: "lru_peek lru l = (case out of None \<Rightarrow> (cached lru c)(h \<mapsto> e)
      | Some (h', e') \<Rightarrow> (cached lru c)(h' := None, h \<mapsto> e))"
    using assms p unfolding lru_ok_def by (metis fst_conv snd_conv)
  have ev: "out = Some (h', e') \<Longrightarrow> cached lru c h' = Some e'" for h' e'
    using assms p unfolding lru_ok_def by (metis fst_conv)
  show thesis
  proof (cases out)
    case None
    then show thesis using that(1) peek p by (simp add: cache_insert_def)
  next
    case (Some x)
    obtain h' e' where x: "x = (h', e')" by (cases x)
    show thesis
    proof (cases "h' = h")
      case True
      then show thesis using that(1) peek p Some x by (simp add: cache_insert_def)
    next
      case False
      show thesis
      proof (rule that(2)[of h' e'])
        show "cached lru c h' = Some e'" using ev Some x by simp
      qed (use False peek p Some x in \<open>simp_all add: cache_insert_def remove_from_reverse_maps_def\<close>)
    qed
  qed
qed

lemma covered_insert:
  assumes "lru_ok lru" "cache_covered lru c"
  shows "cache_covered lru (cache_insert lru h e c)"
  unfolding cache_covered_def
proof (intro allI impI)
  fix h1 e1 assume h1: "cached lru (cache_insert lru h e c) h1 = Some e1"
  show "h1 \<in> hashes_of (by_prefix (cache_insert lru h e c)) (ca_prefix e1) \<and>
    h1 \<in> hashes_of (by_owner (cache_insert lru h e c)) (ca_owner_email e1)"
    using assms(1)
  proof (cases rule: cached_insert[of lru h e c])
    case 1
    then show ?thesis using h1 cache_coveredD[OF assms(2), of h1 e1] by (auto split: if_splits)
  next
    case (2 h' e')
    then show ?thesis using h1 cache_coveredD[OF assms(2), of h1 e1] by (auto split: if_splits)
  qed
qed

text \<open>
  The two purges are alike: one removes by prefix and repairs the index of owners, the other
  removes by owner and repairs the index of prefixes.
\<close>

locale reverse_index =
  fixes key other :: "CachedToken \<Rightarrow> string"
    and ix oix :: "'c TokenCache \<Rightarrow> (string, string list) hashmap"
    and drop_ix :: "string \<Rightarrow> 'c TokenCache \<Rightarrow> 'c TokenCache"
    and pop purge :: "'c lru_cache \<Rightarrow> string \<Rightarrow> 'c TokenCache \<Rightarrow> 'c TokenCache"
  assumes pop_cached: "lru_ok lru \<Longrightarrow> cached lru (pop lru h c) = (cached lru c)(h := None)"
    and pop_ix: "lru_ok lru \<Longrightarrow> ix (pop lru h c) = ix c"
    and pop_oix: "lru_ok lru \<Longrightarrow> oix (pop lru h c) =
      (case cached lru c h of None \<Rightarrow> oix c | Some e \<Rightarrow> hs_remove (other e) h (oix c))"
    and drop_ix: "by_sha256 (drop_ix k c) = by_sha256 c" "ix (drop_ix k c) = AList.delete k (ix c)"
      "oix (drop_ix k c) = oix c"
    and purge_eq: "purge lru k c =
      (case map_of (ix c) k of None \<Rightarrow> c | Some hs \<Rightarrow> fold (pop lru) hs (drop_ix k c))"
begin

definition covers where
  "covers lru c \<longleftrightarrow> (\<forall>h e. cached lru c h = Some e \<longrightarrow> h \<in> hashes_of (oix c) (other e))"

definition tight where
  "tight lru c \<longleftrightarrow> (\<forall>h k. h \<in> hashes_of (oix c) k \<longrightarrow> (\<exists>e. cached lru c h = Some e \<and> other e = k))"

lemma pop_keeps:
  assumes "lru_ok lru"
  shows "covers lru c \<Longrightarrow> covers lru (pop lru h c)" "tight lru c \<Longrightarrow> tight lru (pop lru h c)"
proof -
  show "covers lru (pop lru h c)" if "covers lru c"
    using that unfolding covers_def
    by (auto simp: pop_cached[OF assms] pop_oix[OF assms] split: option.splits) metis
  show "tight lru (pop lru h c)" if t: "tight lru c"
    unfolding tight_def
  proof (intro allI impI)
    fix h1 k assume h1: "h1 \<in> hashes_of (oix (pop lru h c)) k"
    then have old: "h1 \<in> hashes_of (oix c) k" by (auto simp: pop_oix[OF assms] split: option.splits if_splits)
    then obtain e where e: "cached lru c h1 = Some e" "other e = k" using t unfolding tight_def by blast
    then have "h1 \<noteq> h" using h1 by (auto simp: pop_oix[OF assms])
    then show "\<exists>e. cached lru (pop lru h c) h1 = Some e \<and> other e = k"
      using e by (simp add: pop_cached[OF assms])
  qed
qed

lemma fold_pop:
  assumes "lru_ok lru"
  shows "cached lru (fold (pop lru) hs c) = (\<lambda>h. if h \<in> set hs then None else cached lru c h)"
    "ix (fold (pop lru) hs c) = ix c"
    "covers lru c \<Longrightarrow> covers lru (fold (pop lru) hs c)"
    "tight lru c \<Longrightarrow> tight lru (fold (pop lru) hs c)"
proof (induction hs arbitrary: c)
  case (Cons h hs)
  case 1 show ?case using Cons.IH(1) by (auto simp: pop_cached[OF assms])
next
  case (Cons h hs)
  case 2 show ?case using Cons.IH(2) by (simp add: pop_ix[OF assms])
next
  case (Cons h hs)
  case 3 then show ?case using Cons.IH(3) pop_keeps(1)[OF assms] by simp
next
  case (Cons h hs)
  case 4 then show ?case using Cons.IH(4) pop_keeps(2)[OF assms] by simp
qed simp_all

lemma purge_cached:
  assumes "lru_ok lru"
  shows "cached lru (purge lru k c) h = (if h \<in> hashes_of (ix c) k then None else cached lru c h)"
    "hashes_of (ix (purge lru k c)) k' = (if k' = k then {} else hashes_of (ix c) k')"
  by (auto simp: purge_eq hashes_of_def[of "ix c" k] fold_pop[OF assms] drop_ix split: option.splits)

lemma purge_other:
  assumes "lru_ok lru"
  shows "covers lru c \<Longrightarrow> covers lru (purge lru k c)" "tight lru c \<Longrightarrow> tight lru (purge lru k c)"
  by (auto simp: purge_eq covers_def[of lru "drop_ix k c"] tight_def[of lru "drop_ix k c"] drop_ix
      intro!: fold_pop(3,4)[OF assms] split: option.splits) (auto simp: covers_def tight_def)

end

lemma pop_laws:
  assumes "lru_ok lru"
  shows "cached lru (pop_prefixed lru h c) = (cached lru c)(h := None)"
    "by_prefix (pop_prefixed lru h c) = by_prefix c"
    "by_owner (pop_prefixed lru h c) =
       (case cached lru c h of None \<Rightarrow> by_owner c | Some e \<Rightarrow> hs_remove (ca_owner_email e) h (by_owner c))"
    "cached lru (pop_owned lru h c) = (cached lru c)(h := None)"
    "by_owner (pop_owned lru h c) = by_owner c"
    "by_prefix (pop_owned lru h c) =
       (case cached lru c h of None \<Rightarrow> by_prefix c | Some e \<Rightarrow> hs_remove (ca_prefix e) h (by_prefix c))"
proof -
  obtain r l where p: "lru_pop lru h (by_sha256 c) = (r, l)" by (meson surj_pair)
  have "r = cached lru c h" "lru_peek lru l = (cached lru c)(h := None)"
    using assms p unfolding lru_ok_def by (metis fst_conv snd_conv)+
  then show "cached lru (pop_prefixed lru h c) = (cached lru c)(h := None)"
    "by_prefix (pop_prefixed lru h c) = by_prefix c"
    "by_owner (pop_prefixed lru h c) =
       (case cached lru c h of None \<Rightarrow> by_owner c | Some e \<Rightarrow> hs_remove (ca_owner_email e) h (by_owner c))"
    "cached lru (pop_owned lru h c) = (cached lru c)(h := None)"
    "by_owner (pop_owned lru h c) = by_owner c"
    "by_prefix (pop_owned lru h c) =
       (case cached lru c h of None \<Rightarrow> by_prefix c | Some e \<Rightarrow> hs_remove (ca_prefix e) h (by_prefix c))"
    using p by (auto simp: pop_prefixed_def pop_owned_def split: option.splits)
qed

interpretation prefixes: reverse_index ca_prefix ca_owner_email by_prefix by_owner
  "\<lambda>k c. c\<lparr>by_prefix := AList.delete k (by_prefix c)\<rparr>" pop_prefixed remove_by_prefix
  by unfold_locales (simp_all add: pop_laws remove_by_prefix_def)

interpretation owners: reverse_index ca_owner_email ca_prefix by_owner by_prefix
  "\<lambda>k c. c\<lparr>by_owner := AList.delete k (by_owner c)\<rparr>" pop_owned remove_by_owner
  by unfold_locales (simp_all add: pop_laws remove_by_owner_def)

lemma covered_iff: "cache_covered lru c \<longleftrightarrow> prefixes.covers lru c \<and> owners.covers lru c"
  by (auto simp: cache_covered_def prefixes.covers_def owners.covers_def)

lemma purge_covered:
  assumes "lru_ok lru" "cache_covered lru c"
  shows "cache_covered lru (remove_by_prefix lru k c)" "cache_covered lru (remove_by_owner lru k c)"
    "cached lru (remove_by_prefix lru k c) h = Some e \<Longrightarrow> ca_prefix e \<noteq> k \<and> cached lru c h = Some e"
    "cached lru (remove_by_owner lru k c) h = Some e \<Longrightarrow> ca_owner_email e \<noteq> k \<and> cached lru c h = Some e"
proof -
  have c: "prefixes.covers lru c" "owners.covers lru c" using assms(2) by (simp_all add: covered_iff)
  show p: "cached lru (remove_by_prefix lru k c) h = Some e \<Longrightarrow> ca_prefix e \<noteq> k \<and> cached lru c h = Some e" for h e
    using c(2) by (auto simp: prefixes.purge_cached[OF assms(1)] owners.covers_def split: if_splits)
  show o: "cached lru (remove_by_owner lru k c) h = Some e \<Longrightarrow> ca_owner_email e \<noteq> k \<and> cached lru c h = Some e" for h e
    using c(1) by (auto simp: owners.purge_cached[OF assms(1)] prefixes.covers_def split: if_splits)
  have "owners.covers lru (remove_by_prefix lru k c)"
    using p c(2) by (fastforce simp: owners.covers_def prefixes.purge_cached(2)[OF assms(1)])
  then show "cache_covered lru (remove_by_prefix lru k c)"
    using prefixes.purge_other(1)[OF assms(1) c(1)] by (simp add: covered_iff)
  have "prefixes.covers lru (remove_by_owner lru k c)"
    using o c(1) by (fastforce simp: prefixes.covers_def owners.purge_cached(2)[OF assms(1)])
  then show "cache_covered lru (remove_by_owner lru k c)"
    using owners.purge_other(1)[OF assms(1) c(2)] by (simp add: covered_iff)
qed

section \<open>Sequences of operations\<close>

datatype cache_op = CacheInsert string CachedToken | CacheGet string | PurgePrefix string | PurgeOwner string

fun run_cache_op :: "'c lru_cache \<Rightarrow> cache_op \<Rightarrow> 'c TokenCache \<Rightarrow> 'c TokenCache" where
  "run_cache_op lru (CacheInsert h e) c = cache_insert lru h e c"
| "run_cache_op lru (CacheGet h) c = snd (cache_get lru h c)"
| "run_cache_op lru (PurgePrefix k) c = remove_by_prefix lru k c"
| "run_cache_op lru (PurgeOwner k) c = remove_by_owner lru k c"

lemma covered_op: "lru_ok lru \<Longrightarrow> cache_covered lru c \<Longrightarrow> cache_covered lru (run_cache_op lru x c)"
proof (induction lru x c rule: run_cache_op.induct)
  case (2 lru h c)
  obtain r c' where g: "cache_get lru h c = (r, c')" by (meson surj_pair)
  then show ?case using 2 cached_get[OF 2(1) g] by (simp add: cache_covered_def)
qed (auto intro: covered_insert purge_covered)

lemma covered_new: "lru_ok lru \<Longrightarrow> cache_covered lru (cache_new lru n)"
  by (simp add: cache_covered_def cache_new_def lru_ok_def)

lemma covered_ops: "lru_ok lru \<Longrightarrow> cache_covered lru c \<Longrightarrow> cache_covered lru (fold (run_cache_op lru) xs c)"
  by (induction xs arbitrary: c) (simp_all add: covered_op)

definition cache_tight :: "'c lru_cache \<Rightarrow> 'c TokenCache \<Rightarrow> bool" where
  "cache_tight lru c \<longleftrightarrow> prefixes.tight lru c \<and> owners.tight lru c"

lemma tight_insert:
  assumes "lru_ok lru" "cache_tight lru c"
    and same: "\<And>e0. cached lru c h = Some e0 \<Longrightarrow> ca_prefix e0 = ca_prefix e \<and> ca_owner_email e0 = ca_owner_email e"
  shows "cache_tight lru (cache_insert lru h e c)"
proof -
  have t: "prefixes.tight lru c" "owners.tight lru c" using assms(2) by (simp_all add: cache_tight_def)
  show ?thesis
    using assms(1)
  proof (cases rule: cached_insert[of lru h e c])
    case 1
    then show ?thesis using t same unfolding cache_tight_def prefixes.tight_def owners.tight_def
      by (auto split: if_splits) metis+
  next
    case (2 h' e')
    then show ?thesis using t same unfolding cache_tight_def prefixes.tight_def owners.tight_def
      by (auto split: if_splits) (metis option.inject)+
  qed
qed

lemma tight_purge:
  assumes "lru_ok lru" "cache_tight lru c"
  shows "cache_tight lru (remove_by_prefix lru k c)" "cache_tight lru (remove_by_owner lru k c)"
proof -
  have t: "prefixes.tight lru c" "owners.tight lru c" using assms(2) by (simp_all add: cache_tight_def)
  have "owners.tight lru (remove_by_prefix lru k c)"
    using t(2) unfolding owners.tight_def prefixes.purge_cached[OF assms(1)] by (metis empty_iff option.inject)
  then show "cache_tight lru (remove_by_prefix lru k c)"
    using prefixes.purge_other(2)[OF assms(1) t(1)] by (simp add: cache_tight_def)
  have "prefixes.tight lru (remove_by_owner lru k c)"
    using t(1) unfolding prefixes.tight_def owners.purge_cached[OF assms(1)] by (metis empty_iff option.inject)
  then show "cache_tight lru (remove_by_owner lru k c)"
    using owners.purge_other(2)[OF assms(1) t(2)] by (simp add: cache_tight_def)
qed

definition cache_within :: "'c lru_cache \<Rightarrow> nat \<Rightarrow> 'c TokenCache \<Rightarrow> bool" where
  "cache_within lru n c \<longleftrightarrow> lru_cap lru (by_sha256 c) = n \<and> finite (dom (cached lru c)) \<and> card (dom (cached lru c)) \<le> n"

lemma within_shrink:
  assumes "cache_within lru n c" "lru_cap lru (by_sha256 c') = n" "dom (cached lru c') \<subseteq> dom (cached lru c)"
  shows "cache_within lru n c'"
  using assms card_mono[OF _ assms(3)] finite_subset[OF assms(3)] by (auto simp: cache_within_def)

lemma cap_purge:
  assumes "lru_ok lru"
  shows "lru_cap lru (by_sha256 (remove_by_prefix lru k c)) = lru_cap lru (by_sha256 c)"
    "lru_cap lru (by_sha256 (remove_by_owner lru k c)) = lru_cap lru (by_sha256 c)"
proof -
  have pop: "lru_cap lru (snd (lru_pop lru h l)) = lru_cap lru l" for h l
    using assms unfolding lru_ok_def by blast
  have one: "lru_cap lru (by_sha256 (pop_prefixed lru h d)) = lru_cap lru (by_sha256 d)"
    "lru_cap lru (by_sha256 (pop_owned lru h d)) = lru_cap lru (by_sha256 d)" for h d
    using pop[of h "by_sha256 d"] by (auto simp: pop_prefixed_def pop_owned_def split: prod.splits option.splits)
  have "lru_cap lru (by_sha256 (fold (pop_prefixed lru) hs d)) = lru_cap lru (by_sha256 d)"
    "lru_cap lru (by_sha256 (fold (pop_owned lru) hs d)) = lru_cap lru (by_sha256 d)" for hs d
    by (induction hs arbitrary: d) (simp_all add: one)
  then show "lru_cap lru (by_sha256 (remove_by_prefix lru k c)) = lru_cap lru (by_sha256 c)"
    "lru_cap lru (by_sha256 (remove_by_owner lru k c)) = lru_cap lru (by_sha256 c)"
    by (simp_all add: remove_by_prefix_def remove_by_owner_def split: option.splits)
qed

lemma within_insert:
  assumes "lru_ok lru" "0 < n" "cache_within lru n c"
  shows "cache_within lru n (cache_insert lru h e c)"
proof -
  obtain out l where p: "lru_push lru h e (by_sha256 c) = (out, l)" by (meson surj_pair)
  have l: "by_sha256 (cache_insert lru h e c) = l"
    using p by (auto simp: cache_insert_def remove_from_reverse_maps_def Let_def split: option.splits)
  have "lru_cap lru l = lru_cap lru (by_sha256 c)" using assms(1) p unfolding lru_ok_def by (metis snd_conv)
  moreover have "card (dom (lru_peek lru l)) \<le> n"
    using assms p unfolding lru_ok_def cache_within_def by (metis snd_conv)
  moreover have "finite (dom (lru_peek lru l))"
  proof (rule finite_subset)
    show "dom (lru_peek lru l) \<subseteq> insert h (dom (cached lru c))"
      using assms(1) p unfolding l[symmetric] by (cases rule: cached_insert[of lru h e c]) auto
  qed (use assms(3) in \<open>simp add: cache_within_def\<close>)
  ultimately show ?thesis using assms(3) by (simp add: cache_within_def l)
qed

lemma within_purge:
  assumes "lru_ok lru" "cache_within lru n c"
  shows "cache_within lru n (remove_by_prefix lru k c)" "cache_within lru n (remove_by_owner lru k c)"
proof -
  have "dom (cached lru (remove_by_prefix lru k c)) \<subseteq> dom (cached lru c)"
    "dom (cached lru (remove_by_owner lru k c)) \<subseteq> dom (cached lru c)"
    by (auto simp: prefixes.purge_cached(1)[OF assms(1)] owners.purge_cached(1)[OF assms(1)] split: if_splits)
  then show "cache_within lru n (remove_by_prefix lru k c)" "cache_within lru n (remove_by_owner lru k c)"
    using within_shrink[OF assms(2)] cap_purge[OF assms(1), of k c] assms(2) by (simp_all add: cache_within_def)
qed

lemma within_op:
  assumes "lru_ok lru" "0 < n" "cache_within lru n c"
  shows "cache_within lru n (run_cache_op lru x c)"
proof (cases x)
  case (CacheGet h)
  obtain r c' where g: "cache_get lru h c = (r, c')" by (meson surj_pair)
  have "lru_cap lru (snd (lru_get lru h (by_sha256 c))) = lru_cap lru (by_sha256 c)"
    using assms(1) unfolding lru_ok_def by blast
  then have "lru_cap lru (by_sha256 c') = lru_cap lru (by_sha256 c)"
    using g by (auto simp: cache_get_def split: prod.splits)
  then show ?thesis using assms(3) cached_get(2)[OF assms(1) g] CacheGet g by (simp add: cache_within_def)
qed (use within_insert[OF assms] within_purge[OF assms(1,3)] in simp_all)

text \<open>A bearer string belongs to one token: all insertions of a hash agree.\<close>

definition one_token_per_hash :: "cache_op list \<Rightarrow> bool" where
  "one_token_per_hash xs \<longleftrightarrow> (\<forall>h e e'. CacheInsert h e \<in> set xs \<longrightarrow> CacheInsert h e' \<in> set xs \<longrightarrow>
     ca_prefix e = ca_prefix e' \<and> ca_owner_email e = ca_owner_email e')"

definition from_ops :: "'c lru_cache \<Rightarrow> cache_op list \<Rightarrow> 'c TokenCache \<Rightarrow> bool" where
  "from_ops lru xs c \<longleftrightarrow> (\<forall>h e. cached lru c h = Some e \<longrightarrow> CacheInsert h e \<in> set xs)"

lemma from_ops_op:
  assumes "lru_ok lru" "from_ops lru xs c" "x \<in> set xs"
  shows "from_ops lru xs (run_cache_op lru x c)"
proof (cases x)
  case (CacheInsert h e)
  have "cached lru (cache_insert lru h e c) h1 = Some e1 \<Longrightarrow> (h1, e1) = (h, e) \<or> cached lru c h1 = Some e1" for h1 e1
    using assms(1) by (cases rule: cached_insert[of lru h e c]) (auto split: if_splits)
  then show ?thesis using CacheInsert assms(2,3) unfolding from_ops_def by fastforce
next
  case (CacheGet h)
  obtain r c' where g: "cache_get lru h c = (r, c')" by (meson surj_pair)
  show ?thesis using CacheGet g assms(2) cached_get(2)[OF assms(1) g] by (simp add: from_ops_def)
qed (use assms(2) in \<open>auto simp: from_ops_def prefixes.purge_cached[OF assms(1)] owners.purge_cached[OF assms(1)]\<close>)

lemma tight_op:
  assumes "lru_ok lru" "cache_tight lru c" "from_ops lru xs c" "one_token_per_hash xs" "x \<in> set xs"
  shows "cache_tight lru (run_cache_op lru x c)"
proof (cases x)
  case (CacheInsert h e)
  then have "cached lru c h = Some e0 \<Longrightarrow> ca_prefix e0 = ca_prefix e \<and> ca_owner_email e0 = ca_owner_email e" for e0
    using assms(3-5) unfolding from_ops_def one_token_per_hash_def by blast
  then show ?thesis using tight_insert[OF assms(1,2)] CacheInsert by simp
next
  case (CacheGet h)
  obtain r c' where g: "cache_get lru h c = (r, c')" by (meson surj_pair)
  show ?thesis using CacheGet g assms(2) cached_get[OF assms(1) g]
    by (simp add: cache_tight_def prefixes.tight_def owners.tight_def)
qed (use tight_purge[OF assms(1,2)] in simp_all)

lemma tight_ops:
  assumes "lru_ok lru" "one_token_per_hash xs"
  shows "set ys \<subseteq> set xs \<Longrightarrow> cache_tight lru c \<Longrightarrow> from_ops lru xs c \<Longrightarrow>
    cache_tight lru (fold (run_cache_op lru) ys c)"
proof (induction ys arbitrary: c)
  case (Cons y ys)
  then show ?case using tight_op[OF assms(1) _ _ assms(2)] from_ops_op[OF assms(1)] by simp
qed simp

lemma within_ops: "lru_ok lru \<Longrightarrow> 0 < n \<Longrightarrow> cache_within lru n c \<Longrightarrow> cache_within lru n (fold (run_cache_op lru) xs c)"
  by (induction xs arbitrary: c) (simp_all add: within_op)

lemma new_cache:
  assumes "lru_ok lru"
  shows "cache_tight lru (cache_new lru n)" "from_ops lru xs (cache_new lru n)" "cache_within lru n (cache_new lru n)"
proof -
  have "cached lru (cache_new lru n) = Map.empty" "lru_cap lru (by_sha256 (cache_new lru n)) = n"
    using assms unfolding lru_ok_def by (simp_all add: cache_new_def)
  then show "from_ops lru xs (cache_new lru n)" "cache_within lru n (cache_new lru n)"
    by (simp_all add: from_ops_def cache_within_def)
qed (simp add: cache_tight_def prefixes.tight_def owners.tight_def cache_new_def)

text \<open>
  C24. Purging the cache is complete. After any sequence of operations on a new cache, a
  purge by owner leaves no entry of that owner, a purge by prefix none with that prefix, and
  both leave every other entry that the sequence has cached reachable from both reverse
  indexes.
\<close>

theorem purge_is_complete:
  assumes "lru_ok lru"
  shows "let c = fold (run_cache_op lru) xs (cache_new lru n) in
    (\<forall>h e. cached lru (remove_by_owner lru k c) h = Some e \<longrightarrow> ca_owner_email e \<noteq> k) \<and>
    (\<forall>h e. cached lru (remove_by_prefix lru k c) h = Some e \<longrightarrow> ca_prefix e \<noteq> k) \<and>
    (\<forall>h e. cached lru c h = Some e \<longrightarrow>
       h \<in> hashes_of (by_prefix c) (ca_prefix e) \<and> h \<in> hashes_of (by_owner c) (ca_owner_email e))"
proof -
  have c: "cache_covered lru (fold (run_cache_op lru) xs (cache_new lru n))"
    by (rule covered_ops[OF assms covered_new[OF assms]])
  show ?thesis
    unfolding Let_def using purge_covered(3,4)[OF assms c] cache_coveredD[OF c] by simp
qed

text \<open>
  C25. The cache does not grow beyond its capacity. When every bearer string belongs to one
  token, then after any sequence of operations at most \<open>n\<close> entries are cached, and every hash
  in a reverse index is the hash of a cached entry with that prefix or owner: evictions and
  purges leave nothing behind.
\<close>

theorem cache_is_bounded:
  assumes "lru_ok lru" "0 < n" "one_token_per_hash xs"
  shows "let c = fold (run_cache_op lru) xs (cache_new lru n) in
    card (dom (cached lru c)) \<le> n \<and>
    (\<forall>k. hashes_of (by_prefix c) k = {h. \<exists>e. cached lru c h = Some e \<and> ca_prefix e = k}) \<and>
    (\<forall>k. hashes_of (by_owner c) k = {h. \<exists>e. cached lru c h = Some e \<and> ca_owner_email e = k})"
proof -
  let ?c = "fold (run_cache_op lru) xs (cache_new lru n)"
  have "cache_covered lru ?c" by (rule covered_ops[OF assms(1) covered_new[OF assms(1)]])
  moreover have "cache_tight lru ?c" by (rule tight_ops[OF assms(1,3) _ new_cache(1,2)[OF assms(1)]]) simp
  moreover have "cache_within lru n ?c" by (rule within_ops[OF assms(1,2) new_cache(3)[OF assms(1)]])
  ultimately show ?thesis
    unfolding Let_def cache_tight_def prefixes.tight_def owners.tight_def cache_covered_def cache_within_def by blast
qed

section \<open>A cache as a list\<close>

text \<open>An instance of the cache library: entries in a list, the most recently used first.\<close>

definition list_lru :: "(nat \<times> (string \<times> CachedToken) list) lru_cache" where
  "list_lru = \<lparr>
     lru_new = (\<lambda>n. (n, [])),
     lru_push = (\<lambda>k v (n, xs).
       case map_of xs k of
         Some old \<Rightarrow> (Some (k, old), (n, (k, v) # AList.delete k xs))
       | None \<Rightarrow>
         if length xs < n \<or> xs = [] then (None, (n, (k, v) # xs))
         else (let h = fst (last xs) in (Some (h, the (map_of xs h)), (n, (k, v) # AList.delete h xs)))),
     lru_get = (\<lambda>k (n, xs). case map_of xs k of
         Some e \<Rightarrow> (Some e, (n, (k, e) # AList.delete k xs)) | None \<Rightarrow> (None, (n, xs))),
     lru_pop = (\<lambda>k (n, xs). (map_of xs k, (n, AList.delete k xs))),
     lru_peek = (\<lambda>(n, xs). map_of xs),
     lru_cap = fst\<rparr>"

lemma last_key: "xs \<noteq> [] \<Longrightarrow> \<exists>e. map_of xs (fst (last xs)) = Some e"
  by (metis last_in_set map_of_eq_None_iff option.exhaust rev_image_eqI)

lemma list_lru_push_bound:
  assumes "card (dom (map_of xs)) \<le> n" "0 < n"
  shows "card (dom (lru_peek list_lru (snd (lru_push list_lru k v (n, xs))))) \<le> n"
proof (cases "map_of xs k")
  case (Some old)
  then have "dom (lru_peek list_lru (snd (lru_push list_lru k v (n, xs)))) = dom (map_of xs)"
    by (auto simp: list_lru_def delete_conv' split: if_splits)
  then show ?thesis using assms by simp
next
  case None
  show ?thesis
  proof (cases "length xs < n \<or> xs = []")
    case True
    have "card (insert k (dom (map_of xs))) \<le> Suc (length xs)"
      by (metis card_insert_le_m1 card_length dom_map_of_conv_image_fst le_SucI length_map list.set_map card_insert_if finite_dom_map_of Suc_le_mono)
    moreover have "dom (lru_peek list_lru (snd (lru_push list_lru k v (n, xs)))) = insert k (dom (map_of xs))"
      using None True by (auto simp: list_lru_def)
    ultimately show ?thesis using True assms(2) None by (auto simp: list_lru_def dom_map_of_conv_image_fst)
  next
    case False
    then obtain e where e: "map_of xs (fst (last xs)) = Some e" using last_key by blast
    have "dom (lru_peek list_lru (snd (lru_push list_lru k v (n, xs)))) =
        insert k (dom (map_of xs) - {fst (last xs)})"
      using None False by (auto simp: list_lru_def delete_conv' Let_def split: if_splits)
    moreover have "fst (last xs) \<in> dom (map_of xs)" "k \<notin> dom (map_of xs)" using e None by auto
    ultimately have "card (dom (lru_peek list_lru (snd (lru_push list_lru k v (n, xs))))) = card (dom (map_of xs))"
      by (metis Diff_iff card.remove card_insert_disjoint finite_Diff finite_dom_map_of)
    then show ?thesis using assms by simp
  qed
qed

lemma list_lru_ok: "lru_ok list_lru"
  unfolding lru_ok_def
proof (intro conjI allI impI)
  fix k v c h e assume "fst (lru_push list_lru k v c) = Some (h, e)"
  then show "lru_peek list_lru c h = Some e"
    using last_key by (cases c) (fastforce simp: list_lru_def Let_def split: option.splits if_splits)
next
  fix k v c
  show "lru_peek list_lru (snd (lru_push list_lru k v c)) = (case fst (lru_push list_lru k v c) of
      None \<Rightarrow> (lru_peek list_lru c)(k \<mapsto> v) | Some (h, e) \<Rightarrow> (lru_peek list_lru c)(h := None, k \<mapsto> v))"
    by (cases c) (auto simp: list_lru_def Let_def delete_conv' fun_upd_twist split: option.splits if_splits)
next
  fix k v c
  assume "finite (dom (lru_peek list_lru c)) \<and> card (dom (lru_peek list_lru c)) \<le> lru_cap list_lru c \<and> 0 < lru_cap list_lru c"
  then show "card (dom (lru_peek list_lru (snd (lru_push list_lru k v c)))) \<le> lru_cap list_lru c"
    using list_lru_push_bound[of "snd c" "fst c" k v] by (cases c) (simp add: list_lru_def)
qed (auto simp: list_lru_def Let_def delete_conv' fun_eq_iff split: option.splits if_splits)

definition list_crypto :: "(nat \<times> (string \<times> CachedToken) list) crypto" where
  "list_crypto = \<lparr>cr_lru = list_lru, cr_sha256 = (\<lambda>x. x), cr_random = (\<lambda>n. replicate 32 (char_of n)),
     cr_hash_password = (\<lambda>n raw. Ok raw), cr_phc_parse = Some, cr_verify_password = (=)\<rparr>"

definition sample_token :: "string \<Rightarrow> string \<Rightarrow> CachedToken" where
  "sample_token prfx owner =
     \<lparr>ca_kind = ApiKey, ca_token_id = 1, ca_owner_email = owner, ca_prefix = prfx, ca_expires_at = None\<rparr>"

definition sample_ops :: "cache_op list" where
  "sample_ops = [CacheInsert ''h1'' (sample_token ''p1'' ''ann''), CacheInsert ''h2'' (sample_token ''p2'' ''bob''),
     CacheGet ''h1'', CacheInsert ''h3'' (sample_token ''p3'' ''ann'')]"

lemmas list_lru_eval = list_lru_def cache_insert_def cache_get_def cache_new_def remove_by_owner_def
  remove_by_prefix_def pop_owned_def pop_prefixed_def hs_add_def hs_remove_def
  remove_from_reverse_maps_def sample_ops_def sample_token_def hashes_of_def

theorem purge_is_complete_witness:
  "let c = fold (run_cache_op list_lru) sample_ops (cache_new list_lru 2) in
     lru_ok list_lru \<and> cached list_lru c ''h1'' = Some (sample_token ''p1'' ''ann'') \<and>
     cached list_lru c ''h2'' = None \<and>
     cached list_lru (remove_by_owner list_lru ''ann'' c) ''h1'' = None \<and>
     ''h1'' \<in> hashes_of (by_prefix c) ''p1''"
  using purge_is_complete[OF list_lru_ok, of sample_ops 2 "''ann''"] list_lru_ok
  by (simp add: list_lru_eval Let_def)

theorem cache_is_bounded_witness:
  "lru_ok list_lru \<and> one_token_per_hash sample_ops \<and>
   hashes_of (by_owner (fold (run_cache_op list_lru) sample_ops (cache_new list_lru 2))) ''bob'' = {}"
proof -
  have one: "one_token_per_hash sample_ops" by (auto simp: one_token_per_hash_def sample_ops_def)
  show ?thesis using cache_is_bounded[OF list_lru_ok _ one, of 2] one list_lru_ok
    by (simp add: list_lru_eval Let_def)
qed

end
