(* ===== verification/Cbs_Auth.thy ===== *)
theory Cbs_Auth
  imports Cbs_Token_Cache "HOL-Library.Word"
begin

text \<open>
  Authentication: PASETO session tokens (\<open>auth/paseto.rs\<close>), the checks of the Google
  sign-in (\<open>auth/oauth.rs\<close>), the extractor that turns the credentials of a request into a
  user (\<open>auth/extractors.rs\<close>) and the handlers of \<open>routes/auth.rs\<close>.

  Parameters: the \<open>pasetors\<close> and \<open>serde_json\<close> libraries (\<open>paseto_lib\<close>), the session store
  of \<open>tower_sessions\<close> (\<open>session_lib\<close>), Google's endpoints (\<open>exchange_code_for_userinfo\<close>)
  and base64.
\<close>

section \<open>Hexadecimal\<close>

text \<open>
  \<open>u8::from_str_radix\<close> on a slice of two characters: it also accepts a leading plus sign.
  The key is ASCII text; a slice that cut a longer character would panic.
\<close>

definition hex_value :: "char \<Rightarrow> nat option" where
  "hex_value c = (let n = of_char c in
     if 48 \<le> n \<and> n \<le> 57 then Some (n - 48)
     else if 97 \<le> n \<and> n \<le> 102 then Some (n - 87)
     else if 65 \<le> n \<and> n \<le> 70 then Some (n - 55)
     else None)"

definition hex_pair :: "char \<Rightarrow> char \<Rightarrow> nat option" where
  "hex_pair a b =
     (if a = CHR ''+'' then hex_value b
      else case (hex_value a, hex_value b) of (Some x, Some y) \<Rightarrow> Some (16 * x + y) | _ \<Rightarrow> None)"

fun hex_bytes :: "string \<Rightarrow> string option" where
  "hex_bytes (a # b # s) =
     (case hex_pair a b of
        None \<Rightarrow> None
      | Some n \<Rightarrow> (case hex_bytes s of None \<Rightarrow> None | Some bs \<Rightarrow> Some (char_of n # bs)))"
| "hex_bytes s = Some []"

definition hex_decode :: "string \<Rightarrow> unit + string" where
  "hex_decode s =
     (if odd (length s) then Err ()
      else case hex_bytes s of None \<Rightarrow> Err () | Some bs \<Rightarrow> Ok bs)"

section \<open>Session tokens\<close>

record CbsdTokenPayloadV1 =
  pl_expires :: "timestamp option"
  pl_user :: string

datatype PasetoError = Serialization | InvalidKey | Creation | InvalidToken | PasetoExpired

fun paseto_error_display :: "PasetoError \<Rightarrow> string" where
  "paseto_error_display Serialization = ''payload serialization failed''"
| "paseto_error_display InvalidKey = ''invalid secret key''"
| "paseto_error_display Creation = ''token creation failed''"
| "paseto_error_display InvalidToken = ''invalid or corrupted token''"
| "paseto_error_display PasetoExpired = ''token expired''"

text \<open>
  \<open>pa_claims\<close> are \<open>Claims::new_expires_in\<close> at a time, with the additional claim \<open>payload\<close>;
  \<open>pa_encrypt\<close> uses the \<open>n\<close>-th nonce; \<open>pa_decrypt\<close> validates the claims at a time and
  \<open>pa_payload\<close> reads the claim \<open>payload\<close> as a string.
\<close>

record ('k, 'm) paseto_lib =
  pa_to_string :: "CbsdTokenPayloadV1 \<Rightarrow> string option"
  pa_from_str :: "string \<Rightarrow> CbsdTokenPayloadV1 option"
  pa_symmetric_key :: "string \<Rightarrow> 'k option"
  pa_claims :: "timestamp \<Rightarrow> 64 word \<Rightarrow> string \<Rightarrow> 'm option"
  pa_encrypt :: "'k \<Rightarrow> nat \<Rightarrow> 'm \<Rightarrow> string option"
  pa_untrusted :: "string \<Rightarrow> string option"
  pa_decrypt :: "'k \<Rightarrow> timestamp \<Rightarrow> string \<Rightarrow> 'm option"
  pa_payload :: "'m \<Rightarrow> string option"

text \<open>\<open>now + max_ttl_secs as i64\<close>, at the width of the code.\<close>

definition expiry_of :: "timestamp \<Rightarrow> 64 word \<Rightarrow> timestamp" where
  "expiry_of t max_ttl_secs = sint (word_of_int t + max_ttl_secs)"

definition token_hash :: "'c crypto \<Rightarrow> string \<Rightarrow> string" where
  "token_hash cr raw_token = hex_encode (cr_sha256 cr raw_token)"

definition load_key :: "('k, 'm) paseto_lib \<Rightarrow> string \<Rightarrow> PasetoError + 'k" where
  "load_key pa secret_key_hex =
     (case hex_decode secret_key_hex of
        Err _ \<Rightarrow> Err InvalidKey
      | Ok key_bytes \<Rightarrow> (case pa_symmetric_key pa key_bytes of None \<Rightarrow> Err InvalidKey | Some k \<Rightarrow> Ok k))"

definition token_create ::
  "('k, 'm) paseto_lib \<Rightarrow> 'c crypto \<Rightarrow> nat \<Rightarrow> timestamp \<Rightarrow> string \<Rightarrow> 64 word \<Rightarrow> string \<Rightarrow> PasetoError + string \<times> string" where
  "token_create pa cr n t email max_ttl_secs secret_key_hex =
     (case pa_to_string pa \<lparr>pl_expires = Some (expiry_of t max_ttl_secs), pl_user = email\<rparr> of
        None \<Rightarrow> Err Serialization
      | Some payload_json \<Rightarrow>
     (case load_key pa secret_key_hex of
        Err e \<Rightarrow> Err e
      | Ok sym_key \<Rightarrow>
     (case pa_claims pa t max_ttl_secs payload_json of
        None \<Rightarrow> Err Creation
      | Some claims \<Rightarrow>
     (case pa_encrypt pa sym_key n claims of
        None \<Rightarrow> Err Creation
      | Some raw_token \<Rightarrow> Ok (raw_token, token_hash cr raw_token)))))"

definition token_decode ::
  "('k, 'm) paseto_lib \<Rightarrow> timestamp \<Rightarrow> string \<Rightarrow> string \<Rightarrow> PasetoError + CbsdTokenPayloadV1" where
  "token_decode pa t raw_token secret_key_hex =
     (case load_key pa secret_key_hex of
        Err e \<Rightarrow> Err e
      | Ok sym_key \<Rightarrow>
     (case Option.bind (pa_untrusted pa raw_token) (\<lambda>u.
             Option.bind (pa_decrypt pa sym_key t u) (\<lambda>claims.
             Option.bind (pa_payload pa claims) (pa_from_str pa))) of
        None \<Rightarrow> Err InvalidToken
      | Some payload \<Rightarrow>
        (case pl_expires payload of
           Some exp \<Rightarrow> if t > exp then Err PasetoExpired else Ok payload
         | None \<Rightarrow> Ok payload)))"

section \<open>Google sign-in\<close>

record GoogleUserInfo =
  gi_email :: string
  gi_name :: string
  gi_email_verified :: bool

datatype AuthRejection = EmailNotVerified | DomainNotAllowed

text \<open>The text after the last \<open>@\<close>; \<open>""\<close> when there is none.\<close>

definition email_domain :: "string \<Rightarrow> string" where
  "email_domain email =
     (if CHR ''@'' \<in> set email then rev (takeWhile (\<lambda>c. c \<noteq> CHR ''@'') (rev email)) else [])"

definition is_email_domain_allowed :: "string \<Rightarrow> string list \<Rightarrow> bool \<Rightarrow> bool" where
  "is_email_domain_allowed email allowed_domains allow_any_google_account =
     (if allow_any_google_account then True
      else list_ex (\<lambda>d. d = email_domain email) allowed_domains)"

definition validate_user_info :: "GoogleUserInfo \<Rightarrow> string list \<Rightarrow> bool \<Rightarrow> AuthRejection + unit" where
  "validate_user_info info allowed_domains allow_any_google_account =
     (if \<not> gi_email_verified info then Err EmailNotVerified
      else if \<not> is_email_domain_allowed (gi_email info) allowed_domains allow_any_google_account
      then Err DomainNotAllowed else Ok ())"

text \<open>The bytes \<open>A-Z a-z 0-9 - _ . ~\<close>; every other byte becomes a percent escape.\<close>

definition unreserved :: "char \<Rightarrow> bool" where
  "unreserved c = (let n = of_char c :: nat in
     65 \<le> n \<and> n \<le> 90 \<or> 97 \<le> n \<and> n \<le> 122 \<or> 48 \<le> n \<and> n \<le> 57 \<or> c \<in> set ''-_.~'')"

definition HEX_CHARS :: string where
  "HEX_CHARS = ''0123456789ABCDEF''"

definition urlencoding :: "string \<Rightarrow> string" where
  "urlencoding s = concat (map (\<lambda>b. if unreserved b then [b]
     else [CHR ''%'', HEX_CHARS ! (of_char b div 16), HEX_CHARS ! (of_char b mod 16)]) s)"

record OAuthState =
  oa_client_id :: string
  oa_client_secret :: string
  oa_redirect_uri :: string

definition build_google_auth_url :: "OAuthState \<Rightarrow> string \<Rightarrow> string option \<Rightarrow> string" where
  "build_google_auth_url st oauth_state hd_hint =
     (let url = ''https://accounts.google.com/o/oauth2/v2/auth''
        @ ''?client_id='' @ urlencoding (oa_client_id st)
        @ ''&redirect_uri='' @ urlencoding (oa_redirect_uri st)
        @ ''&response_type=code''
        @ ''&scope=openid%20email%20profile''
        @ ''&access_type=offline''
        @ ''&state='' @ urlencoding oauth_state
      in case hd_hint of None \<Rightarrow> url | Some domain \<Rightarrow> url @ ''&hd='' @ urlencoding domain)"

section \<open>The extractor\<close>

text \<open>The parts of \<open>config.rs\<close> that authentication reads.\<close>

record AuthConfig =
  ac_token_secret_key :: string
  ac_max_token_ttl_seconds :: "64 word"
  ac_allowed_domains :: "string list"
  ac_allow_any_google_account :: bool
  ac_dev_enabled :: bool
  ac_seed_admin :: "string option"

record 's session_lib =
  ss_get :: "string \<Rightarrow> 's \<Rightarrow> (string + string option) \<times> 's"
  ss_insert :: "string \<Rightarrow> string \<Rightarrow> 's \<Rightarrow> (string + unit) \<times> 's"
  ss_cycle_id :: "'s \<Rightarrow> (string + unit) \<times> 's"
  ss_flush :: "'s \<Rightarrow> (string + unit) \<times> 's"

definition on_server :: "('c Server \<Rightarrow> 'r \<times> 'c Server) \<Rightarrow> 'c Server \<times> 's \<Rightarrow> 'r \<times> 'c Server \<times> 's" where
  "on_server f st = (case f (fst st) of (r, s) \<Rightarrow> (r, s, snd st))"

definition on_session :: "('s \<Rightarrow> 'r \<times> 's) \<Rightarrow> 'c Server \<times> 's \<Rightarrow> 'r \<times> 'c Server \<times> 's" where
  "on_session f st = (case f (snd st) of (r, s) \<Rightarrow> (r, fst st, s))"

definition validate_paseto ::
  "('k, 'm) paseto_lib \<Rightarrow> 'c crypto \<Rightarrow> AuthConfig \<Rightarrow> string \<Rightarrow> 'c Server \<Rightarrow> (auth_error + AuthUser) \<times> 'c Server" where
  "validate_paseto pa cr ac token_str =
     and_then (map_err (\<lambda>e. (UNAUTHORIZED, ''invalid token: '' @ paseto_error_display e))
       (\<lambda>s. (token_decode pa (now (sv_app s)) token_str (ac_token_secret_key ac), s))) (\<lambda>payload.
     and_then (map_err (\<lambda>_. (INTERNAL_SERVER_ERROR, ''failed to check token status''))
       (on_db (is_token_revoked (token_hash cr token_str)))) (\<lambda>revoked.
     and_then (reject_if revoked (UNAUTHORIZED, ''token revoked'')) (\<lambda>_.
     and_then (on_db (load_authed_user (pl_user payload))) (\<lambda>auth_user.
     and_then (swallow (on_db (mark_token_used (token_hash cr token_str)))) (\<lambda>_.
     returns auth_user)))))"

definition authenticate_bearer ::
  "('k, 'm) paseto_lib \<Rightarrow> 'c crypto \<Rightarrow> AuthConfig \<Rightarrow> string \<Rightarrow> 'c Server \<Rightarrow> (auth_error + AuthUser) \<times> 'c Server" where
  "authenticate_bearer pa cr ac token_str =
     (if starts_with token_str ''cbsk_'' then
        and_then (map_err (\<lambda>e. (UNAUTHORIZED, ''API key error: '' @ token_error_display e))
          (verify_api_key cr token_str)) (\<lambda>cached_token.
        and_then (on_db (load_authed_user (ca_owner_email cached_token))) (\<lambda>auth_user.
        and_then (swallow (on_db (mark_api_key_used (ca_token_id cached_token)))) (\<lambda>_.
        returns auth_user)))
      else if starts_with token_str ''cbrk_'' then
        and_then (map_err (\<lambda>e. (UNAUTHORIZED, ''robot token error: '' @ token_error_display e))
          (verify_robot_token cr token_str)) (\<lambda>cached_token.
        and_then (on_db (load_authed_user (ca_owner_email cached_token))) (\<lambda>auth_user.
        and_then (swallow (on_db (mark_robot_token_used (ca_token_id cached_token)))) (\<lambda>_.
        returns auth_user)))
      else validate_paseto pa cr ac token_str)"

text \<open>A request carries a bearer token or, failing that, a session (\<open>None\<close>: no session layer).\<close>

definition from_request_parts ::
  "('k, 'm) paseto_lib \<Rightarrow> 'c crypto \<Rightarrow> AuthConfig \<Rightarrow> 's session_lib \<Rightarrow> string option \<Rightarrow> bool \<Rightarrow>
   'c Server \<times> 's \<Rightarrow> (auth_error + AuthUser) \<times> 'c Server \<times> 's" where
  "from_request_parts pa cr ac ss bearer has_session =
     (case bearer of
        Some token_str \<Rightarrow> on_server (authenticate_bearer pa cr ac token_str)
      | None \<Rightarrow>
        and_then (reject_if (\<not> has_session) (UNAUTHORIZED, ''authentication required'')) (\<lambda>_.
        and_then (map_err (\<lambda>_. (INTERNAL_SERVER_ERROR, ''session error''))
          (on_session (ss_get ss ''paseto_token''))) (\<lambda>raw_token.
        and_then (ok_or raw_token (UNAUTHORIZED, ''authentication required'')) (\<lambda>token_str.
        on_server (validate_paseto pa cr ac token_str)))))"

section \<open>Signing in and out\<close>

text \<open>The \<open>n\<close>-th random identifier.\<close>

definition draw :: "'c Server \<Rightarrow> ('e + nat) \<times> 'c Server" where
  "draw s = (Ok (uuids (sv_app s)), s\<lparr>sv_app := (sv_app s)\<lparr>uuids := uuids (sv_app s) + 1\<rparr>\<rparr>)"

definition login ::
  "env \<Rightarrow> AuthConfig \<Rightarrow> OAuthState \<Rightarrow> 's session_lib \<Rightarrow> string \<Rightarrow> 'c Server \<times> 's \<Rightarrow> (auth_error + string) \<times> 'c Server \<times> 's" where
  "login env ac oauth ss client =
     and_then (on_server draw) (\<lambda>n.
     and_then (map_err (\<lambda>_. (INTERNAL_SERVER_ERROR, ''session error''))
       (on_session (ss_insert ss ''oauth_state'' (e_uuid env n)))) (\<lambda>_.
     and_then (map_err (\<lambda>_. (INTERNAL_SERVER_ERROR, ''session error''))
       (on_session (ss_insert ss ''client_type'' client))) (\<lambda>_.
     if ac_dev_enabled ac then
       and_then (ok_or (ac_seed_admin ac) (INTERNAL_SERVER_ERROR, ''dev mode requires seed-admin in config'')) (\<lambda>email.
       returns (''/api/auth/callback?state='' @ e_uuid env n @ ''&dev_email='' @ email))
     else
       (let hd_hint = (if length (ac_allowed_domains ac) = 1 then Some (ac_allowed_domains ac ! 0) else None)
        in returns (build_google_auth_url oauth (e_uuid env n) hd_hint)))))"

definition build_cli_token_redirect :: "string \<Rightarrow> string" where
  "build_cli_token_redirect token_b64 = ''/#cli-token='' @ token_b64"

record CallbackQuery =
  cq_code :: "string option"
  cq_state :: string
  cq_dev_email :: "string option"

text \<open>The account that signs in: the configured one in development mode, otherwise Google's answer.\<close>

definition callback_user ::
  "AuthConfig \<Rightarrow> (string \<Rightarrow> string + GoogleUserInfo) \<Rightarrow> CallbackQuery \<Rightarrow> auth_error + GoogleUserInfo" where
  "callback_user ac exchange_code_for_userinfo params =
     (case (if ac_dev_enabled ac then cq_dev_email params else None) of
        Some email \<Rightarrow>
          (let email = normalize_email email in
           Ok \<lparr>gi_email = email, gi_name = before_char (CHR ''@'') email, gi_email_verified = True\<rparr>)
      | None \<Rightarrow>
        (case cq_code params of
           None \<Rightarrow> Err (BAD_REQUEST, ''missing authorization code'')
         | Some code \<Rightarrow>
           (case exchange_code_for_userinfo code of
              Err _ \<Rightarrow> Err (BAD_GATEWAY, ''failed to authenticate with Google'')
            | Ok info \<Rightarrow>
              (let info = info\<lparr>gi_email := normalize_email (gi_email info)\<rparr> in
               case validate_user_info info (ac_allowed_domains ac) (ac_allow_any_google_account ac) of
                 Err _ \<Rightarrow> Err (UNAUTHORIZED, ''authentication failed; contact your administrator'')
               | Ok _ \<Rightarrow> Ok info))))"

fun sign_in_error :: "CreateOrUpdateUserError \<Rightarrow> auth_error" where
  "sign_in_error CouRobotNamePrefix =
     (FORBIDDEN, ''display name starting with '' @ squoted ''robot:'' @ '' is reserved for service accounts'')"
| "sign_in_error (CouDb _) = (INTERNAL_SERVER_ERROR, ''failed to create user'')"

definition callback ::
  "('k, 'm) paseto_lib \<Rightarrow> 'c crypto \<Rightarrow> AuthConfig \<Rightarrow> 's session_lib \<Rightarrow> (string \<Rightarrow> string + GoogleUserInfo) \<Rightarrow>
   (string \<Rightarrow> string) \<Rightarrow> CallbackQuery \<Rightarrow> 'c Server \<times> 's \<Rightarrow> (auth_error + string) \<times> 'c Server \<times> 's" where
  "callback pa cr ac ss exchange_code_for_userinfo base64 params =
     and_then (map_err (\<lambda>_. (INTERNAL_SERVER_ERROR, ''session error'')) (on_session (ss_get ss ''oauth_state''))) (\<lambda>stored.
     and_then (ok_or stored (BAD_REQUEST, ''missing OAuth state in session'')) (\<lambda>stored_state.
     and_then (reject_if (stored_state \<noteq> cq_state params) (BAD_REQUEST, ''OAuth state mismatch'')) (\<lambda>_.
     and_then (map_err (\<lambda>_. (INTERNAL_SERVER_ERROR, ''session error'')) (on_session (ss_get ss ''client_type''))) (\<lambda>ct.
     (let client_type = (case ct of None \<Rightarrow> ''web'' | Some c \<Rightarrow> c) in
     and_then (of_result (callback_user ac exchange_code_for_userinfo params)) (\<lambda>user_info.
     and_then (on_server (on_db (map_err sign_in_error (create_or_update_user (gi_email user_info) (gi_name user_info))))) (\<lambda>_.
     and_then (on_server (\<lambda>s. (Ok (expiry_of (now (sv_app s)) (ac_max_token_ttl_seconds ac)), s))) (\<lambda>expires_at.
     and_then (on_server draw) (\<lambda>n.
     and_then (on_server (\<lambda>s. (case token_create pa cr n (now (sv_app s)) (gi_email user_info)
         (ac_max_token_ttl_seconds ac) (ac_token_secret_key ac) of
         Err _ \<Rightarrow> Err (INTERNAL_SERVER_ERROR, ''failed to create token'') | Ok t \<Rightarrow> Ok t, s))) (\<lambda>(raw_token, tok_hash).
     and_then (on_server (on_db (db_or (INTERNAL_SERVER_ERROR, ''failed to store token'')
         (insert_token (gi_email user_info) tok_hash (Some expires_at))))) (\<lambda>_.
     and_then (map_err (\<lambda>_. (INTERNAL_SERVER_ERROR, ''session error'')) (on_session (ss_cycle_id ss))) (\<lambda>_.
     if client_type = ''cli'' then returns (build_cli_token_redirect (base64 raw_token))
     else
       and_then (map_err (\<lambda>_. (INTERNAL_SERVER_ERROR, ''failed to store session''))
         (on_session (ss_insert ss ''paseto_token'' raw_token))) (\<lambda>_.
       returns ''/'')))))))))))))"

definition logout ::
  "'c crypto \<Rightarrow> 's session_lib \<Rightarrow> 'c Server \<times> 's \<Rightarrow> (auth_error + string) \<times> 'c Server \<times> 's" where
  "logout cr ss st =
     (case on_session (ss_get ss ''paseto_token'') st of
        (r, st) \<Rightarrow>
          (let st = (case r of
                       Ok (Some raw_token) \<Rightarrow> snd (on_server (on_db (revoke_token (token_hash cr raw_token))) st)
                     | _ \<Rightarrow> st)
           in and_then (map_err (\<lambda>_. (INTERNAL_SERVER_ERROR, ''failed to clear session'')) (on_session (ss_flush ss)))
                (\<lambda>_. returns ''logged out'') st))"

section \<open>Tokens and API keys of the caller\<close>

definition whoami :: "AuthUser \<Rightarrow> (AuthUser \<times> string list) route" where
  "whoami user =
     and_then (db_or (INTERNAL_SERVER_ERROR, ''failed to load user roles'') (get_user_roles (au_email user))) (\<lambda>user_roles.
     returns (user, map fst user_roles))"

text \<open>\<open>headers.get("authorization")\<close> is the first argument.\<close>

definition revoke_own_token :: "'c crypto \<Rightarrow> string option \<Rightarrow> AuthUser \<Rightarrow> string route" where
  "revoke_own_token cr authorization user =
     and_then (reject_if (authorization = None) (BAD_REQUEST, ''use POST /api/auth/logout for web sessions'')) (\<lambda>_.
     and_then (ok_or (Option.bind authorization (strip_prefix ''Bearer '')) (UNAUTHORIZED, ''missing bearer token'')) (\<lambda>auth_header.
     and_then (reject_if (starts_with auth_header ''cbsk_'')
       (BAD_REQUEST, ''use DELETE /api/auth/api-keys/:prefix to revoke API keys'')) (\<lambda>_.
     and_then (reject_if (starts_with auth_header ''cbrk_'')
       (BAD_REQUEST, ''robot accounts cannot self-revoke '' @ em_dash @ '' use DELETE /api/admin/robots/{name}/token'')) (\<lambda>_.
     and_then (db_or (INTERNAL_SERVER_ERROR, ''failed to revoke token'') (revoke_token (token_hash cr auth_header))) (\<lambda>_.
     returns ''token revoked'')))))"

definition revoke_all_tokens :: "AuthUser \<Rightarrow> string \<Rightarrow> string route" where
  "revoke_all_tokens user body_user_email =
     and_then (reject_if (au_is_robot user) (BAD_REQUEST, ''robot accounts cannot call revoke-all-tokens '' @ em_dash
         @ '' use DELETE /api/admin/robots/{name}/token'')) (\<lambda>_.
     and_then (require_cap user ''permissions:manage'') (\<lambda>_.
     (let user_email = normalize_email body_user_email in
     and_then (db_or db_error (get_user user_email)) (\<lambda>target.
     and_then (reject_if (target = None) (NOT_FOUND, ''user not found'')) (\<lambda>_.
     and_then (db_or (INTERNAL_SERVER_ERROR, ''failed to revoke tokens'') (revoke_all_for_user user_email)) (\<lambda>count.
     returns (''revoked '' @ show_nat count @ '' tokens'')))))))"

record CreateApiKeyResponse =
  kr_key :: string
  kr_prefix :: string
  kr_name :: string

definition create_api_key_handler ::
  "'c crypto \<Rightarrow> AuthUser \<Rightarrow> string \<Rightarrow> 'c Server \<Rightarrow> (auth_error + CreateApiKeyResponse) \<times> 'c Server" where
  "create_api_key_handler cr user name =
     and_then (reject_if (au_is_robot user) (BAD_REQUEST, ''robot accounts cannot create API keys '' @ em_dash
         @ '' use POST /api/admin/robots/{name}/token'')) (\<lambda>_.
     and_then (require_cap user ''apikeys:create:own'') (\<lambda>_.
     and_then (reject_if (starts_with name ''worker:'') (BAD_REQUEST, ''key names starting with ''
         @ squoted ''worker:'' @ '' are reserved for worker registration'')) (\<lambda>_.
     and_then draw (\<lambda>n.
     and_then (map_err (\<lambda>_. (INTERNAL_SERVER_ERROR, ''failed to create API key''))
       (on_db (create_api_key cr n name (au_email user)))) (\<lambda>(key, prfx).
     returns \<lparr>kr_key = key, kr_prefix = prfx, kr_name = name\<rparr>)))))"

definition list_api_keys_handler :: "AuthUser \<Rightarrow> ApiKeyListItem list route" where
  "list_api_keys_handler user =
     and_then (require_cap user ''apikeys:create:own'') (\<lambda>_.
     and_then (db_or (INTERNAL_SERVER_ERROR, ''failed to list API keys'') (list_api_keys_for_user (au_email user))) (\<lambda>keys.
     returns (filter (\<lambda>k. \<not> starts_with (al_name k) ''worker:'') keys)))"

definition with_cache :: "('c TokenCache \<Rightarrow> 'c TokenCache) \<Rightarrow> 'c Server \<Rightarrow> ('e + unit) \<times> 'c Server" where
  "with_cache f s = (Ok (), s\<lparr>sv_token_cache := f (sv_token_cache s)\<rparr>)"

lemma with_cache_Ok: "with_cache f s = (Ok u, s') \<longleftrightarrow> s' = s\<lparr>sv_token_cache := f (sv_token_cache s)\<rparr>"
  by (auto simp: with_cache_def)

lemma keeps_server [keeps_intros]: "keeps (server_db I) (with_cache f)" "keeps (server_db I) draw"
  by (simp_all add: keeps_def with_cache_def draw_def)

definition revoke_api_key_handler ::
  "'c crypto \<Rightarrow> AuthUser \<Rightarrow> string \<Rightarrow> 'c Server \<Rightarrow> (auth_error + string) \<times> 'c Server" where
  "revoke_api_key_handler cr user prfx =
     and_then (require_cap user ''apikeys:create:own'') (\<lambda>_.
     and_then (map_err (\<lambda>_. (INTERNAL_SERVER_ERROR, ''failed to revoke API key''))
       (on_db (revoke_api_key_by_prefix (au_email user) prfx))) (\<lambda>revoked.
     and_then (reject_if (\<not> revoked) (NOT_FOUND, ''API key not found'')) (\<lambda>_.
     and_then (with_cache (remove_by_prefix (cr_lru cr) prfx)) (\<lambda>_.
     returns ''API key revoked''))))"

end
