(* ===== verification/Cbs_Admin.thy ===== *)
theory Cbs_Admin
  imports Cbs_Auth Cbs_Channels Cbs_Handler
begin

text \<open>
  The administration of roles (\<open>routes/permissions.rs\<close>) and of entities, that is users and
  robots (\<open>routes/admin.rs\<close>), with the guard that keeps an administrator. A handler that only
  touches the database is a function of the pool; one that purges the token cache is a
  function of the server.
\<close>

section \<open>Roles\<close>

definition KNOWN_CAPS :: "string list" where
  "KNOWN_CAPS =
     [''builds:create'', ''builds:revoke:own'', ''builds:revoke:any'', ''builds:list:own'', ''builds:list:any'',
      ''admin:queue:view'', ''permissions:view'', ''permissions:manage'', ''apikeys:create:own'',
      ''robots:manage'', ''robots:view'', ''workers:view'', ''workers:manage'', ''periodic:create'',
      ''periodic:view'', ''periodic:manage:own'', ''periodic:manage:any'', ''channels:manage'',
      ''channels:view'', ''*'']"

definition SCOPE_DEPENDENT_CAPS :: "string list" where
  "SCOPE_DEPENDENT_CAPS = [''builds:create'']"

definition KNOWN_SCOPE_TYPES :: "string list" where
  "KNOWN_SCOPE_TYPES = [''channel'', ''registry'', ''repository'']"

record CreateRoleBody =
  rb_name :: string
  rb_description :: "string option"
  rb_caps :: "string list"
  rb_scopes :: "ScopeEntry list"

record RoleResponse =
  rr_name :: string
  rr_description :: string
  rr_builtin :: bool
  rr_caps :: "string list"
  rr_scopes :: "ScopeEntry list"
  rr_created_at :: timestamp

definition validate_caps :: "string list \<Rightarrow> auth_error + unit" where
  "validate_caps caps =
     (case find (\<lambda>cap. cap \<notin> set KNOWN_CAPS) caps of
        Some cap \<Rightarrow> Err (BAD_REQUEST, ''unknown capability: '' @ cap)
      | None \<Rightarrow> Ok ())"

definition role_is_scope_dependent :: "string list \<Rightarrow> bool" where
  "role_is_scope_dependent caps =
     (if ''*'' \<in> set caps then False else list_ex (\<lambda>c. c \<in> set SCOPE_DEPENDENT_CAPS) caps)"

definition ADMIN_LOST :: "string \<Rightarrow> string" where
  "ADMIN_LOST who = ''operation would remove the last admin '' @ em_dash @ '' at least one active '' @ who
     @ '' must hold the wildcard (*) capability''"

text \<open>\<open>who\<close> is the only difference between the guards of the two modules.\<close>

definition last_admin_guard :: "string \<Rightarrow> unit route" where
  "last_admin_guard who =
     and_then (db_or (INTERNAL_SERVER_ERROR, ''failed to check admin count'') count_active_wildcard_holders) (\<lambda>count.
     reject_if (count = 0) (CONFLICT, ADMIN_LOST who))"

fun validate_scopes :: "ScopeEntry list \<Rightarrow> auth_error + unit" where
  "validate_scopes [] = Ok ()"
| "validate_scopes (s # ss) =
     (if se_scope_type s \<notin> set KNOWN_SCOPE_TYPES then
        Err (BAD_REQUEST, ''unknown scope type '' @ squoted (se_scope_type s) @
          '': must be one of channel, registry, repository'')
      else if se_scope_type s = ''channel'' \<and> CHR ''/'' \<notin> set (se_pattern s) \<and> se_pattern s \<noteq> ''*'' then
        Err (BAD_REQUEST, ''channel scope pattern '' @ squoted (se_pattern s) @ '' must contain ''
          @ squoted ''/'' @ '' (e.g. '' @ squoted ''ces/dev'' @ '' or '' @ squoted ''ces/*'' @ '')'')
      else validate_scopes ss)"

definition check_role_body :: "CreateRoleBody \<Rightarrow> auth_error + unit" where
  "check_role_body body =
     (case validate_caps (rb_caps body) of
        Err e \<Rightarrow> Err e
      | Ok _ \<Rightarrow>
     (case validate_scopes (rb_scopes body) of
        Err e \<Rightarrow> Err e
      | Ok _ \<Rightarrow>
        if role_is_scope_dependent (rb_caps body) \<and> rb_scopes body = [] then
          Err (BAD_REQUEST, ''role contains scope-dependent capabilities and requires at least one scope'')
        else Ok ()))"

definition route_list_roles :: "AuthUser \<Rightarrow> (string \<times> RoleRow) list route" where
  "route_list_roles user =
     and_then (require_cap user ''permissions:view'') (\<lambda>_.
     db_or (INTERNAL_SERVER_ERROR, ''failed to list roles'') list_roles)"

definition role_response :: "string \<Rightarrow> RoleRow \<Rightarrow> string list \<Rightarrow> ScopeEntry list \<Rightarrow> RoleResponse" where
  "role_response name role caps scopes = \<lparr>rr_name = name, rr_description = r_description role,
     rr_builtin = r_builtin role, rr_caps = caps, rr_scopes = scopes, rr_created_at = r_created_at role\<rparr>"

text \<open>Every failure of the first insertion is answered as if the role existed.\<close>

definition route_create_role :: "AuthUser \<Rightarrow> CreateRoleBody \<Rightarrow> (StatusCode \<times> RoleResponse) route" where
  "route_create_role user body =
     and_then (require_cap user ''permissions:manage'') (\<lambda>_.
     and_then (of_result (check_role_body body)) (\<lambda>_.
     and_then (db_or (CONFLICT, ''role '' @ squoted (rb_name body) @ '' already exists'')
       (create_role (rb_name body) (case rb_description body of None \<Rightarrow> [] | Some d \<Rightarrow> d) False)) (\<lambda>_.
     and_then (db_or (INTERNAL_SERVER_ERROR, ''failed to set role capabilities and scopes'')
       (set_role_caps_and_scopes (rb_name body) (rb_caps body) (rb_scopes body))) (\<lambda>_.
     and_then (db_or (INTERNAL_SERVER_ERROR, ''failed to get role'') (get_role (rb_name body))) (\<lambda>found.
     and_then (ok_or found (INTERNAL_SERVER_ERROR, ''role not found after create'')) (\<lambda>role.
     returns (CREATED, role_response (rb_name body) role (rb_caps body) (rb_scopes body))))))))"

definition route_get_role :: "AuthUser \<Rightarrow> string \<Rightarrow> RoleResponse route" where
  "route_get_role user name =
     and_then (require_cap user ''permissions:view'') (\<lambda>_.
     and_then (db_or (INTERNAL_SERVER_ERROR, ''failed to get role'') (get_role name)) (\<lambda>found.
     and_then (ok_or found (NOT_FOUND, ''role not found'')) (\<lambda>role.
     and_then (db_or (INTERNAL_SERVER_ERROR, ''failed to get role capabilities'') (get_role_caps name)) (\<lambda>caps.
     and_then (db_or (INTERNAL_SERVER_ERROR, ''failed to get role scopes'') (get_role_scopes name)) (\<lambda>scopes.
     returns (role_response name role caps scopes))))))"

text \<open>A refusal of the guard restores the old capabilities and scopes; a failure to do so is ignored.\<close>

definition guard_or_restore :: "string \<Rightarrow> string list \<Rightarrow> ScopeEntry list \<Rightarrow> unit route" where
  "guard_or_restore name old_caps old_scopes p =
     (case last_admin_guard ''user'' p of
        (Err e, p) \<Rightarrow> (Err e, snd (set_role_caps_and_scopes name old_caps old_scopes p))
      | (Ok _, p) \<Rightarrow> (Ok (), p))"

definition route_update_role :: "AuthUser \<Rightarrow> string \<Rightarrow> CreateRoleBody \<Rightarrow> RoleResponse route" where
  "route_update_role user name body =
     and_then (require_cap user ''permissions:manage'') (\<lambda>_.
     and_then (of_result (check_role_body body)) (\<lambda>_.
     and_then (db_or db_error (is_role_builtin name)) (\<lambda>builtin.
     and_then (reject_if builtin (CONFLICT, ''cannot modify a builtin role'')) (\<lambda>_.
     and_then (db_or (INTERNAL_SERVER_ERROR, ''failed to get role'') (get_role name)) (\<lambda>found.
     and_then (ok_or found (NOT_FOUND, ''role not found'')) (\<lambda>role.
     and_then (db_or db_error (get_role_caps name)) (\<lambda>old_caps.
     and_then (db_or db_error (get_role_scopes name)) (\<lambda>old_scopes.
     and_then (db_or (INTERNAL_SERVER_ERROR, ''failed to update role capabilities and scopes'')
       (set_role_caps_and_scopes name (rb_caps body) (rb_scopes body))) (\<lambda>_.
     and_then (if ''*'' \<in> set old_caps \<and> ''*'' \<notin> set (rb_caps body)
       then guard_or_restore name old_caps old_scopes else returns ()) (\<lambda>_.
     returns (role_response name role (rb_caps body) (rb_scopes body))))))))))))"

definition route_delete_role :: "AuthUser \<Rightarrow> string \<Rightarrow> string route" where
  "route_delete_role user name =
     and_then (require_cap user ''permissions:manage'') (\<lambda>_.
     and_then (db_or db_error (is_role_builtin name)) (\<lambda>builtin.
     and_then (reject_if builtin (CONFLICT, ''cannot delete a builtin role'')) (\<lambda>_.
     and_then (db_or db_error (get_role_caps name)) (\<lambda>caps.
     and_then (db_or (INTERNAL_SERVER_ERROR, ''failed to delete role'') (delete_role name)) (\<lambda>deleted.
     and_then (reject_if (\<not> deleted) (NOT_FOUND, ''role not found'')) (\<lambda>_.
     and_then (if ''*'' \<in> set caps then last_admin_guard ''user'' else returns ()) (\<lambda>_.
     returns (''role '' @ squoted name @ '' deleted''))))))))"

section \<open>Activation of entities\<close>

record deactivation =
  da_detail :: string
  da_revoked :: "(nat \<times> nat) option"

text \<open>The transaction of a deactivation: the update, then the guard on its result.\<close>

definition deactivation_body :: "string \<Rightarrow> unit route" where
  "deactivation_body email =
     and_then (db_or db_error (set_user_active email False)) (\<lambda>_.
     and_then (db_or db_error count_active_wildcard_holders) (\<lambda>count.
     reject_if (count = 0) (CONFLICT, ''cannot deactivate the last admin '' @ em_dash
       @ '' at least one active user must hold the wildcard (*) capability'')))"

definition deactivate_entity ::
  "'c crypto \<Rightarrow> AuthUser \<Rightarrow> string \<Rightarrow> 'c Server \<Rightarrow> (auth_error + deactivation) \<times> 'c Server" where
  "deactivate_entity cr user raw_email =
     (let email = normalize_email raw_email in
     and_then (require_cap user ''permissions:manage'') (\<lambda>_.
     and_then (on_db (db_or db_error (get_user email))) (\<lambda>found.
     and_then (ok_or found (NOT_FOUND, ''user not found'')) (\<lambda>target.
     if \<not> ur_active target then
       returns \<lparr>da_detail = ''entity '' @ squoted email @ '' already deactivated'', da_revoked = None\<rparr>
     else
       and_then (on_db (transaction_with (\<lambda>_. db_error) (deactivation_body email))) (\<lambda>_.
       and_then (with_cache (remove_by_owner (cr_lru cr) email)) (\<lambda>_.
       if ur_is_robot target then
         returns \<lparr>da_detail = ''entity '' @ squoted email @ '' deactivated'', da_revoked = None\<rparr>
       else
         and_then (on_db (db_or (INTERNAL_SERVER_ERROR, ''failed to revoke tokens'') (revoke_all_for_user email))) (\<lambda>tokens_revoked.
         and_then (on_db (db_or (INTERNAL_SERVER_ERROR, ''failed to revoke API keys'') (revoke_all_api_keys_for_user email))) (\<lambda>keys_revoked.
         returns \<lparr>da_detail = ''entity '' @ squoted email @ '' deactivated'',
           da_revoked = Some (tokens_revoked, keys_revoked)\<rparr>))))))))"

definition activate_entity ::
  "'c crypto \<Rightarrow> AuthUser \<Rightarrow> string \<Rightarrow> 'c Server \<Rightarrow> (auth_error + string) \<times> 'c Server" where
  "activate_entity cr user raw_email =
     (let email = normalize_email raw_email in
     and_then (require_cap user ''permissions:manage'') (\<lambda>_.
     and_then (on_db (db_or db_error (get_user email))) (\<lambda>found.
     and_then (ok_or found (NOT_FOUND, ''user not found'')) (\<lambda>target.
     and_then (if ur_is_robot target then
         and_then (on_db (db_or db_error (has_non_revoked_token email))) (\<lambda>has_token.
         reject_if (\<not> has_token) (BAD_REQUEST, ''cannot activate robot with no token '' @ em_dash
           @ '' use POST /api/admin/robots to revive it with a new token''))
       else returns ()) (\<lambda>_.
     and_then (on_db (db_or db_error (set_user_active email True))) (\<lambda>_.
     and_then (with_cache (remove_by_owner (cr_lru cr) email)) (\<lambda>_.
     returns (''entity '' @ squoted email @ '' activated''))))))))"

section \<open>Entities and their roles\<close>

record EntityWithRolesItem =
  ei_email :: string
  ei_name :: string
  ei_active :: bool
  ei_is_robot :: bool
  ei_first_login_at :: "timestamp option"
  ei_roles :: "(string \<times> ScopeEntry list) list"

definition entity_filter :: "string option \<Rightarrow> auth_error + EntityFilter" where
  "entity_filter entity_type =
     (case entity_type of
        None \<Rightarrow> Ok FilterAll
      | Some t \<Rightarrow>
        if t = ''user'' then Ok FilterUser
        else if t = ''robot'' then Ok FilterRobot
        else if t = ''all'' then Ok FilterAll
        else Err (BAD_REQUEST, ''invalid type filter '' @ squoted t @ '': expected user, robot, or all''))"

definition list_entities :: "AuthUser \<Rightarrow> string option \<Rightarrow> EntityWithRolesItem list route" where
  "list_entities user entity_type =
     and_then (require_cap user ''permissions:view'') (\<lambda>_.
     and_then (of_result (entity_filter entity_type)) (\<lambda>flt.
     and_then (db_or (INTERNAL_SERVER_ERROR, ''failed to list entities'') (list_entities_filtered flt)) (\<lambda>entities.
     collect_each (\<lambda>row.
       and_then (db_or db_error (get_user_roles (es_email row))) (\<lambda>roles.
       returns \<lparr>ei_email = es_email row, ei_name = es_name row, ei_active = es_active row,
         ei_is_robot = es_is_robot row, ei_first_login_at = es_first_login_at row, ei_roles = roles\<rparr>)) entities)))"

definition provision_rejection :: "ProvisionUserError \<Rightarrow> auth_error" where
  "provision_rejection e =
     (case e of
        AlreadyExists \<Rightarrow> (CONFLICT, provision_user_error_display e)
      | RobotCollision \<Rightarrow> (CONFLICT, provision_user_error_display e)
      | PuUniqueViolation \<Rightarrow> (CONFLICT, provision_user_error_display e)
      | RobotNamePrefix \<Rightarrow> (FORBIDDEN, provision_user_error_display e)
      | UnknownRole _ \<Rightarrow> (BAD_REQUEST, provision_user_error_display e)
      | PuDb _ \<Rightarrow> (INTERNAL_SERVER_ERROR, ''failed to provision user''))"

record CreateEntityBody =
  eb_email :: string
  eb_name :: "string option"
  eb_roles :: "string list"

definition create_entity :: "AuthConfig \<Rightarrow> AuthUser \<Rightarrow> CreateEntityBody \<Rightarrow> (StatusCode \<times> EntityWithRolesItem) route" where
  "create_entity ac user body =
     and_then (require_cap user ''permissions:manage'') (\<lambda>_.
     (let email = normalize_email (eb_email body);
          name = (case eb_name body of None \<Rightarrow> before_char (CHR ''@'') email | Some n \<Rightarrow> n) in
     and_then (reject_if (\<not> ac_dev_enabled ac \<and>
         \<not> is_email_domain_allowed email (ac_allowed_domains ac) (ac_allow_any_google_account ac))
       (BAD_REQUEST, ''email domain not allowed'')) (\<lambda>_.
     and_then (map_err provision_rejection (provision_user email name (eb_roles body))) (\<lambda>_.
     and_then (db_or db_error (get_user_roles email)) (\<lambda>roles.
     returns (CREATED, \<lparr>ei_email = email, ei_name = name, ei_active = True, ei_is_robot = False,
       ei_first_login_at = None, ei_roles = roles\<rparr>))))))"

definition get_entity_roles :: "AuthUser \<Rightarrow> string \<Rightarrow> (string \<times> ScopeEntry list) list route" where
  "get_entity_roles user raw_email =
     and_then (require_cap user ''permissions:view'') (\<lambda>_.
     db_or db_error (get_user_roles (normalize_email raw_email)))"

text \<open>A role may be given to a robot only when it carries no capability forbidden to robots.\<close>

definition refuse_forbidden_caps :: "string \<Rightarrow> unit route" where
  "refuse_forbidden_caps role_name =
     and_then (db_or db_error (get_role_caps role_name)) (\<lambda>caps.
     case first_robot_forbidden_cap caps of
       None \<Rightarrow> returns ()
     | Some forbidden \<Rightarrow> throws (BAD_REQUEST, ''role '' @ squoted role_name @ '' carries cap ''
         @ squoted forbidden @ '' which robots cannot hold''))"

definition check_assignable :: "bool \<Rightarrow> string \<Rightarrow> unit route" where
  "check_assignable target_is_robot role_name =
     and_then (db_or db_error (get_role role_name)) (\<lambda>role.
     and_then (reject_if (role = None) (BAD_REQUEST, ''role '' @ squoted role_name @ '' does not exist'')) (\<lambda>_.
     if target_is_robot then refuse_forbidden_caps role_name else returns ()))"

definition replace_entity_roles :: "AuthUser \<Rightarrow> string \<Rightarrow> string list \<Rightarrow> (string \<times> ScopeEntry list) list route" where
  "replace_entity_roles user raw_email roles =
     (let email = normalize_email raw_email in
     and_then (require_cap user ''permissions:manage'') (\<lambda>_.
     and_then (db_or db_error (get_user email)) (\<lambda>target.
     (let target_is_robot = (case target of None \<Rightarrow> False | Some u \<Rightarrow> ur_is_robot u) in
     and_then (for_each (check_assignable target_is_robot) roles) (\<lambda>_.
     and_then (db_or (INTERNAL_SERVER_ERROR, ''failed to set entity roles'') (set_user_roles email roles)) (\<lambda>_.
     and_then (last_admin_guard ''entity'') (\<lambda>_.
     db_or db_error (get_user_roles email))))))))"

definition add_entity_role :: "AuthUser \<Rightarrow> string \<Rightarrow> string \<Rightarrow> (StatusCode \<times> string \<times> ScopeEntry list) route" where
  "add_entity_role user raw_email role_name =
     (let email = normalize_email raw_email in
     and_then (require_cap user ''permissions:manage'') (\<lambda>_.
     and_then (db_or db_error (get_role role_name)) (\<lambda>role.
     and_then (ok_or role (BAD_REQUEST, ''role '' @ squoted role_name @ '' does not exist'')) (\<lambda>_.
     and_then (db_or db_error (get_user email)) (\<lambda>found.
     and_then (ok_or found (NOT_FOUND, ''user not found'')) (\<lambda>target.
     and_then (if ur_is_robot target then refuse_forbidden_caps role_name else returns ()) (\<lambda>_.
     and_then (db_or (INTERNAL_SERVER_ERROR, ''failed to add entity role'') (add_user_role email role_name)) (\<lambda>_.
     and_then (db_or db_error (get_role_scopes role_name)) (\<lambda>scopes.
     returns (CREATED, role_name, scopes))))))))))"

definition remove_entity_role :: "AuthUser \<Rightarrow> string \<Rightarrow> string \<Rightarrow> string route" where
  "remove_entity_role user raw_email role_name =
     (let email = normalize_email raw_email in
     and_then (require_cap user ''permissions:manage'') (\<lambda>_.
     and_then (db_or (INTERNAL_SERVER_ERROR, ''failed to remove entity role'') (remove_user_role email role_name)) (\<lambda>removed.
     and_then (reject_if (\<not> removed) (NOT_FOUND, ''role assignment not found'')) (\<lambda>_.
     and_then (last_admin_guard ''entity'') (\<lambda>_.
     returns (''role '' @ squoted role_name @ '' removed from entity '' @ squoted email))))))"

definition set_entity_default_channel :: "AuthUser \<Rightarrow> string \<Rightarrow> int option \<Rightarrow> string route" where
  "set_entity_default_channel user raw_email channel =
     (let email = normalize_email raw_email in
     and_then (require_cap user ''permissions:manage'') (\<lambda>_.
     and_then (db_or db_error (get_user email)) (\<lambda>found.
     and_then (ok_or found (NOT_FOUND, ''user not found'')) (\<lambda>target.
     and_then (case channel of
         None \<Rightarrow> returns ()
       | Some channel_id \<Rightarrow>
         and_then (db_or db_error (get_channel_by_id channel_id)) (\<lambda>ch.
         and_then (ok_or ch (NOT_FOUND, ''channel not found'')) (\<lambda>_.
         if ur_is_robot target then
           and_then (db_or db_error (list_types_for_channel channel_id)) (\<lambda>types.
           case find (\<lambda>(i, t). prefix_template_contains_username (ct_prefix_template t)) types of
             None \<Rightarrow> returns ()
           | Some (i, t) \<Rightarrow> throws (BAD_REQUEST, ''channel type '' @ squoted (ct_type_name t)
               @ '' uses the ${username} template '' @ em_dash
               @ '' robot accounts cannot be assigned to such channels''))
         else returns ()))) (\<lambda>_.
     and_then (db_or (INTERNAL_SERVER_ERROR, ''failed to set default channel'') (set_default_channel email channel)) (\<lambda>_.
     returns (case channel of Some i \<Rightarrow> ''default channel set to '' @ show_int i | None \<Rightarrow> ''default channel cleared'')))))))"

section \<open>Workers\<close>

definition queue_status :: "AuthUser \<Rightarrow> AppState \<Rightarrow> (auth_error + nat \<times> nat \<times> nat) \<times> AppState" where
  "queue_status user =
     and_then (require_cap user ''admin:queue:view'') (\<lambda>_ st. (Ok (pending_counts (queue st)), st))"

definition is_ascii_alphanumeric :: "char \<Rightarrow> bool" where
  "is_ascii_alphanumeric c = (let n = of_char c :: nat in
     48 \<le> n \<and> n \<le> 57 \<or> 65 \<le> n \<and> n \<le> 90 \<or> 97 \<le> n \<and> n \<le> 122)"

definition is_valid_worker_name :: "string \<Rightarrow> bool" where
  "is_valid_worker_name name =
     (case name of
        [] \<Rightarrow> False
      | first # chars \<Rightarrow> length name \<le> 64 \<and> is_ascii_alphanumeric first \<and>
          list_all (\<lambda>c. is_ascii_alphanumeric c \<or> c = CHR ''-'' \<or> c = CHR ''_'') chars)"

text \<open>A worker token is an external encoding of these four fields (JSON, then base64).\<close>

record WorkerToken =
  wt_worker_id :: string
  wt_worker_name :: string
  wt_api_key :: string
  wt_arch :: string

record RegisterWorkerResponse =
  rw_worker_id :: string
  rw_name :: string
  rw_arch :: string
  rw_worker_token :: string

definition unique_or :: "auth_error \<Rightarrow> sqlx_error \<Rightarrow> auth_error" where
  "unique_or rej e = (if is_unique_violation e then rej else db_error)"

definition registration_body :: "string \<Rightarrow> string \<Rightarrow> string \<Rightarrow> string \<Rightarrow> string \<Rightarrow> string \<Rightarrow> unit route" where
  "registration_body worker_id name a owner key_hash prfx =
     and_then (map_err (unique_or (CONFLICT, ''worker name already exists''))
       (insert_api_key (''worker:'' @ name) owner key_hash prfx)) (\<lambda>api_key_id.
     map_err (unique_or (CONFLICT, ''worker name already exists''))
       (insert_worker worker_id name a api_key_id owner))"

definition register_worker_route ::
  "env \<Rightarrow> 'c crypto \<Rightarrow> (WorkerToken \<Rightarrow> string) \<Rightarrow> AuthUser \<Rightarrow> string \<Rightarrow> string \<Rightarrow>
   'c Server \<Rightarrow> (auth_error + StatusCode \<times> RegisterWorkerResponse) \<times> 'c Server" where
  "register_worker_route env cr build_worker_token user name a =
     and_then (require_cap user ''workers:manage'') (\<lambda>_.
     and_then (reject_if (\<not> is_valid_worker_name name)
       (BAD_REQUEST, ''invalid worker name: must match [a-zA-Z0-9][a-zA-Z0-9_-]{0,63}'')) (\<lambda>_.
     and_then (reject_if (a \<noteq> ''x86_64'' \<and> a \<noteq> ''aarch64'')
       (BAD_REQUEST, ''invalid arch: must be x86_64 or aarch64'')) (\<lambda>_.
     and_then draw (\<lambda>n.
     and_then draw (\<lambda>m.
     and_then (map_err (\<lambda>_. (INTERNAL_SERVER_ERROR, ''failed to generate API key''))
       (of_result (generate_api_key_material cr m))) (\<lambda>(plaintext_key, prfx, key_hash).
     and_then (on_db (transaction_with (\<lambda>_. db_error)
       (registration_body (e_uuid env n) name a (au_email user) key_hash prfx))) (\<lambda>_.
     returns (CREATED, \<lparr>rw_worker_id = e_uuid env n, rw_name = name, rw_arch = a,
       rw_worker_token = build_worker_token \<lparr>wt_worker_id = e_uuid env n, wt_worker_name = name,
         wt_api_key = plaintext_key, wt_arch = a\<rparr>\<rparr>))))))))"

definition force_disconnect_worker :: "env \<Rightarrow> string \<Rightarrow> AppState \<Rightarrow> AppState" where
  "force_disconnect_worker env worker_id st =
     (case find (\<lambda>(cid, ws). registered_worker_id ws = Some worker_id) (q_workers (queue st)) of
        None \<Rightarrow> st
      | Some (cid, ws) \<Rightarrow>
        (let st = with_queue (\<lambda>q. snd (remove_worker cid q)) st;
             st = st\<lparr>worker_senders := AList.delete cid (worker_senders st)\<rparr>
         in handle_worker_dead env cid st))"

definition on_app :: "(AppState \<Rightarrow> AppState) \<Rightarrow> 'c Server \<Rightarrow> ('e + unit) \<times> 'c Server" where
  "on_app f s = (Ok (), s\<lparr>sv_app := f (sv_app s)\<rparr>)"

text \<open>The purge after a revocation; when the prefix cannot be read nothing is purged.\<close>

definition purge_key :: "'c crypto \<Rightarrow> int \<Rightarrow> 'c Server \<Rightarrow> ('e + unit) \<times> 'c Server" where
  "purge_key cr api_key_id s =
     (case on_db (get_key_prefix_by_id api_key_id) s of
        (Ok (Some prfx), s) \<Rightarrow> with_cache (remove_by_prefix (cr_lru cr) prfx) s
      | (_, s) \<Rightarrow> (Ok (), s))"

definition deregistration_body :: "string \<Rightarrow> int \<Rightarrow> unit route" where
  "deregistration_body worker_id api_key_id =
     and_then (db_or (INTERNAL_SERVER_ERROR, ''failed to revoke API key'') (revoke_api_key_by_id api_key_id)) (\<lambda>_.
     and_then (db_or db_error (delete_worker worker_id)) (\<lambda>_. returns ()))"

definition deregister_worker ::
  "env \<Rightarrow> 'c crypto \<Rightarrow> AuthUser \<Rightarrow> string \<Rightarrow> 'c Server \<Rightarrow> (auth_error + string) \<times> 'c Server" where
  "deregister_worker env cr user worker_id =
     and_then (require_cap user ''workers:manage'') (\<lambda>_.
     and_then (on_db (db_or db_error (get_worker_by_id worker_id))) (\<lambda>found.
     and_then (ok_or found (NOT_FOUND, ''worker not found'')) (\<lambda>(_, worker).
     and_then (on_db (transaction_with (\<lambda>_. db_error) (deregistration_body worker_id (w_api_key_id worker)))) (\<lambda>_.
     and_then (purge_key cr (w_api_key_id worker)) (\<lambda>_.
     and_then (on_app (force_disconnect_worker env worker_id)) (\<lambda>_.
     returns (''worker '' @ squoted (w_name worker) @ '' deregistered'')))))))"

definition regeneration_body :: "string \<Rightarrow> string \<Rightarrow> string \<Rightarrow> string \<Rightarrow> string \<Rightarrow> int \<Rightarrow> unit route" where
  "regeneration_body worker_id name owner key_hash prfx old_api_key_id =
     and_then (db_or db_error (insert_api_key (''worker:'' @ name) owner key_hash prfx)) (\<lambda>new_api_key_id.
     and_then (db_or db_error (update_api_key_id worker_id new_api_key_id)) (\<lambda>_.
     and_then (db_or db_error (revoke_api_key_by_id old_api_key_id)) (\<lambda>_.
     returns ())))"

definition regenerate_worker_token ::
  "env \<Rightarrow> 'c crypto \<Rightarrow> (WorkerToken \<Rightarrow> string) \<Rightarrow> AuthUser \<Rightarrow> string \<Rightarrow>
   'c Server \<Rightarrow> (auth_error + RegisterWorkerResponse) \<times> 'c Server" where
  "regenerate_worker_token env cr build_worker_token user worker_id =
     and_then (require_cap user ''workers:manage'') (\<lambda>_.
     and_then (on_db (db_or db_error (get_worker_by_id worker_id))) (\<lambda>found.
     and_then (ok_or found (NOT_FOUND, ''worker not found'')) (\<lambda>(_, worker).
     and_then draw (\<lambda>m.
     and_then (map_err (\<lambda>_. (INTERNAL_SERVER_ERROR, ''failed to generate API key''))
       (of_result (generate_api_key_material cr m))) (\<lambda>(plaintext_key, prfx, key_hash).
     and_then (on_db (transaction_with (\<lambda>_. db_error)
       (regeneration_body worker_id (w_name worker) (au_email user) key_hash prfx (w_api_key_id worker)))) (\<lambda>_.
     and_then (purge_key cr (w_api_key_id worker)) (\<lambda>_.
     and_then (on_app (force_disconnect_worker env worker_id)) (\<lambda>_.
     returns \<lparr>rw_worker_id = worker_id, rw_name = w_name worker, rw_arch = w_arch worker,
       rw_worker_token = build_worker_token \<lparr>wt_worker_id = worker_id, wt_worker_name = w_name worker,
         wt_api_key = plaintext_key, wt_arch = w_arch worker\<rparr>\<rparr>))))))))"

end
