(* ===== verification/Cbs_Admin_Spec.thy ===== *)
theory Cbs_Admin_Spec
  imports Cbs_Admin Cbs_Samples
begin

text \<open>
  Properties of the administration handlers: which requests keep an administrator whatever
  fails, what a refused role update leaves behind, the requests whose guard comes too late,
  and what a deactivation closes.
\<close>

section \<open>The administrator\<close>

definition admin_present :: "SqlitePool \<Rightarrow> bool" where
  "admin_present p \<longleftrightarrow> (\<exists>email u r. (email, u) \<in> set (p_users p) \<and> u_active u \<and> \<not> u_is_robot u \<and>
     (email, r) \<in> set (p_user_roles p) \<and> (r, ''*'') \<in> set (p_role_caps p))"

interpretation admins: table_invariant admin_present
  by unfold_locales (simp add: admin_present_def)

lemmas admins_keeps = admins.keeps_exec admins.keeps_fetch admins.keeps_transaction keeps_intros

lemma admin_count: "count_active_wildcard_holders p = (Ok n, p') \<Longrightarrow> unchanged p p' \<and> (n \<noteq> 0 \<longleftrightarrow> admin_present p)"
proof -
  assume "count_active_wildcard_holders p = (Ok n, p')"
  note f = fetch_Ok[OF this[unfolded count_active_wildcard_holders_def]]
  then have u: "unchanged p p'" by simp
  have "n \<noteq> 0 \<longleftrightarrow> (\<exists>x\<in>set (p_users p). case x of (email, u) \<Rightarrow> u_active u \<and> \<not> u_is_robot u \<and>
       list_ex (\<lambda>(e, r). e = email \<and> (r, ''*'') \<in> set (p_role_caps p)) (p_user_roles p))"
    using f by (simp add: unchanged_fields(1,3,4)[OF u] filter_empty_conv)
  also have "\<dots> \<longleftrightarrow> admin_present p" by (fastforce simp: admin_present_def list_ex_iff)
  finally show ?thesis using u by simp
qed

lemma keeps_count: "keeps admin_present count_active_wildcard_holders"
  unfolding count_active_wildcard_holders_def by (rule admins.keeps_fetch)

lemma admin_reads:
  "keeps admin_present (get_user email)" "keeps admin_present (get_role name)"
  "keeps admin_present (get_role_caps name)" "keeps admin_present (get_role_scopes name)"
  "keeps admin_present (get_user_roles email)" "keeps admin_present (has_non_revoked_token email)"
  "keeps admin_present (get_channel_by_id i)" "keeps admin_present (list_types_for_channel i)"
  "keeps admin_present (is_role_builtin name)"
  unfolding get_user_def get_role_def get_role_caps_def get_role_scopes_def get_user_roles_def
    has_non_revoked_token_def get_channel_by_id_def list_types_for_channel_def is_role_builtin_def
  by (intro admins_keeps)+

lemma set_update_row: "(k, r) \<in> set t \<Longrightarrow> (k, if k = i then f r else r) \<in> set (update_row i f t)"
  unfolding update_row_def by (auto intro!: image_eqI[of _ _ "(k, r)"])

lemma admin_mono:
  assumes "admin_present p" "set (p_user_roles p) \<subseteq> set (p_user_roles p')" "p_role_caps p' = p_role_caps p"
    and "\<And>e u. (e, u) \<in> set (p_users p) \<Longrightarrow> u_active u \<Longrightarrow> \<not> u_is_robot u \<Longrightarrow>
      \<exists>u'. (e, u') \<in> set (p_users p') \<and> u_active u' \<and> \<not> u_is_robot u'"
  shows "admin_present p'"
proof -
  obtain e u r where a: "(e, u) \<in> set (p_users p)" "u_active u" "\<not> u_is_robot u"
    "(e, r) \<in> set (p_user_roles p)" "(r, ''*'') \<in> set (p_role_caps p)"
    using assms(1) by (auto simp: admin_present_def)
  obtain u' where "(e, u') \<in> set (p_users p')" "u_active u'" "\<not> u_is_robot u'"
    using assms(4)[OF a(1-3)] by auto
  moreover have "(e, r) \<in> set (p_user_roles p')" "(r, ''*'') \<in> set (p_role_caps p')"
    using a(4,5) assms(2,3) by auto
  ultimately show ?thesis unfolding admin_present_def by (intro exI conjI)
qed

lemma admin_update_row:
  assumes "admin_present p" "\<And>u. u_active u \<Longrightarrow> \<not> u_is_robot u \<Longrightarrow> u_active (f u) \<and> \<not> u_is_robot (f u)"
  shows "admin_present (p\<lparr>p_users := update_row email f (p_users p)\<rparr>)"
proof (rule admin_mono[OF assms(1)])
  fix e u assume "(e, u) \<in> set (p_users p)" "u_active u" "\<not> u_is_robot u"
  then show "\<exists>u'. (e, u') \<in> set (p_users (p\<lparr>p_users := update_row email f (p_users p)\<rparr>)) \<and> u_active u' \<and> \<not> u_is_robot u'"
    using set_update_row[of e u "p_users p" email f] assms(2)[of u] by (intro exI[of _ "if e = email then f u else u"]) auto
qed simp_all

lemma keeps_activation: "keeps admin_present (set_user_active email True)"
  unfolding set_user_active_def
  by (rule admins.keeps_exec) (auto simp: keeps_def intro!: admin_update_row)

lemma keeps_users:
  "keeps admin_present (set_default_channel email c)"
  "keeps admin_present (add_user_role email name)"
  "keeps admin_present (insert_user email row)"
proof -
  show "keeps admin_present (set_default_channel email c)"
    unfolding set_default_channel_def by (rule admins.keeps_exec) (auto simp: keeps_def intro!: admin_update_row)
  show "keeps admin_present (add_user_role email name)"
    unfolding add_user_role_def by (rule admins.keeps_exec) (auto simp: keeps_def elim!: admin_mono)
  show "keeps admin_present (insert_user email row)"
    unfolding insert_user_def by (rule admins.keeps_exec) (auto simp: keeps_def elim!: admin_mono)
qed

lemma keeps_check_roles: "keeps admin_present (check_roles roles)"
proof (induction roles)
  case (Cons r rs)
  have "keeps admin_present (\<lambda>p. case fetch (\<lambda>p. map_of (p_roles p) r \<noteq> None) p of (x, q) \<Rightarrow>
      (case x of Err e \<Rightarrow> (Err (provision_error e), q)
       | Ok b \<Rightarrow> (case b of True \<Rightarrow> check_roles rs q | False \<Rightarrow> (Err (UnknownRole r), q))))"
    by (intro admins_keeps Cons)
  then show ?case by (simp add: keeps_def)
qed (simp add: keeps_def)

lemma keeps_provision: "keeps admin_present (provision_user email name roles)"
  unfolding provision_user_def provision_user_inner_def
  by (intro admins_keeps keeps_check_roles keeps_users admin_reads)


lemma deactivation_Ok:
  assumes "deactivation_body email p = (Ok v, p')"
  obtains q where "unchanged p q" "unchanged (q\<lparr>p_users := update_row email
      (\<lambda>u. u\<lparr>u_active := False, u_updated_at := p_now q\<rparr>) (p_users q)\<rparr>) p'" "admin_present p'"
proof -
  obtain q1 n where 1: "set_user_active email False p = (Ok (), q1)"
    and n: "count_active_wildcard_holders q1 = (Ok n, p')" "n \<noteq> 0"
    using assms unfolding deactivation_body_def by (auto elim!: and_then_Ok simp: db_or_Ok)
  obtain q where "unchanged p q" "q1 = q\<lparr>p_users := update_row email
      (\<lambda>u. u\<lparr>u_active := False, u_updated_at := p_now q\<rparr>) (p_users q)\<rparr>"
    using 1 unfolding set_user_active_def by (elim exec_Ok) auto
  then show thesis using that admin_count[OF n(1)] n(2) admins.unchanged_inv by blast
qed

lemma keeps_deactivation: "keeps admin_present (transaction_with conv (deactivation_body email))"
  unfolding keeps_def
proof (intro allI impI)
  fix p assume p: "admin_present p"
  obtain r p' where t: "transaction_with conv (deactivation_body email) p = (r, p')" by (meson surj_pair)
  show "admin_present (snd (transaction_with conv (deactivation_body email) p))"
  proof (cases r)
    case (Inl e)
    then show ?thesis using t transaction_Err[of conv _ p e p'] p admins.unchanged_inv by auto
  next
    case (Inr v)
    then obtain p0 p1 where "deactivation_body email p0 = (Ok v, p1)" "unchanged p1 p'"
      using t by (metis transaction_Ok)
    then show ?thesis using t deactivation_Ok[of email p0 v p1] admins.unchanged_inv by auto
  qed
qed

lemma keeps_revocations:
  "keeps admin_present (revoke_all_for_user email)" "keeps admin_present (revoke_all_api_keys_for_user email)"
  unfolding revoke_all_for_user_def revoke_all_api_keys_for_user_def revoke_api_keys_def
  by (rule admins.keeps_exec; simp add: keeps_def admin_present_def Let_def)+

lemmas admin_stmts = admin_reads keeps_users keeps_activation keeps_provision keeps_deactivation keeps_revocations

lemma keeps_admin_routes:
  "keeps (server_db admin_present) (deactivate_entity cr user email)"
  "keeps (server_db admin_present) (activate_entity cr user email)"
  "keeps admin_present (add_entity_role user email role)"
  "keeps admin_present (create_entity ac user body)"
  "keeps admin_present (set_entity_default_channel user email channel)"
proof -
  show "keeps (server_db admin_present) (deactivate_entity cr user email)"
    unfolding deactivate_entity_def Let_def by (intro keeps_intros admin_stmts)
  show "keeps (server_db admin_present) (activate_entity cr user email)"
    unfolding activate_entity_def Let_def by (intro keeps_intros admin_stmts)
  show "keeps admin_present (add_entity_role user email role)"
    unfolding add_entity_role_def Let_def refuse_forbidden_caps_def by (intro keeps_intros admin_stmts)
  show "keeps admin_present (create_entity ac user body)"
    unfolding create_entity_def Let_def by (intro keeps_intros admin_stmts)
  show "keeps admin_present (set_entity_default_channel user email channel)"
    unfolding set_entity_default_channel_def Let_def
    by (intro keeps_intros admin_stmts; (auto split: option.splits intro: keeps_pure)?)
qed

text \<open>Requests that change accounts.\<close>

datatype account_request =
  Deactivate AuthUser string
| Activate AuthUser string
| AddRole AuthUser string string
| CreateEntity AuthConfig AuthUser CreateEntityBody
| DefaultChannel AuthUser string "int option"

fun run_account_request :: "'c crypto \<Rightarrow> account_request \<Rightarrow> 'c Server \<Rightarrow> 'c Server" where
  "run_account_request cr (Deactivate user email) s = snd (deactivate_entity cr user email s)"
| "run_account_request cr (Activate user email) s = snd (activate_entity cr user email s)"
| "run_account_request cr (AddRole user email role) s = snd (on_db (add_entity_role user email role) s)"
| "run_account_request cr (CreateEntity ac user body) s = snd (on_db (create_entity ac user body) s)"
| "run_account_request cr (DefaultChannel user email c) s = snd (on_db (set_entity_default_channel user email c) s)"

lemma admin_request: "server_db admin_present s \<Longrightarrow> server_db admin_present (run_account_request cr rq s)"
  by (cases rq) (simp_all add: keeps_snd[OF keeps_admin_routes(1)] keeps_snd[OF keeps_admin_routes(2)]
      keeps_snd[OF keeps_on_db[OF keeps_admin_routes(3)]] keeps_snd[OF keeps_on_db[OF keeps_admin_routes(4)]]
      keeps_snd[OF keeps_on_db[OF keeps_admin_routes(5)]])

text \<open>
  C20. The service keeps an administrator. As long as one active human user holds the
  wildcard capability, every sequence of requests that deactivate, activate or create
  entities, add roles or set default channels leaves one, whoever sends them and whatever
  statements fail.
\<close>

theorem account_requests_keep_an_admin:
  assumes "admin_present (pool (sv_app s))"
  shows "admin_present (pool (sv_app (fold (run_account_request cr) rs s)))"
  using assms by (induction rs arbitrary: s) (simp_all add: admin_request)

section \<open>Effect of the role statements\<close>

text \<open>Insertions of a list of rows, on a database that does not fail.\<close>

lemma each_clean:
  assumes step: "\<And>x p. p_faults p = [] \<Longrightarrow> stmt x p = (if ok x p then (Ok (), add x p) else (Err err, p))"
    and add: "\<And>x p. p_faults (add x p) = p_faults p"
  shows "each stmt xs p = (r, p') \<Longrightarrow> p_faults p = [] \<Longrightarrow> p_faults p' = [] \<and> (r = Ok () \<longrightarrow> p' = fold add xs p)"
  by (induction xs arbitrary: p) (auto simp: step add split: if_splits)

lemma insert_cap_clean:
  "p_faults p = [] \<Longrightarrow> insert_cap name c p =
     (if (name, c) \<notin> set (p_role_caps p) \<and> map_of (p_roles p) name \<noteq> None
      then (Ok (), p\<lparr>p_role_caps := p_role_caps p @ [(name, c)]\<rparr>) else (Err (SqlxError ''constraint failed''), p))"
  by (simp add: insert_cap_def)

abbreviation scope_row :: "string \<Rightarrow> ScopeEntry \<Rightarrow> string \<times> string \<times> string" where
  "scope_row name s \<equiv> (name, se_scope_type s, se_pattern s)"

lemma insert_scope_clean:
  "p_faults p = [] \<Longrightarrow> insert_scope name s p =
     (if scope_row name s \<notin> set (p_role_scopes p) \<and> map_of (p_roles p) name \<noteq> None \<and> se_scope_type s \<in> set KNOWN_SCOPE_TYPES
      then (Ok (), p\<lparr>p_role_scopes := p_role_scopes p @ [scope_row name s]\<rparr>) else (Err (SqlxError ''constraint failed''), p))"
  by (auto simp: insert_scope_def KNOWN_SCOPE_TYPES_def)

lemma fold_add_rows:
  "fold (\<lambda>c p. p\<lparr>p_role_caps := p_role_caps p @ [(name, c)]\<rparr>) caps p = p\<lparr>p_role_caps := p_role_caps p @ map (Pair name) caps\<rparr>"
  "fold (\<lambda>s p. p\<lparr>p_role_scopes := p_role_scopes p @ [scope_row name s]\<rparr>) ss p = p\<lparr>p_role_scopes := p_role_scopes p @ map (scope_row name) ss\<rparr>"
  by (induction caps arbitrary: p; simp) (induction ss arbitrary: p; simp)

lemma insert_rows_clean:
  "each (insert_cap name) caps p = (r, p') \<Longrightarrow> p_faults p = [] \<Longrightarrow>
     p_faults p' = [] \<and> (r = Ok () \<longrightarrow> p' = p\<lparr>p_role_caps := p_role_caps p @ map (Pair name) caps\<rparr>)"
  "each (insert_scope name) ss p = (r, p') \<Longrightarrow> p_faults p = [] \<Longrightarrow>
     p_faults p' = [] \<and> (r = Ok () \<longrightarrow> p' = p\<lparr>p_role_scopes := p_role_scopes p @ map (scope_row name) ss\<rparr>)"
proof -
  note step = each_clean[where stmt = "insert_cap name" and add = "\<lambda>c p. p\<lparr>p_role_caps := p_role_caps p @ [(name, c)]\<rparr>",
      OF insert_cap_clean]
    each_clean[where stmt = "insert_scope name" and add = "\<lambda>s p. p\<lparr>p_role_scopes := p_role_scopes p @ [scope_row name s]\<rparr>",
      OF insert_scope_clean]
  show "p_faults p' = [] \<and> (r = Ok () \<longrightarrow> p' = p\<lparr>p_role_caps := p_role_caps p @ map (Pair name) caps\<rparr>)"
    if "each (insert_cap name) caps p = (r, p')" "p_faults p = []"
    using step(1)[OF _ _ that] by (simp add: fold_add_rows)
  show "p_faults p' = [] \<and> (r = Ok () \<longrightarrow> p' = p\<lparr>p_role_scopes := p_role_scopes p @ map (scope_row name) ss\<rparr>)"
    if "each (insert_scope name) ss p = (r, p')" "p_faults p = []"
    using step(2)[OF _ _ that] by (simp add: fold_add_rows)
qed

lemma insert_caps_Ok:
  "p_faults p = [] \<Longrightarrow> map_of (p_roles p) name \<noteq> None \<Longrightarrow> distinct caps \<Longrightarrow>
   (\<forall>c\<in>set caps. (name, c) \<notin> set (p_role_caps p)) \<Longrightarrow> fst (each (insert_cap name) caps p) = Ok ()"
proof (induction caps arbitrary: p)
  case (Cons c caps)
  have "\<forall>d\<in>set caps. (name, d) \<notin> set (p_role_caps p @ [(name, c)])" using Cons.prems(3,4) by auto
  then show ?case using Cons.prems Cons.IH[of "p\<lparr>p_role_caps := p_role_caps p @ [(name, c)]\<rparr>"] by (simp add: insert_cap_clean)
qed simp

lemma insert_scopes_Ok:
  "p_faults p = [] \<Longrightarrow> map_of (p_roles p) name \<noteq> None \<Longrightarrow> distinct (map (scope_row name) ss) \<Longrightarrow>
   (\<forall>s\<in>set ss. scope_row name s \<notin> set (p_role_scopes p) \<and> se_scope_type s \<in> set KNOWN_SCOPE_TYPES) \<Longrightarrow>
   fst (each (insert_scope name) ss p) = Ok ()"
proof (induction ss arbitrary: p)
  case (Cons c ss)
  have "\<forall>d\<in>set ss. scope_row name d \<notin> set (p_role_scopes p @ [scope_row name c])"
    using Cons.prems(3,4) by (auto simp: image_iff)
  then show ?case using Cons.prems Cons.IH[of "p\<lparr>p_role_scopes := p_role_scopes p @ [scope_row name c]\<rparr>"]
    by (simp add: insert_scope_clean)
qed simp

definition replace_role :: "string \<Rightarrow> string list \<Rightarrow> ScopeEntry list \<Rightarrow> SqlitePool \<Rightarrow> SqlitePool" where
  "replace_role name caps scopes p = p\<lparr>
     p_role_caps := filter (\<lambda>(r, c). r \<noteq> name) (p_role_caps p) @ map (Pair name) caps,
     p_role_scopes := filter (\<lambda>(r, t, s). r \<noteq> name) (p_role_scopes p) @ map (scope_row name) scopes\<rparr>"


lemma set_role_clean:
  assumes "p_faults p = []"
  shows "set_role_caps_and_scopes name caps scopes p =
      (case fst (set_role_caps_and_scopes name caps scopes p) of Err e \<Rightarrow> (Err e, p) | Ok _ \<Rightarrow> (Ok (), replace_role name caps scopes p))"
    "map_of (p_roles p) name \<noteq> None \<Longrightarrow> distinct caps \<Longrightarrow> distinct (map (scope_row name) scopes) \<Longrightarrow>
     \<forall>s\<in>set scopes. se_scope_type s \<in> set KNOWN_SCOPE_TYPES \<Longrightarrow>
     fst (set_role_caps_and_scopes name caps scopes p) = Ok ()"
proof -
  define p1 where "p1 = p\<lparr>p_role_caps := filter (\<lambda>(r, c). r \<noteq> name) (p_role_caps p)\<rparr>"
  obtain r2 p2 where 2: "each (insert_cap name) caps p1 = (r2, p2)" by (meson surj_pair)
  have p1: "p_faults p1 = []" using assms by (simp add: p1_def)
  have f2: "p_faults p2 = []" "r2 = Ok () \<Longrightarrow> p2 = p1\<lparr>p_role_caps := p_role_caps p1 @ map (Pair name) caps\<rparr>"
    using insert_rows_clean(1)[OF 2 p1] by simp_all
  define p3 where "p3 = p2\<lparr>p_role_scopes := filter (\<lambda>(r, t, s). r \<noteq> name) (p_role_scopes p2)\<rparr>"
  obtain r4 p4 where 4: "each (insert_scope name) scopes p3 = (r4, p4)" by (meson surj_pair)
  have p3: "p_faults p3 = []" using f2 by (simp add: p3_def)
  have f4: "p_faults p4 = []" "r4 = Ok () \<Longrightarrow> p4 = p3\<lparr>p_role_scopes := p_role_scopes p3 @ map (scope_row name) scopes\<rparr>"
    using insert_rows_clean(2)[OF 4 p3] by simp_all
  have same: "p\<lparr>p_faults := []\<rparr> = p" using assms by simp
  have run: "set_role_caps_and_scopes name caps scopes p =
      (case r2 of Err e \<Rightarrow> (Err e, p) | Ok _ \<Rightarrow> (case r4 of Err e \<Rightarrow> (Err e, p) | Ok _ \<Rightarrow> (Ok (), p4)))"
    using assms 2 4 f2(1) f4(1) same
    by (auto simp: set_role_caps_and_scopes_def transaction_with_def seq_stmts_def p1_def[symmetric] p3_def[symmetric] split: sum.splits)
  have new: "r2 = Ok () \<Longrightarrow> r4 = Ok () \<Longrightarrow> p4 = replace_role name caps scopes p"
    using f2(2) f4(2) by (simp add: p1_def p3_def replace_role_def)
  show "set_role_caps_and_scopes name caps scopes p =
      (case fst (set_role_caps_and_scopes name caps scopes p) of Err e \<Rightarrow> (Err e, p) | Ok _ \<Rightarrow> (Ok (), replace_role name caps scopes p))"
    unfolding run using new by (cases r2; cases r4) auto
  show "fst (set_role_caps_and_scopes name caps scopes p) = Ok ()"
    if "map_of (p_roles p) name \<noteq> None" "distinct caps" "distinct (map (scope_row name) scopes)"
      "\<forall>s\<in>set scopes. se_scope_type s \<in> set KNOWN_SCOPE_TYPES"
  proof -
    have r2: "r2 = Ok ()" using insert_caps_Ok[OF p1, of name caps] 2 that(1,2) by (auto simp: p1_def)
    have "r4 = Ok ()" using insert_scopes_Ok[OF p3, of name scopes] 4 that f2(2)[OF r2] by (auto simp: p1_def p3_def)
    then show ?thesis unfolding run using r2 by simp
  qed
qed


lemma guard_clean:
  "p_faults p = [] \<Longrightarrow> last_admin_guard who p = (if admin_present p then Ok () else Err (CONFLICT, ADMIN_LOST who), p)"
proof -
  assume p: "p_faults p = []"
  then obtain n where n: "count_active_wildcard_holders p = (Ok n, p)"
    by (simp add: count_active_wildcard_holders_def)
  show ?thesis using admin_count[OF n] n by (auto simp: last_admin_guard_def route_defs)
qed

text \<open>The primary keys and the check constraint of the role tables.\<close>

definition role_tables_wf :: "SqlitePool \<Rightarrow> bool" where
  "role_tables_wf p \<longleftrightarrow> distinct (p_role_caps p) \<and> distinct (p_role_scopes p) \<and>
     (\<forall>(r, t, s)\<in>set (p_role_scopes p). t \<in> set KNOWN_SCOPE_TYPES)"

definition caps_of :: "SqlitePool \<Rightarrow> string \<Rightarrow> string list" where
  "caps_of p name = sort (map snd (filter (\<lambda>(r, c). r = name) (p_role_caps p)))"

definition scopes_of :: "SqlitePool \<Rightarrow> string \<Rightarrow> ScopeEntry list" where
  "scopes_of p name = map (\<lambda>(r, t, s). \<lparr>se_scope_type = t, se_pattern = s\<rparr>)
       (sort_key (\<lambda>(r, t, s). t) (sort_key (\<lambda>(r, t, s). s)
         (filter (\<lambda>(r, t, s). r = name) (p_role_scopes p))))"

lemma set_caps_of: "set (caps_of p name) = {c. (name, c) \<in> set (p_role_caps p)}"
  by (auto simp: caps_of_def select_snd)

lemma set_scope_rows: "scope_row name ` set (scopes_of p name) = {e \<in> set (p_role_scopes p). fst e = name}"
  by (force simp: scopes_of_def image_iff)

lemma distinct_of:
  assumes "role_tables_wf p"
  shows "distinct (caps_of p name)" "distinct (map (scope_row name) (scopes_of p name))"
    "\<forall>s\<in>set (scopes_of p name). se_scope_type s \<in> set KNOWN_SCOPE_TYPES"
proof -
  show "distinct (caps_of p name)"
    using assms by (auto simp: caps_of_def role_tables_wf_def distinct_map inj_on_def)
  have eq: "map (scope_row name) (scopes_of p name) = sort_key (\<lambda>(r, t, s). t) (sort_key (\<lambda>(r, t, s). s)
         (filter (\<lambda>(r, t, s). r = name) (p_role_scopes p)))"
    by (auto simp: scopes_of_def intro!: map_idI)
  show "distinct (map (scope_row name) (scopes_of p name))"
    unfolding eq using assms by (simp add: role_tables_wf_def)
  show "\<forall>s\<in>set (scopes_of p name). se_scope_type s \<in> set KNOWN_SCOPE_TYPES"
    using assms by (auto simp: scopes_of_def role_tables_wf_def)
qed

lemma restore_role:
  fixes p name caps scopes
  defines "p' \<equiv> replace_role name (caps_of p name) (scopes_of p name) (replace_role name caps scopes p)"
  shows "set (p_role_caps p') = set (p_role_caps p)" "set (p_role_scopes p') = set (p_role_scopes p)"
proof -
  have "set (p_role_caps p') = {e \<in> set (p_role_caps p). fst e \<noteq> name} \<union> Pair name ` set (caps_of p name)"
    by (auto simp: p'_def replace_role_def)
  then show "set (p_role_caps p') = set (p_role_caps p)" by (auto simp: set_caps_of)
  have "set (p_role_scopes p') = {e \<in> set (p_role_scopes p). fst e \<noteq> name} \<union> scope_row name ` set (scopes_of p name)"
    by (auto simp: p'_def replace_role_def)
  then show "set (p_role_scopes p') = set (p_role_scopes p)" unfolding set_scope_rows by auto
qed

lemma admin_sets:
  "p_users p' = p_users p \<Longrightarrow> p_user_roles p' = p_user_roles p \<Longrightarrow> set (p_role_caps p') = set (p_role_caps p) \<Longrightarrow>
   admin_present p' = admin_present p"
  by (simp add: admin_present_def)

lemma replace_role_keeps_admin:
  assumes "admin_present p" "''*'' \<in> set (caps_of p name) \<Longrightarrow> ''*'' \<in> set caps"
  shows "admin_present (replace_role name caps scopes p)"
proof -
  obtain e u r where a: "(e, u) \<in> set (p_users p)" "u_active u" "\<not> u_is_robot u"
    "(e, r) \<in> set (p_user_roles p)" "(r, ''*'') \<in> set (p_role_caps p)"
    using assms(1) by (auto simp: admin_present_def)
  have "(r, ''*'') \<in> set (p_role_caps (replace_role name caps scopes p))"
    using a(5) assms(2) by (auto simp: replace_role_def set_caps_of)
  then show ?thesis using a(1-4) by (auto simp: admin_present_def replace_role_def)
qed

definition same_roles :: "SqlitePool \<Rightarrow> SqlitePool \<Rightarrow> bool" where
  "same_roles p p' \<longleftrightarrow> set (p_role_caps p') = set (p_role_caps p) \<and> set (p_role_scopes p') = set (p_role_scopes p) \<and>
     p' = p\<lparr>p_role_caps := p_role_caps p', p_role_scopes := p_role_scopes p'\<rparr>"

lemma guard_or_restore_clean:
  fixes caps scopes
  assumes "p_faults p = []" "role_tables_wf p" "map_of (p_roles p) name \<noteq> None"
  defines "q \<equiv> replace_role name caps scopes p"
  shows "\<exists>p'. guard_or_restore name (caps_of p name) (scopes_of p name) q =
      (if admin_present q then (Ok (), q) else (Err (CONFLICT, ADMIN_LOST ''user''), p')) \<and> same_roles p p'"
proof -
  have q: "p_faults q = []" "map_of (p_roles q) name \<noteq> None" using assms by (simp_all add: replace_role_def)
  have "set_role_caps_and_scopes name (caps_of p name) (scopes_of p name) q =
      (Ok (), replace_role name (caps_of p name) (scopes_of p name) q)"
    using set_role_clean(1)[OF q(1)] set_role_clean(2)[OF q distinct_of[OF assms(2)]]
    by (metis (no_types, lifting) sum.simps(6))
  moreover have "same_roles p (replace_role name (caps_of p name) (scopes_of p name) q)"
    using restore_role[of name p caps scopes] by (simp add: same_roles_def q_def) (simp add: replace_role_def)
  ultimately show ?thesis by (auto simp: guard_or_restore_def guard_clean[OF q(1)])
qed


lemma update_role_cases:
  assumes "p_faults p = []" "route_update_role user name body p = (r, p')"
  obtains e where "r = Err e" "p' = p"
  | role where "map_of (p_roles p) name = Some role"
      "and_then (if ''*'' \<in> set (caps_of p name) \<and> ''*'' \<notin> set (rb_caps body)
       then guard_or_restore name (caps_of p name) (scopes_of p name) else returns ()) (\<lambda>_.
         returns (role_response name role (rb_caps body) (rb_scopes body)))
         (replace_role name (rb_caps body) (rb_scopes body) p) = (r, p')"
proof -
  let ?set = "set_role_caps_and_scopes name (rb_caps body) (rb_scopes body)"
  let ?q = "replace_role name (rb_caps body) (rb_scopes body) p"
  note run = assms(2)[unfolded route_update_role_def is_role_builtin_def get_role_def get_role_caps_def
      get_role_scopes_def, folded caps_of_def scopes_of_def]
  consider e where "?set p = (Err e, p)" | "?set p = (Ok (), ?q)"
    using set_role_clean(1)[OF assms(1), of name "rb_caps body" "rb_scopes body"] by (cases "fst (?set p)") auto
  then show thesis
  proof cases
    case 1
    then have "and_then (db_or rej ?set) k p = (Err rej, p)" for rej and k :: "unit \<Rightarrow> RoleResponse route"
      by (simp add: and_then_def db_or_def map_err_def)
    then show thesis using run that(1)
      by (auto simp: and_then_pure and_then_fetch[OF assms(1)] split: if_splits option.splits sum.splits)
  next
    case 2
    then have "and_then (db_or rej ?set) k p = k () ?q" for rej and k :: "unit \<Rightarrow> RoleResponse route"
      by (simp add: and_then_def db_or_def map_err_def)
    then show thesis using run that
      by (simp add: and_then_pure and_then_fetch[OF assms(1)] split: if_splits option.splits sum.splits; blast)
  qed
qed

text \<open>
  C21. A role update never costs the last administrator. On a database that does not fail, an
  update that is refused, by the last-admin guard or otherwise, leaves every table with the
  rows it had, and an update keeps an active human holder of the wildcard capability if there
  was one.
\<close>

theorem refused_role_update_is_undone:
  assumes "p_faults p = []" "role_tables_wf p" "route_update_role user name body p = (r, p')"
  shows "(\<forall>e. r = Err e \<longrightarrow> same_roles p p') \<and> (admin_present p \<longrightarrow> admin_present p')"
  using update_role_cases[OF assms(1,3)]
proof cases
  case (2 role)
  let ?q = "replace_role name (rb_caps body) (rb_scopes body) p"
  show ?thesis
  proof (cases "''*'' \<in> set (caps_of p name) \<and> ''*'' \<notin> set (rb_caps body)")
    case True
    obtain p1 where p1: "guard_or_restore name (caps_of p name) (scopes_of p name) ?q =
      (if admin_present ?q then (Ok (), ?q) else (Err (CONFLICT, ADMIN_LOST ''user''), p1))" "same_roles p p1"
      using guard_or_restore_clean[OF assms(1,2), of name "rb_caps body" "rb_scopes body"] 2(1) by auto
    moreover have "admin_present p1 = admin_present p"
    proof (rule admin_sets)
      have eq: "p1 = p\<lparr>p_role_caps := p_role_caps p1, p_role_scopes := p_role_scopes p1\<rparr>"
        using p1(2) by (simp add: same_roles_def)
      show "p_users p1 = p_users p" "p_user_roles p1 = p_user_roles p" by (subst eq, simp)+
    qed (use p1(2) in \<open>simp add: same_roles_def\<close>)
    ultimately show ?thesis using 2(2) True by (auto simp: and_then_def returns_def split: if_splits)
  next
    case False
    then show ?thesis using 2 replace_role_keeps_admin[of p name "rb_caps body" "rb_scopes body"]
      by (auto simp: returns_def)
  qed
qed (simp add: same_roles_def)

definition without_assignment :: "string \<Rightarrow> string \<Rightarrow> SqlitePool \<Rightarrow> SqlitePool" where
  "without_assignment email r p = p\<lparr>p_user_roles := filter (\<lambda>e. e \<noteq> (email, r)) (p_user_roles p)\<rparr>"

definition without_roles :: "string \<Rightarrow> SqlitePool \<Rightarrow> SqlitePool" where
  "without_roles email p = p\<lparr>p_user_roles := filter (\<lambda>(u, r). u \<noteq> email) (p_user_roles p)\<rparr>"

text \<open>
  C22. The other guards come too late. On a database that does not fail, taking the wildcard
  role from the last administrator, replacing all of their roles, or deleting that role is
  answered with a conflict that says the operation would remove the last administrator, and
  has removed them.
\<close>

theorem late_guard_loses_admin:
  assumes "p_faults p = []" "has_cap user ''permissions:manage''"
  shows "((normalize_email email, r) \<in> set (p_user_roles p) \<and> \<not> admin_present (without_assignment (normalize_email email) r p) \<longrightarrow>
       remove_entity_role user email r p =
         (Err (CONFLICT, ADMIN_LOST ''entity''), without_assignment (normalize_email email) r p)) \<and>
    (\<not> admin_present (without_roles (normalize_email email) p) \<longrightarrow>
       replace_entity_roles user email [] p =
         (Err (CONFLICT, ADMIN_LOST ''entity''), without_roles (normalize_email email) p)) \<and>
    (map_of (p_roles p) r = Some row \<and> \<not> r_builtin row \<and> (r, ''*'') \<in> set (p_role_caps p) \<and>
       \<not> admin_present (drop_role r p) \<longrightarrow>
       route_delete_role user r p = (Err (CONFLICT, ADMIN_LOST ''user''), drop_role r p))"
proof (intro conjI impI)
  let ?p1 = "without_assignment (normalize_email email) r p"
  let ?p2 = "without_roles (normalize_email email) p"
  have f: "p_faults (drop_role r p) = []" "p_faults ?p1 = []" "p_faults ?p2 = []"
    using assms(1) by (simp_all add: drop_role_def without_assignment_def without_roles_def)
  show "remove_entity_role user email r p = (Err (CONFLICT, ADMIN_LOST ''entity''), ?p1)"
    if "(normalize_email email, r) \<in> set (p_user_roles p) \<and> \<not> admin_present ?p1"
    using assms(1,2) that by (simp add: remove_entity_role_def remove_user_role_def route_defs Let_def
      without_assignment_def[symmetric] guard_clean[OF f(2)])
  show "replace_entity_roles user email [] p = (Err (CONFLICT, ADMIN_LOST ''entity''), ?p2)" if "\<not> admin_present ?p2"
    using assms(1,2) that f(3) by (simp add: replace_entity_roles_def get_user_def set_user_roles_def transaction_with_def
      seq_stmts_def route_defs Let_def without_roles_def[symmetric] guard_clean[OF f(3)])
  show "route_delete_role user r p = (Err (CONFLICT, ADMIN_LOST ''user''), drop_role r p)"
    if "map_of (p_roles p) r = Some row \<and> \<not> r_builtin row \<and> (r, ''*'') \<in> set (p_role_caps p) \<and> \<not> admin_present (drop_role r p)"
    using assms(1,2) set_caps_of[of p r] that by (auto simp: route_delete_role_def is_role_builtin_def delete_role_def get_role_caps_def
      caps_of_def[symmetric] route_defs guard_clean[OF f(1)])
qed

section \<open>Deactivation\<close>

lemma get_user_Ok:
  assumes "get_user email p = (Ok (Some ur), p')"
  obtains row where "map_of (p_users p) email = Some row" "unchanged p p'" "ur_active ur = u_active row"
    "ur_is_robot ur = u_is_robot row" "ur_email ur = email"
  using fetch_Ok[OF assms[unfolded get_user_def]] unchanged_fields(1)[of p p']
  by (cases "map_of (p_users p) email") (auto intro: that)

lemma revoke_all_Ok:
  assumes "revoke_all_for_user email p = (Ok n, p')"
  shows "p_users p' = p_users p" "p_api_keys p' = p_api_keys p"
    "\<forall>(i, t)\<in>set (p_tokens p'). tk_user_email t = email \<longrightarrow> tk_revoked t"
proof -
  obtain q where q: "unchanged p q" "p' = q\<lparr>p_tokens := update_where (\<lambda>t. tk_user_email t = email \<and> \<not> tk_revoked t)
      (\<lambda>t. t\<lparr>tk_revoked := True\<rparr>) (p_tokens q)\<rparr>"
    using assms unfolding revoke_all_for_user_def by (elim exec_Ok) (auto simp: Let_def)
  show "p_users p' = p_users p" "p_api_keys p' = p_api_keys p"
    using q unchanged_fields(1,8)[OF q(1)] by (simp_all add: Let_def)
  have "tk_revoked t" if t: "(i, t) \<in> set (p_tokens p')" "tk_user_email t = email" for i t
  proof -
    obtain r where "t = (if tk_user_email r = email \<and> \<not> tk_revoked r then r\<lparr>tk_revoked := True\<rparr> else r)"
      using t(1) by (auto simp: q(2) set_update_where)
    then show ?thesis using t(2) by (cases "tk_user_email r = email \<and> \<not> tk_revoked r") auto
  qed
  then show "\<forall>(i, t)\<in>set (p_tokens p'). tk_user_email t = email \<longrightarrow> tk_revoked t" by blast
qed

lemma revoke_keys_Ok:
  assumes "revoke_all_api_keys_for_user email p = (Ok n, p')"
  shows "p_users p' = p_users p" "p_tokens p' = p_tokens p"
    "\<forall>(i, k)\<in>set (p_api_keys p'). ak_owner_email k = email \<longrightarrow> ak_revoked k"
proof -
  obtain q where q: "unchanged p q" "p' = q\<lparr>p_api_keys := map (\<lambda>(i, k). (i, if ak_owner_email k = email \<and> \<not> ak_revoked k then k\<lparr>ak_revoked := True\<rparr> else k))
        (p_api_keys q)\<rparr>"
    using assms unfolding revoke_all_api_keys_for_user_def revoke_api_keys_def by (elim exec_Ok) auto
  show "p_users p' = p_users p" "p_tokens p' = p_tokens p"
    using q unchanged_fields(1,7)[OF q(1)] by simp_all
  show "\<forall>(i, k)\<in>set (p_api_keys p'). ak_owner_email k = email \<longrightarrow> ak_revoked k"
    using q(2) by auto
qed

lemma inactive_locked_out:
  assumes "map_of (p_users p) email = Some row" "\<not> u_active row"
  shows "\<exists>rej. fst (load_authed_user email p) = Err rej"
proof (cases "fst (load_authed_user email p)")
  case (Inr u)
  then obtain p' where "load_authed_user email p = (Ok u, p')" by (metis prod.collapse)
  then show ?thesis using assms by (elim load_authed_user_Ok) simp
qed simp


lemmas run_Ok = and_then_Ok_iff db_or_Ok map_err_Ok on_db_Ok with_cache_Ok

lemma deactivation_committed:
  assumes "transaction_with conv (deactivation_body email) p = (Ok v, p')" "map_of (p_users p) email = Some row"
  shows "\<exists>row'. map_of (p_users p') email = Some row' \<and> \<not> u_active row'"
proof -
  obtain p0 p1 where t: "unchanged p p0" "deactivation_body email p0 = (Ok v, p1)" "unchanged p1 p'"
    using assms(1) by (rule transaction_Ok)
  obtain q where q: "unchanged p0 q" "unchanged (q\<lparr>p_users := update_row email
      (\<lambda>u. u\<lparr>u_active := False, u_updated_at := p_now q\<rparr>) (p_users q)\<rparr>) p1"
    using t(2) by (rule deactivation_Ok)
  show ?thesis
    using unchanged_fields(1)[OF t(1)] unchanged_fields(1)[OF t(3)] unchanged_fields(1)[OF q(1)]
      unchanged_fields(1)[OF q(2)] assms(2) by (simp add: map_of_update_row)
qed

lemma deactivate_cases:
  assumes "deactivate_entity cr user raw s = (Ok d, s')"
  obtains (already) row where "map_of (p_users (pool (sv_app s))) (normalize_email raw) = Some row" "\<not> u_active row"
      "unchanged (pool (sv_app s)) (pool (sv_app s'))"
  | (robot) row p0 v where "map_of (p_users (pool (sv_app s))) (normalize_email raw) = Some row" "u_active row" "u_is_robot row"
      "unchanged (pool (sv_app s)) p0"
      "transaction_with (\<lambda>_. db_error) (deactivation_body (normalize_email raw)) p0 = (Ok v, pool (sv_app s'))"
      "sv_token_cache s' = remove_by_owner (cr_lru cr) (normalize_email raw) (sv_token_cache s)"
  | (human) row p0 v p1 n p2 m where "map_of (p_users (pool (sv_app s))) (normalize_email raw) = Some row" "u_active row"
      "unchanged (pool (sv_app s)) p0"
      "transaction_with (\<lambda>_. db_error) (deactivation_body (normalize_email raw)) p0 = (Ok v, p1)"
      "revoke_all_for_user (normalize_email raw) p1 = (Ok n, p2)"
      "revoke_all_api_keys_for_user (normalize_email raw) p2 = (Ok m, pool (sv_app s'))"
      "sv_token_cache s' = remove_by_owner (cr_lru cr) (normalize_email raw) (sv_token_cache s)"
proof -
  obtain ur p0 where g: "get_user (normalize_email raw) (pool (sv_app s)) = (Ok (Some ur), p0)"
    using assms unfolding deactivate_entity_def Let_def by (auto simp: run_Ok)
  obtain row where row: "map_of (p_users (pool (sv_app s))) (normalize_email raw) = Some row"
    "unchanged (pool (sv_app s)) p0" "ur_active ur = u_active row" "ur_is_robot ur = u_is_robot row"
    using get_user_Ok[OF g] by metis
  show thesis
    using assms g row already[OF row(1)] robot[OF row(1) _ _ row(2)] human[OF row(1) _ row(2)]
    unfolding deactivate_entity_def Let_def
    by (cases "u_active row"; cases "u_is_robot row") (auto simp: run_Ok)
qed

text \<open>
  C23. Deactivation locks an entity out. Under every schedule of failing statements: after a
  deactivation that succeeds the account is inactive and cannot be loaded for a request. If
  it was active, no token of its owner is left in the cache, and if it is a human's, every
  session token and API key of the account is revoked.
\<close>

theorem deactivation_locks_out:
  assumes "lru_ok (cr_lru cr)" "cache_covered (cr_lru cr) (sv_token_cache s)"
    "map_of (p_users (pool (sv_app s))) (normalize_email raw) = Some row"
    "deactivate_entity cr user raw s = (Ok d, s')"
  shows "(\<forall>u. fst (load_authed_user (normalize_email raw) (pool (sv_app s'))) \<noteq> Ok u) \<and>
    (u_active row \<longrightarrow> (\<forall>h e. cached (cr_lru cr) (sv_token_cache s') h = Some e \<longrightarrow> ca_owner_email e \<noteq> normalize_email raw)) \<and>
    (u_active row \<and> \<not> u_is_robot row \<longrightarrow>
       (\<forall>(i, t)\<in>set (p_tokens (pool (sv_app s'))). tk_user_email t = normalize_email raw \<longrightarrow> tk_revoked t) \<and>
       (\<forall>(i, k)\<in>set (p_api_keys (pool (sv_app s'))). ak_owner_email k = normalize_email raw \<longrightarrow> ak_revoked k))"
  using assms(4)
proof (cases rule: deactivate_cases)
  case (already row')
  then show ?thesis using inactive_locked_out[of "pool (sv_app s')" "normalize_email raw" row']
      unchanged_fields(1)[OF already(3)] assms(3) by force
next
  case (robot row' p0 v)
  then show ?thesis
    using deactivation_committed[OF robot(5), of row] inactive_locked_out[of "pool (sv_app s')" "normalize_email raw"]
      unchanged_fields(1)[OF robot(4)] assms(3) purge_covered(4)[OF assms(1,2)] by force
next
  case (human row' p0 v p1 n p2 m)
  have "p_users (pool (sv_app s')) = p_users p1" using revoke_all_Ok(1)[OF human(5)] revoke_keys_Ok(1)[OF human(6)] by simp
  then have "\<exists>row'. map_of (p_users (pool (sv_app s'))) (normalize_email raw) = Some row' \<and> \<not> u_active row'"
    using deactivation_committed[OF human(4), of row] unchanged_fields(1)[OF human(3)] assms(3) by simp
  then have "\<forall>u. fst (load_authed_user (normalize_email raw) (pool (sv_app s'))) \<noteq> Ok u"
    using inactive_locked_out[of "pool (sv_app s')" "normalize_email raw"] by force
  moreover have "cached (cr_lru cr) (sv_token_cache s') h = Some e \<Longrightarrow> ca_owner_email e \<noteq> normalize_email raw" for h e
    using purge_covered(4)[OF assms(1,2)] human(7) by simp
  ultimately show ?thesis
    using revoke_all_Ok(3)[OF human(5)] revoke_keys_Ok(2,3)[OF human(6)] by auto
qed

section \<open>Witnesses\<close>

text \<open>A database in which one user is the only administrator.\<close>

definition admin_pool :: SqlitePool where
  "admin_pool = (sample_pool [])\<lparr>p_roles := [(''admin'', \<lparr>r_description = '''', r_builtin = False, r_created_at = 0\<rparr>)],
     p_role_caps := [(''admin'', ''*'')], p_user_roles := [(''alice'', ''admin'')], p_role_scopes := []\<rparr>"

definition admin_user :: AuthUser where
  "admin_user = \<lparr>au_email = ''alice'', au_name = ''Alice'', au_caps = [''*''], au_is_robot = False\<rparr>"

definition admin_server :: "(nat \<times> (string \<times> CachedToken) list) Server" where
  "admin_server = \<lparr>sv_app = (sample_app [])\<lparr>pool := admin_pool\<rparr>, sv_token_cache = cache_new list_lru 2\<rparr>"

lemma normalize_alice [simp]: "normalize_email ''alice'' = ''alice''"
  by (simp add: normalize_email_def trim_def is_whitespace_def to_lowercase_def to_lower_def)

lemma admin_pool_present: "admin_present admin_pool"
  by (simp add: admin_present_def admin_pool_def sample_pool_def)

theorem account_requests_keep_an_admin_witness:
  "admin_present (pool (sv_app (fold (run_account_request list_crypto)
     [Deactivate admin_user ''alice'', AddRole admin_user ''alice'' ''admin''] admin_server)))"
  by (rule account_requests_keep_an_admin) (simp add: admin_server_def admin_pool_present)

definition weaker_body :: CreateRoleBody where
  "weaker_body = \<lparr>rb_name = ''admin'', rb_description = None, rb_caps = [''workers:view''], rb_scopes = []\<rparr>"

theorem refused_role_update_is_undone_witness:
  "fst (route_update_role admin_user ''admin'' weaker_body admin_pool) = Err (CONFLICT, ADMIN_LOST ''user'') \<and>
   same_roles admin_pool (snd (route_update_role admin_user ''admin'' weaker_body admin_pool)) \<and>
   admin_present (snd (route_update_role admin_user ''admin'' weaker_body admin_pool))"
proof -
  obtain r p' where run: "route_update_role admin_user ''admin'' weaker_body admin_pool = (r, p')" by (meson surj_pair)
  have "p_faults admin_pool = []" "role_tables_wf admin_pool"
    by (simp_all add: admin_pool_def sample_pool_def role_tables_wf_def)
  note p = this
  have "r = Err (CONFLICT, ADMIN_LOST ''user'')"
    using run by (simp add: route_update_role_def route_defs check_role_body_def validate_caps_def KNOWN_CAPS_def
      weaker_body_def role_is_scope_dependent_def SCOPE_DEPENDENT_CAPS_def is_role_builtin_def get_role_def get_role_caps_def
      get_role_scopes_def admin_pool_def sample_pool_def has_cap_def admin_user_def set_role_caps_and_scopes_def
      transaction_with_def seq_stmts_def insert_cap_def guard_or_restore_def last_admin_guard_def count_active_wildcard_holders_def)
  then show ?thesis using refused_role_update_is_undone[OF p run] run admin_pool_present by simp
qed

theorem late_guard_loses_admin_witness:
  "remove_entity_role admin_user ''alice'' ''admin'' admin_pool =
     (Err (CONFLICT, ADMIN_LOST ''entity''), without_assignment ''alice'' ''admin'' admin_pool) \<and>
   admin_present admin_pool \<and> \<not> admin_present (without_assignment ''alice'' ''admin'' admin_pool)"
proof -
  have "p_faults admin_pool = []" "has_cap admin_user ''permissions:manage''"
    by (simp_all add: admin_pool_def sample_pool_def has_cap_def admin_user_def)
  note t = late_guard_loses_admin[OF this, of "''alice''" "''admin''"]
  have "\<not> admin_present (without_assignment ''alice'' ''admin'' admin_pool)"
    "(''alice'', ''admin'') \<in> set (p_user_roles admin_pool)"
    by (simp_all add: admin_present_def without_assignment_def admin_pool_def sample_pool_def)
  then show ?thesis using t admin_pool_present by simp
qed

definition two_admins :: "(nat \<times> (string \<times> CachedToken) list) Server" where
  "two_admins = admin_server\<lparr>sv_app := (sample_app [])\<lparr>pool := admin_pool\<lparr>
     p_users := (''bob'', (new_user admin_pool ''Bob'')) # p_users admin_pool,
     p_user_roles := (''bob'', ''admin'') # p_user_roles admin_pool\<rparr>\<rparr>\<rparr>"

theorem deactivation_locks_out_witness:
  "(\<exists>d. fst (deactivate_entity list_crypto admin_user ''alice'' two_admins) = Ok d) \<and>
   (\<forall>u. fst (load_authed_user ''alice'' (pool (sv_app (snd (deactivate_entity list_crypto admin_user ''alice'' two_admins))))) \<noteq> Ok u)"
proof -
  obtain r s' where run: "deactivate_entity list_crypto admin_user ''alice'' two_admins = (r, s')" by (meson surj_pair)
  obtain d where d: "r = Ok d"
    using run by (simp add: deactivate_entity_def route_defs on_db_def with_cache_def two_admins_def admin_server_def
        has_cap_def admin_user_def get_user_def sample_app_def admin_pool_def sample_pool_def transaction_with_def
        deactivation_body_def set_user_active_def count_active_wildcard_holders_def update_row_def new_user_def
        revoke_all_for_user_def revoke_all_api_keys_for_user_def revoke_api_keys_def Let_def) blast
  have "lru_ok (cr_lru list_crypto)" "cache_covered (cr_lru list_crypto) (sv_token_cache two_admins)"
    using covered_new[OF list_lru_ok] list_lru_ok by (simp_all add: list_crypto_def two_admins_def admin_server_def)
  moreover have "\<exists>row. map_of (p_users (pool (sv_app two_admins))) (normalize_email ''alice'') = Some row"
    by (simp add: two_admins_def admin_pool_def sample_pool_def)
  ultimately show ?thesis using deactivation_locks_out[of list_crypto two_admins "''alice''" _ admin_user d s'] run d by auto
qed

end
