(* ===== verification/Cbs_Auth_Spec.thy ===== *)
theory Cbs_Auth_Spec
  imports Cbs_Admin_Spec "HOL-Library.Countable"
begin

text \<open>
  Properties of authentication: for whom a request acts, what becomes of a session token
  between its issue and its expiry, and of an API key between its creation and its
  revocation, with the one ordering of requests in which a revocation is missed.
\<close>

section \<open>Who a request acts for\<close>

text \<open>
  The account that a credential names: a session token by its payload, when its row is stored
  and not revoked; an API key or robot token by the cache, or by a stored row that is not
  revoked and whose hash it matches.
\<close>

definition session_names :: "('k, 'm) paseto_lib \<Rightarrow> 'c crypto \<Rightarrow> AuthConfig \<Rightarrow> 'c Server \<Rightarrow> string \<Rightarrow> string \<Rightarrow> bool" where
  "session_names pa cr ac s tok email \<longleftrightarrow>
     (\<exists>payload. token_decode pa (now (sv_app s)) tok (ac_token_secret_key ac) = Ok payload \<and> pl_user payload = email) \<and>
     (\<exists>i t. (i, t) \<in> set (p_tokens (pool (sv_app s))) \<and> tk_token_hash t = token_hash cr tok \<and> \<not> tk_revoked t)"

definition stored_names :: "'c crypto \<Rightarrow> 'c Server \<Rightarrow> string \<Rightarrow> CandidateRow set \<Rightarrow> string \<Rightarrow> bool" where
  "stored_names cr s tok rows email \<longleftrightarrow> length tok = 69 \<and>
     ((\<exists>e. fst (cache_get (cr_lru cr) (cr_sha256 cr tok) (sv_token_cache s)) = Some e \<and>
         ca_owner_email e = email \<and> \<not> past_expiry (ca_expires_at e) s) \<or>
      (\<exists>c\<in>rows. cd_prefix c = take 12 (drop 5 tok) \<and> argon2_verify cr tok (cd_hash c) \<and>
         cd_owner_email c = email \<and> \<not> past_expiry (cd_expires_at c) s))"

definition live_api_keys :: "SqlitePool \<Rightarrow> CandidateRow set" where
  "live_api_keys p = candidate_of_api_key ` {x \<in> set (p_api_keys p). \<not> ak_revoked (snd x)}"

definition live_robot_tokens :: "SqlitePool \<Rightarrow> CandidateRow set" where
  "live_robot_tokens p =
     (\<lambda>(i, t). \<lparr>cd_id = i, cd_hash = rt_token_hash t, cd_prefix = rt_token_prefix t,
        cd_owner_email = rt_robot_email t, cd_expires_at = rt_expires_at t\<rparr>) `
     {x \<in> set (p_robot_tokens p). \<not> rt_revoked (snd x)}"

definition bearer_names :: "('k, 'm) paseto_lib \<Rightarrow> 'c crypto \<Rightarrow> AuthConfig \<Rightarrow> 'c Server \<Rightarrow> string \<Rightarrow> string \<Rightarrow> bool" where
  "bearer_names pa cr ac s tok email \<longleftrightarrow>
     (if starts_with tok ''cbsk_'' then stored_names cr s tok (live_api_keys (pool (sv_app s))) email
      else if starts_with tok ''cbrk_'' then stored_names cr s tok (live_robot_tokens (pool (sv_app s))) email
      else session_names pa cr ac s tok email)"

definition authorized_as :: "SqlitePool \<Rightarrow> AuthUser \<Rightarrow> bool" where
  "authorized_as p u \<longleftrightarrow> (\<exists>row. map_of (p_users p) (au_email u) = Some row \<and> u_active row \<and>
     au_is_robot u = u_is_robot row \<and>
     set (au_caps u) = {c. (\<exists>r. (au_email u, r) \<in> set (p_user_roles p) \<and> (r, c) \<in> set (p_role_caps p)) \<and>
       (u_is_robot row \<longrightarrow> c \<notin> set ROBOT_FORBIDDEN_CAPS)})"

lemma load_authorized:
  assumes "load_authed_user email q = (Ok u, q')" "unchanged p q"
  shows "authorized_as p u \<and> au_email u = email"
  using assms(1) by (rule load_authed_user_Ok) (simp add: authorized_as_def unchanged_fields[OF assms(2)])

lemma session_sound:
  assumes "validate_paseto pa cr ac tok s = (Ok u, s')"
  shows "authorized_as (pool (sv_app s)) u \<and> session_names pa cr ac s tok (au_email u)"
proof -
  let ?p = "pool (sv_app s)"
  obtain payload p1 p2 where d: "token_decode pa (now (sv_app s)) tok (ac_token_secret_key ac) = Ok payload"
    and r: "is_token_revoked (token_hash cr tok) ?p = (Ok False, p1)"
    and l: "load_authed_user (pl_user payload) p1 = (Ok u, p2)"
    using assms unfolding validate_paseto_def by (auto simp: run_Ok)
  note f = fetch_Ok[OF r[unfolded is_token_revoked_def]]
  then have un: "unchanged ?p p1" by simp
  have "\<exists>i t. (i, t) \<in> set (p_tokens ?p) \<and> tk_token_hash t = token_hash cr tok \<and> \<not> tk_revoked t"
    using f by (auto simp: unchanged_fields[OF un] split: option.splits prod.splits dest!: find_SomeD)
  then show ?thesis using d load_authorized[OF l un] by (auto simp: session_names_def)
qed

lemma verify_sound:
  assumes "verify_hashed_token cr tok pre kind cands s = (Ok e, s')" "length pre = 5"
    and rows: "\<And>k v q p. cands k p = (Ok v, q) \<Longrightarrow> unchanged p q \<and> set v = {c \<in> rows p. cd_prefix c = k}"
  shows "stored_names cr s tok (rows (pool (sv_app s))) (ca_owner_email e) \<and>
    unchanged (pool (sv_app s)) (pool (sv_app s'))"
proof -
  let ?p = "pool (sv_app s)"
  have len: "length tok = 69"
    using assms(1) by (auto simp: verify_hashed_token_def verify_lookup_def split: if_splits)
  obtain g c where g: "cache_get (cr_lru cr) (cr_sha256 cr tok) (sv_token_cache s) = (g, c)" by fastforce
  show ?thesis
  proof (cases g)
    case (Some x)
    then show ?thesis using assms(1) g len
      by (auto simp: verify_hashed_token_def verify_lookup_def stored_names_def unchanged_refl split: if_splits)
  next
    case None
    then obtain v q where v: "cands (take 12 (drop 5 tok)) ?p = (Ok v, q)"
      and fin: "verify_finish cr tok kind v (s\<lparr>sv_token_cache := c, sv_app := (sv_app s)\<lparr>pool := q\<rparr>\<rparr>) = (Ok e, s')"
      using assms(1,2) g by (auto simp: verify_hashed_token_def verify_lookup_def on_db_def
        split: if_splits prod.splits sum.splits)
    obtain x where x: "find (\<lambda>c. argon2_verify cr tok (cd_hash c)) v = Some x" and e: "e = cached_of kind x"
      and ex: "\<not> past_expiry (cd_expires_at x) s" and q: "pool (sv_app s') = q"
      using fin rows[OF v] by (auto simp: verify_finish_def Let_def past_expiry_def now_def unchanged_fields(6)
        cached_of_def split: option.splits if_splits)
    have "x \<in> set v" "argon2_verify cr tok (cd_hash x)" using find_SomeD[OF x] by simp_all
    then show ?thesis using rows[OF v] len e ex q by (auto simp: stored_names_def cached_of_def)
  qed
qed

lemma api_key_rows:
  "api_key_candidates k p = (Ok v, q) \<Longrightarrow> unchanged p q \<and> set v = {c \<in> live_api_keys p. cd_prefix c = k}"
  unfolding api_key_candidates_def find_api_keys_by_prefix_def
  by (clarsimp simp: and_then_Ok_iff dest!: fetch_Ok)
    (auto simp: unchanged_fields live_api_keys_def candidate_of_api_key_def)

lemma robot_token_rows:
  "robot_token_candidates k p = (Ok v, q) \<Longrightarrow> unchanged p q \<and> set v = {c \<in> live_robot_tokens p. cd_prefix c = k}"
  unfolding robot_token_candidates_def find_active_token_by_prefix_def
  by (clarsimp simp: and_then_Ok_iff dest!: fetch_Ok)
    (auto simp: unchanged_fields live_robot_tokens_def candidate_of_robot_token_def image_iff)

lemma bearer_sound:
  assumes "authenticate_bearer pa cr ac tok s = (Ok u, s')"
  shows "authorized_as (pool (sv_app s)) u \<and> bearer_names pa cr ac s tok (au_email u)"
proof -
  consider (key) "starts_with tok ''cbsk_''" | (robot) "\<not> starts_with tok ''cbsk_''" "starts_with tok ''cbrk_''"
    | (session) "\<not> starts_with tok ''cbsk_''" "\<not> starts_with tok ''cbrk_''" by blast
  then show ?thesis
  proof cases
    case key
    then obtain e s1 q where v: "verify_api_key cr tok s = (Ok e, s1)"
      and l: "load_authed_user (ca_owner_email e) (pool (sv_app s1)) = (Ok u, q)"
      using assms unfolding authenticate_bearer_def by (auto simp: run_Ok)
    have "stored_names cr s tok (live_api_keys (pool (sv_app s))) (ca_owner_email e) \<and>
        unchanged (pool (sv_app s)) (pool (sv_app s1))"
      using v unfolding verify_api_key_def by (rule verify_sound) (simp_all add: api_key_rows)
    then show ?thesis using load_authorized[OF l, of "pool (sv_app s)"] key by (simp add: bearer_names_def)
  next
    case robot
    then obtain e s1 q where v: "verify_robot_token cr tok s = (Ok e, s1)"
      and l: "load_authed_user (ca_owner_email e) (pool (sv_app s1)) = (Ok u, q)"
      using assms unfolding authenticate_bearer_def by (auto simp: run_Ok)
    have "stored_names cr s tok (live_robot_tokens (pool (sv_app s))) (ca_owner_email e) \<and>
        unchanged (pool (sv_app s)) (pool (sv_app s1))"
      using v unfolding verify_robot_token_def by (rule verify_sound) (simp_all add: robot_token_rows)
    then show ?thesis using load_authorized[OF l, of "pool (sv_app s)"] robot by (simp add: bearer_names_def)
  next
    case session
    then show ?thesis using assms session_sound[of pa cr ac tok s u s']
      by (simp add: authenticate_bearer_def bearer_names_def)
  qed
qed

lemma on_server_Ok: "on_server f st = (r, st') \<longleftrightarrow> (\<exists>s. f (fst st) = (r, s) \<and> st' = (s, snd st))"
  by (auto simp: on_server_def split: prod.splits)

lemma on_session_Ok: "on_session f st = (r, st') \<longleftrightarrow> (\<exists>z. f (snd st) = (r, z) \<and> st' = (fst st, z))"
  by (auto simp: on_session_def split: prod.splits)

text \<open>
  C26. A request is answered on behalf of an account only when its credential names that
  account, the account exists and is active, and the capabilities are exactly those of the
  account's roles, without the forbidden ones when it is a robot. This holds for the three
  kinds of bearer token and for the session cookie, whatever fails.
\<close>

theorem authentication_is_sound:
  assumes "from_request_parts pa cr ac ss bearer has_session (s, z) = (Ok u, s', z')"
  shows "authorized_as (pool (sv_app s)) u \<and>
    (case bearer of
       Some tok \<Rightarrow> bearer_names pa cr ac s tok (au_email u)
     | None \<Rightarrow> has_session \<and> (\<exists>tok. fst (ss_get ss ''paseto_token'' z) = Ok (Some tok) \<and>
         session_names pa cr ac s tok (au_email u)))"
proof (cases bearer)
  case (Some tok)
  then show ?thesis using assms bearer_sound[of pa cr ac tok s u]
    by (simp add: from_request_parts_def on_server_Ok)
next
  case None
  then obtain tok z1 s1 where "has_session" "ss_get ss ''paseto_token'' z = (Ok (Some tok), z1)"
    "validate_paseto pa cr ac tok s = (Ok u, s1)"
    using assms by (auto simp: from_request_parts_def run_Ok on_server_Ok on_session_Ok)
  then show ?thesis using None session_sound[of pa cr ac tok s u s1] by auto
qed

section \<open>Session tokens\<close>

lemma hex_value_digit: "n < 16 \<Longrightarrow> hex_value (hex_digit n) = Some n"
  by (auto simp: hex_value_def hex_digit_def Let_def of_char_of)

lemma hex_digit_not_plus: "n < 16 \<Longrightarrow> hex_digit n \<noteq> CHR ''+''"
  using hex_value_digit[of n] by (auto simp: hex_value_def)

lemma hex_bytes_encode: "hex_bytes (hex_encode bs) = Some bs"
proof (induction bs)
  case (Cons b bs)
  have "(of_char b :: nat) = of_char b mod 256" by (metis char_of_char of_char_of)
  then have "(of_char b :: nat) < 256" by (metis mod_less_divisor zero_less_numeral)
  then have "of_char b div 16 < (16 :: nat)" "of_char b mod 16 < (16 :: nat)"
    by (simp_all add: div_less_iff_less_mult)
  then have "hex_pair (hex_digit (of_char b div 16)) (hex_digit (of_char b mod 16)) = Some (of_char b :: nat)"
    by (simp add: hex_pair_def hex_value_digit hex_digit_not_plus)
  then show ?case using Cons by (simp add: hex_encode_def Let_def char_of_char)
qed (simp add: hex_encode_def)

lemma length_hex_encode: "length (hex_encode bs) = 2 * length bs"
  by (induction bs) (simp_all add: hex_encode_def Let_def)

lemma hex_roundtrip: "hex_decode (hex_encode bs) = Ok bs"
  by (simp add: hex_decode_def length_hex_encode hex_bytes_encode)

text \<open>
  What the documentation of the libraries promises: parsing undoes serialization; a token
  made with a key is decrypted by that key, and by nothing else than its claims, from the
  time it is issued until it expires.
\<close>

definition paseto_ok :: "('k, 'm) paseto_lib \<Rightarrow> bool" where
  "paseto_ok pa \<longleftrightarrow>
     (\<forall>p j. pa_to_string pa p = Some j \<longrightarrow> pa_from_str pa j = Some p) \<and>
     (\<forall>t ttl j m k n r. pa_claims pa t ttl j = Some m \<and> pa_encrypt pa k n m = Some r \<longrightarrow>
        pa_payload pa m = Some j \<and>
        (\<exists>u. pa_untrusted pa r = Some u \<and>
          (\<forall>t'. (t \<le> t' \<and> t' < t + uint ttl \<longrightarrow> pa_decrypt pa k t' u = Some m) \<and>
             (pa_decrypt pa k t' u = Some m \<or> pa_decrypt pa k t' u = None))))"

lemma expiry_in_range: "0 \<le> t \<Longrightarrow> t + uint ttl < 2 ^ 63 \<Longrightarrow> expiry_of t ttl = t + uint ttl"
proof -
  assume a: "0 \<le> t" "t + uint ttl < 2 ^ 63"
  have "signed_take_bit 63 (t + uint ttl) = t + uint ttl" by (rule signed_take_bit_int_eq_self)
    (use a uint_ge_0[of ttl] in linarith)+
  then have "sint (word_of_int (t + uint ttl) :: 64 word) = t + uint ttl" by (simp only: sint_sbintrunc') simp
  then show "expiry_of t ttl = t + uint ttl" by (simp add: expiry_of_def)
qed

text \<open>
  C27. A session token that was issued is read back: with the key it was made with, it decodes
  to the email it was issued for until it expires, and to nothing after. The expiry does not
  wrap around for lifetimes that end before the largest 64-bit time.
\<close>

theorem session_token_roundtrip:
  assumes "paseto_ok pa" "token_create pa cr n t email ttl key = Ok (raw, h)"
    and "0 \<le> t" "t + uint ttl < 2 ^ 63"
  shows "h = token_hash cr raw \<and>
    (\<forall>t'. t \<le> t' \<and> t' < t + uint ttl \<longrightarrow>
       token_decode pa t' raw key = Ok \<lparr>pl_expires = Some (t + uint ttl), pl_user = email\<rparr>) \<and>
    (\<forall>t' v. t' > t + uint ttl \<longrightarrow> token_decode pa t' raw key \<noteq> Ok v)"
proof -
  let ?pl = "\<lparr>pl_expires = Some (t + uint ttl), pl_user = email\<rparr>"
  obtain j k m where j: "pa_to_string pa ?pl = Some j" and k: "load_key pa key = Ok k"
    and m: "pa_claims pa t ttl j = Some m" "pa_encrypt pa k n m = Some raw" and h: "h = token_hash cr raw"
    using assms(2) unfolding token_create_def expiry_in_range[OF assms(3,4)]
    by (auto split: option.splits sum.splits)
  have fs: "pa_from_str pa j = Some ?pl" using assms(1) j unfolding paseto_ok_def by blast
  have "pa_payload pa m = Some j \<and> (\<exists>u. pa_untrusted pa raw = Some u \<and>
      (\<forall>t'. (t \<le> t' \<and> t' < t + uint ttl \<longrightarrow> pa_decrypt pa k t' u = Some m) \<and>
         (pa_decrypt pa k t' u = Some m \<or> pa_decrypt pa k t' u = None)))"
    using assms(1)[unfolded paseto_ok_def, THEN conjunct2, rule_format, OF conjI[OF m]] by simp
  then obtain u where pl: "pa_payload pa m = Some j" and u: "pa_untrusted pa raw = Some u"
    "\<And>t'. t \<le> t' \<Longrightarrow> t' < t + uint ttl \<Longrightarrow> pa_decrypt pa k t' u = Some m"
    "\<And>t'. pa_decrypt pa k t' u = Some m \<or> pa_decrypt pa k t' u = None" by auto
  have "token_decode pa t' raw key \<noteq> Ok v" if "t' > t + uint ttl" for t' v
    using u(3)[of t'] that by (auto simp: token_decode_def k u(1) pl fs)
  then show ?thesis using h by (simp add: token_decode_def k u pl fs)
qed

text \<open>An instance of the libraries: a code for everything, and a key that is its own ciphertext.\<close>

definition sample_paseto :: "(string, int \<times> int \<times> string) paseto_lib" where
  "sample_paseto = \<lparr>
     pa_to_string = (\<lambda>p. Some (replicate (to_nat (pl_expires p, pl_user p)) (CHR ''x''))),
     pa_from_str = (\<lambda>j. case from_nat (length j) of (e, u) \<Rightarrow> Some \<lparr>pl_expires = e, pl_user = u\<rparr>),
     pa_symmetric_key = (\<lambda>bytes. if length bytes = 32 then Some bytes else None),
     pa_claims = (\<lambda>t ttl j. Some (t, t + uint ttl, j)),
     pa_encrypt = (\<lambda>k n m. Some (replicate (to_nat (k, m)) (CHR ''x''))),
     pa_untrusted = Some,
     pa_decrypt = (\<lambda>k t u. case from_nat (length u) of (k', m) \<Rightarrow>
       if k' = k \<and> fst m \<le> t \<and> t < fst (snd m) then Some m else None),
     pa_payload = (\<lambda>m. Some (snd (snd m)))\<rparr>"

lemma sample_paseto_ok: "paseto_ok sample_paseto"
  by (auto simp: paseto_ok_def sample_paseto_def)

theorem session_token_roundtrip_witness:
  "\<exists>raw h. token_create sample_paseto list_crypto 0 1000 ''ann@x.y'' 600 (hex_encode (replicate 32 (CHR ''k''))) = Ok (raw, h) \<and>
     token_decode sample_paseto 1200 raw (hex_encode (replicate 32 (CHR ''k''))) =
       Ok \<lparr>pl_expires = Some 1600, pl_user = ''ann@x.y''\<rparr> \<and>
     (\<forall>v. token_decode sample_paseto 1601 raw (hex_encode (replicate 32 (CHR ''k''))) \<noteq> Ok v)"
proof -
  let ?key = "hex_encode (replicate 32 (CHR ''k''))"
  have "\<exists>raw h. token_create sample_paseto list_crypto 0 1000 ''ann@x.y'' 600 ?key = Ok (raw, h)"
    by (simp add: token_create_def load_key_def hex_roundtrip sample_paseto_def)
  then obtain raw h where c: "token_create sample_paseto list_crypto 0 1000 ''ann@x.y'' 600 ?key = Ok (raw, h)" by blast
  show ?thesis using session_token_roundtrip[OF sample_paseto_ok c] c by (intro exI[of _ raw] exI[of _ h]) simp
qed

section \<open>The life of an API key\<close>

lemma created_key:
  assumes "create_api_key_handler cr user name s = (Ok resp, s')"
  obtains n h q where "cr_hash_password cr n (kr_key resp) = Ok h"
    "kr_key resp = ''cbsk_'' @ hex_encode (cr_random cr n)" "kr_prefix resp = take 12 (hex_encode (cr_random cr n))"
    "unchanged (pool (sv_app s)) q" "map_of (p_users q) (au_email user) \<noteq> None"
    "pool (sv_app s') = q\<lparr>p_api_key_seq := p_api_key_seq q + 1,
       p_api_keys := (p_api_key_seq q, \<lparr>ak_name = name, ak_key_hash = h, ak_key_prefix = kr_prefix resp,
         ak_owner_email = au_email user, ak_expires_at = None, ak_revoked = False, ak_created_at = p_now q,
         ak_first_used_at = None, ak_last_used_at = None\<rparr>) # p_api_keys q\<rparr>"
    "sv_token_cache s' = sv_token_cache s"
proof -
  let ?n = "uuids (sv_app s)"
  let ?raw = "''cbsk_'' @ hex_encode (cr_random cr ?n)"
  obtain h i p' where h: "cr_hash_password cr ?n ?raw = Ok h"
    and ins: "insert_api_key name (au_email user) h (take 12 (hex_encode (cr_random cr ?n))) (pool (sv_app s)) = (Ok i, p')"
    and resp: "resp = \<lparr>kr_key = ?raw, kr_prefix = take 12 (hex_encode (cr_random cr ?n)), kr_name = name\<rparr>"
    and s': "pool (sv_app s') = p'" "sv_token_cache s' = sv_token_cache s"
    using assms unfolding create_api_key_handler_def create_api_key_def generate_api_key_material_def
      generate_token_material_def argon2_hash_def
    by (auto simp: run_Ok draw_def Let_def split: sum.splits)
  from ins obtain q where q: "unchanged (pool (sv_app s)) q"
    and body: "map_of (p_users q) (au_email user) \<noteq> None" "p' = q\<lparr>p_api_key_seq := p_api_key_seq q + 1,
       p_api_keys := (p_api_key_seq q, \<lparr>ak_name = name, ak_key_hash = h,
         ak_key_prefix = take 12 (hex_encode (cr_random cr ?n)),
         ak_owner_email = au_email user, ak_expires_at = None, ak_revoked = False, ak_created_at = p_now q,
         ak_first_used_at = None, ak_last_used_at = None\<rparr>) # p_api_keys q\<rparr>"
    unfolding insert_api_key_def by (elim exec_Ok) (auto split: if_splits)
  have r: "kr_key resp = ?raw" "kr_prefix resp = take 12 (hex_encode (cr_random cr ?n))" by (simp_all add: resp)
  show thesis by (rule that[of ?n h q]) (simp_all only: r h q body s' not_False_eq_True)
qed

lemma load_active:
  assumes "p_faults p = []" "map_of (p_users p) email = Some row" "u_active row"
  shows "\<exists>u. load_authed_user email p = (Ok u, p) \<and> au_email u = email"
  using assms by (simp add: load_authed_user_def get_user_def get_effective_caps_def Let_def)

text \<open>
  C28. An API key that was handed out signs its owner in. Whoever creates a key and presents it
  is authenticated as the account that created it, as long as that account is active, when the
  database answers, the password hash accepts what it was made from, and no other stored key
  accepts the new one.
\<close>

theorem created_key_authenticates:
  assumes "create_api_key_handler cr user name s = (Ok resp, s')"
    and hash: "\<forall>n raw h. cr_hash_password cr n raw = Ok h \<longrightarrow> argon2_verify cr raw h"
    and rand: "\<forall>n. length (cr_random cr n) = 32"
    and other: "\<forall>(i, k)\<in>set (p_api_keys (pool (sv_app s))). \<not> argon2_verify cr (kr_key resp) (ak_key_hash k)"
    and cold: "fst (cache_get (cr_lru cr) (cr_sha256 cr (kr_key resp)) (sv_token_cache s)) = None"
    and db: "p_faults (pool (sv_app s')) = []"
    and account: "map_of (p_users (pool (sv_app s'))) (au_email user) = Some row" "u_active row"
  shows "\<exists>u s''. authenticate_bearer pa cr ac (kr_key resp) s' = (Ok u, s'') \<and> au_email u = au_email user"
proof -
  obtain n h q where k: "cr_hash_password cr n (kr_key resp) = Ok h"
    "kr_key resp = ''cbsk_'' @ hex_encode (cr_random cr n)" "kr_prefix resp = take 12 (hex_encode (cr_random cr n))"
    "unchanged (pool (sv_app s)) q" "pool (sv_app s') = q\<lparr>p_api_key_seq := p_api_key_seq q + 1,
       p_api_keys := (p_api_key_seq q, \<lparr>ak_name = name, ak_key_hash = h, ak_key_prefix = kr_prefix resp,
         ak_owner_email = au_email user, ak_expires_at = None, ak_revoked = False, ak_created_at = p_now q,
         ak_first_used_at = None, ak_last_used_at = None\<rparr>) # p_api_keys q\<rparr>"
    "sv_token_cache s' = sv_token_cache s"
    using assms(1) by (rule created_key)
  let ?raw = "kr_key resp" and ?p = "pool (sv_app s')"
  have fmt: "length ?raw = 69" "starts_with ?raw ''cbsk_''" "take 12 (drop (length ''cbsk_'') ?raw) = kr_prefix resp"
    using rand k(2,3) by (simp_all add: length_hex_encode starts_with_def)
  obtain c where c: "cache_get (cr_lru cr) (cr_sha256 cr ?raw) (sv_token_cache s') = (None, c)"
    using cold k(6) by (metis prod.collapse)
  let ?x = "\<lparr>cd_id = p_api_key_seq q, cd_hash = h, cd_prefix = kr_prefix resp, cd_owner_email = au_email user,
    cd_expires_at = None\<rparr>"
  let ?rest = "map candidate_of_api_key (filter (\<lambda>(i, k). ak_key_prefix k = kr_prefix resp \<and> \<not> ak_revoked k) (p_api_keys q))"
  have cands: "api_key_candidates (kr_prefix resp) ?p = (Ok (?x # ?rest), ?p)"
    using db k(5) by (simp add: api_key_candidates_def find_api_keys_by_prefix_def route_defs candidate_of_api_key_def)
  have "argon2_verify cr ?raw h" using hash k(1) by blast
  then have "\<exists>s1. verify_api_key cr ?raw s' = (Ok (cached_of ApiKey ?x), s1) \<and> pool (sv_app s1) = ?p"
    using fmt c cands by (simp add: verify_api_key_def verify_hashed_token_def verify_lookup_def on_db_def
      verify_finish_def past_expiry_def cached_of_def Let_def)
  then obtain s1 where v: "verify_api_key cr ?raw s' = (Ok (cached_of ApiKey ?x), s1)" "pool (sv_app s1) = ?p" by blast
  obtain u where "load_authed_user (au_email user) ?p = (Ok u, ?p)" "au_email u = au_email user"
    using load_active[OF db account] by blast
  then show ?thesis using fmt(2) v
    by (simp add: authenticate_bearer_def and_then_def map_err_def on_db_def swallow_def returns_def cached_of_def
        split: prod.splits)
qed

lemma revoked_rows:
  assumes "revoke_api_key_handler cr user prfx s = (Ok m, s')"
  shows "sv_token_cache s' = remove_by_prefix (cr_lru cr) prfx (sv_token_cache s)"
    "\<forall>(i, k)\<in>set (p_api_keys (pool (sv_app s'))). ak_owner_email k = au_email user \<and> ak_key_prefix k = prfx \<longrightarrow> ak_revoked k"
proof -
  obtain n p' where r: "revoke_api_keys (\<lambda>i k. ak_owner_email k = au_email user \<and> ak_key_prefix k = prfx)
      (pool (sv_app s)) = (Ok n, p')" and s': "pool (sv_app s') = p'"
    "sv_token_cache s' = remove_by_prefix (cr_lru cr) prfx (sv_token_cache s)"
    using assms unfolding revoke_api_key_handler_def
    by (auto simp: run_Ok revoke_api_key_by_prefix_def split: prod.splits sum.splits)
  show "sv_token_cache s' = remove_by_prefix (cr_lru cr) prfx (sv_token_cache s)" by (fact s'(2))
  obtain q where "p' = q\<lparr>p_api_keys := map (\<lambda>(i, k). (i, if (ak_owner_email k = au_email user \<and> ak_key_prefix k = prfx) \<and>
      \<not> ak_revoked k then k\<lparr>ak_revoked := True\<rparr> else k)) (p_api_keys q)\<rparr>"
    using r unfolding revoke_api_keys_def by (elim exec_Ok) auto
  then show "\<forall>(i, k)\<in>set (p_api_keys (pool (sv_app s'))). ak_owner_email k = au_email user \<and> ak_key_prefix k = prfx \<longrightarrow> ak_revoked k"
    by (simp add: s'(1) split_beta)
qed

text \<open>
  C29. A revoked API key is refused. After a revocation that succeeds, whatever string is
  presented and whatever fails, no verification answers with a key of that owner and prefix:
  the rows are revoked and the cache holds none of them.
\<close>

theorem revoked_key_is_refused:
  assumes "lru_ok (cr_lru cr)" "cache_covered (cr_lru cr) (sv_token_cache s)"
    and "revoke_api_key_handler cr user prfx s = (Ok m, s')"
  shows "\<forall>raw e. fst (verify_api_key cr raw s') = Ok e \<longrightarrow>
    \<not> (ca_owner_email e = au_email user \<and> ca_prefix e = prfx)"
proof (intro allI impI)
  fix raw e
  assume "fst (verify_api_key cr raw s') = Ok e"
  then obtain s'' where v: "verify_api_key cr raw s' = (Ok e, s'')" by (metis prod.collapse)
  note r = revoked_rows[OF assms(3)]
  obtain g c where g: "cache_get (cr_lru cr) (cr_sha256 cr raw) (sv_token_cache s') = (g, c)" by fastforce
  show "\<not> (ca_owner_email e = au_email user \<and> ca_prefix e = prfx)"
  proof (cases g)
    case (Some x)
    then have "e = x" using v g by (auto simp: verify_api_key_def verify_hashed_token_def verify_lookup_def split: if_splits)
    moreover have "cached (cr_lru cr) (remove_by_prefix (cr_lru cr) prfx (sv_token_cache s)) (cr_sha256 cr raw) = Some x"
      using cached_get(1)[OF assms(1) g] r(1) Some by simp
    ultimately show ?thesis using purge_covered(3)[OF assms(1,2)] by blast
  next
    case None
    then obtain v' q s1 where c: "api_key_candidates (take 12 (drop (length ''cbsk_'') raw)) (pool (sv_app s')) = (Ok v', q)"
      and fin: "verify_finish cr raw ApiKey v' s1 = (Ok e, s'')"
      using v g by (auto simp: verify_api_key_def verify_hashed_token_def verify_lookup_def on_db_def
        split: if_splits prod.splits sum.splits)
    obtain x where x: "x \<in> set v'" "e = cached_of ApiKey x"
      using fin by (auto simp: verify_finish_def Let_def split: option.splits if_splits dest!: find_SomeD)
    obtain i k where k: "(i, k) \<in> set (p_api_keys (pool (sv_app s')))" "\<not> ak_revoked k" "x = candidate_of_api_key (i, k)"
      using api_key_rows[OF c] x(1) by (auto simp: live_api_keys_def)
    have "\<not> (ak_owner_email k = au_email user \<and> ak_key_prefix k = prfx)" using r(2) k(1,2) by auto
    then show ?thesis using k(3) x(2) by (simp add: candidate_of_api_key_def cached_of_def)
  qed
qed

text \<open>
  C30. A verification that is under way when its key is revoked undoes the revocation. When the
  revocation comes between the reading of the candidates and the writing of the cache, the
  verification still succeeds and caches the key, and later requests with it are accepted
  although its row is revoked.
\<close>

theorem revocation_can_be_missed:
  assumes "lru_ok (cr_lru cr)"
    and "verify_lookup cr raw ''cbsk_'' api_key_candidates s = (Candidates cs, s1)"
    and "find (\<lambda>c. argon2_verify cr raw (cd_hash c)) cs = Some x" "cd_expires_at x = None"
    and "cd_owner_email x = au_email user" "cd_prefix x = prfx"
    and "revoke_api_key_handler cr user prfx s1 = (Ok m, s2)"
  shows "\<exists>s3. verify_finish cr raw ApiKey cs s2 = (Ok (cached_of ApiKey x), s3) \<and>
    fst (verify_api_key cr raw s3) = Ok (cached_of ApiKey x) \<and>
    (\<forall>(i, k)\<in>set (p_api_keys (pool (sv_app s3))).
       ak_owner_email k = ca_owner_email (cached_of ApiKey x) \<and> ak_key_prefix k = ca_prefix (cached_of ApiKey x) \<longrightarrow>
       ak_revoked k)"
proof -
  let ?e = "cached_of ApiKey x"
  let ?s3 = "s2\<lparr>sv_token_cache := cache_insert (cr_lru cr) (cr_sha256 cr raw) ?e (sv_token_cache s2)\<rparr>"
  have fmt: "length raw = 69" "starts_with raw ''cbsk_''"
    using assms(2) by (auto simp: verify_lookup_def split: if_splits)
  have fin: "verify_finish cr raw ApiKey cs s2 = (Ok ?e, ?s3)"
    using assms(3,4) by (simp add: verify_finish_def Let_def past_expiry_def cached_of_def)
  have "cached (cr_lru cr) (sv_token_cache ?s3) (cr_sha256 cr raw) = Some ?e"
    by (rule cached_insert[OF assms(1), of "cr_sha256 cr raw" ?e "sv_token_cache s2"]) simp_all
  then obtain c where "cache_get (cr_lru cr) (cr_sha256 cr raw) (sv_token_cache ?s3) = (Some ?e, c)"
    using cached_get(1)[OF assms(1)] by (metis prod.collapse)
  then have "fst (verify_api_key cr raw ?s3) = Ok ?e"
    using fmt assms(4) by (simp add: verify_api_key_def verify_hashed_token_def verify_lookup_def past_expiry_def
      cached_of_def)
  moreover have "\<forall>(i, k)\<in>set (p_api_keys (pool (sv_app ?s3))).
      ak_owner_email k = ca_owner_email ?e \<and> ak_key_prefix k = ca_prefix ?e \<longrightarrow> ak_revoked k"
    using revoked_rows(2)[OF assms(7)] assms(5,6) by (simp add: cached_of_def)
  ultimately show ?thesis using fin by (intro exI[of _ ?s3] conjI)
qed

section \<open>Samples\<close>

definition sample_key :: string where
  "sample_key = ''cbsk_'' @ replicate 64 (CHR ''0'')"

definition key_row :: ApiKeyRow where
  "key_row = \<lparr>ak_name = ''laptop'', ak_key_hash = sample_key, ak_key_prefix = replicate 12 (CHR ''0''),
     ak_owner_email = ''alice'', ak_expires_at = None, ak_revoked = False, ak_created_at = 0,
     ak_first_used_at = None, ak_last_used_at = None\<rparr>"

definition key_server :: "(nat \<times> (string \<times> CachedToken) list) Server" where
  "key_server = admin_server\<lparr>sv_app := (sample_app [])\<lparr>pool := admin_pool\<lparr>p_api_keys := [(1, key_row)]\<rparr>\<rparr>\<rparr>"

definition sample_session :: "unit session_lib" where
  "sample_session = \<lparr>ss_get = (\<lambda>k z. (Ok None, z)), ss_insert = (\<lambda>k v z. (Ok (), z)),
     ss_cycle_id = (\<lambda>z. (Ok (), z)), ss_flush = (\<lambda>z. (Ok (), z))\<rparr>"

definition sample_auth :: AuthConfig where
  "sample_auth = \<lparr>ac_token_secret_key = hex_encode (replicate 32 (CHR ''k'')), ac_max_token_ttl_seconds = 600,
     ac_allowed_domains = [], ac_allow_any_google_account = False, ac_dev_enabled = False, ac_seed_admin = None\<rparr>"

lemma sample_key_format: "length sample_key = 69" "starts_with sample_key ''cbsk_''"
  "take 12 (drop (Suc (Suc (Suc (Suc (Suc 0))))) sample_key) = replicate 12 (CHR ''0'')"
  by (simp_all add: sample_key_def starts_with_def)

lemma list_argon2: "argon2_verify list_crypto raw h \<longleftrightarrow> h = raw"
  by (auto simp: argon2_verify_def list_crypto_def)

lemmas key_sample_defs = key_server_def admin_server_def admin_pool_def sample_pool_def sample_app_def admin_user_def
  key_row_def

lemma key_server_lookup:
  "verify_lookup list_crypto sample_key ''cbsk_'' api_key_candidates key_server =
     (Candidates [candidate_of_api_key (1, key_row)], key_server)"
  by (simp add: verify_lookup_def sample_key_format cache_get_def on_db_def api_key_candidates_def route_defs
      find_api_keys_by_prefix_def list_crypto_def list_lru_def cache_new_def key_sample_defs)

theorem authentication_is_sound_witness:
  "\<exists>u st. from_request_parts sample_paseto list_crypto sample_auth sample_session (Some sample_key) False (key_server, ()) = (Ok u, st) \<and>
     authorized_as (pool (sv_app key_server)) u \<and>
     bearer_names sample_paseto list_crypto sample_auth key_server sample_key (au_email u)"
proof -
  have "\<exists>e s1. verify_api_key list_crypto sample_key key_server = (Ok e, s1) \<and> ca_owner_email e = ''alice'' \<and>
      pool (sv_app s1) = pool (sv_app key_server)"
    by (simp add: verify_api_key_def verify_hashed_token_def key_server_lookup verify_finish_def list_argon2
        candidate_of_api_key_def key_row_def cached_of_def past_expiry_def Let_def)
  then obtain e s1 where v: "verify_api_key list_crypto sample_key key_server = (Ok e, s1)"
    "ca_owner_email e = ''alice''" "pool (sv_app s1) = pool (sv_app key_server)" by blast
  obtain u where "load_authed_user ''alice'' (pool (sv_app key_server)) = (Ok u, pool (sv_app key_server))"
    using load_active[of "pool (sv_app key_server)" "''alice''"] by (auto simp: key_sample_defs)
  then have "\<exists>u s' z'. from_request_parts sample_paseto list_crypto sample_auth sample_session (Some sample_key) False
      (key_server, ()) = (Ok u, s', z')"
    using v by (simp add: from_request_parts_def on_server_def authenticate_bearer_def sample_key_format and_then_def
        map_err_def on_db_def swallow_def returns_def split: prod.splits)
  then obtain u s' z' where r: "from_request_parts sample_paseto list_crypto sample_auth sample_session (Some sample_key)
      False (key_server, ()) = (Ok u, s', z')" by blast
  then show ?thesis using authentication_is_sound[OF r] by (intro exI[of _ u] exI[of _ "(s', z')"]) simp
qed

lemma hex_zeros: "hex_encode (replicate n (char_of (0 :: nat))) = replicate (2 * n) (CHR ''0'')"
  by (induction n) (simp_all add: hex_encode_def Let_def hex_digit_def char_of_def bit_0)

lemma sample_created:
  "create_api_key_handler list_crypto admin_user ''laptop'' admin_server =
     (Ok \<lparr>kr_key = sample_key, kr_prefix = replicate 12 (CHR ''0''), kr_name = ''laptop''\<rparr>,
      snd (create_api_key_handler list_crypto admin_user ''laptop'' admin_server))"
  "p_faults (pool (sv_app (snd (create_api_key_handler list_crypto admin_user ''laptop'' admin_server)))) = []"
  "p_users (pool (sv_app (snd (create_api_key_handler list_crypto admin_user ''laptop'' admin_server)))) = p_users admin_pool"
  by (simp_all add: create_api_key_handler_def route_defs has_cap_def draw_def on_db_def create_api_key_def
      generate_api_key_material_def generate_token_material_def argon2_hash_def insert_api_key_def starts_with_def
      list_crypto_def hex_zeros Let_def sample_key_def key_sample_defs)

theorem created_key_authenticates_witness:
  "\<exists>u s''. authenticate_bearer sample_paseto list_crypto sample_auth sample_key
     (snd (create_api_key_handler list_crypto admin_user ''laptop'' admin_server)) = (Ok u, s'') \<and> au_email u = ''alice''"
proof -
  have "map_of (p_users admin_pool) (au_email admin_user) = Some (the (map_of (p_users admin_pool) ''alice''))"
    "u_active (the (map_of (p_users admin_pool) ''alice''))" "au_email admin_user = ''alice''"
    by (simp_all add: key_sample_defs)
  moreover have "\<forall>n raw h. cr_hash_password list_crypto n raw = Ok h \<longrightarrow> argon2_verify list_crypto raw h"
    "\<forall>n. length (cr_random list_crypto n) = 32" "p_api_keys (pool (sv_app admin_server)) = []"
    "fst (cache_get (cr_lru list_crypto) (cr_sha256 list_crypto sample_key) (sv_token_cache admin_server)) = None"
    by (simp_all add: list_crypto_def argon2_verify_def cache_get_def list_lru_def cache_new_def key_sample_defs)
  ultimately show ?thesis
    using created_key_authenticates[OF sample_created(1), of _ sample_paseto sample_auth] sample_created(2,3) by simp
qed

lemma sample_revoked:
  "\<exists>m s'. revoke_api_key_handler list_crypto admin_user (replicate 12 (CHR ''0'')) key_server = (Ok m, s')"
  by (simp add: revoke_api_key_handler_def route_defs has_cap_def on_db_def revoke_api_key_by_prefix_def
      revoke_api_keys_def with_cache_def key_sample_defs)

lemma sample_lru: "lru_ok (cr_lru list_crypto)" "cache_covered (cr_lru list_crypto) (sv_token_cache key_server)"
  using covered_new[OF list_lru_ok] list_lru_ok by (simp_all add: list_crypto_def key_server_def admin_server_def)

theorem revoked_key_is_refused_witness:
  "\<exists>m s'. revoke_api_key_handler list_crypto admin_user (replicate 12 (CHR ''0'')) key_server = (Ok m, s') \<and>
     (\<forall>e. fst (verify_api_key list_crypto sample_key s') = Ok e \<longrightarrow>
        \<not> (ca_owner_email e = ''alice'' \<and> ca_prefix e = replicate 12 (CHR ''0'')))"
proof -
  obtain m s' where r: "revoke_api_key_handler list_crypto admin_user (replicate 12 (CHR ''0'')) key_server = (Ok m, s')"
    using sample_revoked by blast
  have "au_email admin_user = ''alice''" by (simp add: admin_user_def)
  then show ?thesis using revoked_key_is_refused[OF sample_lru r] r by metis
qed

theorem revocation_can_be_missed_witness:
  "\<exists>m s2 s3 e. revoke_api_key_handler list_crypto admin_user (replicate 12 (CHR ''0'')) key_server = (Ok m, s2) \<and>
     verify_finish list_crypto sample_key ApiKey [candidate_of_api_key (1, key_row)] s2 = (Ok e, s3) \<and>
     fst (verify_api_key list_crypto sample_key s3) = Ok e"
proof -
  obtain m s2 where r: "revoke_api_key_handler list_crypto admin_user (replicate 12 (CHR ''0'')) key_server = (Ok m, s2)"
    using sample_revoked by blast
  let ?x = "candidate_of_api_key (1, key_row)"
  have x: "find (\<lambda>c. argon2_verify list_crypto sample_key (cd_hash c)) [?x] = Some ?x" "cd_expires_at ?x = None"
    "cd_owner_email ?x = au_email admin_user" "cd_prefix ?x = replicate 12 (CHR ''0'')"
    by (simp_all add: candidate_of_api_key_def key_row_def list_argon2 admin_user_def)
  obtain s3 where "verify_finish list_crypto sample_key ApiKey [?x] s2 = (Ok (cached_of ApiKey ?x), s3)"
    "fst (verify_api_key list_crypto sample_key s3) = Ok (cached_of ApiKey ?x)"
    using revocation_can_be_missed[OF sample_lru(1) key_server_lookup x r] by auto
  then show ?thesis using r by (intro exI conjI)
qed

end
