(* ===== verification/Cbs_Robot_Routes.thy ===== *)
theory Cbs_Robot_Routes
  imports Cbs_Auth
begin

text \<open>
  The robot administration handlers (\<open>routes/robots.rs\<close>). A handler that ends the validity
  of a token purges the robot's entries from the token cache after its transaction.

  Parameters: \<open>chrono\<close>'s dates, as day numbers (\<open>parse_date\<close> reads a date, \<open>max_day\<close> is the
  last one it represents).
\<close>

section \<open>Expiry dates\<close>

datatype json_value = JNull | JString string | JOther

definition parse_iso_date_to_next_day_epoch :: "(string \<Rightarrow> string + int) \<Rightarrow> int \<Rightarrow> string \<Rightarrow> string + timestamp" where
  "parse_iso_date_to_next_day_epoch parse_date max_day s =
     (case parse_date s of
        Err e \<Rightarrow> Err (''invalid expires date '' @ squoted s @ '': '' @ e)
      | Ok d \<Rightarrow>
        if d \<ge> max_day then Err (''date '' @ squoted s @ '' overflows when computing the next day'')
        else Ok ((d + 1) * 86400))"

fun parse_expires_wire :: "(string \<Rightarrow> string + int) \<Rightarrow> int \<Rightarrow> json_value \<Rightarrow> string + timestamp option" where
  "parse_expires_wire parse_date max_day JNull = Ok None"
| "parse_expires_wire parse_date max_day (JString s) =
     (case parse_iso_date_to_next_day_epoch parse_date max_day s of Err e \<Rightarrow> Err e | Ok t \<Rightarrow> Ok (Some t))"
| "parse_expires_wire parse_date max_day JOther = Err ''expires must be a YYYY-MM-DD string or null''"

section \<open>Requests and answers\<close>

record CreateRobotBody =
  cb_name :: string
  cb_description :: "string option"
  cb_expires :: json_value
  cb_roles :: "string list"

record CreateRobotResponse =
  nr_name :: string
  nr_display_name :: string
  nr_email :: string
  nr_active :: bool
  nr_description :: "string option"
  nr_token :: string
  nr_token_prefix :: string
  nr_token_expires_at :: "timestamp option"
  nr_created_at :: timestamp
  nr_roles :: "string list"
  nr_revived :: bool

record RobotListItem =
  rl_name :: string
  rl_display_name :: string
  rl_email :: string
  rl_description :: "string option"
  rl_active :: bool
  rl_created_at :: timestamp
  rl_token_state :: string
  rl_token_expires_at :: "timestamp option"
  rl_last_used_at :: "timestamp option"

record TokenStatusBody =
  ts_state :: string
  ts_prefix :: "string option"
  ts_expires_at :: "timestamp option"
  ts_first_used_at :: "timestamp option"
  ts_last_used_at :: "timestamp option"
  ts_token_created_at :: "timestamp option"

definition token_status_body :: "RobotRow \<Rightarrow> TokenStatusBody" where
  "token_status_body r = \<lparr>ts_state = ro_token_state r, ts_prefix = ro_token_prefix r,
     ts_expires_at = ro_token_expires_at r, ts_first_used_at = ro_token_first_used_at r,
     ts_last_used_at = ro_token_last_used_at r, ts_token_created_at = ro_token_created_at r\<rparr>"

record RobotDetail =
  rd_name :: string
  rd_display_name :: string
  rd_email :: string
  rd_description :: "string option"
  rd_active :: bool
  rd_created_at :: timestamp
  rd_token_status :: TokenStatusBody
  rd_roles :: "string list"
  rd_effective_caps :: "string list"

record RotateTokenResponse =
  rt_resp_token :: string
  rt_resp_prefix :: string
  rt_resp_expires_at :: "timestamp option"

section \<open>Handlers\<close>

fun create_rejection :: "string \<Rightarrow> CreateRobotError \<Rightarrow> auth_error" where
  "create_rejection name AlreadyActive = (CONFLICT, ''robot '' @ squoted name @ '' already exists and is active'')"
| "create_rejection name HumanCollision =
     (CONFLICT, ''name '' @ squoted name @ '' conflicts with an existing human account'')"
| "create_rejection name CrUniqueViolation =
     (CONFLICT, ''robot '' @ squoted name @ '' was modified concurrently; retry the request'')"
| "create_rejection name (CrDb _) = (INTERNAL_SERVER_ERROR, ''failed to create robot'')"

text \<open>A requested role must exist and carry no capability that robots cannot hold.\<close>

definition check_robot_role :: "string \<Rightarrow> unit route" where
  "check_robot_role role_name =
     and_then (db_or db_error (get_role role_name)) (\<lambda>role.
     and_then (reject_if (role = None) (BAD_REQUEST, ''role '' @ squoted role_name @ '' does not exist'')) (\<lambda>_.
     and_then (db_or db_error (get_role_caps role_name)) (\<lambda>caps.
     case first_robot_forbidden_cap caps of
       None \<Rightarrow> returns ()
     | Some forbidden \<Rightarrow> throws (BAD_REQUEST, ''role '' @ squoted role_name @ '' carries cap ''
         @ squoted forbidden @ '' which robots cannot hold''))))"

definition create_or_revive_robot ::
  "'c crypto \<Rightarrow> (string \<Rightarrow> string + int) \<Rightarrow> int \<Rightarrow> AuthUser \<Rightarrow> CreateRobotBody \<Rightarrow>
   'c Server \<Rightarrow> (auth_error + StatusCode \<times> CreateRobotResponse) \<times> 'c Server" where
  "create_or_revive_robot cr parse_date max_day user body =
     and_then (require_cap user ''robots:manage'') (\<lambda>_.
     (let name = to_lowercase (cb_name body); email = name_to_synthetic_email name in
     and_then (map_err (\<lambda>e. (BAD_REQUEST, ''invalid robot name: '' @ e)) (of_result (validate_robot_name name))) (\<lambda>_.
     and_then (on_db (for_each check_robot_role (cb_roles body))) (\<lambda>_.
     and_then (map_err (\<lambda>msg. (BAD_REQUEST, msg))
       (of_result (parse_expires_wire parse_date max_day (cb_expires body)))) (\<lambda>expires_at.
     and_then draw (\<lambda>n.
     and_then (map_err (\<lambda>_. (INTERNAL_SERVER_ERROR, ''failed to generate robot token''))
       (of_result (generate_robot_token_material cr n))) (\<lambda>(plaintext_token, token_prefix, tok_hash).
     and_then (map_err (create_rejection name)
       (on_db (create_or_revive name (cb_description body) expires_at tok_hash token_prefix (cb_roles body)))) (\<lambda>outcome.
     and_then (if outcome = Revived then with_cache (remove_by_owner (cr_lru cr) email) else returns ()) (\<lambda>_.
     and_then (on_db (db_or db_error (get_robot_by_name name))) (\<lambda>found.
     and_then (ok_or found (INTERNAL_SERVER_ERROR, ''robot disappeared after create'')) (\<lambda>committed.
     returns (CREATED, \<lparr>nr_name = name, nr_display_name = ro_display_name committed, nr_email = ro_email committed,
       nr_active = ro_active committed, nr_description = ro_description committed, nr_token = plaintext_token,
       nr_token_prefix = token_prefix, nr_token_expires_at = expires_at, nr_created_at = ro_created_at committed,
       nr_roles = cb_roles body, nr_revived = (outcome = Revived)\<rparr>))))))))))))"

definition require_robots_view :: "AuthUser \<Rightarrow> 's \<Rightarrow> (auth_error + unit) \<times> 's" where
  "require_robots_view user = reject_if (\<not> has_cap user ''robots:view'' \<and> \<not> has_cap user ''robots:manage'')
     (FORBIDDEN, ''missing required capability: robots:view'')"

definition route_list_robots :: "AuthUser \<Rightarrow> RobotListItem list route" where
  "route_list_robots user =
     and_then (require_robots_view user) (\<lambda>_.
     and_then (db_or (INTERNAL_SERVER_ERROR, ''failed to list robots'') list_robots) (\<lambda>robots.
     returns (map (\<lambda>r. \<lparr>rl_name = (case synthetic_email_to_name (ro_email r) of None \<Rightarrow> ro_email r | Some n \<Rightarrow> n),
       rl_display_name = ro_display_name r, rl_email = ro_email r, rl_description = ro_description r,
       rl_active = ro_active r, rl_created_at = ro_created_at r, rl_token_state = ro_token_state r,
       rl_token_expires_at = ro_token_expires_at r, rl_last_used_at = ro_token_last_used_at r\<rparr>) robots)))"

definition get_robot :: "AuthUser \<Rightarrow> string \<Rightarrow> RobotDetail route" where
  "get_robot user name =
     and_then (require_robots_view user) (\<lambda>_.
     and_then (db_or db_error (get_robot_by_name name)) (\<lambda>found.
     and_then (ok_or found (NOT_FOUND, ''robot not found'')) (\<lambda>robot.
     and_then (db_or db_error (get_user_roles (ro_email robot))) (\<lambda>role_entries.
     and_then (db_or db_error (get_effective_caps (ro_email robot))) (\<lambda>effective_caps.
     returns \<lparr>rd_name = name, rd_display_name = ro_display_name robot, rd_email = ro_email robot,
       rd_description = ro_description robot, rd_active = ro_active robot, rd_created_at = ro_created_at robot,
       rd_token_status = token_status_body robot, rd_roles = map fst role_entries,
       rd_effective_caps = sort (filter (\<lambda>c. c \<notin> set ROBOT_FORBIDDEN_CAPS) effective_caps)\<rparr>)))))"

definition route_tombstone_robot ::
  "'c crypto \<Rightarrow> AuthUser \<Rightarrow> string \<Rightarrow> 'c Server \<Rightarrow> (auth_error + string \<times> nat) \<times> 'c Server" where
  "route_tombstone_robot cr user name =
     and_then (require_cap user ''robots:manage'') (\<lambda>_.
     and_then (on_db (db_or db_error (get_robot_by_name name))) (\<lambda>found.
     and_then (ok_or found (NOT_FOUND, ''robot not found'')) (\<lambda>robot.
     and_then (on_db (db_or (INTERNAL_SERVER_ERROR, ''failed to tombstone robot'') (tombstone_robot (ro_email robot)))) (\<lambda>tokens_revoked.
     and_then (with_cache (remove_by_owner (cr_lru cr) (ro_email robot))) (\<lambda>_.
     returns (''robot '' @ squoted name @ '' tombstoned'', tokens_revoked))))))"

fun rotate_rejection :: "string \<Rightarrow> RotateTokenError \<Rightarrow> auth_error" where
  "rotate_rejection name RobotNotFound = (NOT_FOUND, ''robot not found'')"
| "rotate_rejection name RobotTombstoned =
     (CONFLICT, ''robot '' @ squoted name @ '' is tombstoned '' @ em_dash @ '' revive it first'')"
| "rotate_rejection name NonRevokedTokenExists =
     (CONFLICT, ''robot '' @ squoted name @ '' already has an active token '' @ em_dash @
       '' pass renew=true to replace it'')"
| "rotate_rejection name RoUniqueViolation =
     (CONFLICT, ''robot '' @ squoted name @ '' was modified concurrently; retry the request'')"
| "rotate_rejection name (RoDb _) = (INTERNAL_SERVER_ERROR, ''failed to rotate robot token'')"

definition create_or_rotate_token ::
  "'c crypto \<Rightarrow> (string \<Rightarrow> string + int) \<Rightarrow> int \<Rightarrow> AuthUser \<Rightarrow> string \<Rightarrow> json_value \<Rightarrow> bool \<Rightarrow>
   'c Server \<Rightarrow> (auth_error + StatusCode \<times> RotateTokenResponse) \<times> 'c Server" where
  "create_or_rotate_token cr parse_date max_day user name expires renew =
     and_then (require_cap user ''robots:manage'') (\<lambda>_.
     and_then (map_err (\<lambda>msg. (BAD_REQUEST, msg)) (of_result (parse_expires_wire parse_date max_day expires))) (\<lambda>expires_at.
     and_then draw (\<lambda>n.
     and_then (map_err (\<lambda>_. (INTERNAL_SERVER_ERROR, ''failed to generate robot token''))
       (of_result (generate_robot_token_material cr n))) (\<lambda>(plaintext_token, token_prefix, tok_hash).
     and_then (map_err (rotate_rejection name)
       (on_db (rotate_token name renew tok_hash token_prefix expires_at))) (\<lambda>outcome.
     and_then (with_cache (remove_by_owner (cr_lru cr) (name_to_synthetic_email name))) (\<lambda>_.
     returns (CREATED, \<lparr>rt_resp_token = plaintext_token, rt_resp_prefix = token_prefix,
       rt_resp_expires_at = expires_at\<rparr>)))))))"

definition revoke_robot_token ::
  "'c crypto \<Rightarrow> AuthUser \<Rightarrow> string \<Rightarrow> 'c Server \<Rightarrow> (auth_error + string \<times> nat) \<times> 'c Server" where
  "revoke_robot_token cr user name =
     and_then (require_cap user ''robots:manage'') (\<lambda>_.
     and_then (on_db (db_or db_error (get_robot_by_name name))) (\<lambda>found.
     and_then (ok_or found (NOT_FOUND, ''robot not found'')) (\<lambda>robot.
     and_then (on_db (db_or (INTERNAL_SERVER_ERROR, ''failed to revoke robot token'')
       (revoke_all_active_tokens (ro_email robot)))) (\<lambda>revoked.
     and_then (with_cache (remove_by_owner (cr_lru cr) (ro_email robot))) (\<lambda>_.
     returns (''revoked '' @ show_nat revoked @ '' token(s) for robot '' @ squoted name, revoked))))))"

definition set_robot_description :: "AuthUser \<Rightarrow> string \<Rightarrow> string option \<Rightarrow> string route" where
  "set_robot_description user name description =
     and_then (require_cap user ''robots:manage'') (\<lambda>_.
     and_then (db_or (INTERNAL_SERVER_ERROR, ''failed to update robot description'')
       (set_description (name_to_synthetic_email name) description)) (\<lambda>updated.
     and_then (reject_if (\<not> updated) (NOT_FOUND, ''robot not found'')) (\<lambda>_.
     returns (''description updated for robot '' @ squoted name))))"

end
