(* ===== verification/Cbs_Periodic.thy ===== *)
theory Cbs_Periodic
  imports Cbs_Admin Cbs_Routes "HOL-Library.Product_Lexorder"
begin

text \<open>
  Periodic builds: the table of tasks (\<open>db/periodic.rs\<close>), tag formats
  (\<open>scheduler/tag_format.rs\<close>), the trigger (\<open>scheduler/trigger.rs\<close>) and the scheduler loop
  (\<open>scheduler/mod.rs\<close>).

  Parameters, fields of \<open>sched_lib\<close>: cron expressions (the \<open>croner\<close> crate), the calendar of
  \<open>chrono\<close>, and what \<open>serde_json\<close> reads of a descriptor that is still a JSON value, held
  as its text. Times have a resolution of one second.
\<close>

section \<open>The table of tasks\<close>

type_synonym PeriodicTaskRow = "string \<times> PeriodicRow"

definition PRIORITIES :: "string list" where
  "PRIORITIES = [''high'', ''normal'', ''low'']"

definition insert_task ::
  "string \<Rightarrow> string \<Rightarrow> string \<Rightarrow> string \<Rightarrow> string \<Rightarrow> string option \<Rightarrow> string \<Rightarrow> unit db" where
  "insert_task i cron_expr tag_format descriptor priority summary created_by = exec (\<lambda>p.
     if map_of (p_periodic p) i \<noteq> None \<or> priority \<notin> set PRIORITIES \<or> map_of (p_users p) created_by = None
     then (Err (SqlxError ''constraint failed''), p)
     else (Ok (), p\<lparr>p_periodic := (i, \<lparr>pt_cron_expr = cron_expr, pt_tag_format = tag_format,
       pt_descriptor = descriptor, pt_descriptor_version = 1, pt_priority = priority, pt_summary = summary,
       pt_enabled = True, pt_created_by = created_by, pt_created_at = p_now p, pt_updated_at = p_now p,
       pt_retry_count = 0, pt_retry_at = None, pt_last_error = None, pt_last_triggered_at = None,
       pt_last_build_id = None\<rparr>) # p_periodic p\<rparr>))"

definition get_task :: "string \<Rightarrow> PeriodicTaskRow option db" where
  "get_task i = fetch (\<lambda>p. map_option (Pair i) (map_of (p_periodic p) i))"

text \<open>\<open>ORDER BY created_at\<close>; a new row is the first of its table.\<close>

definition list_tasks :: "PeriodicTaskRow list db" where
  "list_tasks = fetch (\<lambda>p. sort_key (\<lambda>t. pt_created_at (snd t)) (rev (p_periodic p)))"

definition list_enabled_tasks :: "PeriodicTaskRow list db" where
  "list_enabled_tasks = fetch (\<lambda>p.
     sort_key (\<lambda>t. pt_created_at (snd t)) (filter (\<lambda>t. pt_enabled (snd t)) (rev (p_periodic p))))"

text \<open>Builds keep their rows when the task they came from is deleted (\<open>ON DELETE SET NULL\<close>).\<close>

definition delete_task :: "string \<Rightarrow> bool db" where
  "delete_task i = exec (\<lambda>p.
     (Ok (map_of (p_periodic p) i \<noteq> None),
      p\<lparr>p_periodic := filter (\<lambda>(j, t). j \<noteq> i) (p_periodic p),
        p_builds := map (\<lambda>(j, b). (j, if b_periodic_task_id b = Some i then b\<lparr>b_periodic_task_id := None\<rparr> else b))
          (p_builds p)\<rparr>))"

definition update_task_row :: "string \<Rightarrow> (SqlitePool \<Rightarrow> PeriodicRow \<Rightarrow> PeriodicRow) \<Rightarrow> bool db" where
  "update_task_row i f = exec (\<lambda>p.
     (Ok (map_of (p_periodic p) i \<noteq> None), p\<lparr>p_periodic := update_row i (f p) (p_periodic p)\<rparr>))"

definition set_enabled :: "string \<Rightarrow> bool \<Rightarrow> bool \<Rightarrow> bool db" where
  "set_enabled i enabled clear_retry =
     (if clear_retry then
        update_task_row i (\<lambda>p t. t\<lparr>pt_enabled := enabled, pt_retry_count := 0, pt_retry_at := None,
          pt_last_error := None, pt_updated_at := p_now p\<rparr>)
      else update_task_row i (\<lambda>p t. t\<lparr>pt_enabled := enabled, pt_updated_at := p_now p\<rparr>))"

text \<open>\<open>last_build_id\<close> refers to a build: a row that does not exist is refused.\<close>

definition update_with_build :: "string \<Rightarrow> int \<Rightarrow> (SqlitePool \<Rightarrow> PeriodicRow \<Rightarrow> PeriodicRow) \<Rightarrow> unit db" where
  "update_with_build i build_id f = exec (\<lambda>p.
     if map_of (p_periodic p) i \<noteq> None \<and> map_of (p_builds p) build_id = None
     then (Err (SqlxError ''FOREIGN KEY constraint failed''), p)
     else (Ok (), p\<lparr>p_periodic := update_row i (f p) (p_periodic p)\<rparr>))"

definition update_trigger_success :: "string \<Rightarrow> int \<Rightarrow> unit db" where
  "update_trigger_success i build_id = update_with_build i build_id (\<lambda>p t.
     t\<lparr>pt_retry_count := 0, pt_retry_at := None, pt_last_error := None,
       pt_last_triggered_at := Some (p_now p), pt_last_build_id := Some build_id, pt_updated_at := p_now p\<rparr>)"

definition record_manual_trigger :: "string \<Rightarrow> int \<Rightarrow> unit db" where
  "record_manual_trigger i build_id = update_with_build i build_id (\<lambda>p t.
     t\<lparr>pt_last_triggered_at := Some (p_now p), pt_last_build_id := Some build_id\<rparr>)"

definition update_retry :: "string \<Rightarrow> int \<Rightarrow> timestamp \<Rightarrow> string \<Rightarrow> bool db" where
  "update_retry i retry_count retry_at last_error = update_task_row i (\<lambda>p t.
     t\<lparr>pt_retry_count := retry_count, pt_retry_at := Some retry_at, pt_last_error := Some last_error,
       pt_updated_at := p_now p\<rparr>)"

definition enable_task :: "string \<Rightarrow> bool db" where
  "enable_task i = update_task_row i (\<lambda>p t.
     t\<lparr>pt_enabled := True, pt_retry_count := 0, pt_retry_at := None, pt_last_error := None, pt_updated_at := p_now p\<rparr>)"

definition disable_task :: "string \<Rightarrow> bool db" where
  "disable_task i = update_task_row i (\<lambda>p t. t\<lparr>pt_enabled := False, pt_retry_at := None, pt_updated_at := p_now p\<rparr>)"

definition disable_with_error :: "string \<Rightarrow> string \<Rightarrow> bool db" where
  "disable_with_error i last_error = update_task_row i (\<lambda>p t.
     t\<lparr>pt_enabled := False, pt_retry_at := None, pt_last_error := Some last_error, pt_updated_at := p_now p\<rparr>)"

section \<open>Tag formats\<close>

record CivilTime =
  cv_year :: int
  cv_month :: nat
  cv_day :: nat
  cv_hour :: nat
  cv_minute :: nat
  cv_second :: nat

record 'c sched_lib =
  sl_cron_from_str :: "string \<Rightarrow> 'c option"
  sl_next_occurrence :: "'c \<Rightarrow> timestamp \<Rightarrow> timestamp option"
  sl_timestamp_single :: "timestamp \<Rightarrow> bool"
  sl_civil :: "timestamp \<Rightarrow> CivilTime"
  sl_is_object :: "string \<Rightarrow> bool"
  sl_from_value :: "string \<Rightarrow> string + BuildDescriptor"
  sl_component_repos :: "string \<Rightarrow> string list"

definition KNOWN_PLACEHOLDERS :: "string list" where
  "KNOWN_PLACEHOLDERS = [''Y'', ''m'', ''d'', ''H'', ''M'', ''S'', ''DT'', ''version'', ''base_tag'', ''channel'',
     ''user'', ''arch'', ''distro'', ''os_version'']"

text \<open>The inner loop: the name up to the closing brace, whether there is one, and the rest.\<close>

fun placeholder_name :: "string \<Rightarrow> string \<times> bool \<times> string" where
  "placeholder_name [] = ([], False, [])"
| "placeholder_name (c # cs) =
     (if c = CHR ''}'' then ([], True, cs)
      else case placeholder_name cs of (name, found_close, rest) \<Rightarrow> (c # name, found_close, rest))"

lemma placeholder_name_rest: "(name, found_close, rest) = placeholder_name cs \<Longrightarrow> length rest \<le> length cs"
  by (induction cs arbitrary: name) (auto split: prod.splits if_splits)

function unknown_placeholders :: "string \<Rightarrow> string list" where
  "unknown_placeholders [] = []"
| "unknown_placeholders (ch # cs) =
     (if ch = CHR ''{'' then
        (let (name, _, rest) = placeholder_name cs
         in (if name \<noteq> [] \<and> name \<notin> set KNOWN_PLACEHOLDERS then [name] else []) @ unknown_placeholders rest)
      else unknown_placeholders cs)"
  by pat_completeness auto
termination
proof (relation "measure length", goal_cases)
  case (2 ch cs x name y found_close rest)
  then show ?case using placeholder_name_rest[of name found_close rest cs] by (simp add: less_Suc_eq_le)
qed auto

definition validate_tag_format :: "string \<Rightarrow> string list + unit" where
  "validate_tag_format fmt = (let unknown = unknown_placeholders fmt in if unknown = [] then Ok () else Err unknown)"

definition zero_pad :: "nat \<Rightarrow> string \<Rightarrow> string" where
  "zero_pad w s = replicate (w - length s) (CHR ''0'') @ s"

definition format_year :: "int \<Rightarrow> string" where
  "format_year y = (if y < 0 then CHR ''-'' # zero_pad 3 (show_nat (nat (- y))) else zero_pad 4 (show_nat (nat y)))"

abbreviation two_digits :: "nat \<Rightarrow> string" where
  "two_digits n \<equiv> zero_pad 2 (show_nat n)"

definition resolve_placeholder :: "string \<Rightarrow> BuildDescriptor \<Rightarrow> CivilTime \<Rightarrow> string option" where
  "resolve_placeholder name d t =
     (if name = ''Y'' then Some (format_year (cv_year t))
      else if name = ''m'' then Some (two_digits (cv_month t))
      else if name = ''d'' then Some (two_digits (cv_day t))
      else if name = ''H'' then Some (two_digits (cv_hour t))
      else if name = ''M'' then Some (two_digits (cv_minute t))
      else if name = ''S'' then Some (two_digits (cv_second t))
      else if name = ''DT'' then Some (format_year (cv_year t) @ two_digits (cv_month t) @ two_digits (cv_day t) @ ''T''
        @ two_digits (cv_hour t) @ two_digits (cv_minute t) @ two_digits (cv_second t))
      else if name = ''version'' then Some (d_version d)
      else if name = ''base_tag'' then Some (img_tag (d_dst_image d))
      else if name = ''channel'' then Some (case d_channel d of None \<Rightarrow> [] | Some c \<Rightarrow> c)
      else if name = ''user'' then Some (sob_user (d_signed_off_by d))
      else if name = ''arch'' then Some (arch_display (tgt_arch (d_build d)))
      else if name = ''distro'' then Some (tgt_distro (d_build d))
      else if name = ''os_version'' then Some (tgt_os_version (d_build d))
      else None)"

function interpolate_tag :: "string \<Rightarrow> BuildDescriptor \<Rightarrow> CivilTime \<Rightarrow> string" where
  "interpolate_tag [] d t = []"
| "interpolate_tag (ch # cs) d t =
     (if ch = CHR ''{'' then
        (let (name, found_close, rest) = placeholder_name cs
         in (if \<not> found_close then CHR ''{'' # name
             else case resolve_placeholder name d t of
                    Some v \<Rightarrow> v
                  | None \<Rightarrow> CHR ''{'' # name @ [CHR ''}'']) @ interpolate_tag rest d t)
      else ch # interpolate_tag cs d t)"
  by pat_completeness auto
termination
proof (relation "measure (\<lambda>(cs, d, t). length cs)", goal_cases)
  case (2 ch cs d t x name y found_close rest)
  then show ?case using placeholder_name_rest[of name found_close rest cs] by (simp add: less_Suc_eq_le)
qed auto

definition tag_first :: "char \<Rightarrow> bool" where
  "tag_first c \<longleftrightarrow> is_ascii_alphanumeric c \<or> c = CHR ''_''"

definition tag_rest :: "char \<Rightarrow> bool" where
  "tag_rest c \<longleftrightarrow> is_ascii_alphanumeric c \<or> c = CHR ''_'' \<or> c = CHR ''.'' \<or> c = CHR ''-''"

text \<open>The messages quote the first byte of a character outside ASCII.\<close>

definition validate_oci_tag :: "string \<Rightarrow> string + unit" where
  "validate_oci_tag tag =
     (if tag = [] then Err ''tag must not be empty''
      else if length tag > 128 then Err (''tag exceeds 128 characters (got '' @ show_nat (length tag) @ '')'')
      else if \<not> tag_first (hd tag) then Err (''tag must start with [a-zA-Z0-9_], got '' @ squoted [hd tag])
      else case find (\<lambda>c. \<not> tag_rest c) (tl tag) of
             Some c \<Rightarrow> Err (''tag contains invalid character '' @ squoted [c] @ ''; allowed: [a-zA-Z0-9_.-]'')
           | None \<Rightarrow> Ok ())"

section \<open>The trigger\<close>

datatype TriggerError = OwnerAccountMissing | Transient string | Fatal string

definition TRIGGER_REQUIRED_CAPS :: "string list" where
  "TRIGGER_REQUIRED_CAPS = [''periodic:create'', ''builds:create'']"

definition caps_satisfy_trigger_requirements :: "string list \<Rightarrow> bool" where
  "caps_satisfy_trigger_requirements caps =
     (if list_ex (\<lambda>c. c = ''*'') caps then True
      else list_all (\<lambda>req. list_ex (\<lambda>c. c = req) caps) TRIGGER_REQUIRED_CAPS)"

definition FATAL_PATTERNS :: "string list" where
  "FATAL_PATTERNS = [''insufficient scope'', ''not found'', ''not configured'', ''no default'']"

definition classify_resolution_error :: "string \<Rightarrow> TriggerError" where
  "classify_resolution_error msg =
     (if list_ex (\<lambda>p. str_contains msg p) FATAL_PATTERNS then Fatal msg else Transient msg)"

text \<open>The mapping of the stored priority, with the default for unknown values.\<close>

definition stored_priority :: "string \<Rightarrow> Priority" where
  "stored_priority s = (if s = ''high'' then High else if s = ''low'' then Low else Normal)"

definition owner_caps :: "UserRecord \<Rightarrow> string list \<Rightarrow> string list" where
  "owner_caps user caps = (if ur_is_robot user then filter (\<lambda>c. c \<notin> set ROBOT_FORBIDDEN_CAPS) caps else caps)"

definition sign_off_as :: "string \<Rightarrow> string \<Rightarrow> BuildDescriptor \<Rightarrow> BuildDescriptor" where
  "sign_off_as name email d =
     d\<lparr>d_signed_off_by := (d_signed_off_by d)\<lparr>sob_user := name, sob_email := email\<rparr>\<rparr>"

definition set_image_tag :: "string \<Rightarrow> BuildDescriptor \<Rightarrow> BuildDescriptor" where
  "set_image_tag tag d = d\<lparr>d_dst_image := (d_dst_image d)\<lparr>img_tag := tag\<rparr>\<rparr>"

text \<open>A check against the component registry of the state, and a reading of the clock.\<close>

definition check_components :: "(ValidationError \<Rightarrow> 'e) \<Rightarrow> BuildDescriptor \<Rightarrow> AppState \<Rightarrow> ('e + unit) \<times> AppState" where
  "check_components conv d st =
     (case validate_descriptor d (components st) of Err e \<Rightarrow> (Err (conv e), st) | Ok _ \<Rightarrow> (Ok (), st))"

definition read_clock :: "AppState \<Rightarrow> ('e + timestamp) \<times> AppState" where
  "read_clock st = (Ok (now st), st)"

abbreviation transient :: "string \<Rightarrow> sqlx_error \<Rightarrow> TriggerError" where
  "transient what e \<equiv> Transient (what @ sqlx_error_display e)"

definition trigger_periodic_build ::
  "env \<Rightarrow> 'c sched_lib \<Rightarrow> PeriodicTaskRow \<Rightarrow> AppState \<Rightarrow> (TriggerError + build_id) \<times> AppState" where
  "trigger_periodic_build env lib task =
     (case task of (i, row) \<Rightarrow>
     and_then (map_err (transient ''failed to check user active: '') (on_pool (is_user_active (pt_created_by row)))) (\<lambda>active.
     and_then (reject_if (\<not> active) OwnerAccountMissing) (\<lambda>_.
     and_then (map_err (transient ''failed to get user: '') (on_pool (get_user (pt_created_by row)))) (\<lambda>found.
     and_then (ok_or found OwnerAccountMissing) (\<lambda>user.
     and_then (map_err (transient ''failed to load caps: '') (on_pool (get_effective_caps (ur_email user)))) (\<lambda>caps.
     and_then (reject_if (\<not> caps_satisfy_trigger_requirements (owner_caps user caps)) OwnerAccountMissing) (\<lambda>_.
     and_then (map_err (\<lambda>e. Fatal (''invalid descriptor JSON: '' @ e))
       (of_result (e_descriptor_from_str env (pt_descriptor row)))) (\<lambda>parsed.
     and_then (check_components (\<lambda>e. Fatal (''descriptor validation failed: '' @ validation_error_display e)) parsed) (\<lambda>_.
     and_then read_clock (\<lambda>t.
     (let d = sign_off_as (ur_name user) (ur_email user) parsed;
          tag = interpolate_tag (pt_tag_format row) d (sl_civil lib t) in
     and_then (map_err (\<lambda>e. Fatal (''interpolated tag '' @ squoted tag @ '' is not a valid OCI tag: '' @ e))
       (of_result (validate_oci_tag tag))) (\<lambda>_.
     and_then (map_err classify_resolution_error
       (lift_db (resolve_and_rewrite (set_image_tag tag d) user))) (\<lambda>(resolved, d).
     and_then (map_err Transient (insert_build_internal env d (ur_email user) (stored_priority (pt_priority row))
       (Some i) (Some (res_channel_id resolved)) (Some (res_channel_type_id resolved)))) (\<lambda>(build_id, _).
     returns build_id))))))))))))))"

section \<open>The scheduler\<close>

text \<open>
  The delay before a retry: \<open>30 * 1.5 ^ n\<close> seconds, at most 600, rounded down. The code
  computes it in floating point, which is exact for the counts that occur (0 to 9).
\<close>

definition backoff_secs :: "int \<Rightarrow> int" where
  "backoff_secs retry_count = min 600 (30 * 3 ^ nat retry_count div 2 ^ nat retry_count)"

definition MAX_RETRY_COUNT :: int where
  "MAX_RETRY_COUNT = 10"

text \<open>When a task fires next; \<open>None\<close> when its cron expression cannot be read or has no next time.\<close>

definition next_fire :: "'c sched_lib \<Rightarrow> timestamp \<Rightarrow> PeriodicRow \<Rightarrow> timestamp option" where
  "next_fire lib t row =
     (case (case pt_retry_at row of
              Some r \<Rightarrow> if sl_timestamp_single lib r then Some (if r > t then r else t) else None
            | None \<Rightarrow> None) of
        Some fire_time \<Rightarrow> Some fire_time
      | None \<Rightarrow>
        (case sl_cron_from_str lib (pt_cron_expr row) of
           None \<Rightarrow> None
         | Some cron \<Rightarrow>
           (case sl_next_occurrence lib cron t of
              None \<Rightarrow> None
            | Some next_time \<Rightarrow> if next_time \<le> t then sl_next_occurrence lib cron next_time else Some next_time)))"

definition schedule :: "'c sched_lib \<Rightarrow> timestamp \<Rightarrow> PeriodicTaskRow list \<Rightarrow> (timestamp \<times> string) list" where
  "schedule lib t rows = sort (List.map_filter (\<lambda>(i, row). map_option (\<lambda>f. (f, i)) (next_fire lib t row)) rows)"

text \<open>
  Where the loop is: at its start, about to load the tasks, waiting for a notification, asleep until the
  fire time of a task, or asleep after the tasks could not be loaded.
\<close>

datatype phase = Starting | Loading | Waiting | Sleeping timestamp string | Backing_off timestamp

definition load_schedule :: "'c sched_lib \<Rightarrow> AppState \<Rightarrow> phase \<times> AppState" where
  "load_schedule lib st =
     (case on_pool list_enabled_tasks st of
        (Err _, st) \<Rightarrow> (Backing_off (now st + 10), st)
      | (Ok rows, st) \<Rightarrow>
        (case schedule lib (now st) rows of
           [] \<Rightarrow> (Waiting, st)
         | (fire_time, i) # _ \<Rightarrow> (Sleeping fire_time i, st)))"

definition settle_trigger :: "PeriodicTaskRow \<Rightarrow> (TriggerError + build_id) \<Rightarrow> AppState \<Rightarrow> AppState" where
  "settle_trigger task r st =
     (case task of (i, row) \<Rightarrow>
     (case r of
        Ok build_id \<Rightarrow> snd (on_pool (update_trigger_success i build_id) st)
      | Err OwnerAccountMissing \<Rightarrow> snd (on_pool (disable_with_error i ''owner_account_missing'') st)
      | Err (Fatal msg) \<Rightarrow> snd (on_pool (disable_with_error i msg) st)
      | Err (Transient msg) \<Rightarrow>
          (let new_retry_count = pt_retry_count row + 1 in
           if new_retry_count \<ge> MAX_RETRY_COUNT then
             snd (on_pool (disable_with_error i
               (''max retries ('' @ show_int MAX_RETRY_COUNT @ '') exceeded: '' @ msg)) st)
           else
             snd (on_pool (update_retry i new_retry_count (now st + backoff_secs (pt_retry_count row)) msg) st))))"

definition fire_task :: "env \<Rightarrow> 'c sched_lib \<Rightarrow> string \<Rightarrow> AppState \<Rightarrow> AppState" where
  "fire_task env lib task_id st =
     (case on_pool (get_task task_id) st of
        (Ok (Some task), st) \<Rightarrow>
          if pt_enabled (snd task) then
            (case trigger_periodic_build env lib task st of (r, st) \<Rightarrow> settle_trigger task r st)
          else st
      | (_, st) \<Rightarrow> st)"

text \<open>
  The loop as a step relation. \<open>sd_notify\<close> is the permit of \<open>scheduler_notify\<close>; a sleep may
  end at its time or, with a permit, at any time.
\<close>

record Scheduler =
  sd_app :: AppState
  sd_notify :: bool
  sd_phase :: phase

inductive run_scheduler :: "env \<Rightarrow> 'c sched_lib \<Rightarrow> Scheduler \<Rightarrow> Scheduler \<Rightarrow> bool" for env lib where
  start: "sd_phase s = Starting \<Longrightarrow>
    run_scheduler env lib s (s\<lparr>sd_phase := Loading, sd_app := snd (on_pool list_enabled_tasks (sd_app s))\<rparr>)"
| load: "sd_phase s = Loading \<Longrightarrow> load_schedule lib (sd_app s) = (ph, st) \<Longrightarrow>
    run_scheduler env lib s (s\<lparr>sd_phase := ph, sd_app := st\<rparr>)"
| fire: "sd_phase s = Sleeping fire_time i \<Longrightarrow> fire_time \<le> now (sd_app s) \<Longrightarrow>
    run_scheduler env lib s (s\<lparr>sd_phase := Loading, sd_app := fire_task env lib i (sd_app s)\<rparr>)"
| notified: "sd_phase s = Waiting \<or> sd_phase s = Sleeping fire_time i \<Longrightarrow> sd_notify s \<Longrightarrow>
    run_scheduler env lib s (s\<lparr>sd_phase := Loading, sd_notify := False\<rparr>)"
| slept: "sd_phase s = Backing_off t \<Longrightarrow> t \<le> now (sd_app s) \<Longrightarrow>
    run_scheduler env lib s (s\<lparr>sd_phase := Loading\<rparr>)"

end
