(* ===== verification/Cbs_Periodic_Routes.thy ===== *)
theory Cbs_Periodic_Routes
  imports Cbs_Periodic
begin

text \<open>
  The handlers of \<open>routes/periodic.rs\<close>: create, read, update, delete, enable, disable and
  trigger periodic tasks. A handler runs on the state of the scheduler, whose permit it sets
  (\<open>notify_one\<close>) when it has changed a task.
\<close>

datatype descriptor_value = JsonValue string | JsonString string

record PeriodicTaskResponse =
  pr_task :: PeriodicTaskRow
  pr_descriptor :: descriptor_value
  pr_next_run :: "timestamp option"

definition task_to_response :: "env \<Rightarrow> 'c sched_lib \<Rightarrow> timestamp \<Rightarrow> PeriodicTaskRow \<Rightarrow> PeriodicTaskResponse" where
  "task_to_response env lib t task =
     (let row = snd task;
          next_run =
            (if \<not> pt_enabled row then None
             else case pt_retry_at row of
                    Some retry_at \<Rightarrow> Some retry_at
                  | None \<Rightarrow> Option.bind (sl_cron_from_str lib (pt_cron_expr row)) (\<lambda>cron. sl_next_occurrence lib cron t));
          descriptor = (case e_value_from_str env (pt_descriptor row) of
             Some v \<Rightarrow> JsonValue v | None \<Rightarrow> JsonString (pt_descriptor row))
      in \<lparr>pr_task = task, pr_descriptor = descriptor, pr_next_run = next_run\<rparr>)"

record CreateTaskBody =
  cb_cron_expr :: string
  cb_tag_format :: string
  cb_descriptor :: string
  cb_priority :: string
  cb_summary :: "string option"

record UpdateTaskBody =
  ub_cron_expr :: "string option"
  ub_tag_format :: "string option"
  ub_descriptor :: "string option"
  ub_priority :: "string option"
  ub_summary :: "string option"

record TriggerTaskResponse =
  tr_build_id :: build_id
  tr_state :: string
  tr_tag :: string
  tr_priority :: string
  tr_is_robot :: bool
  tr_warning :: "string option"

definition can_manage_task :: "AuthUser \<Rightarrow> PeriodicTaskRow \<Rightarrow> bool" where
  "can_manage_task user task \<longleftrightarrow>
     has_cap user ''periodic:manage:any'' \<or>
     has_cap user ''periodic:manage:own'' \<and> pt_created_by (snd task) = au_email user"

definition PERIODIC_MANAGE_DENIED :: string where
  "PERIODIC_MANAGE_DENIED = ''missing required capability: periodic:manage:own or periodic:manage:any''"

type_synonym 'a periodic_route = "Scheduler \<Rightarrow> (auth_error + 'a) \<times> Scheduler"

definition on_app :: "(AppState \<Rightarrow> 'r \<times> AppState) \<Rightarrow> Scheduler \<Rightarrow> 'r \<times> Scheduler" where
  "on_app f s = (case f (sd_app s) of (r, st) \<Rightarrow> (r, s\<lparr>sd_app := st\<rparr>))"

definition notify_one :: "Scheduler \<Rightarrow> ('e + unit) \<times> Scheduler" where
  "notify_one s = (Ok (), s\<lparr>sd_notify := True\<rparr>)"

definition task_db :: "auth_error \<Rightarrow> 'a db \<Rightarrow> Scheduler \<Rightarrow> (auth_error + 'a) \<times> Scheduler" where
  "task_db rej f = on_app (map_err (\<lambda>_. rej) (on_pool f))"

definition check_cap :: "AuthUser \<Rightarrow> string \<Rightarrow> Scheduler \<Rightarrow> (auth_error + unit) \<times> Scheduler" where
  "check_cap user cap = reject_if (\<not> has_cap user cap) (FORBIDDEN, ''missing required capability: '' @ cap)"

text \<open>The checks of a cron expression, a tag format and a typed descriptor.\<close>

definition check_cron :: "'c sched_lib \<Rightarrow> string \<Rightarrow> 's \<Rightarrow> (auth_error + unit) \<times> 's" where
  "check_cron lib cron_expr = reject_if (sl_cron_from_str lib cron_expr = None) (BAD_REQUEST, ''invalid cron expression'')"

definition join_comma :: "string list \<Rightarrow> string" where
  "join_comma xs = (case xs of [] \<Rightarrow> [] | x # xs \<Rightarrow> x @ concat (map (\<lambda>y. '', '' @ y) xs))"

definition check_tag_format :: "string \<Rightarrow> 's \<Rightarrow> (auth_error + unit) \<times> 's" where
  "check_tag_format fmt = map_err (\<lambda>unknown. (BAD_REQUEST, ''unknown tag format variables: '' @ join_comma unknown))
     (of_result (validate_tag_format fmt))"

definition check_descriptor :: "'c sched_lib \<Rightarrow> string \<Rightarrow> unit periodic_route" where
  "check_descriptor lib v =
     and_then (reject_if (\<not> sl_is_object lib v) (BAD_REQUEST, ''descriptor must be a JSON object'')) (\<lambda>_.
     and_then (map_err (\<lambda>e. (BAD_REQUEST, ''invalid descriptor: '' @ e)) (of_result (sl_from_value lib v))) (\<lambda>typed.
     on_app (check_components (\<lambda>e. (BAD_REQUEST, validation_error_display e)) typed)))"

definition validate_descriptor_scopes :: "'c sched_lib \<Rightarrow> AuthUser \<Rightarrow> string \<Rightarrow> unit periodic_route" where
  "validate_descriptor_scopes lib user v =
     (let scope_checks = map (\<lambda>repo. (Repository, repo)) (sl_component_repos lib v)
      in if scope_checks \<noteq> [] then on_app (lift_db (require_scopes_all user scope_checks)) else returns ())"

definition draw_id :: "env \<Rightarrow> Scheduler \<Rightarrow> ('e + string) \<times> Scheduler" where
  "draw_id env = on_app (\<lambda>st. (Ok (e_uuid env (uuids st)), st\<lparr>uuids := uuids st + 1\<rparr>))"

definition respond :: "env \<Rightarrow> 'c sched_lib \<Rightarrow> PeriodicTaskRow \<Rightarrow> PeriodicTaskResponse periodic_route" where
  "respond env lib task = and_then (on_app read_clock) (\<lambda>t. returns (task_to_response env lib t task))"

section \<open>Creating and reading\<close>

definition route_create_task ::
  "env \<Rightarrow> 'c sched_lib \<Rightarrow> AuthUser \<Rightarrow> CreateTaskBody \<Rightarrow> PeriodicTaskResponse periodic_route" where
  "route_create_task env lib user body =
     and_then (check_cap user ''periodic:create'') (\<lambda>_.
     and_then (check_cap user ''builds:create'') (\<lambda>_.
     and_then (check_cron lib (cb_cron_expr body)) (\<lambda>_.
     and_then (check_tag_format (cb_tag_format body)) (\<lambda>_.
     and_then (check_descriptor lib (cb_descriptor body)) (\<lambda>_.
     and_then (validate_descriptor_scopes lib user (cb_descriptor body)) (\<lambda>_.
     and_then (draw_id env) (\<lambda>i.
     and_then (ok_or (e_value_to_string env (cb_descriptor body))
       (INTERNAL_SERVER_ERROR, ''failed to serialize descriptor'')) (\<lambda>descriptor_json.
     and_then (task_db (INTERNAL_SERVER_ERROR, ''failed to create periodic task'')
       (insert_task i (cb_cron_expr body) (cb_tag_format body) descriptor_json (cb_priority body) (cb_summary body)
         (au_email user))) (\<lambda>_.
     and_then notify_one (\<lambda>_.
     and_then (task_db db_error (get_task i)) (\<lambda>found.
     and_then (ok_or found (INTERNAL_SERVER_ERROR, ''task not found after insert'')) (\<lambda>task.
     respond env lib task))))))))))))"

definition route_list_tasks :: "env \<Rightarrow> 'c sched_lib \<Rightarrow> AuthUser \<Rightarrow> PeriodicTaskResponse list periodic_route" where
  "route_list_tasks env lib user =
     and_then (check_cap user ''periodic:view'') (\<lambda>_.
     and_then (task_db (INTERNAL_SERVER_ERROR, ''failed to list periodic tasks'') list_tasks) (\<lambda>rows.
     and_then (on_app read_clock) (\<lambda>t.
     returns (map (task_to_response env lib t) rows))))"

definition route_get_task :: "env \<Rightarrow> 'c sched_lib \<Rightarrow> AuthUser \<Rightarrow> string \<Rightarrow> PeriodicTaskResponse periodic_route" where
  "route_get_task env lib user i =
     and_then (check_cap user ''periodic:view'') (\<lambda>_.
     and_then (task_db db_error (get_task i)) (\<lambda>found.
     and_then (ok_or found (NOT_FOUND, ''periodic task not found'')) (\<lambda>task.
     respond env lib task)))"

section \<open>Changing\<close>

text \<open>The task, for a user who may change it.\<close>

definition managed_task :: "AuthUser \<Rightarrow> string \<Rightarrow> PeriodicTaskRow periodic_route" where
  "managed_task user i =
     and_then (task_db db_error (get_task i)) (\<lambda>found.
     and_then (ok_or found (NOT_FOUND, ''periodic task not found'')) (\<lambda>task.
     and_then (reject_if (\<not> can_manage_task user task) (FORBIDDEN, PERIODIC_MANAGE_DENIED)) (\<lambda>_.
     returns task)))"

definition when_some :: "'a option \<Rightarrow> ('a \<Rightarrow> 's \<Rightarrow> ('e + unit) \<times> 's) \<Rightarrow> 's \<Rightarrow> ('e + unit) \<times> 's" where
  "when_some x f = (case x of None \<Rightarrow> returns () | Some v \<Rightarrow> f v)"

definition unwrap_or :: "'a option \<Rightarrow> 'a \<Rightarrow> 'a" where
  "unwrap_or x d = (case x of None \<Rightarrow> d | Some v \<Rightarrow> v)"

definition write_task :: "string \<Rightarrow> string \<Rightarrow> string \<Rightarrow> string \<Rightarrow> string \<Rightarrow> string option \<Rightarrow> unit db" where
  "write_task i cron_expr tag_format descriptor priority summary = exec (\<lambda>p.
     if map_of (p_periodic p) i \<noteq> None \<and> priority \<notin> set PRIORITIES then (Err (SqlxError ''constraint failed''), p)
     else (Ok (), p\<lparr>p_periodic := update_row i (\<lambda>t. t\<lparr>pt_cron_expr := cron_expr, pt_tag_format := tag_format,
       pt_descriptor := descriptor, pt_priority := priority, pt_summary := summary, pt_retry_count := 0,
       pt_retry_at := None, pt_last_error := None, pt_updated_at := p_now p\<rparr>) (p_periodic p)\<rparr>))"

definition route_update_task ::
  "env \<Rightarrow> 'c sched_lib \<Rightarrow> AuthUser \<Rightarrow> string \<Rightarrow> UpdateTaskBody \<Rightarrow> PeriodicTaskResponse periodic_route" where
  "route_update_task env lib user i body =
     and_then (managed_task user i) (\<lambda>current.
     and_then (reject_if (ub_cron_expr body = None \<and> ub_tag_format body = None \<and> ub_descriptor body = None \<and>
         ub_priority body = None \<and> ub_summary body = None)
       (BAD_REQUEST, ''at least one field must be provided'')) (\<lambda>_.
     and_then (when_some (ub_descriptor body) (\<lambda>v.
       and_then (check_cap user ''builds:create'') (\<lambda>_. validate_descriptor_scopes lib user v))) (\<lambda>_.
     and_then (when_some (ub_cron_expr body) (check_cron lib)) (\<lambda>_.
     and_then (when_some (ub_tag_format body) check_tag_format) (\<lambda>_.
     and_then (when_some (ub_descriptor body) (check_descriptor lib)) (\<lambda>_.
     and_then (case ub_descriptor body of
         Some v \<Rightarrow> ok_or (e_value_to_string env v) (INTERNAL_SERVER_ERROR, ''failed to serialize descriptor'')
       | None \<Rightarrow> returns (pt_descriptor (snd current))) (\<lambda>new_descriptor.
     and_then (task_db db_error (write_task i
         (unwrap_or (ub_cron_expr body) (pt_cron_expr (snd current)))
         (unwrap_or (ub_tag_format body) (pt_tag_format (snd current)))
         new_descriptor
         (unwrap_or (ub_priority body) (pt_priority (snd current)))
         (if ub_summary body \<noteq> None then ub_summary body else pt_summary (snd current)))) (\<lambda>_.
     and_then notify_one (\<lambda>_.
     and_then (task_db db_error (get_task i)) (\<lambda>found.
     and_then (ok_or found (INTERNAL_SERVER_ERROR, ''task not found after update'')) (\<lambda>task.
     respond env lib task)))))))))))"

definition route_delete_task :: "AuthUser \<Rightarrow> string \<Rightarrow> string periodic_route" where
  "route_delete_task user i =
     and_then (managed_task user i) (\<lambda>_.
     and_then (task_db db_error (delete_task i)) (\<lambda>deleted.
     and_then (reject_if (\<not> deleted) (NOT_FOUND, ''periodic task not found'')) (\<lambda>_.
     and_then notify_one (\<lambda>_.
     returns (''periodic task '' @ squoted i @ '' deleted'')))))"

definition route_enable_task :: "AuthUser \<Rightarrow> string \<Rightarrow> string periodic_route" where
  "route_enable_task user i =
     and_then (managed_task user i) (\<lambda>_.
     and_then (task_db db_error (enable_task i)) (\<lambda>updated.
     and_then (reject_if (\<not> updated) (NOT_FOUND, ''periodic task not found'')) (\<lambda>_.
     and_then notify_one (\<lambda>_.
     returns (''periodic task '' @ squoted i @ '' enabled'')))))"

definition route_disable_task :: "AuthUser \<Rightarrow> string \<Rightarrow> string periodic_route" where
  "route_disable_task user i =
     and_then (managed_task user i) (\<lambda>_.
     and_then (task_db db_error (disable_task i)) (\<lambda>updated.
     and_then (reject_if (\<not> updated) (NOT_FOUND, ''periodic task not found'')) (\<lambda>_.
     and_then notify_one (\<lambda>_.
     returns (''periodic task '' @ squoted i @ '' disabled'')))))"

section \<open>Triggering\<close>

definition override_priority :: "string option \<Rightarrow> auth_error + Priority option" where
  "override_priority p =
     (case p of
        None \<Rightarrow> Ok None
      | Some s \<Rightarrow>
        if s = ''high'' then Ok (Some High)
        else if s = ''normal'' then Ok (Some Normal)
        else if s = ''low'' then Ok (Some Low)
        else Err (BAD_REQUEST, ''invalid priority: expected '' @ squoted ''high'' @ '', '' @ squoted ''normal'' @
          '', or '' @ squoted ''low''))"

definition route_trigger_task ::
  "env \<Rightarrow> 'c sched_lib \<Rightarrow> AuthUser \<Rightarrow> string \<Rightarrow> string option \<Rightarrow> TriggerTaskResponse periodic_route" where
  "route_trigger_task env lib user i body_priority =
     and_then (managed_task user i) (\<lambda>task.
     and_then (check_cap user ''builds:create'') (\<lambda>_.
     and_then (of_result (override_priority body_priority)) (\<lambda>override.
     and_then (map_err (\<lambda>e. (BAD_REQUEST, ''invalid stored descriptor: '' @ e))
       (of_result (e_descriptor_from_str env (pt_descriptor (snd task))))) (\<lambda>parsed.
     and_then (on_app (check_components (\<lambda>e. (BAD_REQUEST, validation_error_display e)) parsed)) (\<lambda>_.
     and_then (on_app (check_repo_scopes user parsed)) (\<lambda>_.
     and_then (on_app read_clock) (\<lambda>t.
     (let d = sign_off_as (au_name user) (au_email user) parsed;
          tag = interpolate_tag (pt_tag_format (snd task)) d (sl_civil lib t) in
     and_then (map_err (\<lambda>e. (BAD_REQUEST, ''interpolated tag '' @ squoted tag @ '' is not a valid OCI tag: '' @ e))
       (of_result (validate_oci_tag tag))) (\<lambda>_.
     and_then (task_db db_error (get_user (au_email user))) (\<lambda>found.
     and_then (ok_or found (INTERNAL_SERVER_ERROR, ''user record not found'')) (\<lambda>user_record.
     and_then (on_app (map_err (\<lambda>e. (BAD_REQUEST, e))
       (lift_db (resolve_and_rewrite (set_image_tag tag d) user_record)))) (\<lambda>(resolved, d).
     and_then (reject_if (ur_is_robot user_record \<and> prefix_template_contains_username (res_prefix_template resolved))
       (BAD_REQUEST, ''robot accounts cannot submit builds to channels that use the ${username} prefix template'')) (\<lambda>_.
     (let priority = unwrap_or override (stored_priority (pt_priority (snd task))) in
     and_then (on_app (map_err (\<lambda>e. (INTERNAL_SERVER_ERROR, e)) (insert_build_internal env d (au_email user) priority
       (Some (fst task)) (Some (res_channel_id resolved)) (Some (res_channel_type_id resolved))))) (\<lambda>(build_id, pending_count).
     and_then (swallow (on_app (on_pool (record_manual_trigger (fst task) build_id)))) (\<lambda>_.
     returns \<lparr>tr_build_id = build_id, tr_state = ''queued'', tr_tag = tag, tr_priority = priority_str priority,
       tr_is_robot = au_is_robot user, tr_warning = (if pending_count > 1
         then Some (show_nat pending_count @ '' build(s) in queue'') else None)\<rparr>))))))))))))))))"

end
