(* ===== verification/Cbs_Periodic_Spec.thy ===== *)
theory Cbs_Periodic_Spec
  imports Cbs_Periodic_Routes Cbs_Invariants Cbs_Samples
begin

text \<open>
  Properties of periodic builds: what the scheduler and the handlers keep of the table of
  tasks, under which conditions a task produces a build, how a task that keeps failing ends,
  what the validation of a tag format guarantees, and who may change a task.
\<close>

section \<open>What is kept of the table of tasks\<close>

lemma on_app_run: "on_app f s = (r, s') \<longleftrightarrow> (\<exists>st. f (sd_app s) = (r, st) \<and> s' = s\<lparr>sd_app := st\<rparr>)"
  by (auto simp: on_app_def split: prod.splits)

lemma on_pool_run: "on_pool f st = (r, st') \<longleftrightarrow> (\<exists>p. f (pool st) = (r, p) \<and> st' = st\<lparr>pool := p\<rparr>)"
  "lift_db g st = (v, st') \<longleftrightarrow> (\<exists>p. g (pool st) = (v, p) \<and> st' = st\<lparr>pool := p\<rparr>)"
  by (auto simp: on_pool_def lift_db_def split: prod.splits)

lemma get_task_Ok: "get_task i p = (Ok (Some task), p') \<Longrightarrow> unchanged p p' \<and> fst task = i \<and> map_of (p_periodic p) i = Some (snd task)"
  unfolding get_task_def by (drule fetch_Ok, cases "map_of (p_periodic p) i") (auto simp: unchanged_def)

lemma managed_task_Ok:
  assumes "managed_task user i s = (Ok task, s')"
  shows "fst task = i" "can_manage_task user task" "map_of (p_periodic (pool (sd_app s))) i = Some (snd task)"
  using assms unfolding managed_task_def task_db_def
  by (auto simp: and_then_Ok_iff map_err_Ok on_app_run on_pool_run dest!: get_task_Ok)

lemmas managed_task_key = managed_task_Ok(1)

text \<open>A property of the table of tasks, read off a pool, an application state, or the scheduler.\<close>

locale task_table =
  fixes J :: "(string, PeriodicRow) table \<Rightarrow> bool"
begin

abbreviation of_pool :: "SqlitePool \<Rightarrow> bool" where
  "of_pool p \<equiv> J (p_periodic p)"

abbreviation of_app :: "AppState \<Rightarrow> bool" where
  "of_app st \<equiv> J (p_periodic (pool st))"

abbreviation of_scheduler :: "Scheduler \<Rightarrow> bool" where
  "of_scheduler s \<equiv> J (p_periodic (pool (sd_app s)))"

end

sublocale task_table \<subseteq> db: table_invariant "\<lambda>p. J (p_periodic p)"
  by unfold_locales simp

context task_table
begin

lemma keeps_on_pool: "keeps of_pool f \<Longrightarrow> keeps of_app (on_pool f)" "keeps of_pool g \<Longrightarrow> keeps of_app (lift_db g)"
  by (auto simp: keeps_def on_pool_def lift_db_def split: prod.splits)

lemma keeps_on_app: "keeps of_app f \<Longrightarrow> keeps of_scheduler (on_app f)"
  by (auto simp: keeps_def on_app_def split: prod.splits)

lemma keeps_same_tables: "(\<And>p r p'. f p = (r, p') \<Longrightarrow> same_tables p p') \<Longrightarrow> keeps of_pool f"
  unfolding keeps_def by (metis prod.collapse same_tables_fields(9))

lemma keeps_reads:
  "keeps of_pool (fetch g)" "keeps of_pool (resolve_and_rewrite d user)" "keeps of_pool (require_scopes_all u checks)"
  by (rule keeps_same_tables, erule fetch_same_tables resolve_same_tables scopes_same_tables)+

lemma keeps_clock: "keeps of_app read_clock" "keeps of_app (check_components conv d)"
  by (auto simp: keeps_def read_clock_def check_components_def split: sum.splits)

lemma keeps_insert_build: "keeps of_app (insert_build_internal env d u pr pt c ct)"
proof -
  have "keeps of_pool (insert_build a b e f g h)" "keeps of_pool (insert_build_log_row i path)" for a b e f g h i path
    unfolding insert_build_def insert_build_log_row_def by (rule db.keeps_exec, simp add: keeps_def)+
  note k = this[unfolded keeps_def]
  show ?thesis unfolding keeps_def
  proof (intro allI impI)
    fix st assume J: "of_app st"
    show "of_app (snd (insert_build_internal env d u pr pt c ct st))"
      using J k
      by (auto simp: insert_build_internal_def on_pool_def Let_def with_queue_def spawn_def
          split: sum.splits prod.splits) (metis snd_conv)+
  qed
qed

lemma keeps_prod: "(\<And>a b. keeps I (f a b)) \<Longrightarrow> keeps I (case x of (a, b) \<Rightarrow> f a b)"
  by (cases x) simp

lemmas keeps_app = keeps_intros keeps_on_pool keeps_reads keeps_clock keeps_insert_build keeps_prod

lemma keeps_trigger: "keeps of_app (trigger_periodic_build env lib task)"
  unfolding trigger_periodic_build_def Let_def is_user_active_def get_user_def get_effective_caps_def
  by (intro keeps_app)

lemma keeps_checks:
  "keeps of_scheduler (check_cap user cap)" "keeps of_scheduler (check_cron lib c)"
  "keeps of_scheduler (check_tag_format fmt)" "keeps of_scheduler (check_descriptor lib v)"
  "keeps of_scheduler (validate_descriptor_scopes lib user v)" "keeps of_scheduler notify_one"
  "keeps of_scheduler (draw_id env)" "keeps of_scheduler (respond env lib task)"
  "keeps of_scheduler (managed_task user i)" "keeps of_scheduler (on_app (check_repo_scopes user d))"
proof -
  have check_repo: "check_repo_scopes user d = (if repo_scope_checks d \<noteq> []
      then lift_db (require_scopes_all user (repo_scope_checks d)) else (\<lambda>st. (Ok (), st)))"
    by (rule ext) (simp add: check_repo_scopes_def)
  show "keeps of_scheduler notify_one" by (simp add: keeps_def notify_one_def)
  show "keeps of_scheduler (draw_id env)" unfolding draw_id_def by (rule keeps_on_app) (simp add: keeps_def)
  show "keeps of_scheduler (check_cap user cap)" "keeps of_scheduler (check_cron lib c)"
    "keeps of_scheduler (check_tag_format fmt)" "keeps of_scheduler (check_descriptor lib v)"
    "keeps of_scheduler (validate_descriptor_scopes lib user v)" "keeps of_scheduler (respond env lib task)"
    "keeps of_scheduler (managed_task user i)" "keeps of_scheduler (on_app (check_repo_scopes user d))"
    unfolding check_cap_def check_cron_def check_tag_format_def check_descriptor_def validate_descriptor_scopes_def
      respond_def managed_task_def task_db_def get_task_def Let_def check_repo
    by (intro keeps_app keeps_on_app)+
qed

lemma keeps_when_some: "(\<And>v. keeps I (f v)) \<Longrightarrow> keeps I (when_some x f)"
  unfolding when_some_def by (intro keeps_intros)

lemmas keeps_scheduler = keeps_app keeps_on_app keeps_checks keeps_when_some

lemma keeps_task_db: "keeps of_pool f \<Longrightarrow> keeps of_scheduler (task_db rej f)"
  unfolding task_db_def by (intro keeps_scheduler)

lemma keeps_readers:
  "keeps of_scheduler (route_list_tasks env lib user)" "keeps of_scheduler (route_get_task env lib user i)"
  unfolding route_list_tasks_def route_get_task_def list_tasks_def get_task_def
  by (intro keeps_scheduler keeps_task_db)+

lemma keeps_and_then_when:
  assumes "keeps I m" "\<And>s v s'. m s = (Ok v, s') \<Longrightarrow> R v" "\<And>v. R v \<Longrightarrow> keeps I (k v)"
  shows "keeps I (and_then m k)"
  unfolding keeps_def
proof (intro allI impI)
  fix s assume I: "I s"
  show "I (snd (and_then m k s))"
  proof (cases "m s")
    case (Pair r s1)
    then show ?thesis using keepsD[OF assms(1) I Pair] assms(2)[of s _ s1] keeps_snd[OF assms(3)]
      by (cases r) (auto simp: and_then_def)
  qed
qed

lemma keeps_triggering:
  assumes "\<And>b. keeps of_pool (record_manual_trigger i b)"
  shows "keeps of_scheduler (route_trigger_task env lib user i p)"
  unfolding route_trigger_task_def Let_def get_user_def
  by (rule keeps_and_then_when[where R = "\<lambda>task. fst task = i"])
    (auto simp: managed_task_key intro!: keeps_scheduler keeps_task_db assms)

lemma keeps_creating:
  "(\<And>i c t d p s. keeps of_pool (insert_task i c t d p s (au_email user))) \<Longrightarrow>
   keeps of_scheduler (route_create_task env lib user body)"
  unfolding route_create_task_def get_task_def by (intro keeps_scheduler keeps_task_db)

lemma keeps_updating:
  "(\<And>c t d p s. keeps of_pool (write_task i c t d p s)) \<Longrightarrow> keeps of_scheduler (route_update_task env lib user i body)"
  unfolding route_update_task_def get_task_def by (intro keeps_scheduler keeps_task_db)

lemma keeps_switching:
  "keeps of_pool (delete_task i) \<Longrightarrow> keeps of_scheduler (route_delete_task user i)"
  "keeps of_pool (enable_task i) \<Longrightarrow> keeps of_scheduler (route_enable_task user i)"
  "keeps of_pool (disable_task i) \<Longrightarrow> keeps of_scheduler (route_disable_task user i)"
  unfolding route_delete_task_def route_enable_task_def route_disable_task_def
  by (intro keeps_scheduler keeps_task_db, assumption)+

end

section \<open>Well-formed tasks\<close>

text \<open>
  The retry counter stays below the limit at which a task is disabled, a retry is scheduled
  between 30 and 600 seconds after the failure, and the priority is one of the three names.
\<close>

definition task_ok :: "PeriodicRow \<Rightarrow> bool" where
  "task_ok t \<longleftrightarrow> 0 \<le> pt_retry_count t \<and> pt_retry_count t < MAX_RETRY_COUNT \<and> pt_priority t \<in> set PRIORITIES \<and>
     (\<forall>r. pt_retry_at t = Some r \<longrightarrow> pt_updated_at t + 30 \<le> r \<and> r \<le> pt_updated_at t + 600)"

definition tasks_ok :: "(string, PeriodicRow) table \<Rightarrow> bool" where
  "tasks_ok T \<longleftrightarrow> (\<forall>x\<in>set T. task_ok (snd x))"

interpretation wf: task_table tasks_ok .

lemma tasks_ok_update:
  "tasks_ok T \<Longrightarrow> (\<And>t. i \<in> fst ` set T \<Longrightarrow> task_ok t \<Longrightarrow> task_ok (f t)) \<Longrightarrow> tasks_ok (update_row i f T)"
  by (force simp: tasks_ok_def update_row_def)

lemma backoff_bounds: "0 \<le> n \<Longrightarrow> n < MAX_RETRY_COUNT \<Longrightarrow> 30 \<le> backoff_secs n \<and> backoff_secs n \<le> 600"
proof -
  assume "0 \<le> n" "n < MAX_RETRY_COUNT"
  then have "n = 0 \<or> n = 1 \<or> n = 2 \<or> n = 3 \<or> n = 4 \<or> n = 5 \<or> n = 6 \<or> n = 7 \<or> n = 8 \<or> n = 9"
    unfolding MAX_RETRY_COUNT_def by presburger
  then show ?thesis by (elim disjE) (simp_all add: backoff_secs_def)
qed

lemma wf_statements:
  "keeps wf.of_pool (insert_task i c t d p s u)" "keeps wf.of_pool (write_task i c t d p s)"
  "keeps wf.of_pool (delete_task i)" "keeps wf.of_pool (enable_task i)" "keeps wf.of_pool (disable_task i)"
  "keeps wf.of_pool (disable_with_error i msg)" "keeps wf.of_pool (update_trigger_success i b)"
  "keeps wf.of_pool (record_manual_trigger i b)"
  unfolding insert_task_def write_task_def delete_task_def enable_task_def disable_task_def disable_with_error_def
    update_trigger_success_def record_manual_trigger_def update_with_build_def update_task_row_def
        apply (rule wf.db.keeps_exec, simp add: keeps_def tasks_ok_def task_ok_def MAX_RETRY_COUNT_def)
       apply (rule wf.db.keeps_exec, force simp: keeps_def task_ok_def MAX_RETRY_COUNT_def map_of_eq_None_iff intro!: tasks_ok_update)
      apply (rule wf.db.keeps_exec, simp add: keeps_def tasks_ok_def)
  by (rule wf.db.keeps_exec, (auto simp: keeps_def task_ok_def MAX_RETRY_COUNT_def intro!: tasks_ok_update)[1])+

lemma wf_retry:
  assumes "0 \<le> n" "n + 1 < MAX_RETRY_COUNT" "tasks_ok (p_periodic p)"
  shows "tasks_ok (p_periodic (snd (update_retry i (n + 1) (p_now p + backoff_secs n) msg p)))"
proof -
  have b: "30 \<le> backoff_secs n" "backoff_secs n \<le> 600" using backoff_bounds assms(1,2) by simp_all
  have "tasks_ok (update_row i (\<lambda>t. t\<lparr>pt_retry_count := n + 1, pt_retry_at := Some (p_now p + backoff_secs n),
      pt_last_error := Some msg, pt_updated_at := p_now p\<rparr>) (p_periodic p))"
    by (rule tasks_ok_update[OF assms(3)]) (use assms b in \<open>auto simp: task_ok_def\<close>)
  then show ?thesis using assms(3)
    by (auto simp: update_retry_def update_task_row_def exec_def split: list.splits option.splits)
qed

lemma wf_settle:
  assumes "tasks_ok (p_periodic (pool st))" "task_ok (snd task)"
  shows "wf.of_app (settle_trigger task r st)"
proof -
  obtain i row where t: "task = (i, row)" by (cases task)
  have k: "wf.of_app (snd (on_pool f st))" if "keeps wf.of_pool f" for f :: "'x db"
    using that assms(1) by (simp add: keeps_def on_pool_def split_beta)
  have "wf.of_app (snd (on_pool (update_retry i (pt_retry_count row + 1) (now st + backoff_secs (pt_retry_count row)) msg) st))"
    if "\<not> pt_retry_count row + 1 \<ge> MAX_RETRY_COUNT" for msg
    using that assms t wf_retry[of "pt_retry_count row" "pool st" i msg]
    by (simp add: on_pool_def now_def task_ok_def split_beta)
  moreover have "wf.of_app (snd (on_pool (disable_with_error i m) st))" "wf.of_app (snd (on_pool (update_trigger_success i b) st))" for m b
    using wf_statements(6)[of i m] wf_statements(7)[of i b] assms(1) by (simp_all add: keeps_def on_pool_def split_beta)
  ultimately show ?thesis unfolding t by (auto simp: settle_trigger_def Let_def split: sum.splits TriggerError.splits)
qed

lemma wf_fire: "wf.of_app st \<Longrightarrow> wf.of_app (fire_task env lib i st)"
proof -
  assume J: "wf.of_app st"
  obtain r st1 where g: "on_pool (get_task i) st = (r, st1)" by fastforce
  have J1: "wf.of_app st1" using keepsD[OF wf.keeps_on_pool(1)[OF wf.keeps_reads(1)] J g[unfolded get_task_def]] .
  have row: "task_ok (snd task)" if "r = Ok (Some task)" for task
  proof -
    have "get_task i (pool st) = (Ok (Some task), pool st1)" using g that by (auto simp: on_pool_def split: prod.splits)
    then have "map_option (Pair i) (map_of (p_periodic (pool st1)) i) = Some task"
      unfolding get_task_def by (metis fetch_Ok)
    then show ?thesis using J1 by (auto simp: tasks_ok_def dest!: map_of_SomeD)
  qed
  have "wf.of_app (snd (trigger_periodic_build env lib task st1))" for task by (rule keeps_snd[OF wf.keeps_trigger J1])
  then show ?thesis using g J1 row wf_settle
    by (auto simp: fire_task_def split_beta split: sum.splits option.splits)
qed

text \<open>The requests about periodic tasks, and the steps of the scheduler among them and the passing of time.\<close>

datatype PeriodicRequest =
  CreateTask AuthUser CreateTaskBody
| ListTasks AuthUser
| GetTask AuthUser string
| UpdateTask AuthUser string UpdateTaskBody
| DeleteTask AuthUser string
| EnableTask AuthUser string
| DisableTask AuthUser string
| TriggerTask AuthUser string "string option"

fun requester :: "PeriodicRequest \<Rightarrow> AuthUser" where
  "requester (CreateTask u _) = u"
| "requester (ListTasks u) = u"
| "requester (GetTask u _) = u"
| "requester (UpdateTask u _ _) = u"
| "requester (DeleteTask u _) = u"
| "requester (EnableTask u _) = u"
| "requester (DisableTask u _) = u"
| "requester (TriggerTask u _ _) = u"

fun run_periodic_request :: "env \<Rightarrow> 'c sched_lib \<Rightarrow> PeriodicRequest \<Rightarrow> Scheduler \<Rightarrow> Scheduler" where
  "run_periodic_request env lib (CreateTask u body) s = snd (route_create_task env lib u body s)"
| "run_periodic_request env lib (ListTasks u) s = snd (route_list_tasks env lib u s)"
| "run_periodic_request env lib (GetTask u i) s = snd (route_get_task env lib u i s)"
| "run_periodic_request env lib (UpdateTask u i body) s = snd (route_update_task env lib u i body s)"
| "run_periodic_request env lib (DeleteTask u i) s = snd (route_delete_task u i s)"
| "run_periodic_request env lib (EnableTask u i) s = snd (route_enable_task u i s)"
| "run_periodic_request env lib (DisableTask u i) s = snd (route_disable_task u i s)"
| "run_periodic_request env lib (TriggerTask u i p) s = snd (route_trigger_task env lib u i p s)"

inductive periodic_step :: "env \<Rightarrow> 'c sched_lib \<Rightarrow> Scheduler \<Rightarrow> Scheduler \<Rightarrow> bool" for env lib where
  scheduled: "run_scheduler env lib s s' \<Longrightarrow> periodic_step env lib s s'"
| requested: "periodic_step env lib s (run_periodic_request env lib r s)"
| elapsed: "now (sd_app s) \<le> t \<Longrightarrow> periodic_step env lib s
    (s\<lparr>sd_app := (sd_app s)\<lparr>pool := (pool (sd_app s))\<lparr>p_now := t, p_faults := fs\<rparr>\<rparr>\<rparr>)"

lemma wf_request: "wf.of_scheduler s \<Longrightarrow> wf.of_scheduler (run_periodic_request env lib r s)"
  by (cases r) (simp_all add: keeps_snd[OF wf.keeps_creating[OF wf_statements(1)]]
    keeps_snd[OF wf.keeps_updating[OF wf_statements(2)]] keeps_snd[OF wf.keeps_switching(1)[OF wf_statements(3)]]
    keeps_snd[OF wf.keeps_switching(2)[OF wf_statements(4)]] keeps_snd[OF wf.keeps_switching(3)[OF wf_statements(5)]]
    keeps_snd[OF wf.keeps_readers(1)] keeps_snd[OF wf.keeps_readers(2)] keeps_snd[OF wf.keeps_triggering[OF wf_statements(8)]])

lemma wf_enabled: "wf.of_app st \<Longrightarrow> wf.of_app (snd (on_pool list_enabled_tasks st))"
  unfolding list_enabled_tasks_def by (rule keeps_snd[OF wf.keeps_on_pool(1)[OF wf.keeps_reads(1)]])

lemma load_pool: "load_schedule lib st = (ph, st') \<Longrightarrow> st' = snd (on_pool list_enabled_tasks st)"
  by (auto simp: load_schedule_def split: prod.splits sum.splits list.splits)

lemma wf_scheduler: "run_scheduler env lib s s' \<Longrightarrow> wf.of_scheduler s \<Longrightarrow> wf.of_scheduler s'"
proof (induction rule: run_scheduler.induct)
  case (load s ph st)
  then show ?case using wf_enabled[of "sd_app s"] load_pool[OF load(2)] by simp
next
  case (start s)
  then show ?case using wf_enabled[of "sd_app s"] by simp
qed (auto simp: wf_fire)

text \<open>
  C33. The table of periodic tasks stays well formed. Whatever the scheduler does, whatever
  requests arrive in between and whatever fails: the retry counter of every task stays
  between 0 and 9, a retry is scheduled 30 to 600 seconds after the failure that caused it,
  and the priority is one of the three that exist.
\<close>

theorem tasks_stay_well_formed:
  assumes "(periodic_step env lib)\<^sup>*\<^sup>* s s'" "tasks_ok (p_periodic (pool (sd_app s)))"
  shows "tasks_ok (p_periodic (pool (sd_app s')))"
  using assms
proof (induction rule: rtranclp_induct)
  case (step s' s'')
  from step.hyps(2) step.IH[OF step.prems] show ?case
    by (cases rule: periodic_step.cases) (auto intro: wf_scheduler wf_request)
qed

section \<open>When a task produces a build\<close>

lemma clock_run: "read_clock st = (Ok t, st') \<longleftrightarrow> t = now st \<and> st' = st"
  "check_components conv d st = (Ok u, st') \<longleftrightarrow> validate_descriptor d (components st) = Ok () \<and> st' = st"
  by (auto simp: read_clock_def check_components_def split: sum.splits)

lemmas trigger_run = and_then_Ok_iff map_err_Ok on_pool_run clock_run

text \<open>The roles of a user with their scopes, and the right to build for a channel and type.\<close>

definition assignments_of :: "SqlitePool \<Rightarrow> string \<Rightarrow> AssignmentWithScopes list" where
  "assignments_of p email =
     (case fst (get_user_assignments_with_scopes email (p\<lparr>p_faults := []\<rparr>)) of Ok xs \<Rightarrow> xs | Err _ \<Rightarrow> [])"

definition may_use_channel :: "SqlitePool \<Rightarrow> string \<Rightarrow> string \<Rightarrow> bool" where
  "may_use_channel p email v \<longleftrightarrow> list_ex (\<lambda>a. as_scopes a = [] \<or>
     list_ex (\<lambda>s. se_scope_type s = ''channel'' \<and> scope_pattern_matches (se_pattern s) v) (as_scopes a))
     (assignments_of p email)"

lemma assignments_Ok:
  assumes "get_user_assignments_with_scopes email q = (Ok xs, q')" "unchanged p q"
  shows "xs = assignments_of p email"
proof -
  obtain fs where q: "q = p\<lparr>p_faults := fs\<rparr>" using assms(2) by (auto simp: unchanged_def)
  have rows: "cap_rows (p\<lparr>p_faults := f\<rparr>) email = cap_rows p email"
    "scope_rows (p\<lparr>p_faults := f\<rparr>) email = scope_rows p email" for f
    by (simp_all add: cap_rows_def scope_rows_def user_role_names_def)
  obtain cs q1 ss where c: "fetch (\<lambda>p. cap_rows p email) q = (Ok cs, q1)"
    "fetch (\<lambda>p. scope_rows p email) q1 = (Ok ss, q')"
    and xs: "xs = (map (\<lambda>(r, caps). \<lparr>as_role_name = r, as_caps = caps,
        as_scopes = (case map_of (fold push_unique ss []) r of Some e \<Rightarrow> e | None \<Rightarrow> [])\<rparr>)
        (sort_key fst (fold push_unique cs [])))"
    using assms(1) unfolding get_user_assignments_with_scopes_def by (auto simp: Let_def split: prod.splits sum.splits)
  have "cs = cap_rows p email" "ss = scope_rows p email"
    using fetch_Ok[OF c(1)] fetch_Ok[OF c(2)] q rows by (auto simp: unchanged_def)
  then show ?thesis
    by (simp add: assignments_of_def get_user_assignments_with_scopes_def rows xs Let_def)
qed

lemma resolve_granted:
  assumes "resolve_and_rewrite d user q = (Ok (res, d'), q')" "unchanged p q"
  shows "\<exists>name ty. d_channel d' = Some name \<and> d_version_type d' = Some (version_type_of_str ty) \<and>
    may_use_channel p (ur_email user) (name @ ''/'' @ ty) \<and> img_tag (d_dst_image d') = img_tag (d_dst_image d) \<and>
    d_signed_off_by d' = d_signed_off_by d"
proof -
  obtain j c q1 ty q2 rct q3 where r: "resolve_channel d user q = (Ok (j, c), q1)"
    "resolve_type_name d c q1 = (Ok ty, q2)" "resolve_channel_type (ch_name c) ty q2 = (Ok (Some rct), q3)"
    and s: "check_channel_scope (ur_email user) (ch_name c @ ''/'' @ ty) q3 = (Ok True, q')"
    and d': "d_channel d' = Some (ch_name c)" "d_version_type d' = Some (version_type_of_str ty)"
      "img_tag (d_dst_image d') = img_tag (d_dst_image d)" "d_signed_off_by d' = d_signed_off_by d"
    using assms(1) unfolding resolve_and_rewrite_def
    by (auto simp: Let_def split: prod.splits sum.splits option.splits bool.splits)
  have "same_tables q q3"
    using resolve_channel_same_tables[OF r(1)] resolve_type_same_tables[OF r(2)]
      fetch_same_tables[OF r(3)[unfolded resolve_channel_type_def]] same_tables_trans by blast
  then have un: "unchanged p q3" using assms(2) same_tables_unchanged unchanged_trans by blast
  obtain xs where xs: "get_user_assignments_with_scopes (ur_email user) q3 = (Ok xs, q')"
    "list_ex (\<lambda>a. if as_scopes a = [] then True
            else list_ex (\<lambda>s. se_scope_type s = ''channel'' \<and>
              scope_pattern_matches (se_pattern s) (ch_name c @ ''/'' @ ty)) (as_scopes a)) xs"
    using s unfolding check_channel_scope_def by (auto split: prod.splits sum.splits)
  then have "may_use_channel p (ur_email user) (ch_name c @ ''/'' @ ty)"
    unfolding may_use_channel_def assignments_Ok[OF xs(1) un, symmetric] by (auto simp: list_ex_iff split: if_splits)
  then show ?thesis using d' by blast
qed

lemma inserted_build:
  assumes "insert_build_internal env d u pr pt c ct st = (Ok (b, n), st')"
  shows "\<exists>dj row. e_descriptor_to_string env d = Ok dj \<and> map_of (p_builds (pool st')) b = Some row \<and>
    b_descriptor row = dj \<and> b_user_email row = u \<and> b_state row = Queued \<and> b_periodic_task_id row = pt \<and>
    b_priority row = priority_str pr"
proof -
  obtain dj p1 p2 where dj: "e_descriptor_to_string env d = Ok dj"
    and i: "insert_build dj u (priority_str pr) pt c ct (pool st) = (Ok b, p1)"
    and l: "insert_build_log_row b (''builds/'' @ show_int b @ ''.log'') p1 = (Ok (), p2)" and st': "pool st' = p2"
    using assms unfolding insert_build_internal_def
    by (auto simp: on_pool_def Let_def with_queue_def spawn_def split: sum.splits prod.splits)
  obtain q where q: "p1 = q\<lparr>p_build_seq := p_build_seq q + 1,
      p_builds := (b, new_row dj u (priority_str pr) pt c ct (p_now q)) # p_builds q\<rparr>"
    using i unfolding insert_build_def by (elim exec_Ok) (auto split: if_splits)
  have "p_builds p2 = p_builds p1"
    using l unfolding insert_build_log_row_def by (elim exec_Ok) (auto split: if_splits simp: unchanged_def)
  then show ?thesis using dj q st' by (auto simp: new_row_def)
qed

text \<open>
  C31. A periodic task produces a build only with the current rights of its owner. Whatever
  fails, when the trigger succeeds the owner exists and is active, holds the capabilities to
  create periodic tasks and builds at this time, and has a role that covers the channel and
  type of the build; the descriptor parses and names known components, the tag is a valid OCI
  tag, and the new build is queued, belongs to the owner, carries their name, and refers to
  the task.
\<close>

theorem triggered_build_is_authorized:
  assumes "trigger_periodic_build env lib (i, row) st = (Ok b, st')"
  shows "\<exists>u d d' name ty r. map_of (p_users (pool st)) (pt_created_by row) = Some u \<and> u_active u \<and>
    (let caps = {c. (\<exists>r. (pt_created_by row, r) \<in> set (p_user_roles (pool st)) \<and> (r, c) \<in> set (p_role_caps (pool st))) \<and>
         (u_is_robot u \<longrightarrow> c \<notin> set ROBOT_FORBIDDEN_CAPS)}
     in ''*'' \<in> caps \<or> {''periodic:create'', ''builds:create''} \<subseteq> caps) \<and>
    may_use_channel (pool st) (pt_created_by row) (name @ ''/'' @ ty) \<and>
    e_descriptor_from_str env (pt_descriptor row) = Ok d \<and> validate_descriptor d (components st) = Ok () \<and>
    e_descriptor_to_string env d' = Ok (b_descriptor r) \<and> validate_oci_tag (img_tag (d_dst_image d')) = Ok () \<and>
    d_channel d' = Some name \<and> d_version_type d' = Some (version_type_of_str ty) \<and>
    sob_user (d_signed_off_by d') = u_name u \<and> sob_email (d_signed_off_by d') = pt_created_by row \<and>
    map_of (p_builds (pool st')) b = Some r \<and> b_state r = Queued \<and> b_user_email r = pt_created_by row \<and>
    b_periodic_task_id r = Some i"
proof -
  let ?p = "pool st" and ?o = "pt_created_by row"
  obtain p1 ur p2 caps p3 d tag res d' p4 pr n where a: "is_user_active ?o ?p = (Ok True, p1)"
    and g: "get_user ?o p1 = (Ok (Some ur), p2)" and c: "get_effective_caps (ur_email ur) p2 = (Ok caps, p3)"
    and cs: "caps_satisfy_trigger_requirements (owner_caps ur caps)"
    and d: "e_descriptor_from_str env (pt_descriptor row) = Ok d" "validate_descriptor d (components st) = Ok ()"
    and tag: "validate_oci_tag tag = Ok ()"
    and r: "resolve_and_rewrite (set_image_tag tag (sign_off_as (ur_name ur) (ur_email ur) d)) ur p3 = (Ok (res, d'), p4)"
    and ins: "insert_build_internal env d' (ur_email ur) pr (Some i) (Some (res_channel_id res))
      (Some (res_channel_type_id res)) (st\<lparr>pool := p4\<rparr>) = (Ok (b, n), st')"
    using assms unfolding trigger_periodic_build_def by (auto simp: trigger_run Let_def)
  have u1: "unchanged ?p p1" using fetch_Ok[OF a[unfolded is_user_active_def]] by simp
  have u2: "unchanged ?p p2" using fetch_Ok[OF g[unfolded get_user_def]] u1 unchanged_trans by blast
  obtain u where u: "map_of (p_users ?p) ?o = Some u" and ur: "ur_email ur = ?o" "ur_name ur = u_name u"
      "ur_is_robot ur = u_is_robot u"
    using fetch_Ok[OF g[unfolded get_user_def]] unchanged_fields(1)[OF u2]
    by (cases "map_of (p_users ?p) ?o") auto
  have act: "u_active u" using fetch_Ok[OF a[unfolded is_user_active_def]] u by (auto simp: unchanged_fields)
  have u3: "unchanged ?p p3" using get_effective_caps_Ok(2)[OF c] u2 unchanged_trans by blast
  have "set (owner_caps ur caps) = {c. (\<exists>r. (?o, r) \<in> set (p_user_roles ?p) \<and> (r, c) \<in> set (p_role_caps ?p)) \<and>
      (u_is_robot u \<longrightarrow> c \<notin> set ROBOT_FORBIDDEN_CAPS)}"
    using get_effective_caps_Ok(1)[OF c] ur by (auto simp: owner_caps_def unchanged_fields[OF u2])
  moreover have "''*'' \<in> set (owner_caps ur caps) \<or> {''periodic:create'', ''builds:create''} \<subseteq> set (owner_caps ur caps)"
    using cs by (auto simp: caps_satisfy_trigger_requirements_def list_ex_iff TRIGGER_REQUIRED_CAPS_def split: if_splits)
  moreover obtain name ty where "d_channel d' = Some name" "d_version_type d' = Some (version_type_of_str ty)"
    "may_use_channel ?p ?o (name @ ''/'' @ ty)" "img_tag (d_dst_image d') = tag"
    "sob_user (d_signed_off_by d') = u_name u" "sob_email (d_signed_off_by d') = ?o"
    using resolve_granted[OF r u3] ur by (auto simp: set_image_tag_def sign_off_as_def)
  ultimately show ?thesis using u act d tag inserted_build[OF ins] ur unfolding Let_def by fastforce
qed

section \<open>Tasks that keep failing\<close>

definition at_time :: "timestamp \<Rightarrow> AppState \<Rightarrow> AppState" where
  "at_time t st = st\<lparr>pool := (pool st)\<lparr>p_now := t\<rparr>\<rparr>"

text \<open>States that differ in the table of tasks and the clock; rows that differ in their retry state.\<close>

definition only_tasks :: "AppState \<Rightarrow> AppState \<Rightarrow> bool" where
  "only_tasks st st' \<longleftrightarrow> (\<exists>T t. st' = st\<lparr>pool := (pool st)\<lparr>p_periodic := T, p_now := t\<rparr>\<rparr>)"

definition same_task :: "PeriodicRow \<Rightarrow> PeriodicRow \<Rightarrow> bool" where
  "same_task row row' \<longleftrightarrow> (\<exists>n r e t. row' = row\<lparr>pt_retry_count := n, pt_retry_at := r, pt_last_error := e, pt_updated_at := t\<rparr>)"

lemma only_tasks_refl: "only_tasks st st"
  unfolding only_tasks_def by (rule exI[of _ "p_periodic (pool st)"], rule exI[of _ "p_now (pool st)"]) simp

lemma same_task_refl: "same_task row row"
  unfolding same_task_def
  by (rule exI[of _ "pt_retry_count row"], rule exI[of _ "pt_retry_at row"], rule exI[of _ "pt_last_error row"],
      rule exI[of _ "pt_updated_at row"]) simp

lemma only_tasks_step:
  "only_tasks st s \<Longrightarrow> only_tasks st (at_time t s)"
  "only_tasks st s \<Longrightarrow> only_tasks st (s\<lparr>pool := (pool s)\<lparr>p_periodic := T\<rparr>\<rparr>)"
proof -
  have swap: "p\<lparr>p_now := u, p_periodic := T\<rparr> = p\<lparr>p_periodic := T, p_now := u\<rparr>" for p :: SqlitePool and u by (cases p) simp
  show "only_tasks st s \<Longrightarrow> only_tasks st (at_time t s)" unfolding only_tasks_def at_time_def by force
  show "only_tasks st s \<Longrightarrow> only_tasks st (s\<lparr>pool := (pool s)\<lparr>p_periodic := T\<rparr>\<rparr>)"
    unfolding only_tasks_def by (force simp: swap)
qed

lemma fire_disabled:
  assumes "p_faults (pool s) = []" "map_of (p_periodic (pool s)) i = Some r" "\<not> pt_enabled r"
  shows "fire_task env lib i s = s"
  using assms by (simp add: fire_task_def get_task_def on_pool_def)

lemma fire_failing:
  assumes "p_faults (pool s) = []" "map_of (p_periodic (pool s)) i = Some r" "pt_enabled r"
    and "trigger_periodic_build env lib (i, r) s = (Err (Transient msg), s)"
  shows "fire_task env lib i s = s\<lparr>pool := (pool s)\<lparr>p_periodic := update_row i (\<lambda>t.
    if pt_retry_count r + 1 \<ge> MAX_RETRY_COUNT
    then t\<lparr>pt_enabled := False, pt_retry_at := None,
      pt_last_error := Some (''max retries ('' @ show_int MAX_RETRY_COUNT @ '') exceeded: '' @ msg), pt_updated_at := now s\<rparr>
    else t\<lparr>pt_retry_count := pt_retry_count r + 1, pt_retry_at := Some (now s + backoff_secs (pt_retry_count r)),
      pt_last_error := Some msg, pt_updated_at := now s\<rparr>) (p_periodic (pool s))\<rparr>\<rparr>"
  using assms by (simp add: fire_task_def get_task_def on_pool_def settle_trigger_def Let_def disable_with_error_def
    update_retry_def update_task_row_def now_def)


section \<open>Tag formats\<close>

text \<open>A format as a sequence of characters and placeholders, and what each part becomes.\<close>

datatype segment = Literal char | Placeholder string | Unclosed string

function segments :: "string \<Rightarrow> segment list" where
  "segments [] = []"
| "segments (c # cs) =
     (if c = CHR ''{'' then
        (let (name, found_close, rest) = placeholder_name cs
         in (if found_close then Placeholder name else Unclosed name) # segments rest)
      else Literal c # segments cs)"
  by pat_completeness auto
termination
proof (relation "measure length", goal_cases)
  case (2 c cs x name y found_close rest)
  then show ?case using placeholder_name_rest[of name found_close rest cs] by (simp add: less_Suc_eq_le)
qed auto

fun render :: "BuildDescriptor \<Rightarrow> CivilTime \<Rightarrow> segment \<Rightarrow> string" where
  "render d t (Literal c) = [c]"
| "render d t (Placeholder name) =
     (case resolve_placeholder name d t of Some v \<Rightarrow> v | None \<Rightarrow> CHR ''{'' # name @ [CHR ''}''])"
| "render d t (Unclosed name) = CHR ''{'' # name"

fun complete :: "segment \<Rightarrow> bool" where
  "complete (Literal c) = True"
| "complete (Placeholder name) = (name \<noteq> [])"
| "complete (Unclosed name) = False"

fun segment_name :: "segment \<Rightarrow> string list" where
  "segment_name (Literal c) = []"
| "segment_name (Placeholder name) = [name]"
| "segment_name (Unclosed name) = [name]"

lemma interpolate_segments: "interpolate_tag fmt d t = concat (map (render d t) (segments fmt))"
  by (induction fmt rule: segments.induct) (auto split: prod.splits option.splits)

lemma unknown_segments:
  "unknown_placeholders fmt = filter (\<lambda>n. n \<noteq> [] \<and> n \<notin> set KNOWN_PLACEHOLDERS) (concat (map segment_name (segments fmt)))"
  by (induction fmt rule: segments.induct) (auto split: prod.splits)

lemma known_resolves: "name \<in> set KNOWN_PLACEHOLDERS \<longleftrightarrow> resolve_placeholder name d t \<noteq> None"
  by (simp add: KNOWN_PLACEHOLDERS_def resolve_placeholder_def)

lemma valid_tag:
  "validate_oci_tag tag = Ok () \<longleftrightarrow> (\<exists>c cs. tag = c # cs \<and> tag_first c \<and> list_all tag_rest cs \<and> length tag \<le> 128)"
  by (cases tag) (auto simp: validate_oci_tag_def find_None_iff list_all_iff split: option.splits dest!: find_SomeD)

lemma brace_invalid: "CHR ''{'' \<in> set tag \<Longrightarrow> \<exists>e. validate_oci_tag tag = Err e"
proof -
  assume b: "CHR ''{'' \<in> set tag"
  have "\<not> tag_first (CHR ''{'')" "\<not> tag_rest (CHR ''{'')"
    by (simp_all add: tag_first_def tag_rest_def is_ascii_alphanumeric_def)
  then have "validate_oci_tag tag \<noteq> Ok ()" using b by (auto simp: valid_tag list_all_iff)
  then show ?thesis by (metis old.unit.exhaust sum.exhaust_sel)
qed

text \<open>
  C35. What the validation of a tag format is worth. An accepted format in which every brace
  is closed around a name is interpolated completely: its value is that of the reference
  definition, which replaces each placeholder by its value. An accepted format with an
  unclosed brace or an empty placeholder never gives a valid tag, for no build and at no
  time.
\<close>

theorem accepted_format_interpolates:
  assumes "validate_tag_format fmt = Ok ()"
  shows "(list_all complete (segments fmt) \<longrightarrow> interpolate_tag fmt d t =
      concat (map (\<lambda>x. case x of Placeholder name \<Rightarrow> the (resolve_placeholder name d t) | Literal c \<Rightarrow> [c]) (segments fmt))) \<and>
    (\<not> list_all complete (segments fmt) \<longrightarrow> (\<exists>e. validate_oci_tag (interpolate_tag fmt d t) = Err e))"
proof (intro conjI impI)
  have unk: "\<And>x n. x \<in> set (segments fmt) \<Longrightarrow> n \<in> set (segment_name x) \<Longrightarrow> n = [] \<or> n \<in> set KNOWN_PLACEHOLDERS"
    using assms by (auto simp: validate_tag_format_def unknown_segments filter_empty_conv Let_def split: if_splits)
  {
    assume c: "list_all complete (segments fmt)"
    have "render d t x = (case x of Placeholder name \<Rightarrow> the (resolve_placeholder name d t) | Literal c \<Rightarrow> [c])"
      if "x \<in> set (segments fmt)" for x
    proof (cases x)
      case (Placeholder name)
      then have "name \<in> set KNOWN_PLACEHOLDERS" using unk[OF that, of name] c that by (auto simp: list_all_iff)
      then obtain v where "resolve_placeholder name d t = Some v" using known_resolves[of name d t] by blast
      then show ?thesis using Placeholder by simp
    qed (use c that in \<open>auto simp: list_all_iff\<close>)
    then show "interpolate_tag fmt d t =
      concat (map (\<lambda>x. case x of Placeholder name \<Rightarrow> the (resolve_placeholder name d t) | Literal c \<Rightarrow> [c]) (segments fmt))"
      unfolding interpolate_segments by (intro arg_cong[of _ _ concat] map_cong) simp_all
  }
  assume "\<not> list_all complete (segments fmt)"
  then obtain x where x: "x \<in> set (segments fmt)" "\<not> complete x" by (auto simp: list_all_iff)
  have "resolve_placeholder [] d t = None" by (simp add: resolve_placeholder_def)
  then have "CHR ''{'' \<in> set (render d t x)" using x(2) by (cases x) auto
  then have "CHR ''{'' \<in> set (interpolate_tag fmt d t)" using x(1) by (auto simp: interpolate_segments)
  then show "\<exists>e. validate_oci_tag (interpolate_tag fmt d t) = Err e" by (rule brace_invalid)
qed

section \<open>Who changes a task\<close>

definition changed_at :: "(string, PeriodicRow) table \<Rightarrow> string \<Rightarrow> (string, PeriodicRow) table \<Rightarrow> bool" where
  "changed_at T0 i T \<longleftrightarrow> (\<forall>j. j \<noteq> i \<longrightarrow> map_of T j = map_of T0 j) \<and>
     (\<forall>row'. map_of T i = Some row' \<longrightarrow> (\<exists>row. map_of T0 i = Some row \<and> pt_created_by row' = pt_created_by row))"

definition added_by :: "string \<Rightarrow> (string, PeriodicRow) table \<Rightarrow> (string, PeriodicRow) table \<Rightarrow> bool" where
  "added_by u T0 T \<longleftrightarrow> (\<forall>j. map_of T j \<noteq> map_of T0 j \<longrightarrow>
     map_of T0 j = None \<and> (\<exists>row. map_of T j = Some row \<and> pt_created_by row = u))"

definition booked_at :: "(string, PeriodicRow) table \<Rightarrow> string \<Rightarrow> (string, PeriodicRow) table \<Rightarrow> bool" where
  "booked_at T0 i T \<longleftrightarrow> (\<forall>j. j \<noteq> i \<longrightarrow> map_of T j = map_of T0 j) \<and>
     (case map_of T0 i of
        None \<Rightarrow> map_of T i = None
      | Some row \<Rightarrow> \<exists>a b. map_of T i = Some (row\<lparr>pt_last_triggered_at := a, pt_last_build_id := b\<rparr>))"

interpretation same: task_table "\<lambda>T. T = T0" for T0 .
interpretation changed: task_table "changed_at T0 i" for T0 i .
interpretation added: task_table "added_by u T0" for u T0 .
interpretation booked: task_table "booked_at T0 i" for T0 i .

lemma changed_update: "changed_at T0 i T \<Longrightarrow> (\<And>t. pt_created_by (f t) = pt_created_by t) \<Longrightarrow> changed_at T0 i (update_row i f T)"
  by (auto simp: changed_at_def map_of_update_row)

lemma map_of_filter_key: "map_of (filter (\<lambda>(j, t). j \<noteq> i) T) k = (if k = i then None else map_of T k)"
  by (induction T) auto

lemma changed_statements:
  "keeps (changed.of_pool T0 i) (write_task i c t d p s)" "keeps (changed.of_pool T0 i) (delete_task i)"
  "keeps (changed.of_pool T0 i) (enable_task i)" "keeps (changed.of_pool T0 i) (disable_task i)"
  unfolding write_task_def delete_task_def enable_task_def disable_task_def update_task_row_def
     apply (rule changed.db.keeps_exec, (auto simp: keeps_def intro!: changed_update)[1])
    apply (rule changed.db.keeps_exec, (auto simp: keeps_def changed_at_def map_of_filter_key)[1])
  by (rule changed.db.keeps_exec, (auto simp: keeps_def intro!: changed_update)[1])+

lemma added_statement: "keeps (added.of_pool u T0) (insert_task i c t d p s u)"
  unfolding insert_task_def
  by (rule added.db.keeps_exec) (auto simp: keeps_def added_by_def, metis option.distinct(1))

lemma booked_statement: "keeps (booked.of_pool T0 i) (record_manual_trigger i b)"
  unfolding record_manual_trigger_def update_with_build_def
  by (rule booked.db.keeps_exec)
    (auto simp: keeps_def booked_at_def map_of_update_row split: option.splits, blast)

text \<open>A request that goes through \<open>managed_task\<close> changes nothing unless its user may manage the task.\<close>

lemma managed_or_same:
  assumes "and_then (managed_task user i) k s = (r, s')" "p_periodic (pool (sd_app s')) \<noteq> p_periodic (pool (sd_app s))"
  shows "\<exists>row. map_of (p_periodic (pool (sd_app s))) i = Some row \<and> can_manage_task user (i, row)"
  using assms(1)
proof (cases rule: and_then_cases)
  case (stop e)
  then show ?thesis using assms(2) keepsD[OF same.keeps_checks(9) _ stop(1)] by simp
next
  case (more task s1)
  then show ?thesis using managed_task_Ok[OF more(1)] by (metis prod.collapse)
qed

lemma requests_managed:
  assumes "r = UpdateTask user i body \<or> r = DeleteTask user i \<or> r = EnableTask user i \<or> r = DisableTask user i \<or>
      r = TriggerTask user i pr"
    and "p_periodic (pool (sd_app (run_periodic_request env lib r s))) \<noteq> p_periodic (pool (sd_app s))"
  shows "\<exists>row. map_of (p_periodic (pool (sd_app s))) i = Some row \<and> can_manage_task user (i, row)"
  using assms(1,2) managed_or_same[of user i _ s]
  by (elim disjE; force simp: route_update_task_def route_delete_task_def route_enable_task_def route_disable_task_def
    route_trigger_task_def prod_eq_iff)

lemma changed_requests:
  assumes "r = UpdateTask user i body \<or> r = DeleteTask user i \<or> r = EnableTask user i \<or> r = DisableTask user i \<or>
      r = TriggerTask user i pr"
  shows "changed_at (p_periodic (pool (sd_app s))) i (p_periodic (pool (sd_app (run_periodic_request env lib r s))))"
proof -
  let ?T = "p_periodic (pool (sd_app s))"
  have row: "\<exists>a b. x = x\<lparr>pt_last_triggered_at := a, pt_last_build_id := b\<rparr>" for x :: PeriodicRow
    by (rule exI[of _ "pt_last_triggered_at x"], rule exI[of _ "pt_last_build_id x"]) simp
  have c: "changed_at ?T i ?T" "booked_at ?T i ?T"
    by (auto simp: changed_at_def booked_at_def row split: option.splits)
  have "booked_at ?T i (p_periodic (pool (sd_app (snd (route_trigger_task env lib user i pr s)))))"
    by (rule keeps_snd[OF booked.keeps_triggering[OF booked_statement]]) (rule c(2))
  then have b: "changed_at ?T i (p_periodic (pool (sd_app (snd (route_trigger_task env lib user i pr s)))))"
    by (auto simp: changed_at_def booked_at_def split: option.splits)
  have "changed_at ?T i (p_periodic (pool (sd_app (snd (route_update_task env lib user i body s)))))"
    "changed_at ?T i (p_periodic (pool (sd_app (snd (route_delete_task user i s)))))"
    "changed_at ?T i (p_periodic (pool (sd_app (snd (route_enable_task user i s)))))"
    "changed_at ?T i (p_periodic (pool (sd_app (snd (route_disable_task user i s)))))"
    by (rule keeps_snd[OF changed.keeps_updating[OF changed_statements(1)]]
        keeps_snd[OF changed.keeps_switching(1)[OF changed_statements(2)]]
        keeps_snd[OF changed.keeps_switching(2)[OF changed_statements(3)]]
        keeps_snd[OF changed.keeps_switching(3)[OF changed_statements(4)]], rule c(1))+
  then show ?thesis using assms b by (elim disjE) simp_all
qed

lemma create_needs_caps:
  "p_periodic (pool (sd_app (snd (route_create_task env lib user body s)))) \<noteq> p_periodic (pool (sd_app s)) \<Longrightarrow>
   has_cap user ''periodic:create'' \<and> has_cap user ''builds:create''"
  by (auto simp: route_create_task_def check_cap_def and_then_pure split: if_splits)

lemma created_permitted:
  assumes "map_of (p_periodic (pool (sd_app (snd (route_create_task env lib user body s))))) j \<noteq>
      map_of (p_periodic (pool (sd_app s))) j"
  shows "map_of (p_periodic (pool (sd_app s))) j = None \<and> has_cap user ''periodic:create'' \<and> has_cap user ''builds:create'' \<and>
    (\<exists>row. map_of (p_periodic (pool (sd_app (snd (route_create_task env lib user body s))))) j = Some row \<and>
      pt_created_by row = au_email user)"
proof -
  let ?T' = "p_periodic (pool (sd_app (snd (route_create_task env lib user body s))))"
  have "added_by (au_email user) (p_periodic (pool (sd_app s))) ?T'"
    by (rule keeps_snd[OF added.keeps_creating[OF added_statement]]) (simp add: added_by_def)
  moreover have "?T' \<noteq> p_periodic (pool (sd_app s))" using assms by metis
  ultimately show ?thesis using create_needs_caps assms by (simp add: added_by_def)
qed

lemma managed_permitted:
  assumes change: "r = UpdateTask user i body \<or> r = DeleteTask user i \<or> r = EnableTask user i \<or> r = DisableTask user i \<or>
      r = TriggerTask user i pr"
    and d: "map_of (p_periodic (pool (sd_app (run_periodic_request env lib r s)))) j \<noteq> map_of (p_periodic (pool (sd_app s))) j"
  shows "\<exists>row. map_of (p_periodic (pool (sd_app s))) j = Some row \<and> can_manage_task user (j, row) \<and>
    (\<forall>row'. map_of (p_periodic (pool (sd_app (run_periodic_request env lib r s)))) j = Some row' \<longrightarrow>
      pt_created_by row' = pt_created_by row)"
proof -
  note ch = changed_requests[OF change, of s env lib]
  have j: "j = i" using ch d by (auto simp: changed_at_def)
  obtain row where "map_of (p_periodic (pool (sd_app s))) i = Some row" "can_manage_task user (i, row)"
    using requests_managed[OF change, of env lib s] d by metis
  then show ?thesis using ch j by (auto simp: changed_at_def)
qed

text \<open>
  C32. Only its owner and administrators change a periodic task. Whatever request a user makes
  and whatever fails, a task that is different afterwards was one the user may manage and has
  kept its owner, and a task that is new was created by a user who may create tasks and
  builds, and belongs to them.
\<close>

theorem only_managers_change_tasks:
  "let T = p_periodic (pool (sd_app s)); T' = p_periodic (pool (sd_app (run_periodic_request env lib r s)));
       user = requester r
   in \<forall>j. map_of T' j \<noteq> map_of T j \<longrightarrow>
     (case map_of T j of
        None \<Rightarrow> has_cap user ''periodic:create'' \<and> has_cap user ''builds:create'' \<and>
          (\<exists>row. map_of T' j = Some row \<and> pt_created_by row = au_email user)
      | Some row \<Rightarrow> can_manage_task user (j, row) \<and>
          (\<forall>row'. map_of T' j = Some row' \<longrightarrow> pt_created_by row' = pt_created_by row))"
proof (cases r)
  case (CreateTask user body)
  then show ?thesis using created_permitted[of env lib user body s] by (fastforce simp: Let_def)
next
  case (ListTasks user)
  then show ?thesis using keeps_snd[OF same.keeps_readers(1), of s "p_periodic (pool (sd_app s))" env lib user]
    by (simp add: Let_def)
next
  case (GetTask user i)
  then show ?thesis using keeps_snd[OF same.keeps_readers(2), of s "p_periodic (pool (sd_app s))" env lib user i]
    by (simp add: Let_def)
qed (auto simp: Let_def simp del: run_periodic_request.simps dest!: managed_permitted[rotated])

section \<open>Errors of the trigger\<close>

lemma deleted_channel_transient:
  "classify_resolution_error (''default channel no longer exists '' @ em_dash @ '' contact your administrator'') =
   Transient (''default channel no longer exists '' @ em_dash @ '' contact your administrator'')"
  by (simp add: classify_resolution_error_def FATAL_PATTERNS_def em_dash_def starts_with_def)

lemma wildcard_caps:
  assumes "p_faults p = []" "(email, r) \<in> set (p_user_roles p)" "(r, ''*'') \<in> set (p_role_caps p)"
  shows "\<exists>caps. get_effective_caps email p = (Ok caps, p) \<and> ''*'' \<in> set caps"
proof -
  obtain caps where c: "get_effective_caps email p = (Ok caps, p)"
    using assms(1) by (simp add: get_effective_caps_def)
  then show ?thesis using get_effective_caps_Ok(1)[OF c] assms(2,3) by auto
qed

text \<open>
  A default channel that has been deleted is taken for a transient failure. When the
  descriptor of a task names no channel and the default channel of its owner is gone, the
  trigger fails with an error that is retried, although nothing but a change by an
  administrator can make it succeed.
\<close>

theorem deleted_default_channel_is_retried:
  assumes "p_faults (pool st) = []" "map_of (p_users (pool st)) (pt_created_by row) = Some u" "u_active u" "\<not> u_is_robot u"
    and "(pt_created_by row, r) \<in> set (p_user_roles (pool st))" "(r, ''*'') \<in> set (p_role_caps (pool st))"
    and "e_descriptor_from_str env (pt_descriptor row) = Ok d" "validate_descriptor d (components st) = Ok ()"
    and "validate_oci_tag (interpolate_tag (pt_tag_format row) (sign_off_as (u_name u) (pt_created_by row) d)
      (sl_civil lib (now st))) = Ok ()"
    and "d_channel d = None" "u_default_channel_id u = Some c"
    and "\<forall>(j, ch)\<in>set (p_channels (pool st)). j = c \<longrightarrow> ch_deleted_at ch \<noteq> None"
  shows "trigger_periodic_build env lib (i, row) st =
    (Err (Transient (''default channel no longer exists '' @ em_dash @ '' contact your administrator'')), st)"
proof -
  obtain caps where caps: "get_effective_caps (pt_created_by row) (pool st) = (Ok caps, pool st)" "''*'' \<in> set caps"
    using wildcard_caps[OF assms(1,5,6)] by blast
  have "find (\<lambda>(j, ch). j = c \<and> ch_deleted_at ch = None) (p_channels (pool st)) = None"
    using assms(12) by (auto simp: find_None_iff)
  then show ?thesis using assms(1-4,7-11) caps deleted_channel_transient
    by (simp add: trigger_periodic_build_def and_then_def map_err_def on_pool_def is_user_active_def get_user_def
        reject_if_def ok_or_def of_result_def check_components_def read_clock_def owner_caps_def Let_def lift_db_def
        caps_satisfy_trigger_requirements_def list_ex_iff resolve_and_rewrite_def resolve_channel_def
        get_channel_by_id_def set_image_tag_def sign_off_as_def)
qed

section \<open>Samples\<close>

definition sample_lib :: "unit sched_lib" where
  "sample_lib = \<lparr>sl_cron_from_str = (\<lambda>s. Some ()), sl_next_occurrence = (\<lambda>c t. Some (t + 60)),
     sl_timestamp_single = (\<lambda>t. True), sl_civil = (\<lambda>t. \<lparr>cv_year = 2026, cv_month = 3, cv_day = 18, cv_hour = 14,
       cv_minute = 30, cv_second = 45\<rparr>),
     sl_is_object = (\<lambda>s. True), sl_from_value = (\<lambda>s. if s = ''D'' then Ok sample_descriptor else Err ''syntax''),
     sl_component_repos = (\<lambda>s. [])\<rparr>"

definition sample_task :: PeriodicRow where
  "sample_task = \<lparr>pt_cron_expr = ''0 0 * * *'', pt_tag_format = ''{version}-nightly'', pt_descriptor = ''D'',
     pt_descriptor_version = 1, pt_priority = ''normal'', pt_summary = None, pt_enabled = True,
     pt_created_by = ''alice'', pt_created_at = 0, pt_updated_at = 0, pt_retry_count = 0, pt_retry_at = None,
     pt_last_error = None, pt_last_triggered_at = None, pt_last_build_id = None\<rparr>"

text \<open>The descriptor \<open>D\<close>, with the repository of its component overridden, and without a channel.\<close>

definition repo_descriptor :: BuildDescriptor where
  "repo_descriptor = sample_descriptor\<lparr>d_components :=
     [\<lparr>comp_name = ''ceph'', comp_git_ref = ''main'', comp_repo = Some ''https://fork''\<rparr>]\<rparr>"

definition periodic_env :: "BuildDescriptor \<Rightarrow> env" where
  "periodic_env d = sample_env\<lparr>e_descriptor_from_str := (\<lambda>s. Ok d), e_descriptor_to_string := (\<lambda>d. Ok ''D'')\<rparr>"

definition periodic_app :: AppState where
  "periodic_app = (sample_app [])\<lparr>pool := (sample_pool [])\<lparr>
     p_role_caps := [(''builder'', ''builds:create''), (''builder'', ''periodic:create'')],
     p_periodic := [(''t1'', sample_task)]\<rparr>\<rparr>"

definition alice :: AuthUser where
  "alice = \<lparr>au_email = ''alice'', au_name = ''Alice'', au_caps = [''builds:create'', ''periodic:create''], au_is_robot = False\<rparr>"

lemmas periodic_sample_defs = sample_lib_def sample_task_def repo_descriptor_def periodic_env_def periodic_app_def alice_def

lemmas scope_eval = get_user_assignments_with_scopes_def cap_rows_def scope_rows_def user_role_names_def push_unique_def
  scope_pattern_matches_def

lemma sample_tag_valid: "validate_oci_tag ''19.2.3-nightly'' = Ok ()"
  by (simp add: valid_tag tag_first_def tag_rest_def is_ascii_alphanumeric_def)

lemma sample_trigger:
  assumes "d \<in> {sample_descriptor, repo_descriptor}"
  shows "fst (trigger_periodic_build (periodic_env d) sample_lib (''t1'', sample_task) periodic_app) = Ok 10"
proof -
  have d: "d_version d = ''19.2.3''" "d_channel d = Some ''ces''" "d_version_type d = Some Dev"
    "validate_descriptor d [''ceph''] = Ok ()"
    using assms by (auto simp: repo_descriptor_def sample_descriptor_def validate_descriptor_def)
  show ?thesis
    by (simp add: trigger_periodic_build_def route_defs on_pool_def is_user_active_def get_user_def get_effective_caps_def
      user_role_names_def check_components_def read_clock_def owner_caps_def Let_def lift_db_def resolve_placeholder_def sample_tag_valid d
      caps_satisfy_trigger_requirements_def TRIGGER_REQUIRED_CAPS_def resolve_and_rewrite_def resolve_channel_def
      get_channel_by_name_def set_image_tag_def sign_off_as_def resolve_type_name_def resolve_channel_type_def
      check_channel_scope_def scope_eval insert_build_internal_def insert_build_def insert_build_ok_def fk_ok_def
      insert_build_log_row_def with_queue_def spawn_def pending_counts_def periodic_sample_defs
      stored_priority_def sample_app_def sample_pool_def strip_suffix_char_def starts_with_def rewritten_name_def
      resolve_prefix_template_def)
qed


definition periodic_server :: Scheduler where
  "periodic_server = \<lparr>sd_app = periodic_app, sd_notify = False, sd_phase = Loading\<rparr>"

definition manager :: AuthUser where
  "manager = \<lparr>au_email = ''bob'', au_name = ''Bob'', au_caps = [''periodic:manage:any''], au_is_robot = False\<rparr>"

theorem tasks_stay_well_formed_witness:
  "(periodic_step sample_env sample_lib)\<^sup>*\<^sup>* periodic_server
     (run_periodic_request sample_env sample_lib (DisableTask manager ''t1'') periodic_server) \<and>
   tasks_ok (p_periodic (pool (sd_app (run_periodic_request sample_env sample_lib (DisableTask manager ''t1'') periodic_server))))"
proof -
  have steps: "(periodic_step sample_env sample_lib)\<^sup>*\<^sup>* periodic_server
      (run_periodic_request sample_env sample_lib (DisableTask manager ''t1'') periodic_server)"
    by (rule r_into_rtranclp) (rule requested)
  have "tasks_ok (p_periodic (pool (sd_app periodic_server)))"
    by (simp add: tasks_ok_def task_ok_def periodic_server_def periodic_sample_defs MAX_RETRY_COUNT_def PRIORITIES_def)
  then show ?thesis using steps tasks_stay_well_formed[OF steps] by blast
qed

theorem triggered_build_is_authorized_witness:
  "\<exists>st'. trigger_periodic_build (periodic_env sample_descriptor) sample_lib (''t1'', sample_task) periodic_app = (Ok 10, st') \<and>
     (\<exists>u. map_of (p_users (pool periodic_app)) ''alice'' = Some u \<and> u_active u)"
proof -
  obtain st' where t: "trigger_periodic_build (periodic_env sample_descriptor) sample_lib (''t1'', sample_task) periodic_app =
      (Ok 10, st')"
    using sample_trigger[of sample_descriptor] by (cases "trigger_periodic_build (periodic_env sample_descriptor) sample_lib
      (''t1'', sample_task) periodic_app") auto
  have "pt_created_by sample_task = ''alice''" by (simp add: sample_task_def)
  then show ?thesis using triggered_build_is_authorized[OF t] t by auto
qed

definition broken_env :: env where
  "broken_env = (periodic_env sample_descriptor)\<lparr>e_descriptor_to_string := (\<lambda>d. Err ''x'')\<rparr>"

lemma broken_trigger:
  assumes "only_tasks periodic_app st" "same_task sample_task row"
  shows "trigger_periodic_build broken_env sample_lib (''t1'', row) st = (Err (Transient ''failed to serialize descriptor: x''), st)"
proof -
  obtain T t where st: "st = periodic_app\<lparr>pool := (pool periodic_app)\<lparr>p_periodic := T, p_now := t\<rparr>\<rparr>"
    using assms(1) by (auto simp: only_tasks_def)
  have row: "pt_created_by row = ''alice''" "pt_descriptor row = ''D''" "pt_tag_format row = ''{version}-nightly''"
    using assms(2) by (auto simp: same_task_def sample_task_def)
  show ?thesis unfolding st
    by (simp add: trigger_periodic_build_def route_defs on_pool_def is_user_active_def get_user_def get_effective_caps_def
      user_role_names_def check_components_def read_clock_def owner_caps_def Let_def lift_db_def resolve_placeholder_def
      sample_tag_valid row caps_satisfy_trigger_requirements_def TRIGGER_REQUIRED_CAPS_def resolve_and_rewrite_def
      resolve_channel_def get_channel_by_name_def set_image_tag_def sign_off_as_def resolve_type_name_def
      resolve_channel_type_def check_channel_scope_def scope_eval insert_build_internal_def broken_env_def
      periodic_sample_defs sample_app_def sample_pool_def strip_suffix_char_def starts_with_def sample_descriptor_def
      validate_descriptor_def)
qed


theorem accepted_format_interpolates_witness:
  "validate_tag_format ''v{version}'' = Ok () \<and> interpolate_tag ''v{version}'' sample_descriptor (sl_civil sample_lib 0) = ''v19.2.3'' \<and>
   validate_tag_format ''v{version'' = Ok () \<and>
   (\<exists>e. validate_oci_tag (interpolate_tag ''v{version'' sample_descriptor (sl_civil sample_lib 0)) = Err e)"
proof -
  have v: "validate_tag_format ''v{version}'' = Ok ()" "validate_tag_format ''v{version'' = Ok ()"
    by (simp_all add: validate_tag_format_def KNOWN_PLACEHOLDERS_def)
  have "segments ''v{version}'' = [Literal CHR ''v'', Placeholder ''version'']"
    "segments ''v{version'' = [Literal CHR ''v'', Unclosed ''version'']" by simp_all
  then show ?thesis using v accepted_format_interpolates[OF v(1), of sample_descriptor "sl_civil sample_lib 0"]
      accepted_format_interpolates[OF v(2), of sample_descriptor "sl_civil sample_lib 0"]
    by (simp add: resolve_placeholder_def sample_descriptor_def)
qed

theorem only_managers_change_tasks_witness:
  "map_of (p_periodic (pool (sd_app (run_periodic_request sample_env sample_lib (DisableTask manager ''t1'') periodic_server)))) ''t1'' \<noteq>
     Some sample_task \<and> can_manage_task manager (''t1'', sample_task)"
proof -
  have a: "map_of (p_periodic (pool (sd_app periodic_server))) ''t1'' = Some sample_task"
    by (simp add: periodic_server_def periodic_app_def)
  have b: "map_of (p_periodic (pool (sd_app (run_periodic_request sample_env sample_lib (DisableTask manager ''t1'')
      periodic_server)))) ''t1'' \<noteq> Some sample_task"
    by (simp add: route_disable_task_def managed_task_def task_db_def route_defs on_app_def on_pool_def get_task_def
      disable_task_def update_task_row_def notify_one_def can_manage_task_def has_cap_def manager_def update_row_def
      periodic_server_def periodic_sample_defs sample_pool_def)
  show ?thesis using b only_managers_change_tasks[of periodic_server sample_env sample_lib "DisableTask manager ''t1''",
      unfolded Let_def, THEN spec, of "''t1''"]
    by (simp only: a option.simps(5) requester.simps simp_thms not_False_eq_True)
qed

definition channelless :: BuildDescriptor where
  "channelless = sample_descriptor\<lparr>d_channel := None\<rparr>"

theorem deleted_default_channel_is_retried_witness:
  "trigger_periodic_build (periodic_env channelless) sample_lib (''t1'', sample_task)
     (periodic_app\<lparr>pool := (pool periodic_app)\<lparr>p_role_caps := [(''builder'', ''*'')], p_channels := []\<rparr>\<rparr>) =
   (Err (Transient (''default channel no longer exists '' @ em_dash @ '' contact your administrator'')),
    periodic_app\<lparr>pool := (pool periodic_app)\<lparr>p_role_caps := [(''builder'', ''*'')], p_channels := []\<rparr>\<rparr>)"
  by (rule deleted_default_channel_is_retried[where r = "''builder''" and d = channelless and c = 1 and
      u = "snd (hd (p_users (sample_pool [])))"])
    (simp_all add: periodic_sample_defs sample_pool_def sample_app_def channelless_def sample_descriptor_def
      validate_descriptor_def sign_off_as_def resolve_placeholder_def sample_tag_valid)

end
