(* ===== verification/Cbs_Worker_Output.thy ===== *)
theory Cbs_Worker_Output
  imports Cbs_Proto
begin

text \<open>
  The output of a build subprocess (\<open>cbsd-worker/src/build/output.rs\<close>): the loop that reads
  standard output line by line, batches the lines into \<open>BuildOutput\<close> messages, and picks the
  structured result line out of them. What the loop's \<open>select!\<close> meets is a list of events; the
  flush timer may fire at any moment at which its branch is enabled. The JSON parser is a
  parameter.
\<close>

section \<open>Events and state\<close>

datatype json_value = JNull | JText string

text \<open>
  The fields the code reads from a parsed line: \<open>build_report\<close> as it is, \<open>error\<close> if it is a
  string, \<open>exit_code\<close> if it is an integer. \<open>jv_len\<close> is the length of the value as text.
\<close>

record ResultLine =
  rl_build_report :: "json_value option"
  rl_error :: "string option"
  rl_exit_code :: "int option"

fun jv_len :: "json_value \<Rightarrow> nat" where
  "jv_len JNull = 4"
| "jv_len (JText s) = length s"

datatype stdout_event = StdoutLine string | StdoutEof | StdoutError string | FlushTimer

record WrapperResult =
  wr_exit_code :: int
  wr_error :: "string option"
  wr_build_report :: "json_value option"

datatype OutputError = OutRead string | OutSend WorkerMessage

text \<open>
  The local variables of the loop, the receiving end of the message channel
  (\<open>so_rx_open\<close>, with the messages it was sent).
\<close>

record StreamState =
  so_line_count :: nat
  so_batch :: "string list"
  so_batch_start_seq :: nat
  so_result :: "WrapperResult option"
  so_rx_open :: bool
  so_sent :: "WorkerMessage list"

definition BATCH_MAX_LINES :: nat where
  "BATCH_MAX_LINES = 50"

definition MAX_REPORT_SIZE :: nat where
  "MAX_REPORT_SIZE = 65536"

definition stream_init :: "bool \<Rightarrow> StreamState" where
  "stream_init open = \<lparr>so_line_count = 0, so_batch = [], so_batch_start_seq = 0, so_result = None,
     so_rx_open = open, so_sent = []\<rparr>"

section \<open>The loop\<close>

definition classify_exit_code :: "int option \<Rightarrow> BuildFinishedStatus" where
  "classify_exit_code code =
     (case code of
        Some c \<Rightarrow> if c = 0 then FinSuccess else if c = 137 \<or> c = 143 then FinRevoked else FinFailure
      | None \<Rightarrow> FinFailure)"

definition flush_batch :: "build_id \<Rightarrow> StreamState \<Rightarrow> (OutputError + unit) \<times> StreamState" where
  "flush_batch i s =
     (let msg = BuildOutput i (so_batch_start_seq s) (so_batch s); s = s\<lparr>so_batch := []\<rparr> in
      if so_rx_open s then (Ok (), s\<lparr>so_sent := so_sent s @ [msg]\<rparr>) else (Err (OutSend msg), s))"

definition is_result_line :: "string \<Rightarrow> bool" where
  "is_result_line line \<longleftrightarrow> starts_with line ''{\"type\":\"result\"'' \<or> starts_with line ''{\"type\": \"result\"''"

definition accepted_report :: "json_value option \<Rightarrow> json_value option" where
  "accepted_report report =
     (let report = (case report of
          Some r \<Rightarrow> if jv_len r > MAX_REPORT_SIZE then None else report
        | None \<Rightarrow> None)
      in if report = Some JNull then None else report)"

text \<open>The exit code is read as an \<open>i64\<close> and cast to \<open>i32\<close>.\<close>

definition wrapper_result_of :: "ResultLine \<Rightarrow> WrapperResult" where
  "wrapper_result_of parsed = \<lparr>
     wr_exit_code = signed_take_bit 31 (case rl_exit_code parsed of Some c \<Rightarrow> c | None \<Rightarrow> - 1),
     wr_error = rl_error parsed,
     wr_build_report = accepted_report (rl_build_report parsed)\<rparr>"

definition result_line :: "(string \<Rightarrow> ResultLine option) \<Rightarrow> string \<Rightarrow> StreamState \<Rightarrow> StreamState" where
  "result_line json line s =
     (case json line of
        None \<Rightarrow> s
      | Some parsed \<Rightarrow>
        (let s = (case rl_error parsed of
            Some err \<Rightarrow>
              if err \<noteq> [] then
                s\<lparr>so_batch_start_seq := (if so_batch s = [] then so_line_count s else so_batch_start_seq s),
                  so_batch := so_batch s @ [''[cbsd] build failed: '' @ err],
                  so_line_count := so_line_count s + 1\<rparr>
              else s
          | None \<Rightarrow> s)
         in s\<lparr>so_result := Some (wrapper_result_of parsed)\<rparr>))"

text \<open>
  One turn of the loop: it goes on, leaves with \<open>break\<close>, or returns an error. The timer
  branch is disabled while the batch is empty.
\<close>

datatype flow = Continue | Break | Return OutputError

definition stream_step ::
  "(string \<Rightarrow> ResultLine option) \<Rightarrow> build_id \<Rightarrow> stdout_event \<Rightarrow> StreamState \<Rightarrow> flow \<times> StreamState" where
  "stream_step json i ev s =
     (case ev of
        StdoutLine line \<Rightarrow>
          if is_result_line line then (Continue, result_line json line s)
          else
            (let s = s\<lparr>so_batch_start_seq := (if so_batch s = [] then so_line_count s else so_batch_start_seq s),
                   so_batch := so_batch s @ [line], so_line_count := so_line_count s + 1\<rparr> in
             if length (so_batch s) \<ge> BATCH_MAX_LINES then
               (case flush_batch i s of
                  (Err e, s) \<Rightarrow> (Return e, s)
                | (Ok _, s) \<Rightarrow> (Continue, s))
             else (Continue, s))
      | StdoutEof \<Rightarrow>
          if so_batch s \<noteq> [] then
            (case flush_batch i s of
               (Err e, s) \<Rightarrow> (Return e, s)
             | (Ok _, s) \<Rightarrow> (Break, s))
          else (Break, s)
      | StdoutError err \<Rightarrow>
          (Return (OutRead err), if so_batch s \<noteq> [] then snd (flush_batch i s) else s)
      | FlushTimer \<Rightarrow>
          if so_batch s \<noteq> [] then
            (case flush_batch i s of
               (Err e, s) \<Rightarrow> (Return e, s)
             | (Ok _, s) \<Rightarrow> (Continue, s))
          else (Continue, s))"

definition stream_result ::
  "StreamState \<Rightarrow> BuildFinishedStatus \<times> string option \<times> json_value option" where
  "stream_result s =
     (case so_result s of
        Some wr \<Rightarrow> (classify_exit_code (Some (wr_exit_code wr)), wr_error wr, wr_build_report wr)
      | None \<Rightarrow> (FinFailure, None, None))"

text \<open>\<open>None\<close> means that the loop still waits after the last event.\<close>

fun stream_loop ::
  "(string \<Rightarrow> ResultLine option) \<Rightarrow> build_id \<Rightarrow> stdout_event list \<Rightarrow> StreamState \<Rightarrow>
     ((OutputError + BuildFinishedStatus \<times> string option \<times> json_value option) \<times> StreamState) option" where
  "stream_loop json i [] s = None"
| "stream_loop json i (ev # evs) s =
     (case stream_step json i ev s of
        (Continue, s) \<Rightarrow> stream_loop json i evs s
      | (Break, s) \<Rightarrow> Some (Ok (stream_result s), s)
      | (Return e, s) \<Rightarrow> Some (Err e, s))"

definition stream_output ::
  "(string \<Rightarrow> ResultLine option) \<Rightarrow> build_id \<Rightarrow> stdout_event list \<Rightarrow> bool \<Rightarrow>
     ((OutputError + BuildFinishedStatus \<times> string option \<times> json_value option) \<times> StreamState) option" where
  "stream_output json i evs open = stream_loop json i evs (stream_init open)"

fun output_error_display :: "OutputError \<Rightarrow> string" where
  "output_error_display (OutRead err) = ''failed to read subprocess output: '' @ err"
| "output_error_display (OutSend _) = ''failed to send output message: channel closed''"

fun json_text :: "json_value \<Rightarrow> string" where
  "json_text JNull = ''null''"
| "json_text (JText s) = s"

text \<open>
  The messages that \<open>run_output_streamer\<close> hands to the supervisor: the output and then one
  terminal message. Its own channel stays open until the last message has been drained.
\<close>

definition run_output_streamer ::
  "(string \<Rightarrow> ResultLine option) \<Rightarrow> build_id \<Rightarrow> stdout_event list option \<Rightarrow> WorkerMessage list option" where
  "run_output_streamer json i stdout =
     (case stdout of
        None \<Rightarrow> Some [BuildFinished i FinFailure (Some ''no stdout on subprocess'') None]
      | Some evs \<Rightarrow>
        (case stream_output json i evs True of
           None \<Rightarrow> None
         | Some (Ok (status, error, report), s) \<Rightarrow>
             Some (so_sent s @ [BuildFinished i status error (map_option json_text report)])
         | Some (Err e, s) \<Rightarrow>
             Some (so_sent s @ [BuildFinished i FinFailure
               (Some (''output streaming error: '' @ output_error_display e)) None])))"

section \<open>What reaches the server\<close>

text \<open>
  The log of a build as its events define it: the lines of the subprocess without the result
  lines, and the error of a result line in its place.
\<close>

fun log_line :: "(string \<Rightarrow> ResultLine option) \<Rightarrow> stdout_event \<Rightarrow> string list" where
  "log_line json (StdoutLine line) =
     (if is_result_line line then
        (case json line of
           Some parsed \<Rightarrow>
             (case rl_error parsed of
                Some err \<Rightarrow> if err \<noteq> [] then [''[cbsd] build failed: '' @ err] else []
              | None \<Rightarrow> [])
         | None \<Rightarrow> [])
      else [line])"
| "log_line json _ = []"

definition log_of :: "(string \<Rightarrow> ResultLine option) \<Rightarrow> stdout_event list \<Rightarrow> string list" where
  "log_of json evs = concat (map (log_line json) evs)"

fun parsed_result :: "(string \<Rightarrow> ResultLine option) \<Rightarrow> stdout_event \<Rightarrow> ResultLine option" where
  "parsed_result json (StdoutLine line) = (if is_result_line line then json line else None)"
| "parsed_result json _ = None"

definition reported_results :: "(string \<Rightarrow> ResultLine option) \<Rightarrow> stdout_event list \<Rightarrow> ResultLine list" where
  "reported_results json evs = List.map_filter (parsed_result json) evs"

text \<open>The last result line decides; a subprocess without one has failed.\<close>

definition outcome_of ::
  "(string \<Rightarrow> ResultLine option) \<Rightarrow> stdout_event list \<Rightarrow> BuildFinishedStatus \<times> string option \<times> json_value option" where
  "outcome_of json evs =
     (if reported_results json evs = [] then (FinFailure, None, None)
      else let wr = wrapper_result_of (last (reported_results json evs)) in
        (classify_exit_code (Some (wr_exit_code wr)), wr_error wr, wr_build_report wr))"

fun number_chunks :: "build_id \<Rightarrow> nat \<Rightarrow> string list list \<Rightarrow> WorkerMessage list" where
  "number_chunks i n [] = []"
| "number_chunks i n (c # cs) = BuildOutput i n c # number_chunks i (n + length c) cs"

lemma number_chunks_snoc:
  "number_chunks i n (cs @ [c]) = number_chunks i n cs @ [BuildOutput i (n + length (concat cs)) c]"
  by (induction cs arbitrary: n) (simp_all add: add.assoc)

lemma log_of_snoc [simp]: "log_of json (evs @ [ev]) = log_of json evs @ log_line json ev"
  by (simp add: log_of_def)

lemma reported_results_snoc [simp]:
  "reported_results json (evs @ [ev]) =
     reported_results json evs @ (case parsed_result json ev of Some p \<Rightarrow> [p] | None \<Rightarrow> [])"
  by (simp add: reported_results_def List.map_filter_def split: option.splits)

text \<open>The state of the loop after the events \<open>seen\<close>, with what was sent as chunks of the log.\<close>

definition streaming ::
  "(string \<Rightarrow> ResultLine option) \<Rightarrow> build_id \<Rightarrow> stdout_event list \<Rightarrow> string list list \<Rightarrow> StreamState \<Rightarrow> bool" where
  "streaming json i seen chunks s \<longleftrightarrow>
     so_rx_open s \<and> so_sent s = number_chunks i 0 chunks \<and> concat chunks @ so_batch s = log_of json seen \<and>
     so_line_count s = length (log_of json seen) \<and> [] \<notin> set chunks \<and>
     (so_batch s \<noteq> [] \<longrightarrow> so_batch_start_seq s = length (concat chunks)) \<and>
     (\<forall>c\<in>set chunks. length c \<le> BATCH_MAX_LINES + length (reported_results json seen)) \<and>
     length (so_batch s) \<le> BATCH_MAX_LINES + length (reported_results json seen) \<and>
     so_result s = (if reported_results json seen = [] then None
       else Some (wrapper_result_of (last (reported_results json seen))))"

lemma flush_streams:
  assumes "streaming json i seen chunks s" "so_batch s \<noteq> []"
  shows "\<exists>s'. flush_batch i s = (Ok (), s') \<and> streaming json i seen (chunks @ [so_batch s]) s' \<and> so_batch s' = []"
  using assms by (auto simp: streaming_def flush_batch_def Let_def number_chunks_snoc)

lemma push_streams:
  assumes "streaming json i seen chunks s" "length (so_batch s) < BATCH_MAX_LINES + length (reported_results json seen)"
    and "log_line json ev = [line]" "parsed_result json ev = None"
  shows "streaming json i (seen @ [ev]) chunks (s\<lparr>so_batch_start_seq := (if so_batch s = [] then so_line_count s else so_batch_start_seq s),
     so_batch := so_batch s @ [line], so_line_count := so_line_count s + 1\<rparr>)"
  using assms by (auto simp: streaming_def simp flip: append_assoc)

lemma result_line_streams:
  assumes "streaming json i seen chunks s" "length (so_batch s) < BATCH_MAX_LINES + length (reported_results json seen)"
    and "is_result_line line"
  shows "streaming json i (seen @ [StdoutLine line]) chunks (result_line json line s) \<and>
    length (so_batch (result_line json line s)) < BATCH_MAX_LINES + length (reported_results json (seen @ [StdoutLine line]))"
proof (cases "json line")
  case None
  then show ?thesis using assms by (simp add: streaming_def result_line_def)
next
  case (Some parsed)
  have le: "length c \<le> BATCH_MAX_LINES + length (reported_results json seen) \<Longrightarrow>
      length c \<le> Suc (BATCH_MAX_LINES + length (reported_results json seen))" for c :: "string list"
    by simp
  have e: "rl_error parsed = None \<or> rl_error parsed = Some [] \<or> (\<exists>x xs. rl_error parsed = Some (x # xs))"
    by (metis list.exhaust option.exhaust)
  then show ?thesis using assms Some
    by (auto simp: streaming_def result_line_def Let_def le simp flip: append_assoc)
qed

definition keeps_reading :: "stdout_event \<Rightarrow> bool" where
  "keeps_reading ev \<longleftrightarrow> ev = FlushTimer \<or> (\<exists>line. ev = StdoutLine line)"

lemma step_streams:
  assumes st: "streaming json i seen chunks s" and lt: "length (so_batch s) < BATCH_MAX_LINES + length (reported_results json seen)"
    and ev: "keeps_reading ev"
  shows "\<exists>chunks' s'. stream_step json i ev s = (Continue, s') \<and> streaming json i (seen @ [ev]) chunks' s' \<and>
    length (so_batch s') < BATCH_MAX_LINES + length (reported_results json (seen @ [ev]))"
proof (cases ev)
  case (StdoutLine line)
  show ?thesis
  proof (cases "is_result_line line")
    case True
    then show ?thesis using result_line_streams[OF st lt True] StdoutLine by (auto simp: stream_step_def)
  next
    case False
    let ?s = "s\<lparr>so_batch_start_seq := (if so_batch s = [] then so_line_count s else so_batch_start_seq s),
       so_batch := so_batch s @ [line], so_line_count := so_line_count s + 1\<rparr>"
    have p: "streaming json i (seen @ [ev]) chunks ?s"
      by (rule push_streams[OF st lt]) (simp_all add: StdoutLine False)
    show ?thesis
    proof (cases "length (so_batch ?s) \<ge> BATCH_MAX_LINES")
      case True
      obtain s' where "flush_batch i ?s = (Ok (), s')" "streaming json i (seen @ [ev]) (chunks @ [so_batch ?s]) s'" "so_batch s' = []"
        using flush_streams[OF p] by auto
      then show ?thesis using True False StdoutLine
        by (intro exI[of _ "chunks @ [so_batch ?s]"] exI[of _ s']) (simp add: stream_step_def BATCH_MAX_LINES_def)
    next
      case nb: False
      then show ?thesis using p False StdoutLine
        by (intro exI[of _ chunks] exI[of _ ?s]) (simp add: stream_step_def)
    qed
  qed
next
  case FlushTimer
  have n: "streaming json i (seen @ [ev]) cs t = streaming json i seen cs t" for cs t
    using FlushTimer by (simp add: streaming_def)
  show ?thesis
  proof (cases "so_batch s = []")
    case True
    then show ?thesis using FlushTimer st lt n by (intro exI[of _ chunks] exI[of _ s]) (simp add: stream_step_def)
  next
    case False
    obtain s' where "flush_batch i s = (Ok (), s')" "streaming json i seen (chunks @ [so_batch s]) s'" "so_batch s' = []"
      using flush_streams[OF st False] by blast
    then show ?thesis using FlushTimer False n
      by (intro exI[of _ "chunks @ [so_batch s]"] exI[of _ s']) (simp add: stream_step_def BATCH_MAX_LINES_def)
  qed
qed (use ev in \<open>auto simp: keeps_reading_def\<close>)

lemma end_streams:
  assumes st: "streaming json i seen chunks s"
    and ev: "ev = StdoutEof \<or> ev = StdoutError err"
  shows "\<exists>chunks' s'. stream_step json i ev s = (if ev = StdoutEof then Break else Return (OutRead err), s') \<and>
    streaming json i seen chunks' s' \<and> so_batch s' = []"
proof (cases "so_batch s = []")
  case True
  then show ?thesis using ev st by (intro exI[of _ chunks] exI[of _ s]) (auto simp: stream_step_def)
next
  case False
  obtain s' where "flush_batch i s = (Ok (), s')" "streaming json i seen (chunks @ [so_batch s]) s'" "so_batch s' = []"
    using flush_streams[OF st False] by blast
  then show ?thesis using ev False
    by (intro exI[of _ "chunks @ [so_batch s]"] exI[of _ s']) (auto simp: stream_step_def)
qed

lemma loop_streams:
  assumes "streaming json i seen chunks s" "length (so_batch s) < BATCH_MAX_LINES + length (reported_results json seen)"
    and "list_all keeps_reading evs" "ev = StdoutEof \<or> ev = StdoutError err"
  shows "\<exists>chunks' s'. stream_loop json i (evs @ ev # rest) s =
      Some (if ev = StdoutEof then Ok (outcome_of json (seen @ evs)) else Err (OutRead err), s') \<and>
    streaming json i (seen @ evs) chunks' s' \<and> so_batch s' = []"
  using assms
proof (induction evs arbitrary: seen chunks s)
  case Nil
  then obtain chunks' s' where
    "stream_step json i ev s = (if ev = StdoutEof then Break else Return (OutRead err), s')"
    "streaming json i seen chunks' s'" "so_batch s' = []"
    using end_streams by blast
  then show ?case
    by (intro exI[of _ chunks'] exI[of _ s'])
      (auto simp: streaming_def stream_result_def outcome_of_def Let_def)
next
  case (Cons e evs)
  then obtain chunks1 s1 where 1: "stream_step json i e s = (Continue, s1)" "streaming json i (seen @ [e]) chunks1 s1"
    "length (so_batch s1) < BATCH_MAX_LINES + length (reported_results json (seen @ [e]))"
    using step_streams[of json i seen chunks s e] by auto
  have "seen @ e # evs = (seen @ [e]) @ evs" by simp
  then show ?case using Cons.IH[OF 1(2,3)] Cons.prems(3,4) 1(1)
    by (simp only: append_Cons stream_loop.simps prod.case flow.case list.pred_inject)
qed

text \<open>
  C37. Whenever the flush timer fires, the messages that carry the output of a subprocess are
  the log cut into non-empty chunks, in order, each numbered by the lines before it, so that
  nothing is lost, repeated or reordered. A chunk has at most 50 lines and one for each result
  line. At the end of the output the loop returns what the last result line reports, and a
  failure if there was none; after a read error it returns that error.
\<close>

theorem streamed_output_is_the_log:
  assumes "list_all keeps_reading evs" "ev = StdoutEof \<or> ev = StdoutError err"
  shows "\<exists>s' chunks. stream_output json i (evs @ ev # rest) True =
      Some (if ev = StdoutEof then Ok (outcome_of json evs) else Err (OutRead err), s') \<and>
    so_sent s' = number_chunks i 0 chunks \<and> concat chunks = log_of json evs \<and> [] \<notin> set chunks \<and>
    list_all (\<lambda>c. length c \<le> BATCH_MAX_LINES + length (reported_results json evs)) chunks"
proof -
  have "streaming json i [] [] (stream_init True)"
    by (simp add: streaming_def stream_init_def log_of_def reported_results_def List.map_filter_def)
  then obtain chunks' s' where "stream_loop json i (evs @ ev # rest) (stream_init True) =
      Some (if ev = StdoutEof then Ok (outcome_of json evs) else Err (OutRead err), s')"
    "streaming json i evs chunks' s'" "so_batch s' = []"
    using loop_streams[of json i "[]" "[]" "stream_init True" evs ev err rest] assms
    by (auto simp: stream_init_def BATCH_MAX_LINES_def)
  then show ?thesis
    by (intro exI[of _ s'] exI[of _ chunks']) (auto simp: stream_output_def streaming_def list_all_iff)
qed

theorem streamed_output_is_the_log_witness:
  "\<exists>s' chunks. stream_output (\<lambda>_. None) 7 ([StdoutLine ''make'', FlushTimer, StdoutLine ''done''] @ StdoutEof # []) True =
      Some (Ok (FinFailure, None, None), s') \<and>
    so_sent s' = number_chunks 7 0 chunks \<and> concat chunks = [''make'', ''done''] \<and> [] \<notin> set chunks"
  using streamed_output_is_the_log[of "[StdoutLine ''make'', FlushTimer, StdoutLine ''done'']" StdoutEof "[]" "\<lambda>_. None" 7 "[]"]
  by (auto simp: keeps_reading_def outcome_of_def reported_results_def log_of_def List.map_filter_def
      is_result_line_def starts_with_def)

end
