(* ===== verification/Cbs_Worker.thy ===== *)
theory Cbs_Worker
  imports Cbs_App Cbs_Worker_Output
begin

text \<open>
  The worker process: the supervisor that owns the active build across connections
  (\<open>cbsd-worker/src/build/supervisor.rs\<close>), the web socket loop (\<open>ws/handler.rs\<close>), the
  reconnect loop with its backoff (\<open>ws/connection.rs\<close>) and the signals to a subprocess
  (\<open>build/executor.rs\<close>). The tasks of the process meet at the supervisor's mutex and at the
  bounded channel of a connection. A step of the model is what one task does between two
  points where it may have to wait; a step is disabled (\<open>None\<close>) while its task waits.
\<close>

section \<open>Data\<close>

datatype BuildPhase = PhAccepted | PhStarted | PhRevoking | PhTerminalPendingReport

datatype signal = SIGTERM | SIGKILL

record BuildExecutor =
  ex_build_id :: build_id
  ex_pid :: nat
  ex_cancelled :: bool

text \<open>\<open>wb_output_task\<close> says whether the handle of the streaming task is stored.\<close>

record WorkerBuild =
  wb_build_id :: build_id
  wb_phase :: BuildPhase
  wb_component_dir :: string
  wb_executor :: "BuildExecutor option"
  wb_output_task :: bool
  wb_pending_terminal :: "WorkerMessage option"
  wb_spool_path :: "string option"
  wb_spool_bytes :: nat
  wb_spool_exhausted :: bool

datatype SupervisorError = Busy build_id

datatype RevokeOutcome = RevokingActive | NonActive build_id | RevokeIdle

datatype HandlerError =
  HSerialize | HSend | HConnectionClosed | HServerError string | HUnexpectedFrame | HReceive string

text \<open>What \<open>handle_build_new\<close> gets from the socket, the file system and the operating system.\<close>

record NewBuild =
  nb_build_id :: build_id
  nb_tarball :: "string + unit"
  nb_mkdir :: "string + unit"
  nb_unpack :: "string + string"
  nb_spawn :: "string + BuildExecutor"

record Snapshot =
  sn_build_id :: build_id
  sn_spool_path :: "string option"
  sn_pending_terminal :: "WorkerMessage option"

text \<open>The part of a retirement or a shutdown that follows the wait for the subprocess.\<close>

record Teardown =
  td_build_id :: build_id
  td_task :: bool
  td_component_dir :: string
  td_spool_path :: "string option"

text \<open>Where the reconnect loop and, inside it, \<open>run_connection\<close> are.\<close>

datatype loop_pc =
  LoopDown | LoopConnecting | LoopAttached | LoopDrain Snapshot | LoopReflect Snapshot "WorkerMessage list"
| LoopReplay "WorkerMessage list" | LoopSelect | LoopBuildNew NewBuild | LoopRevoke build_id
| LoopServerError | LoopShutdown | LoopTeardown Teardown | LoopDetach | LoopStopped

text \<open>A message is relayed from the supervisor, or sent by the loop itself.\<close>

datatype origin = Relayed | Direct

text \<open>
  \<open>w_lock\<close> is \<open>Some msg\<close> while the task that drains the subprocess holds the mutex and waits
  for room in the channel to send \<open>msg\<close>; every other operation releases the mutex before its
  step ends. \<open>w_rx\<close> is the receiving end of the channel of the current connection.
\<close>

record Worker =
  w_transport :: "nat option"
  w_active :: "WorkerBuild option"
  w_lock :: "WorkerMessage option"
  w_streamer :: "build_id option"
  w_rx :: "(nat \<times> WorkerMessage list) option"
  w_conns :: nat
  w_loop :: loop_pc
  w_stopping :: bool
  w_retires :: "build_id list"
  w_retiring :: "Teardown list"
  w_wire :: "(origin \<times> WorkerMessage) list"
  w_files :: "(string \<times> string) list"
  w_dirs :: "string list"
  w_io :: "io_outcome list"
  w_socket :: "bool list"
  w_signals :: "(int \<times> signal) list"
  w_escalations :: "int list"

record WorkerEnv =
  we_ser :: "WorkerMessage \<Rightarrow> string option"
  we_de :: "string \<Rightarrow> WorkerMessage option"
  we_spool_root :: string
  we_spool_cap :: nat

definition OUTPUT_CHANNEL_CAPACITY :: nat where
  "OUTPUT_CHANNEL_CAPACITY = 64"

definition DEFAULT_SPOOL_CAP_BYTES :: nat where
  "DEFAULT_SPOOL_CAP_BYTES = 64 * 1024 * 1024"

text \<open>A fresh process, with the outcomes its file operations and socket writes will have.\<close>

definition worker_new :: "io_outcome list \<Rightarrow> bool list \<Rightarrow> Worker" where
  "worker_new io socket = \<lparr>w_transport = None, w_active = None, w_lock = None, w_streamer = None, w_rx = None,
     w_conns = 0, w_loop = LoopDown, w_stopping = False, w_retires = [], w_retiring = [], w_wire = [],
     w_files = [], w_dirs = [], w_io = io, w_socket = socket, w_signals = [], w_escalations = []\<rparr>"

section \<open>The subprocess\<close>

definition kill_executor :: "BuildExecutor \<Rightarrow> Worker \<Rightarrow> BuildExecutor \<times> Worker" where
  "kill_executor e w =
     (if ex_cancelled e then (e, w)
      else let pgid = - int (ex_pid e) in
        (e\<lparr>ex_cancelled := True\<rparr>,
         w\<lparr>w_signals := w_signals w @ [(pgid, SIGTERM)], w_escalations := w_escalations w @ [pgid]\<rparr>))"

definition kill_active :: "WorkerBuild \<Rightarrow> Worker \<Rightarrow> WorkerBuild \<times> Worker" where
  "kill_active ab w =
     (case wb_executor ab of
        Some e \<Rightarrow> (let (e, w) = kill_executor e w in (ab\<lparr>wb_executor := Some e\<rparr>, w))
      | None \<Rightarrow> (ab, w))"

definition escalate :: "int \<Rightarrow> Worker \<Rightarrow> Worker" where
  "escalate pgid w = w\<lparr>w_escalations := remove1 pgid (w_escalations w), w_signals := w_signals w @ [(pgid, SIGKILL)]\<rparr>"

section \<open>Spool files\<close>

definition worker_io :: "Worker \<Rightarrow> io_outcome \<times> Worker" where
  "worker_io w = (case w_io w of [] \<Rightarrow> (IoOk, w) | r # rs \<Rightarrow> (r, w\<lparr>w_io := rs\<rparr>))"

definition append_file :: "string \<Rightarrow> string \<Rightarrow> Worker \<Rightarrow> Worker" where
  "append_file path s w = w\<lparr>w_files := AList.update path
     ((case map_of (w_files w) path of Some c \<Rightarrow> c | None \<Rightarrow> []) @ s) (w_files w)\<rparr>"

definition append_spool :: "string \<Rightarrow> string \<Rightarrow> Worker \<Rightarrow> (string + unit) \<times> Worker" where
  "append_spool path payload w =
     (case worker_io w of
        (IoFail e _, w) \<Rightarrow> (Err e, w)
      | (IoOk, w) \<Rightarrow>
     (case worker_io w of
        (IoFail e _, w) \<Rightarrow> (Err e, w)
      | (IoOk, w) \<Rightarrow>
        (let w = append_file path [] w in
     case worker_io w of
        (IoFail e n, w) \<Rightarrow> (Err e, append_file path (take n payload) w)
      | (IoOk, w) \<Rightarrow>
        (let w = append_file path payload w in
     case worker_io w of
        (IoFail e _, w) \<Rightarrow> (Err e, w)
      | (IoOk, w) \<Rightarrow>
        (let w = append_file path ''\<newline>'' w in
     case worker_io w of
        (IoFail e _, w) \<Rightarrow> (Err e, w)
      | (IoOk, w) \<Rightarrow> (Ok (), w))))))"

text \<open>\<open>Lines::next_line\<close>: lines end at a line feed, and a carriage return before it is dropped.\<close>

definition strip_cr :: "string \<Rightarrow> string" where
  "strip_cr s = (if s \<noteq> [] \<and> last s = CHR 0x0D then butlast s else s)"

fun lines_from :: "string \<Rightarrow> string \<Rightarrow> string list" where
  "lines_from acc [] = (if acc = [] then [] else [acc])"
| "lines_from acc (c # cs) =
     (if c = CHR 0x0A then strip_cr acc # lines_from [] cs else lines_from (acc @ [c]) cs)"

definition drain_spool :: "WorkerEnv \<Rightarrow> string \<Rightarrow> Worker \<Rightarrow> (string + WorkerMessage list) \<times> Worker" where
  "drain_spool env path w =
     (case worker_io w of
        (IoFail e _, w) \<Rightarrow> (Err e, w)
      | (IoOk, w) \<Rightarrow>
     (case map_of (w_files w) path of
        None \<Rightarrow> (Err ''No such file or directory'', w)
      | Some content \<Rightarrow>
     (case worker_io w of
        (IoFail e _, w) \<Rightarrow> (Err e, w)
      | (IoOk, w) \<Rightarrow>
          (Ok (List.map_filter (\<lambda>line. if line = [] then None else we_de env line) (lines_from [] content)), w))))"

definition remove_spool :: "string \<Rightarrow> Worker \<Rightarrow> Worker" where
  "remove_spool path w =
     (case worker_io w of
        (IoFail _ _, w) \<Rightarrow> w
      | (IoOk, w) \<Rightarrow> w\<lparr>w_files := AList.delete path (w_files w)\<rparr>)"

section \<open>The supervisor\<close>

definition register_accepted ::
  "build_id \<Rightarrow> BuildExecutor \<Rightarrow> string \<Rightarrow> Worker \<Rightarrow> (SupervisorError + unit) \<times> Worker" where
  "register_accepted i executor dir w =
     (case w_active w of
        Some ab \<Rightarrow> (Err (Busy (wb_build_id ab)), w)
      | None \<Rightarrow> (Ok (), w\<lparr>w_active := Some \<lparr>wb_build_id = i, wb_phase = PhAccepted, wb_component_dir = dir,
          wb_executor = Some executor, wb_output_task = False, wb_pending_terminal = None, wb_spool_path = None,
          wb_spool_bytes = 0, wb_spool_exhausted = False\<rparr>\<rparr>))"

definition attach_output_task :: "build_id \<Rightarrow> Worker \<Rightarrow> Worker" where
  "attach_output_task i w =
     (case w_active w of
        Some ab \<Rightarrow> if wb_build_id ab = i then w\<lparr>w_active := Some (ab\<lparr>wb_output_task := True\<rparr>)\<rparr> else w
      | None \<Rightarrow> w)"

definition mark_started :: "build_id \<Rightarrow> Worker \<Rightarrow> Worker" where
  "mark_started i w =
     (case w_active w of
        Some ab \<Rightarrow>
          if wb_build_id ab = i \<and> wb_phase ab = PhAccepted
          then w\<lparr>w_active := Some (ab\<lparr>wb_phase := PhStarted\<rparr>)\<rparr> else w
      | None \<Rightarrow> w)"

definition on_build_revoke :: "build_id \<Rightarrow> Worker \<Rightarrow> RevokeOutcome \<times> Worker" where
  "on_build_revoke i w =
     (case w_active w of
        Some ab \<Rightarrow>
          if wb_build_id ab = i then
            (let ab = ab\<lparr>wb_phase := PhRevoking, wb_pending_terminal := None\<rparr>;
                 (ab, w) = kill_active ab w
             in (RevokingActive, w\<lparr>w_active := Some ab\<rparr>))
          else (NonActive (wb_build_id ab), w)
      | None \<Rightarrow> (RevokeIdle, w))"

text \<open>Giving up on a build: the subprocess is killed and a failure becomes the pending result.\<close>

definition exhaust_spool :: "string \<Rightarrow> WorkerBuild \<Rightarrow> Worker \<Rightarrow> Worker" where
  "exhaust_spool err ab w =
     (let (ab, w) = kill_active (ab\<lparr>wb_spool_exhausted := True\<rparr>) w in
      w\<lparr>w_active := Some (ab\<lparr>wb_phase := PhTerminalPendingReport,
        wb_pending_terminal := Some (BuildFinished (wb_build_id ab) FinFailure (Some err) None)\<rparr>)\<rparr>)"

definition spool_path_of :: "WorkerEnv \<Rightarrow> build_id \<Rightarrow> string" where
  "spool_path_of env i = we_spool_root env @ ''/build-'' @ show_int i @ ''.spool''"

definition spool_and_finalize :: "WorkerEnv \<Rightarrow> WorkerMessage \<Rightarrow> bool \<Rightarrow> Worker \<Rightarrow> Worker" where
  "spool_and_finalize env msg is_terminal w =
     (case w_active w of
        None \<Rightarrow> w
      | Some ab \<Rightarrow>
        if wb_spool_exhausted ab then w
        else if is_terminal then
          w\<lparr>w_active := Some (ab\<lparr>wb_phase := PhTerminalPendingReport, wb_pending_terminal := Some msg\<rparr>)\<rparr>
        else
          (case we_ser env msg of
             None \<Rightarrow> w
           | Some serialized \<Rightarrow>
             (let new_total = min (2 ^ 64 - 1) (wb_spool_bytes ab + (length serialized + 1)) in
              if new_total > we_spool_cap env then
                exhaust_spool ''worker disconnected output spool exceeded'' ab w
              else
                (let path = (case wb_spool_path ab of Some p \<Rightarrow> p | None \<Rightarrow> spool_path_of env (wb_build_id ab));
                     ab = ab\<lparr>wb_spool_path := Some path\<rparr> in
                 case append_spool path serialized w of
                   (Ok _, w) \<Rightarrow> w\<lparr>w_active := Some (ab\<lparr>wb_spool_bytes := new_total\<rparr>)\<rparr>
                 | (Err err, w) \<Rightarrow> exhaust_spool (''worker spool write error: '' @ err) ab w))))"

text \<open>
  Sending on the supervisor's channel: it is closed once the loop dropped its receiver, and a
  full channel makes the sender wait.
\<close>

datatype send_result = Sent Worker | SendBlocked | SendClosed

definition channel_send :: "nat \<Rightarrow> WorkerMessage \<Rightarrow> Worker \<Rightarrow> send_result" where
  "channel_send c msg w =
     (case w_rx w of
        Some (c', q) \<Rightarrow>
          if c' \<noteq> c then SendClosed
          else if length q < OUTPUT_CHANNEL_CAPACITY then Sent (w\<lparr>w_rx := Some (c, q @ [msg])\<rparr>)
          else SendBlocked
      | None \<Rightarrow> SendClosed)"

definition send_or_spool :: "WorkerMessage \<Rightarrow> Worker \<Rightarrow> Worker" where
  "send_or_spool msg w =
     (case w_transport w of
        Some c \<Rightarrow>
          (case channel_send c msg w of
             Sent w \<Rightarrow> w | SendBlocked \<Rightarrow> w\<lparr>w_lock := Some msg\<rparr> | SendClosed \<Rightarrow> w)
      | None \<Rightarrow> w)"

fun output_build :: "WorkerMessage \<Rightarrow> build_id option" where
  "output_build (BuildOutput i _ _) = Some i"
| "output_build (BuildFinished i _ _ _) = Some i"
| "output_build _ = None"

fun is_finished :: "WorkerMessage \<Rightarrow> bool" where
  "is_finished (BuildFinished _ _ _ _) \<longleftrightarrow> True"
| "is_finished _ \<longleftrightarrow> False"

text \<open>
  The body of \<open>on_output_message\<close> once it holds the mutex. It runs again from the send when
  the wait for room is over.
\<close>

definition on_output_message :: "WorkerEnv \<Rightarrow> WorkerMessage \<Rightarrow> Worker \<Rightarrow> Worker" where
  "on_output_message env msg w =
     (case output_build msg of
        None \<Rightarrow> send_or_spool msg w
      | Some i \<Rightarrow>
        (case w_active w of
           None \<Rightarrow> w
         | Some ab \<Rightarrow>
           if wb_build_id ab \<noteq> i then w
           else
             (case w_transport w of
                Some c \<Rightarrow>
                  (case channel_send c msg w of
                     Sent w \<Rightarrow> w
                   | SendBlocked \<Rightarrow> w\<lparr>w_lock := Some msg\<rparr>
                   | SendClosed \<Rightarrow> spool_and_finalize env msg (is_finished msg) (w\<lparr>w_transport := None\<rparr>))
              | None \<Rightarrow> spool_and_finalize env msg (is_finished msg) w)))"

definition attach_transport :: "nat \<Rightarrow> Worker \<Rightarrow> Worker" where
  "attach_transport c w = w\<lparr>w_transport := Some c\<rparr>"

definition detach_transport :: "Worker \<Rightarrow> Worker" where
  "detach_transport w = w\<lparr>w_transport := None\<rparr>"

definition active_build_id :: "Worker \<Rightarrow> build_id option" where
  "active_build_id w = map_option wb_build_id (w_active w)"

subsection \<open>The messages of a reconnection\<close>

text \<open>
  \<open>take_reconnect_messages\<close> in its three parts: a snapshot under the mutex, which takes the
  pending result out of the state, the reading of the spool without it, and the reset of the
  spool under the mutex. Without an active build there is only the idle status.
\<close>

definition take_snapshot :: "Worker \<Rightarrow> Snapshot option \<times> Worker" where
  "take_snapshot w =
     (case w_active w of
        None \<Rightarrow> (None, w)
      | Some ab \<Rightarrow>
        (let terminal = (if wb_phase ab = PhTerminalPendingReport then wb_pending_terminal ab else None);
             ab' = (if wb_phase ab = PhTerminalPendingReport then ab\<lparr>wb_pending_terminal := None\<rparr> else ab)
         in (Some \<lparr>sn_build_id = wb_build_id ab,
               sn_spool_path = (if wb_spool_bytes ab > 0 then wb_spool_path ab else None),
               sn_pending_terminal = terminal\<rparr>, w\<lparr>w_active := Some ab'\<rparr>)))"

definition idle_messages :: "WorkerMessage list" where
  "idle_messages = [WorkerStatus RepIdle None]"

definition drain_snapshot :: "WorkerEnv \<Rightarrow> Snapshot \<Rightarrow> Worker \<Rightarrow> WorkerMessage list \<times> Worker" where
  "drain_snapshot env sn w =
     (let out = [WorkerStatus RepBuilding (Some (sn_build_id sn))] in
      case sn_spool_path sn of
        None \<Rightarrow> (out, w)
      | Some path \<Rightarrow>
        (case drain_spool env path w of
           (Ok msgs, w) \<Rightarrow> (out @ msgs, remove_spool path w)
         | (Err _, w) \<Rightarrow> (out, remove_spool path w)))"

definition reflect_drain :: "Snapshot \<Rightarrow> WorkerMessage list \<Rightarrow> Worker \<Rightarrow> WorkerMessage list \<times> Worker" where
  "reflect_drain sn out w =
     (let w = (case w_active w of
          Some ab \<Rightarrow>
            if sn_spool_path sn \<noteq> None \<and> wb_build_id ab = sn_build_id sn
            then w\<lparr>w_active := Some (ab\<lparr>wb_spool_bytes := 0, wb_spool_path := None\<rparr>)\<rparr> else w
        | None \<Rightarrow> w)
      in (out @ (case sn_pending_terminal sn of Some t \<Rightarrow> [t] | None \<Rightarrow> []), w))"

subsection \<open>Retirement and shutdown\<close>

definition take_teardown :: "WorkerBuild \<Rightarrow> Worker \<Rightarrow> Teardown \<times> Worker" where
  "take_teardown ab w =
     (\<lparr>td_build_id = wb_build_id ab, td_task = wb_output_task ab, td_component_dir = wb_component_dir ab,
        td_spool_path = wb_spool_path ab\<rparr>,
      w\<lparr>w_active := Some (ab\<lparr>wb_output_task := False, wb_executor := None, wb_spool_path := None\<rparr>)\<rparr>)"

definition retire_begin :: "build_id \<Rightarrow> Worker \<Rightarrow> Worker" where
  "retire_begin i w =
     (case w_active w of
        None \<Rightarrow> w
      | Some ab \<Rightarrow>
        if wb_build_id ab \<noteq> i then w
        else let (td, w) = take_teardown ab w in w\<lparr>w_retiring := w_retiring w @ [td]\<rparr>)"

definition cleanup :: "string \<Rightarrow> Worker \<Rightarrow> Worker" where
  "cleanup dir w = w\<lparr>w_dirs := removeAll dir (w_dirs w)\<rparr>"

definition finish_teardown :: "Teardown \<Rightarrow> Worker \<Rightarrow> Worker" where
  "finish_teardown td w =
     (let w = cleanup (td_component_dir td) w;
          w = (case td_spool_path td of Some path \<Rightarrow> remove_spool path w | None \<Rightarrow> w)
      in case w_active w of
           Some ab \<Rightarrow> if wb_build_id ab = td_build_id td then w\<lparr>w_active := None\<rparr> else w
         | None \<Rightarrow> w)"

definition shutdown_begin :: "Worker \<Rightarrow> Teardown option \<times> Worker" where
  "shutdown_begin w =
     (case w_active w of
        None \<Rightarrow> (None, w)
      | Some ab \<Rightarrow>
        (let (ab, w) = kill_active ab w; (td, w) = take_teardown ab w in (Some td, w)))"

section \<open>The web socket loop\<close>

definition send_msg :: "WorkerEnv \<Rightarrow> origin \<Rightarrow> WorkerMessage \<Rightarrow> Worker \<Rightarrow> (HandlerError + unit) \<times> Worker" where
  "send_msg env from msg w =
     (case we_ser env msg of
        None \<Rightarrow> (Err HSerialize, w)
      | Some _ \<Rightarrow>
        (case w_socket w of
           False # rs \<Rightarrow> (Err HSend, w\<lparr>w_socket := rs\<rparr>)
         | True # rs \<Rightarrow> (Ok (), w\<lparr>w_socket := rs, w_wire := w_wire w @ [(from, msg)]\<rparr>)
         | [] \<Rightarrow> (Ok (), w\<lparr>w_wire := w_wire w @ [(from, msg)]\<rparr>)))"

text \<open>
  \<open>run_connection\<close> returns: the receiver of the channel is dropped with the messages it holds,
  and the reconnect loop will detach the transport.
\<close>

definition close_connection :: "Worker \<Rightarrow> Worker" where
  "close_connection w = w\<lparr>w_rx := None, w_loop := LoopDetach\<rparr>"

definition handle_build_new :: "WorkerEnv \<Rightarrow> NewBuild \<Rightarrow> Worker \<Rightarrow> (HandlerError + unit) \<times> Worker" where
  "handle_build_new env nb w =
     (let i = nb_build_id nb in
      if active_build_id w \<noteq> None then send_msg env Direct (BuildRejected i ''worker is busy'') w
      else case nb_tarball nb of
        Err err \<Rightarrow> send_msg env Direct (BuildRejected i (''failed to read component tarball: '' @ err)) w
      | Ok _ \<Rightarrow>
      (case nb_mkdir nb of
        Err err \<Rightarrow> send_msg env Direct (BuildRejected i (''failed to create temp directory: '' @ err)) w
      | Ok _ \<Rightarrow>
      (case nb_unpack nb of
        Err _ \<Rightarrow> send_msg env Direct (BuildRejected i ''component integrity check failed'') w
      | Ok dir \<Rightarrow>
        (let w = w\<lparr>w_dirs := w_dirs w @ [dir]\<rparr> in
      case send_msg env Direct (BuildAccepted i) w of
        (Err e, w) \<Rightarrow> (Err e, w)
      | (Ok _, w) \<Rightarrow>
      (case nb_spawn nb of
        Err err \<Rightarrow>
          send_msg env Direct (BuildFinished i FinFailure (Some (''spawn failed: '' @ err)) None) (cleanup dir w)
      | Ok executor \<Rightarrow>
      (case register_accepted i executor dir w of
        (Err (Busy active), w) \<Rightarrow>
          send_msg env Direct (BuildFinished i FinFailure
            (Some (''supervisor: worker is busy with build '' @ show_int active)) None) w
      | (Ok _, w) \<Rightarrow>
      (case send_msg env Direct (BuildStarted i) w of
        (Err e, w) \<Rightarrow> (Err e, w)
      | (Ok _, w) \<Rightarrow>
          (Ok (), attach_output_task i ((mark_started i w)\<lparr>w_streamer := Some i\<rparr>)))))))))"

definition handle_revoke :: "WorkerEnv \<Rightarrow> build_id \<Rightarrow> Worker \<Rightarrow> (HandlerError + unit) \<times> Worker" where
  "handle_revoke env i w =
     (case on_build_revoke i w of
        (RevokingActive, w) \<Rightarrow> (Ok (), w)
      | (NonActive _, w) \<Rightarrow> (Ok (), w)
      | (RevokeIdle, w) \<Rightarrow> send_msg env Direct (BuildFinished i FinRevoked None None) w)"

text \<open>Sending a message of the supervisor; a terminal one spawns the task that retires its build.\<close>

definition relay :: "WorkerEnv \<Rightarrow> WorkerMessage \<Rightarrow> Worker \<Rightarrow> (HandlerError + unit) \<times> Worker" where
  "relay env msg w =
     (case send_msg env Relayed msg w of
        (Err e, w) \<Rightarrow> (Err e, w)
      | (Ok _, w) \<Rightarrow>
        (Ok (), case msg of BuildFinished i _ _ _ \<Rightarrow> w\<lparr>w_retires := w_retires w @ [i]\<rparr> | _ \<Rightarrow> w))"

definition continue_at :: "loop_pc \<Rightarrow> (HandlerError + unit) \<times> Worker \<Rightarrow> Worker" where
  "continue_at pc r = (case r of (Ok _, w) \<Rightarrow> w\<lparr>w_loop := pc\<rparr> | (Err _, w) \<Rightarrow> close_connection w)"

section \<open>Backoff\<close>

text \<open>
  The delays in whole seconds before jitter: one second, then doubling up to the ceiling. These
  are exact in the \<open>f64\<close> of the code; the jitter is drawn by the random generator.
\<close>

record Backoff =
  bo_ceiling_secs :: nat
  bo_current :: nat

definition backoff_new :: "nat \<Rightarrow> Backoff" where
  "backoff_new ceiling = \<lparr>bo_ceiling_secs = ceiling, bo_current = 0\<rparr>"

definition next_delay :: "Backoff \<Rightarrow> nat \<times> Backoff" where
  "next_delay b =
     (let c = (if bo_current b = 0 then 1 else min (bo_current b * 2) (bo_ceiling_secs b))
      in (c, b\<lparr>bo_current := c\<rparr>))"

definition backoff_reset :: "Backoff \<Rightarrow> Backoff" where
  "backoff_reset b = b\<lparr>bo_current := 0\<rparr>"

section \<open>Steps of the process\<close>

datatype worker_event =
  TryConnect | ConnectFailed | Connected | TakeSnapshot | DrainSpool | ReflectDrain | Replay
| FrameBuildNew NewBuild | FrameRevoke build_id | FrameIgnored | FrameError | RunBuildNew | RunRevoke | RunServerError
| ConnectionLost | Forward | Detach
| Produce WorkerMessage | ResumeSend | RetireBegin build_id | RetireEnd nat | Escalate int
| Sigterm bool | ShutdownBegin | ShutdownEnd

abbreviation unlocked :: "Worker \<Rightarrow> bool" where
  "unlocked w \<equiv> w_lock w = None"

definition enabled_if :: "bool \<Rightarrow> Worker \<Rightarrow> Worker option" where
  "enabled_if b w = (if b then Some w else None)"

text \<open>The streaming task ends with its terminal message.\<close>

definition produced :: "WorkerMessage \<Rightarrow> Worker \<Rightarrow> Worker" where
  "produced msg w = (if w_lock w = None \<and> is_finished msg then w\<lparr>w_streamer := None\<rparr> else w)"

definition teardown_ready :: "Teardown \<Rightarrow> Worker \<Rightarrow> bool" where
  "teardown_ready td w \<longleftrightarrow> unlocked w \<and> (td_task td \<longrightarrow> w_streamer w \<noteq> Some (td_build_id td))"

text \<open>
  The steps. The loop commits to a frame when it reads it, and then needs the mutex to handle
  it. A termination signal wakes the loop only while it waits in \<open>select!\<close>, and only if that
  branch is the one that is chosen (\<open>Sigterm True\<close>); the flag it sets disables the branch from
  then on.
\<close>

fun worker_step :: "WorkerEnv \<Rightarrow> worker_event \<Rightarrow> Worker \<Rightarrow> Worker option" where
  "worker_step env TryConnect w =
     enabled_if (w_loop w = LoopDown) (w\<lparr>w_loop := (if w_stopping w then LoopStopped else LoopConnecting)\<rparr>)"
| "worker_step env ConnectFailed w = enabled_if (w_loop w = LoopConnecting) (w\<lparr>w_loop := LoopDown\<rparr>)"
| "worker_step env Connected w =
     enabled_if (w_loop w = LoopConnecting \<and> unlocked w)
       (attach_transport (w_conns w)
         (w\<lparr>w_rx := Some (w_conns w, []), w_conns := w_conns w + 1, w_loop := LoopAttached\<rparr>))"
| "worker_step env TakeSnapshot w =
     enabled_if (w_loop w = LoopAttached \<and> unlocked w)
       (case take_snapshot w of
          (None, w) \<Rightarrow> w\<lparr>w_loop := LoopReplay idle_messages\<rparr>
        | (Some sn, w) \<Rightarrow> w\<lparr>w_loop := LoopDrain sn\<rparr>)"
| "worker_step env DrainSpool w =
     (case w_loop w of
        LoopDrain sn \<Rightarrow> (case drain_snapshot env sn w of (out, w) \<Rightarrow> Some (w\<lparr>w_loop := LoopReflect sn out\<rparr>))
      | _ \<Rightarrow> None)"
| "worker_step env ReflectDrain w =
     (case w_loop w of
        LoopReflect sn out \<Rightarrow>
          enabled_if (sn_spool_path sn = None \<or> unlocked w)
            (case reflect_drain sn out w of (out, w) \<Rightarrow> w\<lparr>w_loop := LoopReplay out\<rparr>)
      | _ \<Rightarrow> None)"
| "worker_step env Replay w =
     (case w_loop w of
        LoopReplay (msg # msgs) \<Rightarrow> Some (continue_at (LoopReplay msgs) (relay env msg w))
      | LoopReplay [] \<Rightarrow> Some (w\<lparr>w_loop := LoopSelect\<rparr>)
      | _ \<Rightarrow> None)"
| "worker_step env (FrameBuildNew nb) w = enabled_if (w_loop w = LoopSelect) (w\<lparr>w_loop := LoopBuildNew nb\<rparr>)"
| "worker_step env (FrameRevoke i) w = enabled_if (w_loop w = LoopSelect) (w\<lparr>w_loop := LoopRevoke i\<rparr>)"
| "worker_step env FrameIgnored w = enabled_if (w_loop w = LoopSelect) w"
| "worker_step env FrameError w = enabled_if (w_loop w = LoopSelect) (w\<lparr>w_loop := LoopServerError\<rparr>)"
| "worker_step env RunBuildNew w =
     (case w_loop w of
        LoopBuildNew nb \<Rightarrow> enabled_if (unlocked w) (continue_at LoopSelect (handle_build_new env nb w))
      | _ \<Rightarrow> None)"
| "worker_step env RunRevoke w =
     (case w_loop w of
        LoopRevoke i \<Rightarrow> enabled_if (unlocked w) (continue_at LoopSelect (handle_revoke env i w))
      | _ \<Rightarrow> None)"
| "worker_step env RunServerError w =
     enabled_if (w_loop w = LoopServerError \<and> unlocked w) (close_connection (detach_transport w))"
| "worker_step env ConnectionLost w = enabled_if (w_loop w = LoopSelect) (close_connection w)"
| "worker_step env Forward w =
     (case w_rx w of
        Some (c, msg # q) \<Rightarrow>
          enabled_if (w_loop w = LoopSelect) (continue_at LoopSelect (relay env msg (w\<lparr>w_rx := Some (c, q)\<rparr>)))
      | _ \<Rightarrow> None)"
| "worker_step env Detach w =
     enabled_if (w_loop w = LoopDetach \<and> unlocked w) ((detach_transport w)\<lparr>w_loop := LoopDown\<rparr>)"
| "worker_step env (Produce msg) w =
     enabled_if (unlocked w \<and> output_build msg \<noteq> None \<and> w_streamer w = output_build msg)
       (produced msg (on_output_message env msg w))"
| "worker_step env ResumeSend w =
     (case w_lock w of
        Some msg \<Rightarrow>
          (let w' = on_output_message env msg (w\<lparr>w_lock := None\<rparr>)
           in enabled_if (unlocked w') (produced msg w'))
      | None \<Rightarrow> None)"
| "worker_step env (RetireBegin i) w =
     enabled_if (i \<in> set (w_retires w) \<and> unlocked w) (retire_begin i (w\<lparr>w_retires := remove1 i (w_retires w)\<rparr>))"
| "worker_step env (RetireEnd n) w =
     (if n < length (w_retiring w) then
        (let td = w_retiring w ! n in
         enabled_if (teardown_ready td w)
           (finish_teardown td (w\<lparr>w_retiring := take n (w_retiring w) @ drop (Suc n) (w_retiring w)\<rparr>)))
      else None)"
| "worker_step env (Escalate pgid) w = enabled_if (pgid \<in> set (w_escalations w)) (escalate pgid w)"
| "worker_step env (Sigterm chosen) w =
     enabled_if (\<not> w_stopping w \<and> (chosen \<longrightarrow> w_loop w = LoopSelect))
       (let w = w\<lparr>w_stopping := True\<rparr> in
        if chosen then (snd (send_msg env Direct (WorkerStopping ''SIGTERM received'') w))\<lparr>w_loop := LoopShutdown\<rparr>
        else w)"
| "worker_step env ShutdownBegin w =
     enabled_if (w_loop w = LoopShutdown \<and> unlocked w)
       (case shutdown_begin w of
          (Some td, w) \<Rightarrow> w\<lparr>w_loop := LoopTeardown td\<rparr>
        | (None, w) \<Rightarrow> close_connection (detach_transport w))"
| "worker_step env ShutdownEnd w =
     (case w_loop w of
        LoopTeardown td \<Rightarrow>
          enabled_if (teardown_ready td w) (close_connection (detach_transport (finish_teardown td w)))
      | _ \<Rightarrow> None)"

fun worker_run :: "WorkerEnv \<Rightarrow> worker_event list \<Rightarrow> Worker \<Rightarrow> Worker option" where
  "worker_run env [] w = Some w"
| "worker_run env (ev # evs) w =
     (case worker_step env ev w of Some w' \<Rightarrow> worker_run env evs w' | None \<Rightarrow> None)"

end
