(* ===== verification/Cbs_Worker_Spec.thy ===== *)
theory Cbs_Worker_Spec
  imports Cbs_Worker
begin

text \<open>
  What the worker process promises and where it falls short: output reaches the server once
  and in order across reconnections that lose no buffered message, a terminal message that is
  lost leaves the worker busy for good, and a full channel can stop the process.
\<close>

section \<open>A worker that never becomes idle\<close>

fun loop_messages :: "loop_pc \<Rightarrow> WorkerMessage list" where
  "loop_messages (LoopReflect sn out) = out @ (case sn_pending_terminal sn of Some t \<Rightarrow> [t] | None \<Rightarrow> [])"
| "loop_messages (LoopReplay out) = out"
| "loop_messages (LoopDrain sn) = (case sn_pending_terminal sn of Some t \<Rightarrow> [t] | None \<Rightarrow> [])"
| "loop_messages _ = []"

fun shutting_down :: "loop_pc \<Rightarrow> bool" where
  "shutting_down LoopShutdown \<longleftrightarrow> True"
| "shutting_down (LoopTeardown _) \<longleftrightarrow> True"
| "shutting_down _ \<longleftrightarrow> False"

fun drains_spool :: "loop_pc \<Rightarrow> bool" where
  "drains_spool (LoopDrain sn) \<longleftrightarrow> sn_spool_path sn \<noteq> None"
| "drains_spool _ \<longleftrightarrow> False"

definition queued_messages :: "Worker \<Rightarrow> WorkerMessage list" where
  "queued_messages w = (case w_rx w of Some (_, q) \<Rightarrow> q | None \<Rightarrow> [])"

text \<open>
  The active build has no task left that could end it: nothing streams its output, and no
  terminal message for it is pending, buffered or sent.
\<close>

definition wedged :: "build_id \<Rightarrow> Worker \<Rightarrow> bool" where
  "wedged i w \<longleftrightarrow>
     (\<exists>ab. w_active w = Some ab \<and> wb_build_id ab = i \<and> wb_pending_terminal ab = None \<and> wb_spool_bytes ab = 0) \<and>
     w_streamer w = None \<and> w_lock w = None \<and> i \<notin> set (w_retires w) \<and>
     list_all (\<lambda>td. td_build_id td \<noteq> i) (w_retiring w) \<and> \<not> shutting_down (w_loop w) \<and> \<not> drains_spool (w_loop w) \<and>
     list_all (\<lambda>m. \<not> is_finished m) (loop_messages (w_loop w)) \<and> list_all (\<lambda>m. \<not> is_finished m) (queued_messages w) \<and>
     list_all (\<lambda>(_, m). is_finished m \<longrightarrow> output_build m \<noteq> Some i) (w_wire w)"

lemma wedgedI [intro?]:
  assumes "w_active w = Some ab" "wb_build_id ab = i" "wb_pending_terminal ab = None" "wb_spool_bytes ab = 0"
    "w_streamer w = None" "w_lock w = None" "i \<notin> set (w_retires w)"
    "list_all (\<lambda>td. td_build_id td \<noteq> i) (w_retiring w)" "\<not> shutting_down (w_loop w)" "\<not> drains_spool (w_loop w)"
    "list_all (\<lambda>m. \<not> is_finished m) (loop_messages (w_loop w))" "list_all (\<lambda>m. \<not> is_finished m) (queued_messages w)"
    "list_all (\<lambda>(_, m). is_finished m \<longrightarrow> output_build m \<noteq> Some i) (w_wire w)"
  shows "wedged i w"
  using assms by (simp add: wedged_def)

lemma send_msg_cases:
  obtains e rs where "send_msg env from m w = (Err e, w\<lparr>w_socket := rs\<rparr>)"
  | rs where "send_msg env from m w = (Ok (), w\<lparr>w_socket := rs, w_wire := w_wire w @ [(from, m)]\<rparr>)"
proof (cases "we_ser env m")
  case None
  then have "send_msg env from m w = (Err HSerialize, w\<lparr>w_socket := w_socket w\<rparr>)" by (simp add: send_msg_def)
  then show ?thesis by (rule that(1))
next
  case (Some x)
  show ?thesis
  proof (cases "w_socket w")
    case Nil
    then have "send_msg env from m w = (Ok (), w\<lparr>w_socket := [], w_wire := w_wire w @ [(from, m)]\<rparr>)"
      using Some by (simp add: send_msg_def)
    then show ?thesis by (rule that(2))
  next
    case (Cons b rs)
    then show ?thesis using Some that(1)[of HSend rs] that(2)[of rs] by (cases b) (simp_all add: send_msg_def)
  qed
qed

definition quiet_pc :: "loop_pc \<Rightarrow> bool" where
  "quiet_pc pc \<longleftrightarrow> \<not> shutting_down pc \<and> \<not> drains_spool pc \<and> list_all (\<lambda>m. \<not> is_finished m) (loop_messages pc)"

lemma wedged_loop: "wedged i w \<Longrightarrow> quiet_pc pc \<Longrightarrow> wedged i (w\<lparr>w_loop := pc\<rparr>)"
  by (simp add: wedged_def quiet_pc_def queued_messages_def)

lemma wedged_close: "wedged i w \<Longrightarrow> wedged i (close_connection w)"
  by (simp add: wedged_def close_connection_def queued_messages_def)

lemma wedged_send:
  assumes "wedged i w" "is_finished m \<longrightarrow> output_build m \<noteq> Some i"
  shows "wedged i (snd (send_msg env from m w))"
  using assms by (cases env "from" m w rule: send_msg_cases) (auto simp: wedged_def queued_messages_def)

lemma wedged_continue: "wedged i (snd r) \<Longrightarrow> quiet_pc pc \<Longrightarrow> wedged i (continue_at pc r)"
  by (cases r) (auto simp: continue_at_def wedged_loop wedged_close split: sum.splits)

lemma relay_quiet: "\<not> is_finished m \<Longrightarrow> relay env m w = send_msg env Relayed m w"
  by (cases m) (auto simp: relay_def split: prod.splits sum.splits)

lemma busy_rejects:
  "w_active w = Some ab \<Longrightarrow> handle_build_new env nb w = send_msg env Direct (BuildRejected (nb_build_id nb) ''worker is busy'') w"
  by (simp add: handle_build_new_def active_build_id_def Let_def)

lemma wedged_build_new: "wedged i w \<Longrightarrow> wedged i (snd (handle_build_new env nb w))"
proof -
  assume w: "wedged i w"
  then obtain ab where "w_active w = Some ab" by (auto simp: wedged_def)
  then show ?thesis using wedged_send[OF w, of "BuildRejected (nb_build_id nb) ''worker is busy''"] by (simp add: busy_rejects)
qed

lemma wedged_revoke: "wedged i w \<Longrightarrow> wedged i (snd (handle_revoke env j w))"
  by (auto simp: wedged_def handle_revoke_def on_build_revoke_def kill_active_def kill_executor_def queued_messages_def
      Let_def split: option.splits)

lemma wedged_snapshot:
  assumes "wedged i w"
  shows "\<exists>sn w'. take_snapshot w = (Some sn, w') \<and> quiet_pc (LoopDrain sn) \<and> wedged i w'"
  using assms by (auto simp: wedged_def take_snapshot_def quiet_pc_def queued_messages_def)

lemma wedged_retire_begin: "wedged i w \<Longrightarrow> j \<noteq> i \<Longrightarrow> wedged i (retire_begin j w)"
  by (auto simp: wedged_def retire_begin_def)

lemma wedged_remove_spool: "wedged i w \<Longrightarrow> wedged i (remove_spool path w)"
  by (auto simp: wedged_def remove_spool_def worker_io_def queued_messages_def split: list.splits io_outcome.splits)

lemma wedged_teardown:
  assumes "wedged i w" "td_build_id td \<noteq> i"
  shows "wedged i (finish_teardown td w)"
proof -
  let ?w = "case td_spool_path td of Some path \<Rightarrow> remove_spool path (cleanup (td_component_dir td) w) | None \<Rightarrow> cleanup (td_component_dir td) w"
  have "wedged i (cleanup (td_component_dir td) w)" using assms(1) by (simp add: wedged_def cleanup_def queued_messages_def)
  then have w: "wedged i ?w" by (simp add: wedged_remove_spool split: option.splits)
  then show ?thesis using assms(2) by (auto simp: finish_teardown_def Let_def wedged_def)
qed

lemma enabled_if_Some [simp]: "enabled_if b w = Some w' \<longleftrightarrow> b \<and> w' = w"
  by (auto simp: enabled_if_def)

lemma wedged_set:
  "wedged i w \<Longrightarrow> wedged i (w\<lparr>w_stopping := b\<rparr>)"
  "wedged i w \<Longrightarrow> wedged i (attach_transport c w)"
  "wedged i w \<Longrightarrow> wedged i (detach_transport w)"
  "wedged i w \<Longrightarrow> wedged i (escalate pgid w)"
  "wedged i w \<Longrightarrow> wedged i (w\<lparr>w_conns := n\<rparr>)"
  "wedged i w \<Longrightarrow> wedged i (w\<lparr>w_retires := remove1 j (w_retires w)\<rparr>)"
  "wedged i w \<Longrightarrow> list_all (\<lambda>m. \<not> is_finished m) q \<Longrightarrow> wedged i (w\<lparr>w_rx := Some (c, q)\<rparr>)"
  by (auto simp: wedged_def attach_transport_def detach_transport_def escalate_def queued_messages_def dest: in_set_remove1)

lemma wedged_retiring:
  assumes "wedged i w"
  shows "wedged i (w\<lparr>w_retiring := take n (w_retiring w) @ drop (Suc n) (w_retiring w)\<rparr>)"
  using assms by (auto simp: wedged_def queued_messages_def list_all_iff dest: in_set_takeD in_set_dropD)

lemma quiet_pc_simps [simp]:
  "quiet_pc LoopDown" "quiet_pc LoopConnecting" "quiet_pc LoopAttached" "quiet_pc LoopSelect" "quiet_pc (LoopBuildNew nb)"
  "quiet_pc (LoopRevoke j)" "quiet_pc LoopServerError" "quiet_pc LoopDetach" "quiet_pc LoopStopped"
  "quiet_pc (LoopReplay ms) \<longleftrightarrow> list_all (\<lambda>m. \<not> is_finished m) ms"
  by (simp_all add: quiet_pc_def)

lemma wedged_pc: "wedged i w \<Longrightarrow> quiet_pc (w_loop w)"
  by (simp add: wedged_def quiet_pc_def)

lemma wedged_step:
  assumes w: "wedged i w" and st: "worker_step env ev w = Some w'" and ev: "ev \<noteq> Sigterm True"
  shows "wedged i w'"
proof (cases ev)
  case TakeSnapshot
  obtain sn w1 where "take_snapshot w = (Some sn, w1)" "quiet_pc (LoopDrain sn)" "wedged i w1"
    using wedged_snapshot[OF w] by blast
  then show ?thesis using st TakeSnapshot by (auto intro: wedged_loop)
next
  case DrainSpool
  then obtain sn where sn: "w_loop w = LoopDrain sn" using st by (auto split: loop_pc.splits)
  then have "quiet_pc (LoopDrain sn)" using wedged_pc[OF w] by simp
  then show ?thesis using w st DrainSpool sn
    by (auto simp: drain_snapshot_def quiet_pc_def Let_def intro!: wedged_loop split: option.splits)
next
  case ReflectDrain
  then obtain sn out where sn: "w_loop w = LoopReflect sn out" using st by (auto split: loop_pc.splits)
  then have q: "list_all (\<lambda>m. \<not> is_finished m) (out @ (case sn_pending_terminal sn of Some t \<Rightarrow> [t] | None \<Rightarrow> []))"
    using wedged_pc[OF w] by (simp add: quiet_pc_def)
  have "wedged i (snd (reflect_drain sn out w))"
    by (cases "sn_spool_path sn \<noteq> None \<and> i = sn_build_id sn")
      (use w in \<open>auto simp: reflect_drain_def Let_def wedged_def queued_messages_def\<close>)
  moreover have "fst (reflect_drain sn out w) = out @ (case sn_pending_terminal sn of Some t \<Rightarrow> [t] | None \<Rightarrow> [])"
    by (simp add: reflect_drain_def Let_def)
  ultimately show ?thesis using st ReflectDrain sn q by (auto simp: case_prod_beta intro!: wedged_loop)
next
  case Replay
  then obtain ms where ms: "w_loop w = LoopReplay ms" using st by (auto split: loop_pc.splits)
  then have q: "list_all (\<lambda>m. \<not> is_finished m) ms" using wedged_pc[OF w] by simp
  show ?thesis using st Replay ms q
    by (cases ms) (auto simp: relay_quiet intro!: wedged_loop wedged_continue wedged_send w)
next
  case RunBuildNew
  then show ?thesis using st by (auto split: loop_pc.splits intro!: wedged_continue wedged_build_new w)
next
  case RunRevoke
  then show ?thesis using st by (auto split: loop_pc.splits intro!: wedged_continue wedged_revoke w)
next
  case Forward
  then obtain c m q where rx: "w_rx w = Some (c, m # q)" "w' = continue_at LoopSelect (relay env m (w\<lparr>w_rx := Some (c, q)\<rparr>))"
    using st by (auto split: option.splits list.splits)
  then have m: "\<not> is_finished m" "list_all (\<lambda>m. \<not> is_finished m) q" using w by (auto simp: wedged_def queued_messages_def)
  have "wedged i (w\<lparr>w_rx := Some (c, q)\<rparr>)" by (rule wedged_set(7)[OF w m(2)])
  then show ?thesis using rx(2) m(1) by (auto simp: relay_quiet intro!: wedged_continue wedged_send)
next
  case (RetireBegin j)
  then have "j \<noteq> i" using st w by (auto simp: wedged_def)
  then show ?thesis using st RetireBegin by (auto intro!: wedged_retire_begin wedged_set(6) w)
next
  case (RetireEnd n)
  then have "td_build_id (w_retiring w ! n) \<noteq> i" using st w by (auto simp: wedged_def list_all_length split: if_splits)
  then show ?thesis using st RetireEnd by (auto simp: Let_def intro!: wedged_teardown wedged_retiring w split: if_splits)
qed (use w st ev in \<open>auto simp: wedged_def queued_messages_def Let_def close_connection_def attach_transport_def
  detach_transport_def escalate_def split: loop_pc.splits option.splits\<close>)

lemma wedged_run:
  "wedged i w \<Longrightarrow> worker_run env evs w = Some w' \<Longrightarrow> Sigterm True \<notin> set evs \<Longrightarrow> wedged i w'"
  by (induction evs arbitrary: w) (auto split: option.splits dest: wedged_step)

definition good_build :: "build_id \<Rightarrow> string \<Rightarrow> BuildExecutor \<Rightarrow> NewBuild" where
  "good_build i dir e =
     \<lparr>nb_build_id = i, nb_tarball = Ok (), nb_mkdir = Ok (), nb_unpack = Ok dir, nb_spawn = Ok e\<rparr>"

text \<open>A first connection, and the dispatch of a build over it.\<close>

definition start_events :: "NewBuild \<Rightarrow> worker_event list" where
  "start_events nb = [TryConnect, Connected, TakeSnapshot, Replay, Replay, FrameBuildNew nb, RunBuildNew]"

text \<open>
  Three short runs with the results of their socket writes: the connection ends while the
  terminal message waits in the channel; the terminal message of a build that ended without a
  connection cannot be written on the next one; \<open>BuildStarted\<close> cannot be written.
\<close>

definition losing_runs :: "NewBuild \<Rightarrow> (worker_event list \<times> bool list) list" where
  "losing_runs nb =
     (let fin = Produce (BuildFinished (nb_build_id nb) FinSuccess None None) in
      [(start_events nb @ [fin, ConnectionLost, Detach], []),
       (start_events nb @ [ConnectionLost, Detach, fin, TryConnect, Connected, TakeSnapshot, DrainSpool, ReflectDrain,
          Replay, Replay, Detach], [True, True, True, True, False]),
       (start_events nb @ [Detach], [True, True, False])])"

lemmas worker_op_defs = attach_transport_def detach_transport_def take_snapshot_def idle_messages_def relay_def send_msg_def
  continue_at_def close_connection_def handle_build_new_def active_build_id_def register_accepted_def mark_started_def
  attach_output_task_def on_output_message_def spool_and_finalize_def channel_send_def produced_def drain_snapshot_def
  reflect_drain_def OUTPUT_CHANNEL_CAPACITY_def worker_new_def enabled_if_def Let_def

lemma losing_run_wedges:
  assumes ser: "\<And>m. \<exists>s. we_ser env m = Some s" and r: "(evs, socket) \<in> set (losing_runs (good_build i dir e))"
  shows "\<exists>w. worker_run env evs (worker_new [] socket) = Some w \<and> wedged i w"
proof -
  have [simp]: "(case we_ser env m of None \<Rightarrow> a | Some _ \<Rightarrow> b) = b" for m and a b :: "(HandlerError + unit) \<times> Worker"
    using ser[of m] by auto
  show ?thesis using r
    by (auto simp: losing_runs_def start_events_def good_build_def worker_op_defs wedged_def queued_messages_def)
qed

text \<open>
  C39. When the message that a build ended is lost, in a channel whose connection ends, in a
  write that fails on the next connection, or because \<open>BuildStarted\<close> could not be sent and
  nothing streams the output, then the worker keeps the build for good. Whatever happens
  later, short of a shutdown, the server is never told that the build ended, and every further
  dispatch is answered with ``worker is busy''.
\<close>

theorem lost_terminal_wedges_worker:
  assumes "\<And>m. \<exists>s. we_ser env m = Some s" and "(evs, socket) \<in> set (losing_runs (good_build i dir e))"
  shows "\<exists>w. worker_run env evs (worker_new [] socket) = Some w \<and>
    (\<forall>later w'. worker_run env later w = Some w' \<longrightarrow> Sigterm True \<notin> set later \<longrightarrow>
      active_build_id w' = Some i \<and> list_all (\<lambda>(_, m). is_finished m \<longrightarrow> output_build m \<noteq> Some i) (w_wire w') \<and>
      (\<forall>nb. handle_build_new env nb w' = send_msg env Direct (BuildRejected (nb_build_id nb) ''worker is busy'') w'))"
proof -
  obtain w where w: "worker_run env evs (worker_new [] socket) = Some w" "wedged i w"
    using losing_run_wedges[OF assms] by blast
  have "active_build_id w' = Some i \<and> list_all (\<lambda>(_, m). is_finished m \<longrightarrow> output_build m \<noteq> Some i) (w_wire w') \<and>
      (\<forall>nb. handle_build_new env nb w' = send_msg env Direct (BuildRejected (nb_build_id nb) ''worker is busy'') w')"
    if "worker_run env later w = Some w'" "Sigterm True \<notin> set later" for later w'
    using wedged_run[OF w(2) that] by (auto simp: wedged_def active_build_id_def busy_rejects)
  then show ?thesis using w(1) by blast
qed

text \<open>An environment and a build for the concrete runs.\<close>

definition sample_worker_env :: WorkerEnv where
  "sample_worker_env = \<lparr>we_ser = \<lambda>_. Some ''{}'', we_de = \<lambda>_. None, we_spool_root = ''/spool'',
     we_spool_cap = DEFAULT_SPOOL_CAP_BYTES\<rparr>"

definition sample_build :: NewBuild where
  "sample_build = good_build 7 ''/tmp/component'' \<lparr>ex_build_id = 7, ex_pid = 4711, ex_cancelled = False\<rparr>"

theorem lost_terminal_wedges_worker_witness:
  "\<exists>w. worker_run sample_worker_env (start_events sample_build @ [Detach]) (worker_new [] [True, True, False]) = Some w \<and>
    active_build_id w = Some 7 \<and>
    handle_build_new sample_worker_env sample_build w =
      send_msg sample_worker_env Direct (BuildRejected 7 ''worker is busy'') w"
proof -
  have "\<exists>s. we_ser sample_worker_env m = Some s" for m by (simp add: sample_worker_env_def)
  note wedge = lost_terminal_wedges_worker[OF this, of _ _ 7 "''/tmp/component''"
      "\<lparr>ex_build_id = 7, ex_pid = 4711, ex_cancelled = False\<rparr>", folded sample_build_def]
  have "(start_events sample_build @ [Detach], [True, True, False]) \<in> set (losing_runs sample_build)"
    by (simp add: losing_runs_def Let_def)
  from wedge[OF this] obtain w where w: "worker_run sample_worker_env (start_events sample_build @ [Detach]) (worker_new [] [True, True, False]) = Some w"
    and later: "\<And>later w'. worker_run sample_worker_env later w = Some w' \<Longrightarrow> Sigterm True \<notin> set later \<Longrightarrow>
      active_build_id w' = Some 7 \<and> (\<forall>nb. handle_build_new sample_worker_env nb w' =
        send_msg sample_worker_env Direct (BuildRejected (nb_build_id nb) ''worker is busy'') w')"
    by blast
  note later[of "[]" w, simplified] w
  moreover have "nb_build_id sample_build = 7" by (simp add: sample_build_def good_build_def)
  ultimately show ?thesis by (intro exI[of _ w]) simp
qed

section \<open>A process that stops\<close>

text \<open>
  The draining task holds the mutex and waits for room in the channel; the loop, which alone
  makes room, waits for the mutex to handle a revoke.
\<close>

definition deadlocked :: "build_id \<Rightarrow> Worker \<Rightarrow> bool" where
  "deadlocked i w \<longleftrightarrow>
     (\<exists>ab msg c q. w_active w = Some ab \<and> output_build msg = Some (wb_build_id ab) \<and> w_lock w = Some msg \<and>
       w_transport w = Some c \<and> w_rx w = Some (c, q) \<and> length q = OUTPUT_CHANNEL_CAPACITY) \<and>
     w_loop w = LoopRevoke i \<and> w_escalations w = []"

text \<open>What the rest of the world can see of a worker.\<close>

definition visible :: "Worker \<Rightarrow> (origin \<times> WorkerMessage) list \<times> (int \<times> signal) list \<times> loop_pc" where
  "visible w = (w_wire w, w_signals w, w_loop w)"

lemma deadlocked_step:
  assumes "deadlocked i w" "worker_step env ev w = Some w'"
  shows "deadlocked i w' \<and> visible w' = visible w"
  using assms
  by (cases ev) (auto simp: deadlocked_def visible_def on_output_message_def channel_send_def Let_def teardown_ready_def
      split: if_splits list.splits)

lemma deadlocked_run:
  "deadlocked i w \<Longrightarrow> worker_run env evs w = Some w' \<Longrightarrow> visible w' = visible w"
  by (induction evs arbitrary: w) (auto split: option.splits dest: deadlocked_step)

lemma worker_run_append:
  "worker_run env (xs @ ys) w = (case worker_run env xs w of Some w' \<Rightarrow> worker_run env ys w' | None \<Rightarrow> None)"
  by (induction xs arbitrary: w) (auto split: option.splits)

definition streaming_to :: "build_id \<Rightarrow> WorkerMessage list \<Rightarrow> Worker \<Rightarrow> bool" where
  "streaming_to i q w \<longleftrightarrow>
     (\<exists>ab c. w_active w = Some ab \<and> wb_build_id ab = i \<and> w_transport w = Some c \<and> w_rx w = Some (c, q)) \<and>
     w_streamer w = Some i \<and> w_lock w = None \<and> w_loop w = LoopSelect \<and> w_escalations w = []"

lemma started_streams:
  assumes ser: "\<And>m. \<exists>s. we_ser env m = Some s"
  shows "\<exists>w. worker_run env (start_events (good_build i dir e)) (worker_new [] []) = Some w \<and> streaming_to i [] w"
proof -
  have [simp]: "(case we_ser env m of None \<Rightarrow> a | Some _ \<Rightarrow> b) = b" for m and a b :: "(HandlerError + unit) \<times> Worker"
    using ser[of m] by auto
  show ?thesis by (auto simp: start_events_def good_build_def worker_op_defs streaming_to_def)
qed

lemma output_fills_channel:
  assumes "streaming_to i q w" "length q + length msgs \<le> OUTPUT_CHANNEL_CAPACITY" "list_all (\<lambda>m. output_build m = Some i \<and> \<not> is_finished m) msgs"
  shows "\<exists>w'. worker_run env (map Produce msgs) w = Some w' \<and> streaming_to i (q @ msgs) w'"
  using assms
proof (induction msgs arbitrary: q w)
  case (Cons m msgs)
  then obtain w1 where "worker_step env (Produce m) w = Some w1" "streaming_to i (q @ [m]) w1"
    by (auto simp: streaming_to_def on_output_message_def channel_send_def produced_def enabled_if_def)
  then show ?case using Cons.IH[of "q @ [m]" w1] Cons.prems by (auto simp del: worker_step.simps)
qed simp

lemma full_channel_deadlocks:
  assumes "streaming_to i q w" "length q = OUTPUT_CHANNEL_CAPACITY" "output_build m = Some i"
  shows "\<exists>w'. worker_run env [Produce m, FrameRevoke j] w = Some w' \<and> deadlocked j w'"
  using assms by (auto simp: streaming_to_def deadlocked_def on_output_message_def channel_send_def produced_def enabled_if_def)

text \<open>
  C40. When a build writes 65 messages of output while the loop is busy with the socket and a
  revoke of the build arrives, the worker stops: the task that drains the subprocess waits for
  room in the channel with the mutex held, and the loop waits for the mutex. From then on
  nothing that happens, not even a termination signal, makes the worker send a message, signal
  the subprocess or leave this state.
\<close>

theorem full_channel_stops_worker:
  assumes "\<And>m. \<exists>s. we_ser env m = Some s"
    and "length msgs = 65" "list_all (\<lambda>m. output_build m = Some i \<and> \<not> is_finished m) msgs"
  shows "\<exists>w. worker_run env (start_events (good_build i dir e) @ map Produce msgs @ [FrameRevoke i]) (worker_new [] []) = Some w \<and>
    w_loop w = LoopRevoke i \<and> (\<forall>later w'. worker_run env later w = Some w' \<longrightarrow> visible w' = visible w)"
proof -
  obtain q m where q: "msgs = q @ [m]" "length q = OUTPUT_CHANNEL_CAPACITY"
    using assms(2) by (cases msgs rule: rev_cases) (auto simp: OUTPUT_CHANNEL_CAPACITY_def)
  obtain w1 where w1: "worker_run env (start_events (good_build i dir e)) (worker_new [] []) = Some w1" "streaming_to i [] w1"
    using started_streams[OF assms(1)] by blast
  obtain w2 where w2: "worker_run env (map Produce q) w1 = Some w2" "streaming_to i q w2"
    using output_fills_channel[OF w1(2), of q env] q assms(3) by auto
  obtain w3 where w3: "worker_run env [Produce m, FrameRevoke i] w2 = Some w3" "deadlocked i w3"
    using full_channel_deadlocks[OF w2(2) q(2), of m env i] q(1) assms(3) by (auto simp del: worker_run.simps)
  have "worker_run env (start_events (good_build i dir e) @ map Produce msgs @ [FrameRevoke i]) (worker_new [] []) = Some w3"
    using w1(1) w2(1) w3(1) q(1) by (simp add: worker_run_append del: worker_run.simps)
  then show ?thesis using deadlocked_run[OF w3(2)] w3(2) by (auto simp: deadlocked_def)
qed

theorem full_channel_stops_worker_witness:
  "\<exists>w. worker_run sample_worker_env (start_events sample_build @ map Produce (replicate 65 (BuildOutput 7 0 [''x''])) @ [FrameRevoke 7])
      (worker_new [] []) = Some w \<and> w_loop w = LoopRevoke 7"
proof -
  have "\<exists>s. we_ser sample_worker_env m = Some s" for m by (simp add: sample_worker_env_def)
  note stops = full_channel_stops_worker[OF this, of "replicate 65 (BuildOutput 7 0 [''x''])" 7 "''/tmp/component''"
      "\<lparr>ex_build_id = 7, ex_pid = 4711, ex_cancelled = False\<rparr>", folded sample_build_def]
  have "list_all (\<lambda>m. output_build m = Some 7 \<and> \<not> is_finished m) (replicate 65 (BuildOutput 7 0 [''x'']))"
    by (simp add: list_all_iff)
  from stops[OF _ this] show ?thesis by auto
qed

end
