(* ===== verification/Cbs_Unpack.thy ===== *)
theory Cbs_Unpack
  imports Cbs_Prelude
begin

text \<open>
  Unpacking a component archive on a worker (\<open>cbsd-worker/src/build/component.rs\<close>): the hash of
  the archive, the lexical and the real containment check of each entry, and the file
  operations, over a model of the Unix name space with directories, inodes, hard links and
  symbolic links. The decoding of the archive and SHA-256 are parameters; the file system
  refuses an operation only for the reasons the model names.
\<close>

section \<open>Paths\<close>

text \<open>\<open>Path::components\<close> of a Unix path; a Windows prefix does not occur.\<close>

datatype component = RootDir | CurDir | ParentDir | Normal string

type_synonym path = "component list"

definition is_absolute :: "path \<Rightarrow> bool" where
  "is_absolute p \<longleftrightarrow> p \<noteq> [] \<and> hd p = RootDir"

definition path_join :: "path \<Rightarrow> path \<Rightarrow> path" where
  "path_join a b = (if is_absolute b then b else a @ b)"

text \<open>The path of a directory given by the names from the root.\<close>

definition abs_path :: "string list \<Rightarrow> path" where
  "abs_path names = RootDir # map Normal names"

definition path_parent :: "path \<Rightarrow> path option" where
  "path_parent p = (if p = [] \<or> p = [RootDir] then None else Some (butlast p))"

fun lexical_stack :: "path \<Rightarrow> bool \<Rightarrow> string list \<Rightarrow> (bool \<times> string list) option" where
  "lexical_stack [] have_root stack = Some (have_root, stack)"
| "lexical_stack (RootDir # cs) have_root stack = lexical_stack cs True []"
| "lexical_stack (CurDir # cs) have_root stack = lexical_stack cs have_root stack"
| "lexical_stack (ParentDir # cs) have_root stack =
     (if stack = [] then None else lexical_stack cs have_root (butlast stack))"
| "lexical_stack (Normal s # cs) have_root stack = lexical_stack cs have_root (stack @ [s])"

definition lexical_clean :: "path \<Rightarrow> path option" where
  "lexical_clean p =
     (case lexical_stack p False [] of
        None \<Rightarrow> None
      | Some (have_root, stack) \<Rightarrow> Some ((if have_root then [RootDir] else []) @ map Normal stack))"

definition logical_normalize_within :: "path \<Rightarrow> path \<Rightarrow> path option" where
  "logical_normalize_within unpack_root rel =
     (if is_absolute rel then None
      else case lexical_clean (path_join unpack_root rel) of
        None \<Rightarrow> None
      | Some cleaned \<Rightarrow> if cleaned = unpack_root \<or> prefix unpack_root cleaned then Some cleaned else None)"

section \<open>The file system\<close>

datatype fs_error = ENOENT | ENOTDIR | EEXIST | EISDIR | ELOOP | EPERM

datatype node = Dir | File nat | Symlink path

record fs =
  fs_names :: "string list \<Rightarrow> node option"
  fs_inodes :: "nat \<Rightarrow> (string \<times> nat) option"
  fs_next :: nat

text \<open>
  Resolution of a path from the directory \<open>cur\<close>, following symbolic links, at most \<open>n\<close> of
  them; the kernel gives up after 40.
\<close>

function walk :: "fs \<Rightarrow> nat \<Rightarrow> string list \<Rightarrow> path \<Rightarrow> fs_error + string list" where
  "walk f n cur [] = Ok cur"
| "walk f n cur (RootDir # cs) = walk f n [] cs"
| "walk f n cur (CurDir # cs) = walk f n cur cs"
| "walk f n cur (ParentDir # cs) = walk f n (butlast cur) cs"
| "walk f n cur (Normal s # cs) =
     (case fs_names f (cur @ [s]) of
        None \<Rightarrow> Err ENOENT
      | Some Dir \<Rightarrow> walk f n (cur @ [s]) cs
      | Some (File _) \<Rightarrow> if cs = [] then Ok (cur @ [s]) else Err ENOTDIR
      | Some (Symlink target) \<Rightarrow> if n = 0 then Err ELOOP else walk f (n - 1) cur (target @ cs))"
  by pat_completeness auto
termination
  by (relation "inv_image (less_than <*lex*> less_than) (\<lambda>(_, n, _, cs). (n, length cs))") auto

definition MAX_SYMLINKS :: nat where
  "MAX_SYMLINKS = 40"

definition canonicalize :: "fs \<Rightarrow> path \<Rightarrow> fs_error + string list" where
  "canonicalize f p = walk f MAX_SYMLINKS [] p"

definition is_dir :: "fs \<Rightarrow> path \<Rightarrow> bool" where
  "is_dir f p \<longleftrightarrow> (case canonicalize f p of Ok q \<Rightarrow> q = [] \<or> fs_names f q = Some Dir | Err _ \<Rightarrow> False)"

text \<open>
  The directory and the name that an operation which creates an entry works on: the last
  component itself is not followed.
\<close>

definition locate :: "fs \<Rightarrow> path \<Rightarrow> fs_error + string list" where
  "locate f p =
     (case (p, if p = [] then CurDir else last p) of
        (_ # _, Normal s) \<Rightarrow>
          (case canonicalize f (butlast p) of
             Err e \<Rightarrow> Err e
           | Ok d \<Rightarrow> if d = [] \<or> fs_names f d = Some Dir then Ok (d @ [s]) else Err ENOTDIR)
      | _ \<Rightarrow> Err EEXIST)"

definition set_node :: "string list \<Rightarrow> node \<Rightarrow> fs \<Rightarrow> fs" where
  "set_node q nd f = f\<lparr>fs_names := (fs_names f)(q \<mapsto> nd)\<rparr>"

text \<open>An entry that must not exist yet: \<open>mkdir\<close>, \<open>symlink\<close>.\<close>

definition make_node :: "node \<Rightarrow> path \<Rightarrow> fs \<Rightarrow> (fs_error + unit) \<times> fs" where
  "make_node nd p f =
     (case locate f p of
        Err e \<Rightarrow> (Err e, f)
      | Ok q \<Rightarrow> if fs_names f q \<noteq> None then (Err EEXIST, f) else (Ok (), set_node q nd f))"

text \<open>\<open>std::fs::create_dir_all\<close>.\<close>

function create_dir_all :: "path \<Rightarrow> fs \<Rightarrow> (fs_error + unit) \<times> fs" where
  "create_dir_all p f =
     (case make_node Dir p f of
        (Ok _, f') \<Rightarrow> (Ok (), f')
      | (Err e, _) \<Rightarrow>
        if e \<noteq> ENOENT then (if is_dir f p then (Ok (), f) else (Err e, f))
        else case path_parent p of
          None \<Rightarrow> (Err e, f)
        | Some parent \<Rightarrow>
          (case create_dir_all parent f of
             (Err e, f) \<Rightarrow> (Err e, f)
           | (Ok _, f) \<Rightarrow>
             (case make_node Dir p f of
                (Ok _, f') \<Rightarrow> (Ok (), f')
              | (Err e, _) \<Rightarrow> if is_dir f p then (Ok (), f) else (Err e, f))))"
  by pat_completeness auto
termination
  by (relation "measure (\<lambda>(p, _). length p)") (auto simp: path_parent_def split: if_splits)

declare create_dir_all.simps [simp del]

text \<open>\<open>File::create\<close> opens for writing, creates a missing file and follows links to the end.\<close>

datatype open_result = OpenExisting nat | OpenNew "string list"

function walk_create :: "fs \<Rightarrow> nat \<Rightarrow> string list \<Rightarrow> path \<Rightarrow> fs_error + open_result" where
  "walk_create f n cur [] = Err EISDIR"
| "walk_create f n cur (RootDir # cs) = walk_create f n [] cs"
| "walk_create f n cur (CurDir # cs) = walk_create f n cur cs"
| "walk_create f n cur (ParentDir # cs) = walk_create f n (butlast cur) cs"
| "walk_create f n cur (Normal s # cs) =
     (case fs_names f (cur @ [s]) of
        None \<Rightarrow> if cs = [] then Ok (OpenNew (cur @ [s])) else Err ENOENT
      | Some Dir \<Rightarrow> walk_create f n (cur @ [s]) cs
      | Some (File i) \<Rightarrow> if cs = [] then Ok (OpenExisting i) else Err ENOTDIR
      | Some (Symlink target) \<Rightarrow> if n = 0 then Err ELOOP else walk_create f (n - 1) cur (target @ cs))"
  by pat_completeness auto
termination
  by (relation "inv_image (less_than <*lex*> less_than) (\<lambda>(_, n, _, cs). (n, length cs))") auto

definition file_create :: "path \<Rightarrow> fs \<Rightarrow> (fs_error + nat) \<times> fs" where
  "file_create p f =
     (case walk_create f MAX_SYMLINKS [] p of
        Err e \<Rightarrow> (Err e, f)
      | Ok (OpenExisting i) \<Rightarrow>
          (Ok i, f\<lparr>fs_inodes := (fs_inodes f)(i \<mapsto> ([], case fs_inodes f i of Some (_, m) \<Rightarrow> m | None \<Rightarrow> 420))\<rparr>)
      | Ok (OpenNew q) \<Rightarrow>
          (let i = fs_next f in
           (Ok i, (set_node q (File i) f)\<lparr>fs_inodes := (fs_inodes f)(i \<mapsto> ([], 420)), fs_next := i + 1\<rparr>)))"

definition write_inode :: "nat \<Rightarrow> string \<Rightarrow> fs \<Rightarrow> fs" where
  "write_inode i content f =
     f\<lparr>fs_inodes := (fs_inodes f)(i \<mapsto> (content, case fs_inodes f i of Some (_, m) \<Rightarrow> m | None \<Rightarrow> 420))\<rparr>"

definition set_mode :: "nat \<Rightarrow> nat \<Rightarrow> fs \<Rightarrow> fs" where
  "set_mode i mode f =
     f\<lparr>fs_inodes := (fs_inodes f)(i \<mapsto> (case fs_inodes f i of Some (c, _) \<Rightarrow> c | None \<Rightarrow> [], mode))\<rparr>"

text \<open>\<open>std::fs::hard_link\<close> does not follow a link in the last component of its source.\<close>

definition hard_link :: "path \<Rightarrow> path \<Rightarrow> fs \<Rightarrow> (fs_error + unit) \<times> fs" where
  "hard_link src dst f =
     (case locate f src of
        Err e \<Rightarrow> (Err e, f)
      | Ok q \<Rightarrow>
        (case fs_names f q of
           None \<Rightarrow> (Err ENOENT, f)
         | Some Dir \<Rightarrow> (Err EPERM, f)
         | Some nd \<Rightarrow> make_node nd dst f))"

section \<open>The archive\<close>

datatype EntryType =
  EtRegular | EtContinuous | EtGNUSparse | EtDirectory | EtSymlink | EtLink | EtChar | EtBlock | EtFifo | EtOther string

datatype read_error = CapExceededError nat | OtherReadError string

text \<open>
  An entry as the archive library yields it. Reading its data gives \<open>en_data\<close> and then, if the
  stream is broken or too long, an error.
\<close>

record Entry =
  en_type :: EntryType
  en_path :: "string + path"
  en_size :: nat
  en_link_name :: "string + path option"
  en_mode :: "string + nat"
  en_data :: string
  en_read_error :: "read_error option"

datatype ComponentError =
  IntegrityFailed string string | TempDir fs_error | UnpackError string | UnpackIo fs_error
| Containment string | RejectedEntryType string | CapExceeded nat

fun unpack_read_error :: "read_error \<Rightarrow> ComponentError" where
  "unpack_read_error (CapExceededError cap) = CapExceeded cap"
| "unpack_read_error (OtherReadError e) = UnpackError e"

subsection \<open>The capped reader\<close>

record LimitedReader =
  lr_remaining :: nat
  lr_cap :: nat

definition limited_new :: "nat \<Rightarrow> LimitedReader" where
  "limited_new cap = \<lparr>lr_remaining = min (2 ^ 64 - 1) (cap + 1), lr_cap = cap\<rparr>"

text \<open>\<open>inner\<close> is the number of bytes the decoder gives for a buffer of the length it is asked for.\<close>

definition limited_read :: "(nat \<Rightarrow> nat) \<Rightarrow> nat \<Rightarrow> LimitedReader \<Rightarrow> read_error + (nat \<times> LimitedReader)" where
  "limited_read inner buf_len r =
     (if lr_remaining r = 0 then Err (CapExceededError (lr_cap r))
      else let n = inner (min buf_len (lr_remaining r)) in Ok (n, r\<lparr>lr_remaining := lr_remaining r - n\<rparr>))"

subsection \<open>Unpacking an entry\<close>

definition escapes :: "path \<Rightarrow> path \<Rightarrow> bool" where
  "escapes unpack_root p \<longleftrightarrow> p \<noteq> unpack_root \<and> \<not> prefix unpack_root p"

definition verify_parent_realpath_under :: "string list \<Rightarrow> path \<Rightarrow> fs \<Rightarrow> string + unit" where
  "verify_parent_realpath_under unpack_root_real p f =
     (let parent = (case path_parent p of Some q \<Rightarrow> q | None \<Rightarrow> abs_path unpack_root_real) in
      case canonicalize f parent of
        Err _ \<Rightarrow> Err ''parent does not resolve''
      | Ok parent_real \<Rightarrow>
        if parent_real = unpack_root_real \<or> prefix unpack_root_real parent_real then Ok ()
        else Err ''parent escapes unpack root'')"

text \<open>
  What every entry does before it is written: the parents of its place are created, and then
  the real path of its parent is checked.
\<close>

definition prepare_parent :: "string list \<Rightarrow> path \<Rightarrow> fs \<Rightarrow> (ComponentError + unit) \<times> fs" where
  "prepare_parent root dest f =
     (case (case path_parent dest of Some parent \<Rightarrow> create_dir_all parent f | None \<Rightarrow> (Ok (), f)) of
        (Err e, f) \<Rightarrow> (Err (UnpackIo e), f)
      | (Ok _, f) \<Rightarrow>
        (case verify_parent_realpath_under root dest f of
           Err e \<Rightarrow> (Err (Containment e), f)
         | Ok _ \<Rightarrow> (Ok (), f)))"

definition of_io :: "(fs_error + 'a) \<times> fs \<Rightarrow> (ComponentError + unit) \<times> fs" where
  "of_io r = (case r of (Err e, f) \<Rightarrow> (Err (UnpackIo e), f) | (Ok _, f) \<Rightarrow> (Ok (), f))"

definition unpack_file :: "Entry \<Rightarrow> path \<Rightarrow> fs \<Rightarrow> (ComponentError + unit) \<times> fs" where
  "unpack_file en dest f =
     (case file_create dest f of
        (Err e, f) \<Rightarrow> (Err (UnpackIo e), f)
      | (Ok i, f) \<Rightarrow>
        (let f = write_inode i (en_data en) f in
         case en_read_error en of
           Some e \<Rightarrow> (Err (unpack_read_error e), f)
         | None \<Rightarrow>
           (case en_mode en of
              Err e \<Rightarrow> (Err (UnpackError e), f)
            | Ok mode \<Rightarrow> (Ok (), set_mode i (mode mod 512) f))))"

definition check_symlink :: "string list \<Rightarrow> Entry \<Rightarrow> path \<Rightarrow> ComponentError + path" where
  "check_symlink root en dest =
     (case en_link_name en of
        Err e \<Rightarrow> Err (UnpackError e)
      | Ok None \<Rightarrow> Err (Containment ''symlink has no link target'')
      | Ok (Some target) \<Rightarrow>
        if is_absolute target then Err (Containment ''symlink has absolute target'')
        else
          (let link_dir = (case path_parent dest of Some d \<Rightarrow> d | None \<Rightarrow> abs_path root) in
           case lexical_clean (path_join link_dir target) of
             None \<Rightarrow> Err (Containment ''symlink target escapes unpack root (logical check)'')
           | Some cleaned \<Rightarrow>
             if escapes (abs_path root) cleaned then Err (Containment ''symlink target escapes unpack root'')
             else Ok target))"

definition check_hardlink :: "string list \<Rightarrow> Entry \<Rightarrow> ComponentError + path" where
  "check_hardlink root en =
     (case en_link_name en of
        Err e \<Rightarrow> Err (UnpackError e)
      | Ok None \<Rightarrow> Err (Containment ''hardlink has no link target'')
      | Ok (Some target) \<Rightarrow>
        (case logical_normalize_within (abs_path root) target of
           None \<Rightarrow> Err (Containment ''hardlink target escapes unpack root (logical check)'')
         | Some resolved \<Rightarrow> Ok resolved))"

definition and_write ::
  "(ComponentError + unit) \<times> fs \<Rightarrow> (fs \<Rightarrow> (ComponentError + unit) \<times> fs) \<Rightarrow> (ComponentError + unit) \<times> fs" where
  "and_write r k = (case r of (Err e, f) \<Rightarrow> (Err e, f) | (Ok _, f) \<Rightarrow> k f)"

definition unpack_one :: "string list \<Rightarrow> nat \<Rightarrow> Entry \<Rightarrow> fs \<Rightarrow> (ComponentError + unit) \<times> fs" where
  "unpack_one root cap en f =
     (case en_path en of
        Err e \<Rightarrow> (Err (UnpackError e), f)
      | Ok entry_path \<Rightarrow>
     (case logical_normalize_within (abs_path root) entry_path of
        None \<Rightarrow> (Err (Containment ''entry path escapes unpack root (logical check)''), f)
      | Some dest \<Rightarrow>
        if en_size en > cap then (Err (CapExceeded cap), f)
        else
          (case en_type en of
             EtDirectory \<Rightarrow> and_write (prepare_parent root dest f) (\<lambda>f. of_io (create_dir_all dest f))
           | EtRegular \<Rightarrow> and_write (prepare_parent root dest f) (unpack_file en dest)
           | EtContinuous \<Rightarrow> and_write (prepare_parent root dest f) (unpack_file en dest)
           | EtGNUSparse \<Rightarrow> and_write (prepare_parent root dest f) (unpack_file en dest)
           | EtSymlink \<Rightarrow>
               (case check_symlink root en dest of
                  Err e \<Rightarrow> (Err e, f)
                | Ok target \<Rightarrow>
                  and_write (prepare_parent root dest f) (\<lambda>f. of_io (make_node (Symlink target) dest f)))
           | EtLink \<Rightarrow>
               (case check_hardlink root en of
                  Err e \<Rightarrow> (Err e, f)
                | Ok target \<Rightarrow> and_write (prepare_parent root dest f) (\<lambda>f. of_io (hard_link target dest f)))
           | EtChar \<Rightarrow> (Err (RejectedEntryType ''character device''), f)
           | EtBlock \<Rightarrow> (Err (RejectedEntryType ''block device''), f)
           | EtFifo \<Rightarrow> (Err (RejectedEntryType ''fifo''), f)
           | EtOther t \<Rightarrow> (Err (RejectedEntryType (''unsupported tar entry type '' @ t)), f))))"

fun unpack_entries :: "string list \<Rightarrow> nat \<Rightarrow> (read_error + Entry) list \<Rightarrow> fs \<Rightarrow> (ComponentError + unit) \<times> fs" where
  "unpack_entries root cap [] f = (Ok (), f)"
| "unpack_entries root cap (Err e # ens) f = (Err (unpack_read_error e), f)"
| "unpack_entries root cap (Ok en # ens) f = and_write (unpack_one root cap en f) (unpack_entries root cap ens)"

text \<open>
  \<open>sha\<close> is the hexadecimal SHA-256, \<open>untar\<close> the entries that the archive library reads from the
  capped decoder.
\<close>

definition validate_and_unpack ::
  "(string \<Rightarrow> string) \<Rightarrow> (nat \<Rightarrow> string \<Rightarrow> read_error + (read_error + Entry) list) \<Rightarrow>
     string \<Rightarrow> string \<Rightarrow> path \<Rightarrow> nat \<Rightarrow> fs \<Rightarrow> (ComponentError + path) \<times> fs" where
  "validate_and_unpack sha untar tarball expected temp_dir cap f =
     (let actual = sha tarball in
      if actual \<noteq> expected then (Err (IntegrityFailed expected actual), f)
      else
        (let unpack_dir = path_join temp_dir [Normal (''component-'' @ take 12 actual)] in
         case create_dir_all unpack_dir f of
           (Err e, f) \<Rightarrow> (Err (TempDir e), f)
         | (Ok _, f) \<Rightarrow>
         (case canonicalize f unpack_dir of
           Err e \<Rightarrow> (Err (TempDir e), f)
         | Ok root \<Rightarrow>
         (case untar cap tarball of
           Err e \<Rightarrow> (Err (unpack_read_error e), f)
         | Ok entries \<Rightarrow>
         (case unpack_entries root cap entries f of
           (Err e, f) \<Rightarrow> (Err e, f)
         | (Ok _, f) \<Rightarrow> (Ok unpack_dir, f))))))"

section \<open>Containment\<close>

text \<open>
  The file system while an archive is unpacked under \<open>root\<close>: the directories on the way to
  \<open>root\<close> are there, no symbolic link is below it, no file has a name on both sides, and
  everything outside is as it was in \<open>f0\<close>.
\<close>

definition kept :: "string list \<Rightarrow> fs \<Rightarrow> fs \<Rightarrow> bool" where
  "kept root f0 f \<longleftrightarrow>
     (\<forall>d. prefix d root \<longrightarrow> d \<noteq> [] \<longrightarrow> fs_names f d = Some Dir) \<and>
     (\<forall>p t. prefix root p \<longrightarrow> fs_names f p \<noteq> Some (Symlink t)) \<and>
     (\<forall>p q i. prefix root p \<longrightarrow> fs_names f p = Some (File i) \<longrightarrow> fs_names f q = Some (File i) \<longrightarrow> prefix root q) \<and>
     (\<forall>p i. fs_names f p = Some (File i) \<longrightarrow> i < fs_next f) \<and>
     (\<forall>p. \<not> prefix root p \<longrightarrow> fs_names f p = fs_names f0 p) \<and>
     (\<forall>p i. \<not> prefix root p \<longrightarrow> fs_names f0 p = Some (File i) \<longrightarrow> fs_inodes f i = fs_inodes f0 i)"

lemma keptD:
  assumes "kept root f0 f"
  shows "prefix d root \<Longrightarrow> d \<noteq> [] \<Longrightarrow> fs_names f d = Some Dir"
    "prefix root p \<Longrightarrow> fs_names f p \<noteq> Some (Symlink t)"
    "prefix root p \<Longrightarrow> fs_names f p = Some (File i) \<Longrightarrow> fs_names f q = Some (File i) \<Longrightarrow> prefix root q"
    "fs_names f p = Some (File i) \<Longrightarrow> i < fs_next f"
    "\<not> prefix root p \<Longrightarrow> fs_names f p = fs_names f0 p"
    "\<not> prefix root p \<Longrightarrow> fs_names f0 p = Some (File i) \<Longrightarrow> fs_inodes f i = fs_inodes f0 i"
  using assms unfolding kept_def by metis+

lemma keptI:
  assumes "\<And>d. prefix d root \<Longrightarrow> d \<noteq> [] \<Longrightarrow> fs_names f d = Some Dir"
    and "\<And>p t. prefix root p \<Longrightarrow> fs_names f p \<noteq> Some (Symlink t)"
    and "\<And>p q i. prefix root p \<Longrightarrow> fs_names f p = Some (File i) \<Longrightarrow> fs_names f q = Some (File i) \<Longrightarrow> prefix root q"
    and "\<And>p i. fs_names f p = Some (File i) \<Longrightarrow> i < fs_next f"
    and "\<And>p. \<not> prefix root p \<Longrightarrow> fs_names f p = fs_names f0 p"
    and "\<And>p i. \<not> prefix root p \<Longrightarrow> fs_names f0 p = Some (File i) \<Longrightarrow> fs_inodes f i = fs_inodes f0 i"
  shows "kept root f0 f"
  unfolding kept_def by (intro conjI allI impI; (rule assms; assumption))

lemma walk_plain:
  "walk f n cur (map Normal xs) = Ok r \<Longrightarrow> (\<And>ys t. prefix ys xs \<Longrightarrow> ys \<noteq> [] \<Longrightarrow> fs_names f (cur @ ys) \<noteq> Some (Symlink t)) \<Longrightarrow> r = cur @ xs"
proof (induction xs arbitrary: cur)
  case (Cons x xs)
  have ns: "fs_names f (cur @ [x]) \<noteq> Some (Symlink t)" for t using Cons.prems(2)[of "[x]"] by simp
  have "fs_names f ((cur @ [x]) @ ys) \<noteq> Some (Symlink t)" if "prefix ys xs" for ys t
    using Cons.prems(2)[of "x # ys"] that by simp
  then show ?case using Cons.prems(1) ns Cons.IH[of "cur @ [x]"]
    by (auto split: option.splits node.splits if_splits)
qed simp

lemma walk_create_plain:
  "walk_create f n cur (map Normal xs) = Ok r \<Longrightarrow> (\<And>ys t. prefix ys xs \<Longrightarrow> ys \<noteq> [] \<Longrightarrow> fs_names f (cur @ ys) \<noteq> Some (Symlink t)) \<Longrightarrow>
    (r = OpenNew (cur @ xs) \<and> fs_names f (cur @ xs) = None) \<or> (\<exists>i. r = OpenExisting i \<and> fs_names f (cur @ xs) = Some (File i))"
proof (induction xs arbitrary: cur)
  case (Cons x xs)
  have ns: "fs_names f (cur @ [x]) \<noteq> Some (Symlink t)" for t using Cons.prems(2)[of "[x]"] by simp
  have "fs_names f ((cur @ [x]) @ ys) \<noteq> Some (Symlink t)" if "prefix ys xs" for ys t
    using Cons.prems(2)[of "x # ys"] that by simp
  then show ?case using Cons.prems(1) ns Cons.IH[of "cur @ [x]"]
    by (auto split: option.splits node.splits if_splits)
qed simp

definition on_way :: "string list \<Rightarrow> string list \<Rightarrow> bool" where
  "on_way root ns \<longleftrightarrow> prefix ns root \<or> prefix root ns"

lemma on_way_prefix: "on_way root ns \<Longrightarrow> prefix ys ns \<Longrightarrow> on_way root ys"
  unfolding on_way_def by (meson prefix_order.trans prefix_same_cases)

lemma kept_no_link:
  assumes k: "kept root f0 f" and "on_way root ns" "prefix ys ns" "ys \<noteq> []"
  shows "fs_names f ys \<noteq> Some (Symlink t)"
proof -
  have "on_way root ys" using assms(2,3) by (rule on_way_prefix)
  then consider "prefix ys root" | "prefix root ys" by (auto simp: on_way_def)
  then show ?thesis using keptD(1)[OF k, of ys] keptD(2)[OF k, of ys] assms(4) by cases auto
qed

lemma canonicalize_plain:
  assumes "kept root f0 f" "on_way root ns" "canonicalize f (abs_path ns) = Ok r"
  shows "r = ns"
  using walk_plain[of f MAX_SYMLINKS "[]" ns r] assms kept_no_link[OF assms(1,2)]
  by (simp add: canonicalize_def abs_path_def)

lemma locate_abs:
  "locate f (abs_path []) = Err EEXIST"
  "locate f (abs_path (ms @ [s])) =
     (case canonicalize f (abs_path ms) of
        Err e \<Rightarrow> Err e
      | Ok d \<Rightarrow> if d = [] \<or> fs_names f d = Some Dir then Ok (d @ [s]) else Err ENOTDIR)"
  by (simp_all add: locate_def abs_path_def)

lemma locate_plain:
  assumes k: "kept root f0 f" "on_way root ns" and l: "locate f (abs_path ns) = Ok q"
  shows "q = ns \<and> ns \<noteq> []"
proof (cases ns rule: rev_cases)
  case Nil
  then show ?thesis using l by (simp add: locate_abs)
next
  case (snoc ms s)
  have w: "on_way root ms" using on_way_prefix[OF k(2)] snoc by simp
  obtain d where c: "canonicalize f (abs_path ms) = Ok d" and q: "q = d @ [s]"
    using l snoc by (cases "canonicalize f (abs_path ms)") (auto simp: locate_abs split: if_splits)
  show ?thesis using canonicalize_plain[OF k(1) w c] q snoc by simp
qed

lemma kept_set_node:
  assumes k: "kept root f0 f" and q: "prefix root q" "fs_names f q = None"
    and nd: "nd = Dir \<or> (\<exists>i. nd = File i \<and> i < fs_next f \<and> (\<forall>p. fs_names f p = Some (File i) \<longrightarrow> prefix root p))"
  shows "kept root f0 (set_node q nd f)"
proof (rule keptI)
  let ?f = "set_node q nd f"
  have n: "fs_names ?f p = (if p = q then Some nd else fs_names f p)" for p by (simp add: set_node_def)
  show "fs_names ?f d = Some Dir" if "prefix d root" "d \<noteq> []" for d
    using keptD(1)[OF k that] q(2) n[of d] by auto
  show "fs_names ?f p \<noteq> Some (Symlink t)" if "prefix root p" for p t
    using keptD(2)[OF k that, of t] nd n[of p] by auto
  show "prefix root p'" if "prefix root p" "fs_names ?f p = Some (File i)" "fs_names ?f p' = Some (File i)" for p p' i
    using keptD(3)[OF k that(1), of i p'] that(2,3) nd q(1) n[of p] n[of p'] by (auto split: if_splits)
  show "i < fs_next ?f" if "fs_names ?f p = Some (File i)" for p i
    using keptD(4)[OF k, of p i] that nd n[of p] by (auto simp: set_node_def split: if_splits)
  show "fs_names ?f p = fs_names f0 p" if "\<not> prefix root p" for p
    using keptD(5)[OF k that] that q(1) n[of p] by auto
  show "fs_inodes ?f i = fs_inodes f0 i" if "\<not> prefix root p" "fs_names f0 p = Some (File i)" for p i
    using keptD(6)[OF k that] by (simp add: set_node_def)
qed

lemma kept_make_node:
  assumes k: "kept root f0 f" and w: "on_way root ns"
    and nd: "nd = Dir \<or> (\<exists>i. nd = File i \<and> i < fs_next f \<and> (\<forall>p. fs_names f p = Some (File i) \<longrightarrow> prefix root p))"
    and m: "make_node nd (abs_path ns) f = (r, f')"
  shows "kept root f0 f'"
proof (cases "locate f (abs_path ns)")
  case (Inl e)
  then show ?thesis using m k by (simp add: make_node_def)
next
  case (Inr q)
  then have q: "q = ns" "ns \<noteq> []" using locate_plain[OF k w Inr] by simp_all
  show ?thesis
  proof (cases "fs_names f ns = None")
    case True
    then have p: "prefix root ns" using keptD(1)[OF k, of ns] w q(2) by (auto simp: on_way_def)
    have "f' = set_node ns nd f" using m True Inr q by (simp add: make_node_def)
    then show ?thesis using kept_set_node[OF k p True nd] by simp
  next
    case False
    then have "f' = f" using m Inr q by (simp add: make_node_def)
    then show ?thesis using k by simp
  qed
qed

lemma kept_create_dir_all:
  "create_dir_all p f = (r, f') \<Longrightarrow> kept root f0 f \<Longrightarrow> p = abs_path ns \<Longrightarrow> on_way root ns \<Longrightarrow> kept root f0 f'"
proof (induction p f arbitrary: r f' ns rule: create_dir_all.induct)
  case (1 p f)
  note mk = kept_make_node[where nd = Dir and ns = ns, folded "1.prems"(3), OF _ "1.prems"(4)]
  obtain r1 f1 where m1: "make_node Dir p f = (r1, f1)" by fastforce
  show ?case
  proof (cases "\<exists>parent. r1 = Err ENOENT \<and> path_parent p = Some parent")
    case False
    then have "f' = f \<or> f' = f1" using "1.prems"(1) m1
      by (subst (asm) create_dir_all.simps) (auto split: sum.splits if_splits option.splits)
    then show ?thesis using mk[OF "1.prems"(2) _ m1] "1.prems"(2) by auto
  next
    case True
    then obtain parent where e: "r1 = Err ENOENT" "path_parent p = Some parent" by blast
    obtain ms s where ns: "ns = ms @ [s]" "parent = abs_path ms"
      using e(2) "1.prems"(3) by (cases ns rule: rev_cases) (auto simp: path_parent_def abs_path_def)
    obtain r2 f2 where c: "create_dir_all parent f = (r2, f2)" by fastforce
    have w: "on_way root ms" using on_way_prefix[OF "1.prems"(4)] ns(1) by simp
    have k2: "kept root f0 f2"
      using "1.IH"[OF m1[symmetric] _ _ e(2) c "1.prems"(2) ns(2) w] e(1) by simp
    obtain r3 f3 where m3: "make_node Dir p f2 = (r3, f3)" by fastforce
    have "f' = f2 \<or> f' = f3" using "1.prems"(1) m1 e c m3
      by (subst (asm) create_dir_all.simps) (auto split: sum.splits if_splits option.splits)
    then show ?thesis using mk[OF k2 _ m3] k2 by auto
  qed
qed

lemma kept_inode:
  assumes k: "kept root f0 f" and p: "prefix root p" "fs_names f p = Some (File i)"
  shows "kept root f0 (f\<lparr>fs_inodes := (fs_inodes f)(i \<mapsto> x)\<rparr>)"
proof -
  have "j \<noteq> i" if "\<not> prefix root q" "fs_names f0 q = Some (File j)" for q j
    using keptD(3)[OF k p, of q] keptD(5)[OF k that(1)] that by auto
  then show ?thesis using k by (intro keptI) (auto dest: keptD)
qed

lemma kept_file_create:
  assumes k: "kept root f0 f" and w: "prefix root ns" and c: "file_create (abs_path ns) f = (r, f')"
  shows "kept root f0 f' \<and> (\<forall>i. r = Ok i \<longrightarrow> fs_names f' ns = Some (File i))"
proof (cases "walk_create f MAX_SYMLINKS [] (abs_path ns)")
  case (Inl e)
  then show ?thesis using c k by (auto simp: file_create_def)
next
  case (Inr r1)
  have "on_way root ns" using w by (simp add: on_way_def)
  then have "(r1 = OpenNew ns \<and> fs_names f ns = None) \<or> (\<exists>i. r1 = OpenExisting i \<and> fs_names f ns = Some (File i))"
    using walk_create_plain[of f MAX_SYMLINKS "[]" ns r1] Inr kept_no_link[OF k] by (simp add: abs_path_def)
  then show ?thesis
  proof (elim disjE exE conjE)
    assume n: "r1 = OpenNew ns" "fs_names f ns = None"
    let ?f = "f\<lparr>fs_inodes := (fs_inodes f)(fs_next f \<mapsto> ([], 420)), fs_next := fs_next f + 1\<rparr>"
    have fresh: "fs_names f p \<noteq> Some (File (fs_next f))" for p using keptD(4)[OF k, of p "fs_next f"] by auto
    have out: "j \<noteq> fs_next f" if "\<not> prefix root q" "fs_names f0 q = Some (File j)" for q j
      using fresh[of q] keptD(5)[OF k that(1)] that(2) by auto
    have "kept root f0 ?f" using k out by (intro keptI) (auto dest: keptD intro: less_SucI)
    then have "kept root f0 (set_node ns (File (fs_next f)) ?f)"
      by (rule kept_set_node) (use n w fresh in auto)
    moreover have "set_node ns (File (fs_next f)) ?f = f'" "r = Ok (fs_next f)"
      using c Inr n(1) by (cases f, simp add: file_create_def set_node_def Let_def)+
    ultimately show ?thesis by (auto simp: set_node_def)
  next
    fix i assume n: "r1 = OpenExisting i" "fs_names f ns = Some (File i)"
    then show ?thesis using c Inr kept_inode[OF k w n(2)] by (auto simp: file_create_def)
  qed
qed

lemma kept_unpack_file:
  assumes k: "kept root f0 f" and w: "prefix root ns" and c: "unpack_file en (abs_path ns) f = (r, f')"
  shows "kept root f0 f'"
proof -
  obtain r1 f1 where f1: "file_create (abs_path ns) f = (r1, f1)" by fastforce
  note k1 = kept_file_create[OF k w f1]
  show ?thesis
  proof (cases r1)
    case (Inl e)
    then show ?thesis using c f1 k1 by (simp add: unpack_file_def)
  next
    case (Inr i)
    let ?f2 = "write_inode i (en_data en) f1"
    have k2: "kept root f0 ?f2" "fs_names ?f2 ns = Some (File i)"
      using k1 Inr kept_inode[OF _ w, of f0 f1 i] by (auto simp: write_inode_def)
    have "kept root f0 (set_mode i m ?f2)" for m using kept_inode[OF k2(1) w k2(2)] by (simp add: set_mode_def)
    then show ?thesis using c f1 Inr k2(1) by (auto simp: unpack_file_def Let_def split: option.splits sum.splits)
  qed
qed

lemma lexical_root: "lexical_stack cs True st = Some (b, st') \<Longrightarrow> b"
  by (induction cs True st rule: lexical_stack.induct) (auto split: if_splits)

lemma prefix_map_Normal: "prefix (map Normal xs) (map Normal ys) \<longleftrightarrow> prefix xs ys"
  by (induction xs arbitrary: ys; case_tac ys) auto

lemma normalized_inside:
  assumes "logical_normalize_within (abs_path root) rel = Some dest"
  shows "\<exists>ns. dest = abs_path ns \<and> prefix root ns"
  using assms
  by (auto simp: logical_normalize_within_def lexical_clean_def path_join_def abs_path_def prefix_map_Normal
      dest: lexical_root split: if_splits option.splits)

lemma prepare_parent_state:
  "snd (prepare_parent root dest f) = (case path_parent dest of Some parent \<Rightarrow> snd (create_dir_all parent f) | None \<Rightarrow> f)"
proof -
  have "snd (case x of (Err e, f) \<Rightarrow> (Err (UnpackIo e), f)
      | (Ok _, f) \<Rightarrow> (case verify_parent_realpath_under root dest f of Err e \<Rightarrow> (Err (Containment e), f) | Ok _ \<Rightarrow> (Ok (), f))) = snd x"
    for x :: "(fs_error + unit) \<times> fs"
    by (cases x) (simp split: sum.split)
  then show ?thesis by (simp add: prepare_parent_def split: option.split)
qed

lemma kept_prepare:
  assumes k: "kept root f0 f" and w: "prefix root ns"
  shows "kept root f0 (snd (prepare_parent root (abs_path ns) f))"
proof (cases ns rule: rev_cases)
  case Nil
  then have "path_parent (abs_path ns) = None" by (simp add: path_parent_def abs_path_def)
  then show ?thesis using k by (simp add: prepare_parent_state)
next
  case (snoc ms s)
  then have p: "path_parent (abs_path ns) = Some (abs_path ms)" by (simp add: path_parent_def abs_path_def)
  have "on_way root ns" using w by (simp add: on_way_def)
  then have w': "on_way root ms" by (rule on_way_prefix) (simp add: snoc)
  obtain r2 f2 where d: "create_dir_all (abs_path ms) f = (r2, f2)" by fastforce
  have "kept root f0 f2" by (rule kept_create_dir_all[OF d k refl w'])
  then show ?thesis using p d by (simp add: prepare_parent_state)
qed

lemma kept_hard_link:
  assumes k: "kept root f0 f" and w: "prefix root ns" "prefix root ms" and c: "hard_link (abs_path ms) (abs_path ns) f = (r, f')"
  shows "kept root f0 f'"
proof (cases "\<exists>q i. locate f (abs_path ms) = Ok q \<and> fs_names f q = Some (File i)")
  case True
  then obtain q i where q: "locate f (abs_path ms) = Ok q" "fs_names f q = Some (File i)" by blast
  have "on_way root ms" "on_way root ns" using w by (simp_all add: on_way_def)
  then have "q = ms" using locate_plain[OF k _ q(1)] by simp
  then have "File i = Dir \<or> (\<exists>j. File i = File j \<and> j < fs_next f \<and> (\<forall>p. fs_names f p = Some (File j) \<longrightarrow> prefix root p))"
    using keptD(3)[OF k w(2)] keptD(4)[OF k] q(2) by auto
  moreover have "make_node (File i) (abs_path ns) f = (r, f')" using c q by (simp add: hard_link_def)
  ultimately show ?thesis using kept_make_node[OF k \<open>on_way root ns\<close>] by blast
next
  case False
  have "on_way root ms" using w by (simp add: on_way_def)
  then have "fs_names f q \<noteq> Some (Symlink t)" if "locate f (abs_path ms) = Ok q" for q t
    using locate_plain[OF k _ that] keptD(2)[OF k w(2)] by auto
  then have "f' = f" using c False by (auto simp: hard_link_def split: sum.splits option.splits node.splits)
  then show ?thesis using k by simp
qed

lemma kept_unpack_one:
  assumes k: "kept root f0 f" and t: "en_type en \<noteq> EtSymlink"
  shows "kept root f0 (snd (unpack_one root cap en f))"
proof (cases "\<exists>p ns. en_path en = Ok p \<and> logical_normalize_within (abs_path root) p = Some (abs_path ns) \<and> prefix root ns")
  case False
  then have "\<nexists>p dest. en_path en = Ok p \<and> logical_normalize_within (abs_path root) p = Some dest"
    using normalized_inside by blast
  then show ?thesis using k by (auto simp: unpack_one_def split: sum.splits option.splits)
next
  case True
  then obtain p ns where n: "en_path en = Ok p" "logical_normalize_within (abs_path root) p = Some (abs_path ns)" "prefix root ns"
    by blast
  obtain r1 f1 where f1: "prepare_parent root (abs_path ns) f = (r1, f1)" by fastforce
  have k1: "kept root f0 f1" using kept_prepare[OF k n(3)] f1 by simp
  have "on_way root ns" using n(3) by (simp add: on_way_def)
  then have dir: "kept root f0 (snd (create_dir_all (abs_path ns) f1))"
    using kept_create_dir_all[OF _ k1 refl] by (metis prod.collapse)
  have reg: "kept root f0 (snd (unpack_file en (abs_path ns) f1))"
    using kept_unpack_file[OF k1 n(3)] by (metis prod.collapse)
  have link: "kept root f0 (snd (hard_link target (abs_path ns) f1))" if c: "check_hardlink root en = Ok target" for target
  proof -
    obtain t where "logical_normalize_within (abs_path root) t = Some target"
      using c by (auto simp: check_hardlink_def split: sum.splits option.splits)
    then obtain ms where "target = abs_path ms" "prefix root ms" using normalized_inside by blast
    then show ?thesis using kept_hard_link[OF k1 n(3)] by (metis prod.collapse)
  qed
  have io: "snd (of_io x) = snd x" for x :: "(fs_error + unit) \<times> fs" by (auto simp: of_io_def split: prod.splits sum.splits)
  have w: "kept root f0 (snd (and_write (r1, f1) g))" if "kept root f0 (snd (g f1))" for g
    using that k1 by (cases r1) (simp_all add: and_write_def)
  show ?thesis using n f1 k t dir reg link
    by (cases "en_type en") (auto simp: unpack_one_def io intro!: w split: sum.splits)
qed

lemma kept_unpack_entries:
  "kept root f0 f \<Longrightarrow> (\<And>en. Ok en \<in> set ens \<Longrightarrow> en_type en \<noteq> EtSymlink) \<Longrightarrow>
    kept root f0 (snd (unpack_entries root cap ens f))"
proof (induction root cap ens f rule: unpack_entries.induct)
  case (3 root cap en ens f)
  obtain r f1 where f1: "unpack_one root cap en f = (r, f1)" by fastforce
  have "kept root f0 f1" using kept_unpack_one[OF 3(2), of en cap] 3(3)[of en] f1 by simp
  then show ?case using 3(1) 3(3) f1 by (cases r) (auto simp: and_write_def)
qed simp_all

text \<open>
  Before: the directories to \<open>root\<close> exist, nothing below it is a symbolic link, and no file
  below it has another name outside. A fresh directory is like this.
\<close>

definition link_free :: "string list \<Rightarrow> fs \<Rightarrow> bool" where
  "link_free root f \<longleftrightarrow>
     (\<forall>d. prefix d root \<longrightarrow> d \<noteq> [] \<longrightarrow> fs_names f d = Some Dir) \<and>
     (\<forall>p t. prefix root p \<longrightarrow> fs_names f p \<noteq> Some (Symlink t)) \<and>
     (\<forall>p q i. prefix root p \<longrightarrow> fs_names f p = Some (File i) \<longrightarrow> fs_names f q = Some (File i) \<longrightarrow> prefix root q) \<and>
     (\<forall>p i. fs_names f p = Some (File i) \<longrightarrow> i < fs_next f)"

lemma link_free_kept: "link_free root f \<Longrightarrow> kept root f f"
  by (simp add: link_free_def kept_def)

text \<open>
  C10. An archive without symbolic links stays inside the directory it is unpacked to. Whatever
  its entries are named, whatever hard links, sizes and broken data it has, and whether the
  unpacking succeeds or fails, every name outside the directory is what it was, and so is the
  content and the mode of every file that has a name outside.
\<close>

theorem unpacking_stays_inside:
  assumes "link_free root f" and "\<And>en. Ok en \<in> set entries \<Longrightarrow> en_type en \<noteq> EtSymlink"
    and "unpack_entries root cap entries f = (r, f')" and "\<not> prefix root p"
  shows "fs_names f' p = fs_names f p \<and> (\<forall>i. fs_names f p = Some (File i) \<longrightarrow> fs_inodes f' i = fs_inodes f i)"
proof -
  have "kept root f f'" using kept_unpack_entries[OF link_free_kept[OF assms(1)] assms(2), of entries cap] assms(3) by simp
  then show ?thesis using keptD(5,6) assms(4) by metis
qed

section \<open>Symbolic links\<close>

definition plain_entry :: "EntryType \<Rightarrow> path \<Rightarrow> path option \<Rightarrow> string \<Rightarrow> Entry" where
  "plain_entry t p link content = \<lparr>en_type = t, en_path = Ok p, en_size = length content, en_link_name = Ok link,
     en_mode = Ok 420, en_data = content, en_read_error = None\<rparr>"

text \<open>
  \<open>a/s\<close> leads to the directory of the archive, \<open>x\<close> to \<open>a/s/../name\<close>, which is inside when \<open>..\<close> undoes
  \<open>s\<close> and one level above the directory when the links are followed.
\<close>

definition escaping_entries :: "string \<Rightarrow> string \<Rightarrow> Entry list" where
  "escaping_entries name content =
     [plain_entry EtSymlink [Normal ''a'', Normal ''s''] (Some [ParentDir]) [],
      plain_entry EtSymlink [Normal ''x''] (Some [Normal ''a'', Normal ''s'', ParentDir, Normal name]) [],
      plain_entry EtRegular [Normal ''x''] None content]"

definition temp_only :: fs where
  "temp_only = \<lparr>fs_names = [[''tmp''] \<mapsto> Dir], fs_inodes = Map.empty, fs_next = 0\<rparr>"

lemmas fs_op_defs = canonicalize_def is_dir_def locate_def set_node_def make_node_def file_create_def write_inode_def
  set_mode_def hard_link_def MAX_SYMLINKS_def

lemmas unpack_defs = unpack_one_def and_write_def prepare_parent_def verify_parent_realpath_under_def of_io_def
  unpack_file_def check_symlink_def check_hardlink_def escapes_def logical_normalize_within_def lexical_clean_def
  path_join_def path_parent_def is_absolute_def abs_path_def

text \<open>
  C38. An archive with symbolic links can write outside: three entries pass every check of
  \<open>validate_and_unpack\<close>, the unpacking succeeds, and a file with a name and a content of the
  archive's choice appears next to the directory of the component.
\<close>

theorem symlinks_leave_the_directory:
  assumes "length content \<le> cap" and "name \<noteq> ''component-'' @ take 12 hash"
  shows "\<exists>f'. validate_and_unpack (\<lambda>_. hash) (\<lambda>_ _. Ok (map Ok (escaping_entries name content))) tarball hash
      (abs_path [''tmp'']) cap temp_only = (Ok (abs_path [''tmp'', ''component-'' @ take 12 hash]), f') \<and>
    fs_names temp_only [''tmp'', name] = None \<and>
    fs_names f' [''tmp'', name] = Some (File 0) \<and> fs_inodes f' 0 = Some (content, 420)"
  using assms
  by (simp add: validate_and_unpack_def escaping_entries_def plain_entry_def temp_only_def unpack_defs fs_op_defs
      create_dir_all.simps Let_def)

theorem symlinks_leave_the_directory_witness:
  "\<exists>f'. validate_and_unpack (\<lambda>_. ''0123456789abcdef'') (\<lambda>_ _. Ok (map Ok (escaping_entries ''.profile'' ''echo''))) ''blob''
      ''0123456789abcdef'' (abs_path [''tmp'']) 4096 temp_only = (Ok (abs_path [''tmp'', ''component-0123456789ab'']), f') \<and>
    fs_names f' [''tmp'', ''.profile''] = Some (File 0) \<and> fs_inodes f' 0 = Some (''echo'', 420)"
  using symlinks_leave_the_directory[of "''echo''" 4096 "''.profile''" "''0123456789abcdef''" "''blob''"] by auto

theorem unpacking_stays_inside_witness:
  "fs_names (snd (unpack_entries [''tmp''] 10 [Ok (plain_entry EtRegular [Normal ''x''] None ''data'')] temp_only)) [''etc''] =
    fs_names temp_only [''etc'']"
proof -
  have "link_free [''tmp''] temp_only" by (auto simp: link_free_def temp_only_def prefix_Cons split: if_splits)
  then show ?thesis
    using unpacking_stays_inside[of "[''tmp'']" temp_only "[Ok (plain_entry EtRegular [Normal ''x''] None ''data'')]" 10
        "fst (unpack_entries [''tmp''] 10 [Ok (plain_entry EtRegular [Normal ''x''] None ''data'')] temp_only)" _ "[''etc'']"]
    by (simp add: plain_entry_def)
qed

section \<open>The capped reader\<close>

fun limited_reads :: "(nat \<Rightarrow> nat) list \<Rightarrow> nat list \<Rightarrow> LimitedReader \<Rightarrow> nat" where
  "limited_reads (inner # inners) (len # lens) r =
     (case limited_read inner len r of Ok (n, r') \<Rightarrow> n + limited_reads inners lens r' | Err _ \<Rightarrow> 0)"
| "limited_reads _ _ r = 0"

text \<open>A decoder that never gives more than it is asked for gives at most one byte more than the cap.\<close>

lemma limited_reads_bound:
  "list_all (\<lambda>inner. \<forall>n. inner n \<le> n) inners \<Longrightarrow> limited_reads inners lens r \<le> lr_remaining r"
proof (induction inners lens r rule: limited_reads.induct)
  case (1 inner inners len lens r)
  show ?case
  proof (cases "lr_remaining r = 0")
    case False
    let ?n = "inner (min len (lr_remaining r))"
    have "\<forall>m. inner m \<le> m" using 1(2) by simp
    then have "?n \<le> min len (lr_remaining r)" by blast
    then have n: "?n \<le> lr_remaining r" by simp
    have "limited_read inner len r = Ok (?n, r\<lparr>lr_remaining := lr_remaining r - ?n\<rparr>)"
      using False by (simp add: limited_read_def Let_def)
    then show ?thesis using 1 n by fastforce
  qed (simp add: limited_read_def)
qed simp_all

lemma limited_reads_cap:
  "list_all (\<lambda>inner. \<forall>n. inner n \<le> n) inners \<Longrightarrow> limited_reads inners lens (limited_new cap) \<le> cap + 1"
  using limited_reads_bound[of inners lens "limited_new cap"] by (simp add: limited_new_def)

end
