(* ===== verification/Spec2Isabelle.thy ===== *)
theory Spec2Isabelle
  imports Cbs_Reachable Cbs_Recovery_Spec Cbs_Auth_Spec Cbs_Robot_Routes Cbs_Periodic_Spec
    Cbs_Worker_Spec Cbs_Unpack
begin

text \<open>
  A verification development for the build service \<open>cbsd-rs\<close> (paths below are relative to
  \<open>src/cbsd-rs/\<close>).

  \<^bold>\<open>The program.\<close> A server keeps builds in an SQL database and in three priority lanes in
  memory. Workers connect by web socket, announce an architecture and receive builds; each
  life-cycle message of a worker moves the row of its build and the table of active builds.
  Timers undo a dispatch that is not acknowledged and finish a revoke that is not answered, a
  grace period decides when a silent worker is dead, and a start of the server repairs what
  the last one left behind. Builds are submitted by people and robots through HTTP routes, and
  by periodic tasks through a scheduler. Requests are authenticated by session tokens, API
  keys and robot tokens, whose verification is cached, and authorised by the capabilities and
  scopes of roles.

  \<^bold>\<open>Conventions.\<close> \<open>Result<T, E>\<close> is a sum type (\<open>Err\<close>, \<open>Ok\<close>), a \<open>HashMap\<close> an association list
  with distinct keys, a table an association list from primary key to row, \<open>AppState\<close> a record
  that every handler threads. Each SQL statement consumes one entry of a fault schedule
  (\<open>p_faults\<close>): it fails with the given error and changes nothing, or runs; an exhausted
  schedule means success. A theorem with no condition on the schedule therefore holds under
  every pattern of failing statements; one that needs a working database says \<open>p_faults = []\<close>
  or counts the failures. Transactions restore the tables on failure. File operations answer
  from \<open>io_script\<close> in the same way. Code outside the repository is a parameter: \<open>serde_json\<close>,
  SHA-256, Argon2, PASETO, the tar library, the LRU map, the cron and date libraries and the
  random generator; what a theorem needs of them is a named hypothesis.

  \<^bold>\<open>Foundations.\<close>
  \<^item> \<open>Cbs_Prelude\<close>: results, hash maps, tables and the interfaces \<open>hash_map\<close>, \<open>row_store\<close> and
    \<open>invariant_system\<close>.
  \<^item> \<open>Cbs_Proto\<close>: descriptors and messages (\<open>cbsd-proto/src\<close>).
  \<^item> \<open>Cbs_Schema\<close>, \<open>Cbs_Build_Db\<close>: the tables (\<open>migrations/\<close>), failing statements, and the
    statements on builds and workers (\<open>db/builds.rs\<close>, \<open>db/workers.rs\<close>).
  \<^item> \<open>Cbs_App\<close>, \<open>Cbs_Samples\<close>: the application state (\<open>app.rs\<close>), and concrete states that the
    witnesses evaluate.

  \<^bold>\<open>Queue, dispatch and workers' connections.\<close>
  \<^item> \<open>Cbs_Queue\<close> (\<open>queue/mod.rs\<close>, \<open>ws/liveness.rs\<close>): lanes, active table and worker table; the
    lanes refine a stable sort by priority.
  \<^item> \<open>Cbs_Logs\<close> (\<open>logs/writer.rs\<close>): appending a log and finding a line again by its number.
  \<^item> \<open>Cbs_Dispatch\<close>, \<open>Cbs_Sweep\<close> (\<open>ws/dispatch.rs\<close>, \<open>components/tarball.rs\<close>): dispatch,
    acknowledgement, roll-back, revoke, the timers and the periodic sweep.
  \<^item> \<open>Cbs_Handler\<close> (\<open>ws/handler.rs\<close>): handshake, messages, reconnection, death of a worker.
  \<^item> \<open>Cbs_Recovery\<close> (\<open>queue/recovery.rs\<close>): recovery at start-up.
  \<^item> \<open>Cbs_System\<close>: all of these as one transition system whose steps are the handlers, timers
    and monitors in every order, with arbitrary messages from workers.
  \<^item> \<open>Cbs_Invariants\<close>, \<open>Cbs_Agreement\<close>, \<open>Cbs_Liveness\<close>: what each operation keeps, namely the
    shape of the queue under every fault schedule, the agreement of memory and database
    without failures, and the timers and monitors that attend an active build.
  \<^item> \<open>Cbs_Reachable\<close>, \<open>Cbs_Dispatch_Spec\<close>, \<open>Cbs_Recovery_Spec\<close>: the properties that follow for
    every reachable state, and the complete effect of single operations.

  \<^bold>\<open>Access.\<close>
  \<^item> \<open>Cbs_Access\<close>, \<open>Cbs_Identity\<close>, \<open>Cbs_Robots\<close> (\<open>scopes.rs\<close>, \<open>auth/extractors.rs\<close>, \<open>db/roles.rs\<close>,
    \<open>db/users.rs\<close>, \<open>db/tokens.rs\<close>, \<open>db/api_keys.rs\<close>, \<open>db/robots.rs\<close>): capabilities, scopes, roles,
    accounts and credentials; a robot never has two live tokens.
  \<^item> \<open>Cbs_Token_Cache\<close> (\<open>auth/token_cache.rs\<close>): the cache with its reverse indexes stays within
    its capacity, and a purge leaves no entry behind.
  \<^item> \<open>Cbs_Auth\<close>, \<open>Cbs_Auth_Spec\<close> (\<open>auth/paseto.rs\<close>, \<open>auth/oauth.rs\<close>, \<open>routes/auth.rs\<close>):
    authentication of requests is sound, tokens and keys round-trip, a revoked key is refused.
  \<^item> \<open>Cbs_Route\<close>: the monad of route handlers and the lemmas that show that a handler keeps a
    property of the tables.
  \<^item> \<open>Cbs_Admin\<close>, \<open>Cbs_Robot_Routes\<close>, \<open>Cbs_Admin_Spec\<close> (\<open>routes/permissions.rs\<close>,
    \<open>routes/admin.rs\<close>, \<open>routes/robots.rs\<close>): administration of roles and accounts; which
    requests keep an administrator and which can lose the last one.

  \<^bold>\<open>Builds and periodic tasks.\<close>
  \<^item> \<open>Cbs_Channels\<close>, \<open>Cbs_Routes\<close> (\<open>db/channels.rs\<close>, \<open>channels/mod.rs\<close>,
    \<open>components/validator.rs\<close>, \<open>routes/builds.rs\<close>): channels, and submitting, listing and
    revoking builds.
  \<^item> \<open>Cbs_Periodic\<close>, \<open>Cbs_Periodic_Routes\<close>, \<open>Cbs_Periodic_Spec\<close> (\<open>db/periodic.rs\<close>,
    \<open>scheduler/\<close>, \<open>routes/periodic.rs\<close>): tag formats, the trigger, the scheduler loop with its
    retries, and the task routes; a triggered build is authorised, a failing task ends.

  \<^bold>\<open>The worker process.\<close> (\<open>cbsd-worker/src\<close>)
  \<^item> \<open>Cbs_Worker_Output\<close> (\<open>build/output.rs\<close>): batching the output of a subprocess; the messages
    are the log in numbered chunks, whenever the flush timer fires.
  \<^item> \<open>Cbs_Worker\<close> (\<open>build/supervisor.rs\<close>, \<open>ws/handler.rs\<close>, \<open>ws/connection.rs\<close>,
    \<open>build/executor.rs\<close>): the supervisor, the web socket loop and the reconnect loop as steps
    of the tasks that share a mutex and a bounded channel.
  \<^item> \<open>Cbs_Worker_Spec\<close>: how a lost terminal message keeps the worker busy for good, and how a
    full channel stops it.
  \<^item> \<open>Cbs_Unpack\<close> (\<open>build/component.rs\<close>): unpacking a component over a model of the Unix name
    space; an archive without symbolic links stays inside its directory, and one with
    symbolic links can leave it.

  \<^bold>\<open>Bounds.\<close> The loops of the sweep, of recovery and of the scheduler recurse on the lists they
  consume or carry a termination proof. The resolution of a path follows at most 40 symbolic
  links, as the kernel does. The scheduler's clock is an input. Integers are
  unbounded where the code cannot reach their limits, and 64-bit words in the expiry of a
  session token.

  \<^bold>\<open>Not modelled.\<close> HTTP routing, JSON encoding and the parsing of configuration (\<open>main.rs\<close>,
  \<open>config.rs\<close>, \<open>openapi.rs\<close>): glue around the handlers. Metrics (\<open>metrics/\<close>): counters that no
  other component reads. The command line client (\<open>cbc/\<close>): a client of the routes. The Python
  packages: the predecessor of this service, and the build tool that a worker runs as a
  subprocess.
\<close>

end
